(* ===== verification/Prelude.thy ===== *)
theory Prelude
  imports Main "HOL-Library.AList" "HOL-Library.Char_ord" "HOL-Library.List_Lexorder"
    "HOL-Library.Sublist"
begin

text \<open>
  Shared ground of the development: Go errors as values, Go maps as association lists, the
  functions of Go's standard library the operator calls on strings (\<open>strings\<close>, \<open>strconv\<close>),
  and the lemmas about them that the component theories use.

  A Go string is a sequence of bytes, so it is a \<^typ>\<open>string\<close> (a list of 8-bit characters) and
  \<open>len\<close> is \<^const>\<open>length\<close>. A Go map is an association list; \<^const>\<open>map_of\<close>,
  \<open>AList.update\<close> and \<open>AList.delete\<close> read, store and delete. The order of the list is the
  order in which a \<open>range\<close> loop visits the map: Go leaves that order open, and theorems are
  stated for every list.
\<close>

named_theorems go_str \<open>facts on Go string functions\<close>
named_theorems go_map \<open>facts on Go maps\<close>

section \<open>Errors as values\<close>

text \<open>
  The class of an API error is what the predicates of \<open>k8s.io/apimachinery\<close> observe:
  \<open>errors.IsNotFound\<close>, \<open>errors.IsAlreadyExists\<close>, \<open>meta.IsNoMatchError\<close>,
  \<open>runtime.IsNotRegisteredError\<close> and the group that \<open>isTransientAPIError\<close> tests.
  \<open>NotExist\<close> is the class that \<open>os.IsNotExist\<close> observes of a file system error.
\<close>

datatype api_reason =
    NotFound | AlreadyExists | NoMatch | NotRegistered
  | ServiceUnavailable | Timeout | ServerTimeout | TooManyRequests | DeadlineExceeded
  | NotExist
  | OtherReason

text \<open>
  \<open>GoErr\<close> is \<open>errors.New\<close> or \<open>fmt.Errorf\<close> without \<open>%w\<close>, \<open>ApiErr\<close> an error that a
  client call returned, \<open>WrapErr\<close> is \<open>fmt.Errorf("prefix%w", err)\<close> and \<open>JoinErr\<close> is
  \<open>errors.Join\<close> of a non-empty list.
\<close>

datatype goerror =
    GoErr string
  | ApiErr api_reason string
  | WrapErr string goerror
  | JoinErr "goerror list"

type_synonym 'a res = "goerror + 'a"

fun Join_str :: "string \<Rightarrow> string list \<Rightarrow> string" where
  "Join_str sep [] = []"
| "Join_str sep [x] = x"
| "Join_str sep (x # y # xs) = x @ sep @ Join_str sep (y # xs)"

fun Error :: "goerror \<Rightarrow> string" where
  "Error (GoErr s) = s"
| "Error (ApiErr r s) = s"
| "Error (WrapErr p e) = p @ Error e"
| "Error (JoinErr es) = Join_str [CHR 0x0A] (map Error es)"

text \<open>
  The class of an error, seen through wrapping. The classes of API status errors are read off the first
  one that \<open>errors.As\<close> finds, in the order of the members of a joined error; the others are found
  anywhere in it.
\<close>

fun err_reasons :: "goerror \<Rightarrow> api_reason list" where
  "err_reasons (GoErr s) = []"
| "err_reasons (ApiErr r s) = [r]"
| "err_reasons (WrapErr p e) = err_reasons e"
| "err_reasons (JoinErr es) = concat (map err_reasons es)"

definition is_status :: "api_reason \<Rightarrow> bool" where
  "is_status r \<longleftrightarrow> \<not> List.member [NoMatch, NotRegistered, DeadlineExceeded, NotExist] r"

definition has_reason :: "api_reason \<Rightarrow> goerror \<Rightarrow> bool" where
  "has_reason r e \<longleftrightarrow>
     (if is_status r then (case filter is_status (err_reasons e) of [] \<Rightarrow> False | r' # _ \<Rightarrow> r' = r)
      else List.member (err_reasons e) r)"

abbreviation IsNotFound :: "goerror \<Rightarrow> bool" where
  "IsNotFound \<equiv> has_reason NotFound"

abbreviation IsAlreadyExists :: "goerror \<Rightarrow> bool" where
  "IsAlreadyExists \<equiv> has_reason AlreadyExists"

abbreviation IsNoMatchError :: "goerror \<Rightarrow> bool" where
  "IsNoMatchError \<equiv> has_reason NoMatch"

abbreviation IsNotRegisteredError :: "goerror \<Rightarrow> bool" where
  "IsNotRegisteredError \<equiv> has_reason NotRegistered"

abbreviation IsNotExist :: "goerror \<Rightarrow> bool" where
  "IsNotExist \<equiv> has_reason NotExist"

lemma has_reason_simps [simp]:
  "has_reason r (GoErr s) = False"
  "has_reason r (ApiErr r' s) = (r' = r)"
  "has_reason r (WrapErr p e) = has_reason r e"
  by (auto simp: has_reason_def)

text \<open>\<open>errors.Join(errs...)\<close>: nil when every element is nil.\<close>

definition errors_Join :: "goerror list \<Rightarrow> goerror option" where
  "errors_Join errs = (if errs = [] then None else Some (JoinErr errs))"

lemma errors_Join_None [simp]: "errors_Join errs = None \<longleftrightarrow> errs = []"
  by (simp add: errors_Join_def)

section \<open>Go maps\<close>

type_synonym 'v gomap = "(string \<times> 'v) list"

text \<open>\<open>m[k]\<close> on a map of strings: the zero value \<open>""\<close> when the key is absent.\<close>

definition get_str :: "string gomap \<Rightarrow> string \<Rightarrow> string" where
  "get_str m k = (case map_of m k of None \<Rightarrow> [] | Some v \<Rightarrow> v)"

lemma map_of_update [simp, go_map]: "map_of (AList.update k v m) = (map_of m)(k \<mapsto> v)"
  by (rule update_conv')

lemma map_of_delete [simp, go_map]: "map_of (AList.delete k m) = (map_of m)(k := None)"
  by (rule delete_conv')

lemma get_str_update [simp, go_map]:
  "get_str (AList.update k v m) k' = (if k = k' then v else get_str m k')"
  by (simp add: get_str_def)

lemma get_str_delete [simp, go_map]:
  "get_str (AList.delete k m) k' = (if k = k' then [] else get_str m k')"
  by (simp add: get_str_def)

lemma get_str_Nil [simp]: "get_str [] k = []"
  by (simp add: get_str_def)

text \<open>A Go map has one entry per key.\<close>

definition wf_map :: "'v gomap \<Rightarrow> bool" where
  "wf_map m \<longleftrightarrow> distinct (map fst m)"

lemma wf_map_Nil [simp]: "wf_map []"
  by (simp add: wf_map_def)

lemma wf_map_update [simp]: "wf_map m \<Longrightarrow> wf_map (AList.update k v m)"
  by (simp add: wf_map_def distinct_update)

lemma wf_map_delete [simp]: "wf_map m \<Longrightarrow> wf_map (AList.delete k m)"
  by (simp add: wf_map_def distinct_delete)

lemma wf_map_Cons: "wf_map ((k, v) # m) \<longleftrightarrow> map_of m k = None \<and> wf_map m"
  by (auto simp: wf_map_def map_of_eq_None_iff)

text \<open>Two maps are equal as Go maps when they answer every lookup alike.\<close>

definition same_map :: "'v gomap \<Rightarrow> 'v gomap \<Rightarrow> bool" where
  "same_map m n \<longleftrightarrow> map_of m = map_of n"

lemma map_of_Nil_iff: "m = [] \<longleftrightarrow> map_of m = Map.empty"
  by (metis list.set_cases map_of.simps(1) map_of_eq_empty_iff)

section \<open>Strings\<close>

text \<open>
  \<open>strings.TrimSpace\<close> cuts the runes of Unicode's White Space property at both ends
  (\<open>unicode.IsSpace\<close>). \<open>space_runes\<close> lists their UTF-8 encodings: the ASCII ones, U+0085,
  U+00A0, U+1680, U+2000 to U+200A, U+2028, U+2029, U+202F, U+205F and U+3000.
\<close>

definition space_runes :: "string list" where
  "space_runes =
     [[CHR '' ''], [CHR 0x0A], [CHR 0x09], [CHR 0x0B], [CHR 0x0C], [CHR 0x0D],
      [CHR 0xC2, CHR 0x85], [CHR 0xC2, CHR 0xA0], [CHR 0xE1, CHR 0x9A, CHR 0x80]]
     @ map (\<lambda>c. [CHR 0xE2, CHR 0x80, c])
        [CHR 0x80, CHR 0x81, CHR 0x82, CHR 0x83, CHR 0x84, CHR 0x85, CHR 0x86, CHR 0x87,
         CHR 0x88, CHR 0x89, CHR 0x8A, CHR 0xA8, CHR 0xA9, CHR 0xAF]
     @ [[CHR 0xE2, CHR 0x81, CHR 0x9F], [CHR 0xE3, CHR 0x80, CHR 0x80]]"

text \<open>Cutting the prefixes of a set of non-empty words off a string, as long as one fits.\<close>

function strip_words :: "string list \<Rightarrow> string \<Rightarrow> string" where
  "strip_words ws s =
     (case find (\<lambda>w. w \<noteq> [] \<and> take (length w) s = w) ws of
        None \<Rightarrow> s
      | Some w \<Rightarrow> strip_words ws (drop (length w) s))"
  by pat_completeness auto
termination
proof (relation "measure (\<lambda>(ws, s). length s)", goal_cases)
  case 1
  show ?case by simp
next
  case (2 ws s w)
  then have w: "w \<noteq> []" "take (length w) s = w"
    by (auto simp: find_Some_iff)
  then have "length w \<le> length s"
    by (metis length_take min.cobounded1 min.absorb_iff2 min_def order_refl)
  moreover have "0 < length w"
    using w by simp
  ultimately have "length s - length w < length s" by linarith
  then show ?case by simp
qed

declare strip_words.simps [simp del]

definition TrimLeftSpace :: "string \<Rightarrow> string" where
  "TrimLeftSpace s = strip_words space_runes s"

definition TrimRightSpace :: "string \<Rightarrow> string" where
  "TrimRightSpace s = rev (strip_words (map rev space_runes) (rev s))"

definition TrimSpace :: "string \<Rightarrow> string" where
  "TrimSpace s = TrimRightSpace (TrimLeftSpace s)"

definition HasPrefix :: "string \<Rightarrow> string \<Rightarrow> bool" where
  "HasPrefix s p \<longleftrightarrow> take (length p) s = p"

definition HasSuffix :: "string \<Rightarrow> string \<Rightarrow> bool" where
  "HasSuffix s p \<longleftrightarrow> HasPrefix (rev s) (rev p)"

fun Contains :: "string \<Rightarrow> string \<Rightarrow> bool" where
  "Contains [] p = (p = [])"
| "Contains (c # s) p = (HasPrefix (c # s) p \<or> Contains s p)"

definition ContainsAny :: "string \<Rightarrow> string \<Rightarrow> bool" where
  "ContainsAny s chars \<longleftrightarrow> list_ex (\<lambda>c. List.member chars c) s"

text \<open>
  \<open>strings.Split(s, sep)\<close> and \<open>strings.SplitSeq\<close> for a separator of one byte (the operator
  uses comma, slash and newline): never the empty list, and \<open>[""]\<close> for the empty string.
\<close>

fun Split :: "string \<Rightarrow> char \<Rightarrow> string list" where
  "Split [] sep = [[]]"
| "Split (c # s) sep =
     (if c = sep then [] # Split s sep
      else (case Split s sep of [] \<Rightarrow> [[c]] | p # ps \<Rightarrow> (c # p) # ps))"

text \<open>\<open>strings.Cut(s, sep)\<close> for a separator of one byte: \<open>None\<close> when it does not occur.\<close>

fun Cut :: "string \<Rightarrow> char \<Rightarrow> (string \<times> string) option" where
  "Cut [] sep = None"
| "Cut (c # s) sep =
     (if c = sep then Some ([], s)
      else (case Cut s sep of None \<Rightarrow> None | Some (a, b) \<Rightarrow> Some (c # a, b)))"

text \<open>\<open>strings.TrimRight(s, cutset)\<close>.\<close>

definition TrimRight :: "string \<Rightarrow> string \<Rightarrow> string" where
  "TrimRight s cutset = rev (dropWhile (\<lambda>c. List.member cutset c) (rev s))"

subsection \<open>Decimal numerals\<close>

definition digit_char :: "nat \<Rightarrow> char" where
  "digit_char d = ''0123456789'' ! (d mod 10)"

fun nat_str :: "nat \<Rightarrow> string" where
  "nat_str n = (if n < 10 then [digit_char n] else nat_str (n div 10) @ [digit_char (n mod 10)])"

declare nat_str.simps [simp del]

definition int_str :: "int \<Rightarrow> string" where
  "int_str i = (if i < 0 then CHR ''-'' # nat_str (nat (- i)) else nat_str (nat i))"

text \<open>\<open>%q\<close> in an error text: the string in double quotes (its escapes are not modelled).\<close>

definition Quote :: "string \<Rightarrow> string" where
  "Quote s = [CHR 0x22] @ s @ [CHR 0x22]"

definition FormatBool :: "bool \<Rightarrow> string" where
  "FormatBool b = (if b then ''true'' else ''false'')"


section \<open>Facts on strings\<close>

subsection \<open>Trimming\<close>

definition no_word :: "string list \<Rightarrow> string \<Rightarrow> bool" where
  "no_word ws s \<longleftrightarrow> (\<forall>w \<in> set ws. w = [] \<or> \<not> prefix w s)"

lemma take_length_prefix: "take (length w) s = w \<longleftrightarrow> prefix w s"
  by (metis append_eq_conv_conj prefix_def take_is_prefix)

lemma strip_words_no_word: "no_word ws s \<Longrightarrow> strip_words ws s = s"
  by (subst strip_words.simps)
    (auto simp: no_word_def take_length_prefix find_None_iff split: option.split
      dest!: find_Some_iff [THEN iffD1])

lemma strip_words_suffix: "suffix (strip_words ws s) s"
proof (induction ws s rule: strip_words.induct)
  case (1 ws s)
  show ?case
  proof (cases "find (\<lambda>w. w \<noteq> [] \<and> take (length w) s = w) ws")
    case None
    then show ?thesis by (subst strip_words.simps) simp
  next
    case (Some w)
    with 1 have "suffix (strip_words ws (drop (length w) s)) (drop (length w) s)"
      by simp
    then have "suffix (strip_words ws (drop (length w) s)) s"
      using suffix_drop suffix_order.trans by blast
    with Some show ?thesis by (subst strip_words.simps) simp
  qed
qed

lemma no_word_strip_words: "no_word ws (strip_words ws s)"
proof (induction ws s rule: strip_words.induct)
  case (1 ws s)
  show ?case
  proof (cases "find (\<lambda>w. w \<noteq> [] \<and> take (length w) s = w) ws")
    case None
    then have "no_word ws s"
      by (auto simp: no_word_def find_None_iff take_length_prefix)
    then show ?thesis by (simp add: strip_words_no_word)
  next
    case (Some w)
    with 1 show ?thesis by (subst strip_words.simps) simp
  qed
qed

lemma no_word_prefix: "no_word ws s \<Longrightarrow> prefix t s \<Longrightarrow> no_word ws t"
  by (auto simp: no_word_def intro: prefix_order.trans)

lemma TrimLeftSpace_suffix: "suffix (TrimLeftSpace s) s"
  by (simp add: TrimLeftSpace_def strip_words_suffix)

lemma TrimRightSpace_prefix: "prefix (TrimRightSpace s) s"
  unfolding TrimRightSpace_def
  by (metis rev_rev_ident strip_words_suffix suffix_to_prefix)

lemma set_TrimSpace: "set (TrimSpace s) \<subseteq> set s"
  by (metis TrimLeftSpace_suffix TrimRightSpace_prefix TrimSpace_def set_mono_prefix
      set_mono_suffix subset_trans)

text \<open>A string is trimmed when no space rune stands at either end.\<close>

definition trimmed :: "string \<Rightarrow> bool" where
  "trimmed s \<longleftrightarrow> no_word space_runes s \<and> no_word (map rev space_runes) (rev s)"

lemma trimmed_TrimSpace: "trimmed (TrimSpace s)"
proof -
  have "no_word space_runes (TrimSpace s)"
    using no_word_prefix [OF no_word_strip_words [of space_runes s]]
    by (metis TrimLeftSpace_def TrimRightSpace_prefix TrimSpace_def)
  moreover have "no_word (map rev space_runes) (rev (TrimSpace s))"
    by (simp add: TrimSpace_def TrimRightSpace_def no_word_strip_words)
  ultimately show ?thesis by (simp add: trimmed_def)
qed

lemma TrimSpace_trimmed: "trimmed s \<Longrightarrow> TrimSpace s = s"
  by (simp add: trimmed_def TrimSpace_def TrimLeftSpace_def TrimRightSpace_def strip_words_no_word)

lemma TrimSpace_idem [simp, go_str]: "TrimSpace (TrimSpace s) = TrimSpace s"
  by (simp add: TrimSpace_trimmed trimmed_TrimSpace)

lemma TrimSpace_fixed_iff: "TrimSpace s = s \<longleftrightarrow> trimmed s"
  by (metis TrimSpace_trimmed trimmed_TrimSpace)

lemma TrimSpace_Nil [simp, go_str]: "TrimSpace [] = []"
  using set_TrimSpace [of "[]"] by simp

text \<open>
  A cheap test: neither the first nor the last byte of the string starts or ends a space rune.
\<close>

definition plain_ends :: "string \<Rightarrow> bool" where
  "plain_ends s \<longleftrightarrow>
     s = [] \<or> (list_all (\<lambda>w. hd s \<noteq> hd w) space_runes \<and> list_all (\<lambda>w. last s \<noteq> last w) space_runes)"

lemma space_runes_nonempty: "[] \<notin> set space_runes"
  by (simp add: space_runes_def)

lemma plain_ends_trimmed: "plain_ends s \<Longrightarrow> trimmed s"
  unfolding trimmed_def no_word_def plain_ends_def list_all_iff
  using space_runes_nonempty
  by (auto simp: prefix_def hd_append last_rev hd_rev)
    (metis hd_append2 hd_rev last_rev rev_is_Nil_conv rev_rev_ident)+

lemma TrimSpace_plain: "plain_ends s \<Longrightarrow> TrimSpace s = s"
  by (simp add: TrimSpace_trimmed plain_ends_trimmed)

subsection \<open>Splitting, joining, cutting\<close>

lemma Split_nonempty [simp]: "Split s sep \<noteq> []"
  by (induction s sep rule: Split.induct) (auto split: list.splits)

lemma Split_no_sep: "p \<in> set (Split s sep) \<Longrightarrow> sep \<notin> set p"
  by (induction s sep arbitrary: p rule: Split.induct) (auto split: if_splits list.splits)

lemma Split_absent: "sep \<notin> set s \<Longrightarrow> Split s sep = [s]"
  by (induction s) auto

lemma Split_append: "sep \<notin> set a \<Longrightarrow> Split (a @ sep # b) sep = a # Split b sep"
  by (induction a) auto

lemma Join_str_Cons: "ps \<noteq> [] \<Longrightarrow> Join_str sep (p # ps) = p @ sep @ Join_str sep ps"
  by (cases ps) auto

lemma Split_Join_str:
  "ps \<noteq> [] \<Longrightarrow> (\<And>p. p \<in> set ps \<Longrightarrow> sep \<notin> set p) \<Longrightarrow> Split (Join_str [sep] ps) sep = ps"
proof (induction ps)
  case Nil
  then show ?case by simp
next
  case (Cons p ps)
  then show ?case
    by (cases "ps = []") (auto simp: Join_str_Cons Split_append Split_absent)
qed

lemma Join_str_Split: "Join_str [sep] (Split s sep) = s"
proof (induction s sep rule: Split.induct)
  case (1 sep)
  then show ?case by simp
next
  case (2 c s sep)
  then show ?case
    by (cases "Split s sep" rule: list.exhaust; cases "tl (Split s sep)")
      (auto simp: Join_str_Cons)
qed

lemma Cut_None_iff: "Cut s sep = None \<longleftrightarrow> sep \<notin> set s"
  by (induction s) (auto split: option.splits)

lemma Cut_append: "sep \<notin> set a \<Longrightarrow> Cut (a @ sep # b) sep = Some (a, b)"
  by (induction a) auto

lemma Cut_Some_iff: "Cut s sep = Some (a, b) \<longleftrightarrow> s = a @ sep # b \<and> sep \<notin> set a"
proof
  show "Cut s sep = Some (a, b) \<Longrightarrow> s = a @ sep # b \<and> sep \<notin> set a"
    by (induction s arbitrary: a) (auto split: if_splits option.splits)
qed (simp add: Cut_append)

subsection \<open>Numerals\<close>

definition digits :: string where
  "digits = ''0123456789''"

lemma digit_char_digits: "digit_char d \<in> set digits"
proof -
  have "d mod 10 < length digits" by (simp add: digits_def)
  then show ?thesis unfolding digit_char_def digits_def by (rule nth_mem)
qed

lemma set_nat_str: "set (nat_str n) \<subseteq> set digits"
proof (induction n rule: nat_str.induct)
  case (1 n)
  then show ?case by (subst nat_str.simps) (auto simp: digit_char_digits)
qed

lemma nat_str_nonempty [simp]: "nat_str n \<noteq> []"
  by (subst nat_str.simps) simp

lemma digit_char_inj: "a < 10 \<Longrightarrow> b < 10 \<Longrightarrow> digit_char a = digit_char b \<longleftrightarrow> a = b"
proof -
  assume ab: "a < 10" "b < 10"
  have "distinct ''0123456789''" by simp
  then show ?thesis using ab unfolding digit_char_def by (simp add: nth_eq_iff_index_eq)
qed

lemma nat_str_last: "last (nat_str n) = digit_char (n mod 10)"
  by (subst nat_str.simps) simp

lemma nat_str_butlast: "butlast (nat_str n) = (if n < 10 then [] else nat_str (n div 10))"
  by (subst nat_str.simps) simp

lemma nat_str_inj: "nat_str m = nat_str n \<Longrightarrow> m = n"
proof (induction m arbitrary: n rule: nat_str.induct)
  case (1 m)
  have l: "m mod 10 = n mod 10"
    using nat_str_last [of m] nat_str_last [of n] 1(2) by (simp add: digit_char_inj)
  have b: "(if m < 10 then [] else nat_str (m div 10)) = (if n < 10 then [] else nat_str (n div 10))"
    using nat_str_butlast [of m] nat_str_butlast [of n] 1(2) by simp
  have "m div 10 = n div 10"
  proof (cases "m < 10")
    case True
    with b have "n < 10" by (metis nat_str_nonempty)
    with True show ?thesis by simp
  next
    case False
    with b have "nat_str (m div 10) = nat_str (n div 10)"
      by (auto split: if_splits)
    with 1(1) False show ?thesis by blast
  qed
  with l show ?case by (metis div_mult_mod_eq)
qed

lemma int_str_inj: "int_str a = int_str b \<longleftrightarrow> a = b"
proof -
  have "CHR ''-'' \<notin> set (nat_str n)" for n
    using set_nat_str [of n] by (auto simp: digits_def)
  then have neg: "CHR ''-'' # x \<noteq> nat_str n" for x n
    by (metis list.set_intros(1))
  show ?thesis
    using neg neg [symmetric] by (auto simp: int_str_def dest!: nat_str_inj split: if_splits)
qed

lemma int_str_no_colon: "CHR '':'' \<notin> set (int_str i)"
  using set_nat_str by (auto simp: int_str_def digits_def)

text \<open>Two strings of the form \<open>name:number\<close> agree only when both parts do.\<close>

lemma colon_suffix_inj:
  "CHR '':'' \<notin> set x \<Longrightarrow> CHR '':'' \<notin> set y \<Longrightarrow>
   a @ CHR '':'' # x = b @ CHR '':'' # y \<longleftrightarrow> a = b \<and> x = y"
proof -
  assume x: "CHR '':'' \<notin> set x" and y: "CHR '':'' \<notin> set y"
  have "Cut (rev (a @ CHR '':'' # x)) (CHR '':'') = Some (rev x, rev a)"
    using Cut_append [of "CHR '':''" "rev x" "rev a"] x by simp
  moreover have "Cut (rev (b @ CHR '':'' # y)) (CHR '':'') = Some (rev y, rev b)"
    using Cut_append [of "CHR '':''" "rev y" "rev b"] y by simp
  ultimately show ?thesis by (metis option.inject prod.inject rev_rev_ident)
qed

end
