(* ===== verification/Api_Types.thy ===== *)
theory Api_Types
  imports Prelude
begin

text \<open>
  The Workbenches custom resource of \<open>api/v1alpha1/workbenches_types.go\<close>. A pointer field is an
  \<open>option\<close>, an \<open>int32\<close> or \<open>int64\<close> field is an \<^typ>\<open>int\<close>: the operator only compares and prints
  these numbers, so no operation can leave their range.
\<close>

definition WorkbenchesInstanceName :: string where
  "WorkbenchesInstanceName = ''default-workbenches''"

definition ManagementStateManaged :: string where
  "ManagementStateManaged = ''Managed''"

definition ManagementStateRemoved :: string where
  "ManagementStateRemoved = ''Removed''"

definition IngressContractConfigMapKey :: string where
  "IngressContractConfigMapKey = ''contract''"

record WorkbenchesV2Spec =
  v2_ManagementState :: string

record Ingress =
  ing_Name :: string
  ing_GatewayName :: string
  ing_GatewayNamespace :: string
  ing_Hostname :: string
  ing_IsDefault :: bool

record ODHNotebookControllerProbeSpec =
  TimeoutSeconds :: int

record IngressContractSpec =
  ics_Version :: string
  ics_SourceGeneration :: int

record WorkbenchesSpec =
  ManagementState :: string
  spec_WorkbenchNamespace :: string
  GatewayDomain :: string
  Ingresses :: "Ingress list"
  spec_IngressContract :: "IngressContractSpec option"
  spec_Platform :: string
  MLflowEnabled :: bool
  ODHNotebookControllerProbe :: "ODHNotebookControllerProbeSpec option"
  WorkbenchesV2 :: "WorkbenchesV2Spec option"

definition IsWorkbenchesV2Managed :: "WorkbenchesSpec \<Rightarrow> bool" where
  "IsWorkbenchesV2Managed s =
     (case WorkbenchesV2 s of
        None \<Rightarrow> False
      | Some v2 \<Rightarrow> v2_ManagementState v2 = ManagementStateManaged)"

record ComponentRelease =
  rel_Name :: string
  rel_Version :: string
  rel_RepoURL :: string

record Distribution =
  dist_Name :: string
  dist_Version :: string

record IngressContractStatus =
  icst_Version :: string
  icst_SourceGeneration :: int
  icst_DeploymentGeneration :: int

text \<open>\<open>metav1.Condition\<close>, without its transition time, which the operator never reads.\<close>

record condition =
  cond_Type :: string
  cond_Status :: string
  cond_Reason :: string
  cond_Message :: string
  cond_ObservedGeneration :: int

record WorkbenchesStatus =
  Conditions :: "condition list"
  Releases :: "ComponentRelease list"
  ObservedGeneration :: int
  st_Distribution :: Distribution
  Phase :: string
  ApplicationsNamespace :: string
  st_WorkbenchNamespace :: string
  st_IngressContract :: IngressContractStatus

record Workbenches =
  wb_Name :: string
  Generation :: int
  Finalizers :: "string list"
  Deleting :: bool
  Spec :: WorkbenchesSpec
  Status :: WorkbenchesStatus

text \<open>The zero values the code assigns.\<close>

definition zero_Distribution :: Distribution where
  "zero_Distribution = \<lparr>dist_Name = [], dist_Version = []\<rparr>"

definition zero_ComponentRelease :: ComponentRelease where
  "zero_ComponentRelease = \<lparr>rel_Name = [], rel_Version = [], rel_RepoURL = []\<rparr>"

definition zero_IngressContractStatus :: IngressContractStatus where
  "zero_IngressContractStatus =
     \<lparr>icst_Version = [], icst_SourceGeneration = 0, icst_DeploymentGeneration = 0\<rparr>"

lemmas zero_defs = zero_Distribution_def zero_ComponentRelease_def zero_IngressContractStatus_def

end
