(* ===== verification/Unstructured.thy ===== *)
theory Unstructured
  imports Prelude "HOL-Library.Word"
begin

text \<open>
  JSON objects as Go sees them (\<open>map[string]any\<close>), and the accessors of
  \<open>k8s.io/apimachinery/pkg/apis/meta/v1/unstructured\<close> that the operator calls. The accessors are
  not part of the repository: the record \<open>unstructured_api\<close> holds them as parameters of the
  model, and the locale \<open>unstructured\<close> states what their documentation promises. The functions
  \<open>nested_field\<close>, \<open>set_nested\<close> and \<open>remove_nested\<close> express that promise over paths.
\<close>

section \<open>JSON values\<close>

text \<open>
  A decoded JSON value. Integers are \<open>int64\<close>, other numbers \<open>float64\<close> (kept as their 64 bits).
\<close>

datatype json =
    JNull
  | JBool bool
  | JInt int
  | JFloat "64 word"
  | JStr string
  | JArr "json list"
  | JObj "(string \<times> json) list"

type_synonym object = "json gomap"

fun as_obj :: "json \<Rightarrow> object option" where
  "as_obj (JObj m) = Some m"
| "as_obj _ = None"

fun as_arr :: "json \<Rightarrow> json list option" where
  "as_arr (JArr xs) = Some xs"
| "as_arr _ = None"

fun as_str :: "json \<Rightarrow> string option" where
  "as_str (JStr s) = Some s"
| "as_str _ = None"

lemma as_obj_Some [simp]: "as_obj j = Some m \<longleftrightarrow> j = JObj m"
  by (cases j) auto

lemma as_arr_Some [simp]: "as_arr j = Some m \<longleftrightarrow> j = JArr m"
  by (cases j) auto

lemma as_str_Some [simp]: "as_str j = Some m \<longleftrightarrow> j = JStr m"
  by (cases j) auto

text \<open>\<open>name, _ := m["k"].(string)\<close>: the zero value when the key is absent or not a string.\<close>

definition str_field :: "object \<Rightarrow> string \<Rightarrow> string" where
  "str_field m k =
     (case map_of m k of None \<Rightarrow> [] | Some v \<Rightarrow> (case as_str v of None \<Rightarrow> [] | Some s \<Rightarrow> s))"

section \<open>Paths\<close>

definition accessor_error :: "string list \<Rightarrow> goerror" where
  "accessor_error fs = GoErr (Join_str ''.'' fs @ '' accessor error'')"

fun nested_field :: "json \<Rightarrow> string list \<Rightarrow> json option res" where
  "nested_field v [] = Inr (Some v)"
| "nested_field (JObj m) (f # fs) =
     (case map_of m f of None \<Rightarrow> Inr None | Some v \<Rightarrow> nested_field v fs)"
| "nested_field JNull (f # fs) = Inr None"
| "nested_field v (f # fs) = Inl (accessor_error (f # fs))"

fun set_nested :: "object \<Rightarrow> json \<Rightarrow> string list \<Rightarrow> object res" where
  "set_nested m v [] = Inl (accessor_error [])"
| "set_nested m v [f] = Inr (AList.update f v m)"
| "set_nested m v (f # g # fs) =
     (case map_of m f of
        None \<Rightarrow> map_sum id (\<lambda>m'. AList.update f (JObj m') m) (set_nested [] v (g # fs))
      | Some (JObj m1) \<Rightarrow> map_sum id (\<lambda>m'. AList.update f (JObj m') m) (set_nested m1 v (g # fs))
      | Some _ \<Rightarrow> Inl (accessor_error (f # g # fs)))"

fun remove_nested :: "object \<Rightarrow> string list \<Rightarrow> object" where
  "remove_nested m [] = m"
| "remove_nested m [f] = AList.delete f m"
| "remove_nested m (f # g # fs) =
     (case map_of m f of
        Some (JObj m1) \<Rightarrow> AList.update f (JObj (remove_nested m1 (g # fs))) m
      | _ \<Rightarrow> m)"

text \<open>A JSON object whose values are all strings, as a map of strings.\<close>

fun strings_of :: "object \<Rightarrow> string gomap option" where
  "strings_of [] = Some []"
| "strings_of ((k, v) # m) =
     (case (as_str v, strings_of m) of (Some s, Some m') \<Rightarrow> Some ((k, s) # m') | _ \<Rightarrow> None)"

definition of_strings :: "string gomap \<Rightarrow> object" where
  "of_strings m = map (\<lambda>(k, v). (k, JStr v)) m"

text \<open>A nested field converted by \<open>conv\<close>; a value of another type is an error.\<close>

definition nested_as :: "(json \<Rightarrow> 'a option) \<Rightarrow> object \<Rightarrow> string list \<Rightarrow> 'a option res" where
  "nested_as conv m fs =
     (case nested_field (JObj m) fs of
        Inl e \<Rightarrow> Inl e
      | Inr None \<Rightarrow> Inr None
      | Inr (Some v) \<Rightarrow>
          (case conv v of None \<Rightarrow> Inl (accessor_error fs) | Some x \<Rightarrow> Inr (Some x)))"

definition string_map :: "json \<Rightarrow> string gomap option" where
  "string_map v = Option.bind (as_obj v) strings_of"

text \<open>\<open>m, _, _ := f(...)\<close>: the value when it was found without error.\<close>

definition found_or_none :: "'a option res \<Rightarrow> 'a option" where
  "found_or_none r = (case r of Inl e \<Rightarrow> None | Inr x \<Rightarrow> x)"

text \<open>A setter without an error result leaves the object as it is when the path is blocked.\<close>

definition set_or_same :: "object \<Rightarrow> json \<Rightarrow> string list \<Rightarrow> object" where
  "set_or_same m v fs = (case set_nested m v fs of Inl e \<Rightarrow> m | Inr m' \<Rightarrow> m')"

section \<open>Laws of paths\<close>

lemma strings_of_of_strings [simp]: "strings_of (of_strings m) = Some m"
  by (induction m) (auto simp: of_strings_def)

lemma string_map_of_strings [simp]: "string_map (JObj (of_strings m)) = Some m"
  by (simp add: string_map_def)

lemma map_of_of_strings: "map_of (of_strings m) k = map_option JStr (map_of m k)"
  by (induction m) (auto simp: of_strings_def)

lemma set_nested_Cons:
  "fs \<noteq> [] \<Longrightarrow> set_nested m v (f # fs) = Inr m' \<longleftrightarrow>
     (\<exists>m1 m2. (map_of m f = None \<and> m1 = [] \<or> map_of m f = Some (JObj m1))
        \<and> set_nested m1 v fs = Inr m2 \<and> m' = AList.update f (JObj m2) m)"
  by (cases fs; cases "map_of m f")
    (auto simp: map_sum_def split: json.splits sum.splits)

lemma nested_set_same:
  "set_nested m v fs = Inr m' \<Longrightarrow> nested_field (JObj m') fs = Inr (Some v)"
proof (induction fs arbitrary: m m')
  case Nil
  then show ?case by simp
next
  case (Cons f fs)
  then show ?case
    by (cases "fs = []") (auto simp: set_nested_Cons)
qed

text \<open>Two paths are apart when neither leads through the other.\<close>

definition apart :: "string list \<Rightarrow> string list \<Rightarrow> bool" where
  "apart fs gs \<longleftrightarrow> \<not> prefix fs gs \<and> \<not> prefix gs fs"

lemma apart_simps [simp]:
  "apart [] gs = False" "apart fs [] = False"
  "apart (f # fs) (g # gs) = (f \<noteq> g \<or> apart fs gs)"
  by (auto simp: apart_def)

lemma nested_field_empty: "gs \<noteq> [] \<Longrightarrow> nested_field (JObj []) gs = Inr None"
  by (cases gs) auto

lemma nested_set_apart:
  "set_nested m v fs = Inr m' \<Longrightarrow> apart fs gs \<Longrightarrow>
   nested_field (JObj m') gs = nested_field (JObj m) gs"
proof (induction fs arbitrary: m m' gs)
  case Nil
  then show ?case by simp
next
  case (Cons f fs)
  obtain g gs' where gs: "gs = g # gs'"
    using Cons.prems(2) by (cases gs) auto
  show ?case
  proof (cases "fs = []")
    case True
    with Cons.prems gs show ?thesis by auto
  next
    case False
    with Cons.prems(1) obtain m1 m2 where
      m1: "map_of m f = None \<and> m1 = [] \<or> map_of m f = Some (JObj m1)"
      and m2: "set_nested m1 v fs = Inr m2" and m': "m' = AList.update f (JObj m2) m"
      by (auto simp: set_nested_Cons)
    show ?thesis
    proof (cases "f = g")
      case True
      with Cons.prems(2) gs have "apart fs gs'" by simp
      then have "nested_field (JObj m2) gs' = nested_field (JObj m1) gs'" and "gs' \<noteq> []"
        using Cons.IH [OF m2] by auto
      with m1 m' gs True show ?thesis by (auto simp: nested_field_empty)
    next
      case False
      with gs m' show ?thesis by simp
    qed
  qed
qed

lemma nested_remove_apart:
  "apart fs gs \<Longrightarrow> nested_field (JObj (remove_nested m fs)) gs = nested_field (JObj m) gs"
proof (induction m fs arbitrary: gs rule: remove_nested.induct)
  case (3 m f g fs)
  then show ?case
    by (cases gs) (auto split: option.splits json.splits)
next
  case (2 m f)
  then show ?case by (cases gs) auto
qed simp

lemma nested_remove_same:
  "fs \<noteq> [] \<Longrightarrow> nested_field (JObj (remove_nested m fs)) fs \<in> {Inr None} \<union> range Inl"
proof (induction m fs rule: remove_nested.induct)
  case (3 m f g fs)
  then show ?case
    by (cases "map_of m f") (auto split: json.splits)
qed auto

lemma nested_field_Cons_found:
  "nested_field v (f # fs) = Inr (Some w) \<longleftrightarrow>
     (\<exists>m v1. v = JObj m \<and> map_of m f = Some v1 \<and> nested_field v1 fs = Inr (Some w))"
  by (cases v) (auto split: option.splits)

lemma set_nested_existing:
  "fs \<noteq> [] \<Longrightarrow> nested_field (JObj m) fs = Inr (Some w) \<Longrightarrow> \<exists>m'. set_nested m v fs = Inr m'"
proof (induction fs arbitrary: m)
  case (Cons f fs)
  show ?case
  proof (cases fs)
    case (Cons g gs)
    with \<open>nested_field (JObj m) (f # fs) = Inr (Some w)\<close> obtain m1
      where m1: "map_of m f = Some (JObj m1)" and "nested_field (JObj m1) fs = Inr (Some w)"
      by (auto simp: nested_field_Cons_found simp del: nested_field.simps)
    with Cons.IH [of m1] Cons obtain m2 where "set_nested m1 v fs = Inr m2" by auto
    with m1 Cons show ?thesis by (auto simp: set_nested_Cons)
  qed simp
qed simp

lemma nested_field_append:
  "nested_field v fs = Inr (Some w) \<Longrightarrow> nested_field v (fs @ gs) = nested_field w gs"
  by (induction v fs rule: nested_field.induct) (auto split: option.splits)

lemma nested_field_append_missing:
  "nested_field v fs = Inr None \<Longrightarrow> nested_field v (fs @ gs) = Inr None"
  by (induction v fs rule: nested_field.induct) (auto split: option.splits)

lemma nested_as_missing: "nested_as conv m fs = Inr None \<longleftrightarrow> nested_field (JObj m) fs = Inr None"
  by (auto simp: nested_as_def split: sum.splits option.splits)

lemma apart_append_cases:
  assumes "apart (fs @ [k]) gs"
  obtains (elsewhere) "apart fs gs" | (beside) k' q where "gs = fs @ k' # q" "k' \<noteq> k"
proof (cases "prefix fs gs")
  case True
  then obtain t where t: "gs = fs @ t" by (auto simp: prefix_def)
  with assms have "t \<noteq> []" "\<not> prefix [k] t"
    by (auto simp: apart_def)
  with t beside show ?thesis by (cases t) auto
next
  case False
  moreover have "\<not> prefix gs fs"
    using assms by (auto simp: apart_def dest: prefix_order.trans [of gs fs "fs @ [k]"])
  ultimately show ?thesis using elsewhere by (simp add: apart_def)
qed

text \<open>Updating one key of the object at a path touches nothing else of the whole.\<close>

lemma nested_update_key:
  assumes "set_nested m (JObj (AList.update k v a)) fs = Inr m'"
    and "nested_field (JObj m) fs = Inr (Some (JObj a)) \<or> nested_field (JObj m) fs = Inr None \<and> a = []"
  shows "nested_field (JObj m') (fs @ [k]) = Inr (Some v)"
    and "apart (fs @ [k]) gs \<Longrightarrow> nested_field (JObj m') gs = nested_field (JObj m) gs"
proof -
  from assms(1) have at: "nested_field (JObj m') fs = Inr (Some (JObj (AList.update k v a)))"
    by (rule nested_set_same)
  then show "nested_field (JObj m') (fs @ [k]) = Inr (Some v)"
    by (simp add: nested_field_append)
  show "nested_field (JObj m') gs = nested_field (JObj m) gs" if "apart (fs @ [k]) gs"
    using that
  proof (cases rule: apart_append_cases)
    case elsewhere
    then show ?thesis using assms(1) by (simp add: nested_set_apart)
  next
    case (beside k' q)
    with at have "nested_field (JObj m') gs = nested_field (JObj a) (k' # q)"
      by (simp add: nested_field_append)
    with assms(2) beside show ?thesis
      by (auto simp: nested_field_append nested_field_append_missing)
  qed
qed

lemma nested_as_found:
  "nested_as conv m fs = Inr (Some x) \<longleftrightarrow>
     (\<exists>v. nested_field (JObj m) fs = Inr (Some v) \<and> conv v = Some x)"
  by (auto simp: nested_as_def split: sum.splits option.splits)

lemma nested_as_cong:
  "nested_field (JObj m) fs = nested_field (JObj m') fs \<Longrightarrow> nested_as conv m fs = nested_as conv m' fs"
  by (simp add: nested_as_def)

lemma nested_as_set_same:
  "set_nested m v fs = Inr m' \<Longrightarrow> conv v = Some x \<Longrightarrow> nested_as conv m' fs = Inr (Some x)"
  by (auto simp: nested_as_found dest: nested_set_same)

lemmas nested_as_set_apart = nested_as_cong [OF nested_set_apart]
lemmas nested_as_remove_apart = nested_as_cong [OF nested_remove_apart]

lemma set_or_same_apart:
  "apart fs gs \<Longrightarrow> nested_field (JObj (set_or_same m v fs)) gs = nested_field (JObj m) gs"
  by (auto simp: set_or_same_def nested_set_apart split: sum.splits)

text \<open>Writing what is already there changes nothing.\<close>

lemma alist_update_same: "map_of m k = Some v \<Longrightarrow> AList.update k v m = m"
  by (induction m) (auto split: if_splits)

lemma set_nested_same:
  "fs \<noteq> [] \<Longrightarrow> nested_field (JObj m) fs = Inr (Some v) \<Longrightarrow> set_nested m v fs = Inr m"
proof (induction fs arbitrary: m)
  case (Cons f fs)
  show ?case
  proof (cases "fs = []")
    case True
    with Cons.prems show ?thesis by (auto simp: alist_update_same split: option.splits)
  next
    case False
    from Cons.prems(2) obtain v1 where v1: "map_of m f = Some v1" "nested_field v1 fs = Inr (Some v)"
      by (auto split: option.splits)
    with False obtain m1 where "v1 = JObj m1" by (cases fs; cases v1) auto
    with v1 Cons.IH [of m1] False show ?thesis by (simp add: set_nested_Cons alist_update_same)
  qed
qed simp

lemma string_map_Some: "string_map v = Some sm \<longleftrightarrow> v = JObj (of_strings sm)"
proof -
  have "strings_of m = Some sm \<Longrightarrow> m = of_strings sm" for m
    by (induction m arbitrary: sm rule: strings_of.induct) (auto simp: of_strings_def split: option.splits)
  then show ?thesis by (auto simp: string_map_def bind_eq_Some_conv)
qed

section \<open>The interface\<close>

record gvk =
  gvk_Group :: string
  gvk_Version :: string
  gvk_Kind :: string

text \<open>\<open>apiVersion\<close> is \<open>group/version\<close>, or \<open>version\<close> for the core group.\<close>

definition parse_gv :: "string \<Rightarrow> string \<times> string" where
  "parse_gv apiVersion =
     (case Cut apiVersion (CHR ''/'') of
        None \<Rightarrow> ([], apiVersion)
      | Some (g, v) \<Rightarrow> (if CHR ''/'' \<in> set v then ([], []) else (g, v)))"

record unstructured_api =
  NestedFieldNoCopy :: "object \<Rightarrow> string list \<Rightarrow> json option res"
  NestedSlice :: "object \<Rightarrow> string list \<Rightarrow> json list option res"
  NestedMap :: "object \<Rightarrow> string list \<Rightarrow> object option res"
  NestedString :: "object \<Rightarrow> string list \<Rightarrow> string option res"
  NestedStringMap :: "object \<Rightarrow> string list \<Rightarrow> string gomap option res"
  SetNestedField :: "object \<Rightarrow> json \<Rightarrow> string list \<Rightarrow> object res"
  SetNestedSlice :: "object \<Rightarrow> json list \<Rightarrow> string list \<Rightarrow> object res"
  SetNestedMap :: "object \<Rightarrow> object \<Rightarrow> string list \<Rightarrow> object res"
  SetNestedStringMap :: "object \<Rightarrow> string gomap \<Rightarrow> string list \<Rightarrow> object res"
  RemoveNestedField :: "object \<Rightarrow> string list \<Rightarrow> object"
  GetName :: "object \<Rightarrow> string"
  GetNamespace :: "object \<Rightarrow> string"
  GetKind :: "object \<Rightarrow> string"
  GetAPIVersion :: "object \<Rightarrow> string"
  GroupVersionKind :: "object \<Rightarrow> gvk"
  GetLabels :: "object \<Rightarrow> string gomap option"
  GetAnnotations :: "object \<Rightarrow> string gomap option"
  SetLabels :: "object \<Rightarrow> string gomap \<Rightarrow> object"
  SetAnnotations :: "object \<Rightarrow> string gomap \<Rightarrow> object"
  SetNamespace :: "object \<Rightarrow> string \<Rightarrow> object"
  ClearOwnerReferences :: "object \<Rightarrow> object"
  ClearManagedFields :: "object \<Rightarrow> object"
  GVKString :: "gvk \<Rightarrow> string"

text \<open>
  \<open>GetX\<close> reads a metadata field and gives the zero value when it is missing or malformed;
  \<open>SetLabels\<close> and \<open>SetAnnotations\<close> replace the map. On an object whose \<open>metadata\<close> is not a map
  a setter has no effect.
\<close>

definition meta_str :: "object \<Rightarrow> string list \<Rightarrow> string" where
  "meta_str m fs = (case found_or_none (nested_as as_str m fs) of None \<Rightarrow> [] | Some s \<Rightarrow> s)"

definition gvk_of :: "object \<Rightarrow> gvk" where
  "gvk_of m =
     (case parse_gv (meta_str m [''apiVersion'']) of
        (g, v) \<Rightarrow> \<lparr>gvk_Group = g, gvk_Version = v, gvk_Kind = meta_str m [''kind'']\<rparr>)"

definition set_meta_ns :: "object \<Rightarrow> string \<Rightarrow> object" where
  "set_meta_ns m ns =
     (if ns = [] then remove_nested m [''metadata'', ''namespace'']
      else set_or_same m (JStr ns) [''metadata'', ''namespace''])"

text \<open>
  What \<open>unstructured\<close> documents. A map of labels or annotations that holds a value that is no string counts
  as absent; the library also reads a null there, which no stored object has, as an empty string.
\<close>

locale unstructured =
  fixes U :: unstructured_api
  assumes nested_field_no_copy: "NestedFieldNoCopy U m fs = nested_field (JObj m) fs"
    and nested_slice: "NestedSlice U m fs = nested_as as_arr m fs"
    and nested_map: "NestedMap U m fs = nested_as as_obj m fs"
    and nested_string: "NestedString U m fs = nested_as as_str m fs"
    and nested_string_map: "NestedStringMap U m fs = nested_as string_map m fs"
    and set_nested_field: "fs \<noteq> [] \<Longrightarrow> SetNestedField U m v fs = set_nested m v fs"
    and set_nested_slice: "fs \<noteq> [] \<Longrightarrow> SetNestedSlice U m xs fs = set_nested m (JArr xs) fs"
    and set_nested_map: "fs \<noteq> [] \<Longrightarrow> SetNestedMap U m o1 fs = set_nested m (JObj o1) fs"
    and set_nested_string_map:
      "fs \<noteq> [] \<Longrightarrow> SetNestedStringMap U m sm fs = set_nested m (JObj (of_strings sm)) fs"
    and remove_nested_field: "fs \<noteq> [] \<Longrightarrow> RemoveNestedField U m fs = remove_nested m fs"
    and get_name: "GetName U m = meta_str m [''metadata'', ''name'']"
    and get_namespace: "GetNamespace U m = meta_str m [''metadata'', ''namespace'']"
    and get_kind: "GetKind U m = meta_str m [''kind'']"
    and get_api_version: "GetAPIVersion U m = meta_str m [''apiVersion'']"
    and group_version_kind: "GroupVersionKind U m = gvk_of m"
    and get_labels:
      "GetLabels U m = found_or_none (nested_as string_map m [''metadata'', ''labels''])"
    and get_annotations:
      "GetAnnotations U m = found_or_none (nested_as string_map m [''metadata'', ''annotations''])"
    and set_labels:
      "SetLabels U m sm = set_or_same m (JObj (of_strings sm)) [''metadata'', ''labels'']"
    and set_annotations:
      "SetAnnotations U m sm = set_or_same m (JObj (of_strings sm)) [''metadata'', ''annotations'']"
    and set_namespace: "SetNamespace U m ns = set_meta_ns m ns"
    and clear_owner_references:
      "ClearOwnerReferences U m = remove_nested m [''metadata'', ''ownerReferences'']"
    and clear_managed_fields:
      "ClearManagedFields U m = remove_nested m [''metadata'', ''managedFields'']"
begin

lemmas api =
  nested_field_no_copy nested_slice nested_map nested_string nested_string_map set_nested_field
  set_nested_slice set_nested_map set_nested_string_map remove_nested_field get_name get_namespace
  get_kind get_api_version group_version_kind get_labels get_annotations set_labels
  set_annotations set_namespace clear_owner_references clear_managed_fields

end

text \<open>An implementation that behaves as documented.\<close>

definition documented_unstructured :: unstructured_api where
  "documented_unstructured =
     \<lparr>NestedFieldNoCopy = (\<lambda>m. nested_field (JObj m)),
      NestedSlice = nested_as as_arr,
      NestedMap = nested_as as_obj,
      NestedString = nested_as as_str,
      NestedStringMap = nested_as string_map,
      SetNestedField = set_nested,
      SetNestedSlice = (\<lambda>m xs. set_nested m (JArr xs)),
      SetNestedMap = (\<lambda>m o1. set_nested m (JObj o1)),
      SetNestedStringMap = (\<lambda>m sm. set_nested m (JObj (of_strings sm))),
      RemoveNestedField = remove_nested,
      GetName = (\<lambda>m. meta_str m [''metadata'', ''name'']),
      GetNamespace = (\<lambda>m. meta_str m [''metadata'', ''namespace'']),
      GetKind = (\<lambda>m. meta_str m [''kind'']),
      GetAPIVersion = (\<lambda>m. meta_str m [''apiVersion'']),
      GroupVersionKind = gvk_of,
      GetLabels = (\<lambda>m. found_or_none (nested_as string_map m [''metadata'', ''labels''])),
      GetAnnotations = (\<lambda>m. found_or_none (nested_as string_map m [''metadata'', ''annotations''])),
      SetLabels = (\<lambda>m sm. set_or_same m (JObj (of_strings sm)) [''metadata'', ''labels'']),
      SetAnnotations = (\<lambda>m sm. set_or_same m (JObj (of_strings sm)) [''metadata'', ''annotations'']),
      SetNamespace = set_meta_ns,
      ClearOwnerReferences = (\<lambda>m. remove_nested m [''metadata'', ''ownerReferences'']),
      ClearManagedFields = (\<lambda>m. remove_nested m [''metadata'', ''managedFields'']),
      GVKString = (\<lambda>g. gvk_Group g @ ''/'' @ gvk_Version g @ '', Kind='' @ gvk_Kind g)\<rparr>"

interpretation doc: unstructured documented_unstructured
  by unfold_locales (simp_all add: documented_unstructured_def)

end
