(* ===== verification/Client.thy ===== *)
theory Client
  imports Api_Types Unstructured
begin

text \<open>
  What the operator sees of the cluster. \<open>sigs.k8s.io/controller-runtime\<close> provides the client;
  here it is a record of functions over an abstract cluster state \<open>'s\<close>. Every call, a read
  too, takes the state and returns the next one: other actors may change the cluster between two
  calls, so two reads of one object need not agree. A call that fails returns \<open>Inl\<close> (or
  \<open>Some\<close> error).
\<close>

record configmap =
  cm_Namespace :: string
  cm_Name :: string
  cm_Data :: "string gomap option"

record namespace_obj =
  ns_Name :: string
  ns_Labels :: "string gomap option"

text \<open>\<open>appsv1.Deployment\<close>: the fields the operator reads.\<close>

record deployment =
  d_Namespace :: string
  d_Name :: string
  d_Generation :: int
  d_Labels :: "string gomap"
  d_Replicas :: "int option"
  d_TemplateAnnotations :: "string gomap"
  ReadyReplicas :: int
  AvailableReplicas :: int
  d_ObservedGeneration :: int
  UpdatedReplicas :: int
  TotalReplicas :: int

text \<open>\<open>imagev1.ImageStream\<close>: the fields the operator reads. \<open>tag_Items\<close> counts the items.\<close>

record tag_condition =
  tc_Type :: string
  tc_Status :: string
  tc_Message :: string

record tag_status =
  tag_Name :: string
  tag_Items :: nat
  tag_Conditions :: "tag_condition list"

record imagestream =
  is_Name :: string
  is_Tags :: "tag_status list"


text \<open>The events of a watch, as \<open>sigs.k8s.io/controller-runtime/pkg/event\<close> delivers them.\<close>

datatype 'o watch_event =
    CreateEvent 'o
  | UpdateEvent 'o 'o
  | DeleteEvent 'o
  | GenericEvent 'o

text \<open>
  The calls. \<open>cl_Get\<close> takes the namespace before the name. A namespace \<open>None\<close> in \<open>cl_List\<close> lists the whole cluster; \<open>cl_Apply\<close> is a
  server-side apply patch with forced ownership for the given field owner; \<open>cl_PatchConfigMap\<close>
  sends the merge patch from its second argument to its first. \<open>Update\<close> and \<open>Status().Update\<close>
  return the object as the server stored it, which the Go client decodes into the argument.
\<close>

record 's client =
  cl_GetWorkbenches :: "string \<Rightarrow> 's \<Rightarrow> Workbenches res \<times> 's"
  cl_UpdateWorkbenches :: "Workbenches \<Rightarrow> 's \<Rightarrow> Workbenches res \<times> 's"
  cl_StatusUpdate :: "Workbenches \<Rightarrow> 's \<Rightarrow> Workbenches res \<times> 's"
  cl_GetConfigMap :: "string \<Rightarrow> string \<Rightarrow> 's \<Rightarrow> configmap res \<times> 's"
  cl_PatchConfigMap :: "configmap \<Rightarrow> configmap \<Rightarrow> 's \<Rightarrow> unit res \<times> 's"
  cl_GetNamespace :: "string \<Rightarrow> 's \<Rightarrow> namespace_obj res \<times> 's"
  cl_CreateNamespace :: "namespace_obj \<Rightarrow> 's \<Rightarrow> unit res \<times> 's"
  cl_UpdateNamespace :: "namespace_obj \<Rightarrow> 's \<Rightarrow> unit res \<times> 's"
  cl_ListDeployments :: "string \<Rightarrow> string gomap \<Rightarrow> 's \<Rightarrow> deployment list res \<times> 's"
  cl_ListImageStreams :: "string \<Rightarrow> string gomap \<Rightarrow> 's \<Rightarrow> imagestream list res \<times> 's"
  cl_Get :: "gvk \<Rightarrow> string \<Rightarrow> string \<Rightarrow> 's \<Rightarrow> object res \<times> 's"
  cl_List :: "gvk \<Rightarrow> string option \<Rightarrow> string gomap \<Rightarrow> 's \<Rightarrow> object list res \<times> 's"
  cl_Apply :: "object \<Rightarrow> string \<Rightarrow> 's \<Rightarrow> unit res \<times> 's"
  cl_Delete :: "object \<Rightarrow> 's \<Rightarrow> unit res \<times> 's"

end
