(* ===== verification/Conditions.thy ===== *)
theory Conditions
  imports Api_Types
begin

text \<open>
  Status conditions. \<open>meta.SetStatusCondition\<close>, \<open>meta.FindStatusCondition\<close> and
  \<open>meta.IsStatusConditionTrue\<close> are functions of \<open>k8s.io/apimachinery\<close>: the record
  \<open>conditions_api\<close> holds them as parameters, and the locale \<open>status_conditions\<close> states
  what their documentation promises. \<open>sanitizeConditions\<close> is the operator's own.
\<close>

record conditions_api =
  SetStatusCondition :: "condition list \<Rightarrow> condition \<Rightarrow> condition list"
  FindStatusCondition :: "condition list \<Rightarrow> string \<Rightarrow> condition option"
  IsStatusConditionTrue :: "condition list \<Rightarrow> string \<Rightarrow> bool"

definition ConditionTrue :: string where "ConditionTrue = ''True''"
definition ConditionFalse :: string where "ConditionFalse = ''False''"

lemma condition_status_distinct [simp]:
  "ConditionTrue \<noteq> ConditionFalse" "ConditionFalse \<noteq> ConditionTrue"
  by (simp_all add: ConditionTrue_def ConditionFalse_def)

definition conditionReasonUnknown :: string where
  "conditionReasonUnknown = ''Unknown''"

definition sanitizeConditions :: "condition list \<Rightarrow> condition list" where
  "sanitizeConditions conditions =
     map (\<lambda>c. if cond_Reason c = [] then c\<lparr>cond_Reason := conditionReasonUnknown\<rparr> else c) conditions"

text \<open>
  The documented behaviour: a lookup returns the first condition of the given type; setting a
  condition makes it the one of its type and leaves the other types alone, and keeps the types
  distinct; a condition is true when it is present with status True.
\<close>

locale status_conditions =
  fixes C :: conditions_api
  assumes find_first: "FindStatusCondition C cs t = find (\<lambda>c. cond_Type c = t) cs"
    and find_set_same:
      "FindStatusCondition C (SetStatusCondition C cs c) (cond_Type c) = Some c"
    and find_set_other:
      "t \<noteq> cond_Type c \<Longrightarrow>
       FindStatusCondition C (SetStatusCondition C cs c) t = FindStatusCondition C cs t"
    and set_types_distinct:
      "distinct (map cond_Type cs) \<Longrightarrow> distinct (map cond_Type (SetStatusCondition C cs c))"
    and is_true:
      "IsStatusConditionTrue C cs t \<longleftrightarrow>
         (\<exists>c. FindStatusCondition C cs t = Some c \<and> cond_Status c = ConditionTrue)"
begin

lemma find_set:
  "FindStatusCondition C (SetStatusCondition C cs c) t =
     (if t = cond_Type c then Some c else FindStatusCondition C cs t)"
  by (simp add: find_set_same find_set_other)

lemma is_true_set:
  "IsStatusConditionTrue C (SetStatusCondition C cs c) t \<longleftrightarrow>
     (if t = cond_Type c then cond_Status c = ConditionTrue else IsStatusConditionTrue C cs t)"
  by (simp add: is_true find_set)

lemma find_sanitize:
  "FindStatusCondition C (sanitizeConditions cs) t =
     map_option (\<lambda>c. if cond_Reason c = [] then c\<lparr>cond_Reason := conditionReasonUnknown\<rparr> else c)
       (FindStatusCondition C cs t)"
  by (induction cs) (auto simp: find_first sanitizeConditions_def)

lemma is_true_sanitize [simp]:
  "IsStatusConditionTrue C (sanitizeConditions cs) t = IsStatusConditionTrue C cs t"
  by (auto simp: is_true find_sanitize map_option_case split: option.splits)

lemma find_type: "FindStatusCondition C cs t = Some r \<Longrightarrow> cond_Type r = t"
  by (auto simp: find_first find_Some_iff)

lemma is_true_found:
  "FindStatusCondition C cs t = Some r \<Longrightarrow>
   IsStatusConditionTrue C cs t \<longleftrightarrow> cond_Status r = ConditionTrue"
  by (simp add: is_true)

lemmas cond_simps = find_set is_true_set find_sanitize is_true_sanitize

end

text \<open>An implementation that behaves as documented.\<close>

fun set_cond :: "condition list \<Rightarrow> condition \<Rightarrow> condition list" where
  "set_cond [] c = [c]"
| "set_cond (d # cs) c = (if cond_Type d = cond_Type c then c # cs else d # set_cond cs c)"

definition find_cond :: "condition list \<Rightarrow> string \<Rightarrow> condition option" where
  "find_cond cs t = find (\<lambda>c. cond_Type c = t) cs"

definition documented_conditions :: conditions_api where
  "documented_conditions =
     \<lparr>SetStatusCondition = set_cond, FindStatusCondition = find_cond,
      IsStatusConditionTrue = (\<lambda>cs t. case find_cond cs t of
         None \<Rightarrow> False | Some c \<Rightarrow> cond_Status c = ConditionTrue)\<rparr>"

lemma set_cond_types: "set (map cond_Type (set_cond cs c)) = insert (cond_Type c) (set (map cond_Type cs))"
  by (induction cs) auto

interpretation documented: status_conditions documented_conditions
proof
  fix cs :: "condition list" and c :: condition and t :: string
  show "FindStatusCondition documented_conditions cs t = find (\<lambda>c. cond_Type c = t) cs"
    by (simp add: documented_conditions_def find_cond_def)
  show "FindStatusCondition documented_conditions
          (SetStatusCondition documented_conditions cs c) (cond_Type c) = Some c"
    by (induction cs) (auto simp: documented_conditions_def find_cond_def)
  show "t \<noteq> cond_Type c \<Longrightarrow>
        FindStatusCondition documented_conditions (SetStatusCondition documented_conditions cs c) t
        = FindStatusCondition documented_conditions cs t"
    by (induction cs) (auto simp: documented_conditions_def find_cond_def)
  show "distinct (map cond_Type cs) \<Longrightarrow>
        distinct (map cond_Type (SetStatusCondition documented_conditions cs c))"
    using set_cond_types by (induction cs) (auto simp: documented_conditions_def)
  show "IsStatusConditionTrue documented_conditions cs t \<longleftrightarrow>
        (\<exists>c. FindStatusCondition documented_conditions cs t = Some c \<and> cond_Status c = ConditionTrue)"
    by (auto simp: documented_conditions_def split: option.splits)
qed

end
