(* ===== verification/Platform.thy ===== *)
theory Platform
  imports Prelude
begin

text \<open>
  The constants of \<open>internal/metadata\<close> and the helpers of \<open>internal/platform/platform.go\<close>,
  with the namespace resolution of \<open>workbenches_controller.go\<close> and \<open>cmd/main.go\<close> that is built
  on them. \<open>validation.IsDNS1123Label\<close> belongs to \<open>k8s.io/apimachinery\<close>: it is the argument
  \<open>isDNS1123Label\<close>, which returns the list of complaints about a name.
\<close>

section \<open>Labels and annotations\<close>

definition ConnectionAnnotation :: string where
  "ConnectionAnnotation = ''opendatahub.io/connections''"

definition HardwareProfileNameAnnotation :: string where
  "HardwareProfileNameAnnotation = ''opendatahub.io/hardware-profile-name''"

definition HardwareProfileNamespaceAnnotation :: string where
  "HardwareProfileNamespaceAnnotation = ''opendatahub.io/hardware-profile-namespace''"

definition ManagedAnnotation :: string where
  "ManagedAnnotation = ''opendatahub.io/managed''"

definition IngressContractAnnotationKey :: string where
  "IngressContractAnnotationKey = ''opendatahub.io/ingress-contract''"

definition OwnedNamespaceLabel :: string where
  "OwnedNamespaceLabel = ''opendatahub.io/generated-namespace''"

definition ComponentLabelKey :: string where
  "ComponentLabelKey = ''app.opendatahub.io/workbenches''"

definition PartOfLabelKey :: string where
  "PartOfLabelKey = ''app.kubernetes.io/part-of''"

definition ComponentLabelValue :: string where
  "ComponentLabelValue = ''workbenches''"

definition LabelTrue :: string where
  "LabelTrue = ''true''"

definition ComponentNameLabelKey :: string where
  "ComponentNameLabelKey = ''component.opendatahub.io/name''"

lemma label_keys_distinct [simp]:
  "ComponentLabelKey \<noteq> PartOfLabelKey" "PartOfLabelKey \<noteq> ComponentLabelKey"
  "ComponentNameLabelKey \<noteq> ComponentLabelKey" "ComponentLabelKey \<noteq> ComponentNameLabelKey"
  "ComponentNameLabelKey \<noteq> PartOfLabelKey" "PartOfLabelKey \<noteq> ComponentNameLabelKey"
  by (simp_all add: ComponentLabelKey_def PartOfLabelKey_def ComponentNameLabelKey_def)

lemma hwp_annotations_distinct [simp]:
  "HardwareProfileNameAnnotation \<noteq> HardwareProfileNamespaceAnnotation"
  "HardwareProfileNamespaceAnnotation \<noteq> HardwareProfileNameAnnotation"
  by (simp_all add: HardwareProfileNameAnnotation_def HardwareProfileNamespaceAnnotation_def)

section \<open>Platform types\<close>

definition OpenDataHub :: string where
  "OpenDataHub = ''OpenDataHub''"

definition SelfManagedRhoai :: string where
  "SelfManagedRhoai = ''SelfManagedRhoai''"

definition DefaultApplicationsNamespaceODH :: string where
  "DefaultApplicationsNamespaceODH = ''opendatahub''"

definition DefaultApplicationsNamespaceRHOAI :: string where
  "DefaultApplicationsNamespaceRHOAI = ''redhat-ods-applications''"

definition LegacyWorkbenchNamespaceODH :: string where
  "LegacyWorkbenchNamespaceODH = DefaultApplicationsNamespaceODH"

definition LegacyWorkbenchNamespaceRHOAI :: string where
  "LegacyWorkbenchNamespaceRHOAI = ''rhods-notebooks''"

definition platform_IsValid :: "string \<Rightarrow> bool" where
  "platform_IsValid platformType \<longleftrightarrow> platformType = OpenDataHub \<or> platformType = SelfManagedRhoai"

definition SectionTitle :: "string \<Rightarrow> string" where
  "SectionTitle platformType =
     (let titles = [(SelfManagedRhoai, ''OpenShift Self Managed Services''),
                    (OpenDataHub, ''OpenShift Open Data Hub'')]
      in case map_of titles platformType of
           Some title \<Rightarrow> title
         | None \<Rightarrow> get_str titles OpenDataHub)"

definition ValidApplicationsNamespace :: "(string \<Rightarrow> string list) \<Rightarrow> string \<Rightarrow> string" where
  "ValidApplicationsNamespace isDNS1123Label name =
     (let name = TrimSpace name
      in if name \<noteq> [] \<and> length (isDNS1123Label name) = 0 then name else [])"

definition DefaultApplicationsNamespace :: "string \<Rightarrow> string" where
  "DefaultApplicationsNamespace platformType =
     (if platformType = SelfManagedRhoai then DefaultApplicationsNamespaceRHOAI
      else DefaultApplicationsNamespaceODH)"

definition DefaultLegacyWorkbenchNamespace :: "string \<Rightarrow> string" where
  "DefaultLegacyWorkbenchNamespace platformType =
     (if platformType = SelfManagedRhoai then LegacyWorkbenchNamespaceRHOAI
      else LegacyWorkbenchNamespaceODH)"

lemmas platform_defs =
  OpenDataHub_def SelfManagedRhoai_def DefaultApplicationsNamespaceODH_def
  DefaultApplicationsNamespaceRHOAI_def LegacyWorkbenchNamespaceODH_def
  LegacyWorkbenchNamespaceRHOAI_def

section \<open>Resolving the operand namespace\<close>

text \<open>
  \<open>env\<close> is \<open>os.Getenv\<close>. \<open>main\<close> resolves the environment variable once
  (\<open>resolveApplicationsNamespace\<close>) and stores the result in the reconciler, which validates it
  again on every use (\<open>configuredApplicationsNamespace\<close>).
\<close>

definition resolveApplicationsNamespace ::
  "(string \<Rightarrow> string list) \<Rightarrow> (string \<Rightarrow> string) \<Rightarrow> string" where
  "resolveApplicationsNamespace isDNS1123Label env =
     (let provided = env ''APPLICATIONS_NAMESPACE'';
          valid = ValidApplicationsNamespace isDNS1123Label provided
      in if valid \<noteq> [] then valid else [])"

definition configuredApplicationsNamespace :: "(string \<Rightarrow> string list) \<Rightarrow> string \<Rightarrow> string" where
  "configuredApplicationsNamespace isDNS1123Label ApplicationsNamespace =
     ValidApplicationsNamespace isDNS1123Label ApplicationsNamespace"

definition resolveOperandNamespace ::
  "(string \<Rightarrow> string list) \<Rightarrow> string \<Rightarrow> string \<Rightarrow> string" where
  "resolveOperandNamespace isDNS1123Label ApplicationsNamespace platformType =
     (let ns = configuredApplicationsNamespace isDNS1123Label ApplicationsNamespace
      in if ns \<noteq> [] then ns else DefaultApplicationsNamespace platformType)"

definition platformConfigWatchNamespaces ::
  "(string \<Rightarrow> string list) \<Rightarrow> string \<Rightarrow> string list" where
  "platformConfigWatchNamespaces isDNS1123Label ApplicationsNamespace =
     (let ns = configuredApplicationsNamespace isDNS1123Label ApplicationsNamespace
      in if ns \<noteq> [] then [ns]
         else [DefaultApplicationsNamespaceODH, DefaultApplicationsNamespaceRHOAI])"

text \<open>The namespaces whose ConfigMaps the informer cache of \<open>main\<close> holds.\<close>

definition cmNamespaces :: "string \<Rightarrow> string list" where
  "cmNamespaces applicationsNamespace =
     (if applicationsNamespace \<noteq> [] then [applicationsNamespace]
      else [DefaultApplicationsNamespaceODH, DefaultApplicationsNamespaceRHOAI])"

lemma ValidApplicationsNamespace_nonempty:
  "ValidApplicationsNamespace d name \<noteq> [] \<longleftrightarrow>
     TrimSpace name \<noteq> [] \<and> d (TrimSpace name) = []"
  by (simp add: ValidApplicationsNamespace_def Let_def)

lemma ValidApplicationsNamespace_idem [simp]:
  "ValidApplicationsNamespace d (ValidApplicationsNamespace d name) =
   ValidApplicationsNamespace d name"
  by (simp add: ValidApplicationsNamespace_def Let_def)

lemma ValidApplicationsNamespace_Nil [simp]: "ValidApplicationsNamespace d [] = []"
  by (simp add: ValidApplicationsNamespace_def)

lemma DefaultApplicationsNamespace_nonempty [simp]: "DefaultApplicationsNamespace p \<noteq> []"
  by (simp add: DefaultApplicationsNamespace_def platform_defs)

lemma resolveOperandNamespace_nonempty [simp]: "resolveOperandNamespace d n p \<noteq> []"
  by (simp add: resolveOperandNamespace_def Let_def)

lemma resolveOperandNamespace_watched:
  "resolveOperandNamespace d n p \<in> set (platformConfigWatchNamespaces d n)"
  by (simp add: resolveOperandNamespace_def platformConfigWatchNamespaces_def Let_def
      DefaultApplicationsNamespace_def)

text \<open>
  Namespace resolution is coherent across the process. With the value that main stores in the
  reconciler, the operand namespace a Workbenches resource resolves to is never empty, is one of
  the namespaces the platform-config watch accepts, and is one of the namespaces whose ConfigMaps
  the informer cache holds, so a ConfigMap written there is both cached and watched; and when the
  environment variable holds a valid label, that label is the operand namespace on every platform.
\<close>

lemma operand_namespace_coherent:
  fixes d :: "string \<Rightarrow> string list" and env :: "string \<Rightarrow> string" and p :: string
  defines "apps \<equiv> resolveApplicationsNamespace d env"
  defines "ns \<equiv> resolveOperandNamespace d apps p"
  shows "ns \<noteq> [] \<and> ns \<in> set (platformConfigWatchNamespaces d apps) \<and> ns \<in> set (cmNamespaces apps)
    \<and> set (platformConfigWatchNamespaces d apps) = set (cmNamespaces apps)
    \<and> (if d (TrimSpace (env ''APPLICATIONS_NAMESPACE'')) = []
          \<and> TrimSpace (env ''APPLICATIONS_NAMESPACE'') \<noteq> []
       then ns = TrimSpace (env ''APPLICATIONS_NAMESPACE'')
       else ns = DefaultApplicationsNamespace p)"
proof -
  have apps: "configuredApplicationsNamespace d apps = apps"
    unfolding apps_def resolveApplicationsNamespace_def configuredApplicationsNamespace_def Let_def
    by simp
  have watch: "platformConfigWatchNamespaces d apps = cmNamespaces apps"
    by (simp add: platformConfigWatchNamespaces_def cmNamespaces_def apps Let_def)
  have "ns \<in> set (platformConfigWatchNamespaces d apps)"
    unfolding ns_def by (rule resolveOperandNamespace_watched)
  moreover have "ns = (if apps \<noteq> [] then apps else DefaultApplicationsNamespace p)"
    by (simp add: ns_def resolveOperandNamespace_def apps Let_def)
  moreover have "apps = ValidApplicationsNamespace d (env ''APPLICATIONS_NAMESPACE'')"
    by (simp add: apps_def resolveApplicationsNamespace_def Let_def)
  ultimately show ?thesis
    using watch by (auto simp: ns_def ValidApplicationsNamespace_def Let_def)
qed

end
