(* ===== verification/Environment.thy ===== *)
theory Environment
  imports Client Conditions Platform
begin

text \<open>
  What surrounds the reconciler: the file system, the codecs and the libraries it calls, and the
  fields of \<open>WorkbenchesReconciler\<close>. The file system shares the state \<open>'s\<close> of the client, so a
  model of a run threads one state through API calls and file operations in the order of the code.
\<close>

section \<open>Files\<close>

text \<open>
  An entry that \<open>filepath.WalkDir\<close> hands to its callback: an error, a directory, a symbolic link
  or another file.
\<close>

datatype walk_entry = WalkError goerror | WalkDirectory | WalkSymlink | WalkFile

text \<open>
  The calls of \<open>os\<close> and of \<open>filesys.FileSystem\<close>. \<open>fs_Stat\<close> tells whether the path is a
  directory. \<open>fs_WalkDir\<close> lists what the walk visits, in order.
\<close>

record 's filesys =
  fs_ReadFile :: "string \<Rightarrow> 's \<Rightarrow> string res \<times> 's"
  fs_WriteFile :: "string \<Rightarrow> string \<Rightarrow> 's \<Rightarrow> unit res \<times> 's"
  fs_Exists :: "string \<Rightarrow> 's \<Rightarrow> bool \<times> 's"
  fs_Stat :: "string \<Rightarrow> 's \<Rightarrow> bool res \<times> 's"
  fs_ReadDir :: "string \<Rightarrow> 's \<Rightarrow> string list res \<times> 's"
  fs_IsDir :: "string \<Rightarrow> 's \<Rightarrow> bool \<times> 's"
  fs_MkdirAll :: "string \<Rightarrow> 's \<Rightarrow> unit res \<times> 's"
  fs_MkdirTemp :: "'s \<Rightarrow> string res \<times> 's"
  fs_RemoveAll :: "string \<Rightarrow> 's \<Rightarrow> unit res \<times> 's"
  fs_WalkDir :: "string \<Rightarrow> 's \<Rightarrow> (string \<times> walk_entry) list \<times> 's"

section \<open>Finalizers\<close>

text \<open>
  \<open>controllerutil.ContainsFinalizer\<close>, \<open>AddFinalizer\<close> and \<open>RemoveFinalizer\<close>, as functions on the list of
  finalizers, with what their documentation promises.
\<close>

record finalizer_api =
  ContainsFinalizer :: "string list \<Rightarrow> string \<Rightarrow> bool"
  AddFinalizer :: "string list \<Rightarrow> string \<Rightarrow> string list"
  RemoveFinalizer :: "string list \<Rightarrow> string \<Rightarrow> string list"

locale finalizers =
  fixes Z :: finalizer_api
  assumes contains: "ContainsFinalizer Z fs f \<longleftrightarrow> f \<in> set fs"
    and add: "set (AddFinalizer Z fs f) = insert f (set fs)"
    and remove: "set (RemoveFinalizer Z fs f) = set fs - {f}"

definition list_finalizers :: finalizer_api where
  "list_finalizers =
     \<lparr>ContainsFinalizer = List.member,
      AddFinalizer = (\<lambda>fs f. if List.member fs f then fs else fs @ [f]),
      RemoveFinalizer = (\<lambda>fs f. removeAll f fs)\<rparr>"

interpretation listed: finalizers list_finalizers
  by unfold_locales (auto simp: list_finalizers_def)

section \<open>The reconciler\<close>

text \<open>A resource of a kustomize build: its original id, and its JSON or the error of encoding it.\<close>

record kustomize_resource =
  res_OrgId :: string
  res_MarshalJSON :: "string res"

text \<open>
  The fields of \<open>WorkbenchesReconciler\<close>, with the library functions its methods call:
  \<open>r_UnmarshalContract\<close>, \<open>r_MarshalContract\<close> and \<open>r_MarshalIngresses\<close> are \<open>encoding/json\<close> at the
  types of the contract and of the ingresses, \<open>r_UnmarshalYAML\<close> (\<open>None\<close> for a nil map),
  \<open>r_MarshalYAML\<close> and \<open>r_UnmarshalReleases\<close> are the YAML codecs, \<open>r_YAMLFromMap\<close> and
  \<open>r_YAMLString\<close> are \<open>yaml.FromMap\<close> and \<open>String\<close> of its node, \<open>r_KustomizationTypeMeta\<close> the API
  version and kind of a kustomization, \<open>r_Kustomize\<close> is a run of the kustomizer,
  \<open>r_UnmarshalJSON\<close> decodes an object, and \<open>r_SetControllerReference\<close> is
  \<open>controllerutil.SetControllerReference\<close>.
\<close>

record 's reconciler =
  r_Client :: "'s client"
  r_Files :: "'s filesys"
  r_Conditions :: conditions_api
  r_Unstructured :: unstructured_api
  r_Finalizers :: finalizer_api
  r_IsDNS1123Label :: "string \<Rightarrow> string list"
  r_UnmarshalContract :: "string \<Rightarrow> IngressContractSpec res"
  r_MarshalContract :: "IngressContractSpec \<Rightarrow> string res"
  r_MarshalIngresses :: "Ingress list \<Rightarrow> string res"
  r_UnmarshalYAML :: "string \<Rightarrow> object option res"
  r_MarshalYAML :: "object \<Rightarrow> string res"
  r_UnmarshalReleases :: "string \<Rightarrow> ComponentRelease list res"
  r_YAMLFromMap :: "object \<Rightarrow> json res"
  r_YAMLString :: "json \<Rightarrow> string res"
  r_KustomizationTypeMeta :: "string \<times> string"
  r_Kustomize :: "string \<Rightarrow> 's \<Rightarrow> kustomize_resource list res \<times> 's"
  r_UnmarshalJSON :: "string \<Rightarrow> object res"
  r_SetControllerReference :: "Workbenches \<Rightarrow> object \<Rightarrow> object res"
  r_LookupEnv :: "string \<Rightarrow> string"
  ManifestsBasePath :: string
  r_ApplicationsNamespace :: string

abbreviation r_resolveOperandNamespace :: "'s reconciler \<Rightarrow> string \<Rightarrow> string" where
  "r_resolveOperandNamespace r \<equiv>
     resolveOperandNamespace (r_IsDNS1123Label r) (r_ApplicationsNamespace r)"

text \<open>Setting a condition on the resource, \<open>meta.SetStatusCondition(&wb.Status.Conditions, ...)\<close>.\<close>

definition set_condition :: "conditions_api \<Rightarrow> condition \<Rightarrow> Workbenches \<Rightarrow> Workbenches" where
  "set_condition C c wb =
     wb\<lparr>Status := (Status wb)\<lparr>Conditions := SetStatusCondition C (Conditions (Status wb)) c\<rparr>\<rparr>"

lemma set_condition_simps [simp]:
  "Conditions (Status (set_condition C c wb)) = SetStatusCondition C (Conditions (Status wb)) c"
  "Spec (set_condition C c wb) = Spec wb"
  "wb_Name (set_condition C c wb) = wb_Name wb"
  "Finalizers (set_condition C c wb) = Finalizers wb"
  "Deleting (set_condition C c wb) = Deleting wb"
  "Generation (set_condition C c wb) = Generation wb"
  "Releases (Status (set_condition C c wb)) = Releases (Status wb)"
  "ObservedGeneration (Status (set_condition C c wb)) = ObservedGeneration (Status wb)"
  "st_Distribution (Status (set_condition C c wb)) = st_Distribution (Status wb)"
  "st_IngressContract (Status (set_condition C c wb)) = st_IngressContract (Status wb)"
  "ApplicationsNamespace (Status (set_condition C c wb)) = ApplicationsNamespace (Status wb)"
  "st_WorkbenchNamespace (Status (set_condition C c wb)) = st_WorkbenchNamespace (Status wb)"
  "Phase (Status (set_condition C c wb)) = Phase (Status wb)"
  by (simp_all add: set_condition_def)

section \<open>Concrete surroundings\<close>

text \<open>
  A cluster where every call reports that the object is missing, an empty file system, and a
  reconciler on them with libraries that behave as documented. Concrete runs override the calls they
  need.
\<close>

definition missing :: goerror where
  "missing = ApiErr NotFound ''not found''"

definition empty_client :: "'s client" where
  "empty_client =
     \<lparr>cl_GetWorkbenches = (\<lambda>_ s. (Inl missing, s)),
      cl_UpdateWorkbenches = (\<lambda>wb s. (Inr wb, s)),
      cl_StatusUpdate = (\<lambda>wb s. (Inr wb, s)),
      cl_GetConfigMap = (\<lambda>_ _ s. (Inl missing, s)),
      cl_PatchConfigMap = (\<lambda>_ _ s. (Inr (), s)),
      cl_GetNamespace = (\<lambda>_ s. (Inl missing, s)),
      cl_CreateNamespace = (\<lambda>_ s. (Inr (), s)),
      cl_UpdateNamespace = (\<lambda>_ s. (Inr (), s)),
      cl_ListDeployments = (\<lambda>_ _ s. (Inr [], s)),
      cl_ListImageStreams = (\<lambda>_ _ s. (Inr [], s)),
      cl_Get = (\<lambda>_ _ _ s. (Inl missing, s)),
      cl_List = (\<lambda>_ _ _ s. (Inr [], s)),
      cl_Apply = (\<lambda>_ _ s. (Inr (), s)),
      cl_Delete = (\<lambda>_ s. (Inr (), s))\<rparr>"

definition no_file :: goerror where
  "no_file = ApiErr NotExist ''file does not exist''"

definition empty_files :: "'s filesys" where
  "empty_files =
     \<lparr>fs_ReadFile = (\<lambda>_ s. (Inl no_file, s)),
      fs_WriteFile = (\<lambda>_ _ s. (Inr (), s)),
      fs_Exists = (\<lambda>_ s. (False, s)),
      fs_Stat = (\<lambda>_ s. (Inl no_file, s)),
      fs_ReadDir = (\<lambda>_ s. (Inr [], s)),
      fs_IsDir = (\<lambda>_ s. (False, s)),
      fs_MkdirAll = (\<lambda>_ s. (Inr (), s)),
      fs_MkdirTemp = (\<lambda>s. (Inr ''/tmp/workbenches-manifests-1'', s)),
      fs_RemoveAll = (\<lambda>_ s. (Inr (), s)),
      fs_WalkDir = (\<lambda>_ s. ([], s))\<rparr>"

definition empty_reconciler :: "'s reconciler" where
  "empty_reconciler =
     \<lparr>r_Client = empty_client, r_Files = empty_files, r_Conditions = documented_conditions,
      r_Unstructured = documented_unstructured, r_Finalizers = list_finalizers,
      r_IsDNS1123Label = (\<lambda>_. []),
      r_UnmarshalContract = (\<lambda>raw. Inr \<lparr>ics_Version = raw, ics_SourceGeneration = 1\<rparr>),
      r_MarshalContract = (\<lambda>k. Inr (ics_Version k)), r_MarshalIngresses = (\<lambda>_. Inr ''[]''),
      r_UnmarshalYAML = (\<lambda>_. Inr None), r_MarshalYAML = (\<lambda>_. Inr []),
      r_UnmarshalReleases = (\<lambda>_. Inr []), r_YAMLFromMap = (\<lambda>m. Inr (JObj m)),
      r_YAMLString = (\<lambda>_. Inr []),
      r_KustomizationTypeMeta = (''kustomize.config.k8s.io/v1beta1'', ''Kustomization''),
      r_Kustomize = (\<lambda>_ s. (Inr [], s)), r_UnmarshalJSON = (\<lambda>_. Inr []), r_SetControllerReference = (\<lambda>_ obj. Inr obj),
      r_LookupEnv = (\<lambda>_. []), ManifestsBasePath = ''/opt/manifests'',
      r_ApplicationsNamespace = []\<rparr>"

definition example_spec :: WorkbenchesSpec where
  "example_spec =
     \<lparr>ManagementState = ManagementStateManaged, spec_WorkbenchNamespace = [], GatewayDomain = [],
      Ingresses = [], spec_IngressContract = Some \<lparr>ics_Version = ''v1'', ics_SourceGeneration = 1\<rparr>,
      spec_Platform = OpenDataHub, MLflowEnabled = False, ODHNotebookControllerProbe = None,
      WorkbenchesV2 = None\<rparr>"

definition example_wb :: Workbenches where
  "example_wb =
     \<lparr>wb_Name = WorkbenchesInstanceName, Generation = 1, Finalizers = [], Deleting = False,
      Spec = example_spec,
      Status = \<lparr>Conditions = [], Releases = [], ObservedGeneration = 0,
        st_Distribution = zero_Distribution, Phase = [], ApplicationsNamespace = [],
        st_WorkbenchNamespace = [], st_IngressContract = zero_IngressContractStatus\<rparr>\<rparr>"

lemma example_wb_spec: "Spec example_wb = example_spec"
  by (simp add: example_wb_def)

lemmas example_env = empty_client_def empty_files_def empty_reconciler_def example_wb_def
  example_spec_def missing_def no_file_def

end
