(* ===== verification/Deployments.thy ===== *)
theory Deployments
  imports Platform Client
begin

text \<open>
  The deployment helpers of \<open>workbenches_controller.go\<close>: the availability verdict over the operand
  deployments and the predicate that decides which deployment events start a reconcile.
\<close>

definition hasComponentLabel :: "string gomap \<Rightarrow> bool" where
  "hasComponentLabel labels \<longleftrightarrow> get_str labels ComponentLabelKey = LabelTrue"

definition isManagedPartOfLabel :: "string gomap option \<Rightarrow> bool" where
  "isManagedPartOfLabel obj =
     (case obj of None \<Rightarrow> False | Some labels \<Rightarrow> get_str labels PartOfLabelKey = ComponentLabelValue)"

definition deploymentDesiredReplicas :: "deployment \<Rightarrow> int" where
  "deploymentDesiredReplicas deploy =
     (case d_Replicas deploy of None \<Rightarrow> 1 | Some n \<Rightarrow> n)"

section \<open>The availability verdict\<close>

fun deploymentsAvailability_loop :: "deployment list \<Rightarrow> bool \<times> string" where
  "deploymentsAvailability_loop [] = (True, [])"
| "deploymentsAvailability_loop (d # ds) =
     (let desired = (case d_Replicas d of None \<Rightarrow> 1 | Some n \<Rightarrow> n)
      in if desired < 1 then
           (False, ''deployment '' @ d_Namespace d @ ''/'' @ d_Name d @ '' is scaled to zero'')
         else if ReadyReplicas d < desired then
           (False, ''deployment '' @ d_Namespace d @ ''/'' @ d_Name d @ '' has '' @
              int_str (ReadyReplicas d) @ ''/'' @ int_str desired @ '' ready replicas'')
         else deploymentsAvailability_loop ds)"

definition deploymentsAvailability :: "deployment list \<Rightarrow> bool \<times> string" where
  "deploymentsAvailability deployments =
     (if deployments = [] then (False, ''no notebook controller deployments found'')
      else deploymentsAvailability_loop deployments)"

lemma deploymentsAvailability_loop_iff:
  "fst (deploymentsAvailability_loop ds) \<longleftrightarrow>
     list_all (\<lambda>d. 1 \<le> deploymentDesiredReplicas d
                 \<and> deploymentDesiredReplicas d \<le> ReadyReplicas d) ds"
  by (induction ds) (auto simp: Let_def deploymentDesiredReplicas_def)

lemma deploymentsAvailability_iff:
  "fst (deploymentsAvailability ds) \<longleftrightarrow>
     ds \<noteq> [] \<and> (\<forall>d \<in> set ds. 1 \<le> deploymentDesiredReplicas d
                 \<and> deploymentDesiredReplicas d \<le> ReadyReplicas d)"
  by (simp add: deploymentsAvailability_def deploymentsAvailability_loop_iff list_all_iff)

lemma deploymentsAvailability_msg:
  "snd (deploymentsAvailability ds) = [] \<longleftrightarrow> fst (deploymentsAvailability ds)"
proof -
  have "snd (deploymentsAvailability_loop ds) = [] \<longleftrightarrow> fst (deploymentsAvailability_loop ds)"
    by (induction ds) (auto simp: Let_def)
  then show ?thesis by (simp add: deploymentsAvailability_def)
qed

section \<open>The event predicate\<close>

text \<open>An event object: a Deployment, or another object of which only the labels are read.\<close>

datatype event_object = DeploymentObj deployment | OtherObj "string gomap"

fun event_labels :: "event_object \<Rightarrow> string gomap" where
  "event_labels (DeploymentObj d) = d_Labels d"
| "event_labels (OtherObj l) = l"

definition deploymentStatusChanged :: "deployment \<Rightarrow> deployment \<Rightarrow> bool" where
  "deploymentStatusChanged oldDeploy newDeploy \<longleftrightarrow>
     (let oldDesired = deploymentDesiredReplicas oldDeploy;
          newDesired = deploymentDesiredReplicas newDeploy
      in ReadyReplicas oldDeploy \<noteq> ReadyReplicas newDeploy
         \<or> AvailableReplicas oldDeploy \<noteq> AvailableReplicas newDeploy
         \<or> d_ObservedGeneration oldDeploy \<noteq> d_ObservedGeneration newDeploy
         \<or> UpdatedReplicas oldDeploy \<noteq> UpdatedReplicas newDeploy
         \<or> TotalReplicas oldDeploy \<noteq> TotalReplicas newDeploy
         \<or> oldDesired \<noteq> newDesired)"

fun deploymentAvailabilityChangedPredicate :: "event_object watch_event \<Rightarrow> bool" where
  "deploymentAvailabilityChangedPredicate (CreateEvent obj) = hasComponentLabel (event_labels obj)"
| "deploymentAvailabilityChangedPredicate (UpdateEvent oldObj newObj) =
     (let oldHasLabel = hasComponentLabel (event_labels oldObj);
          newHasLabel = hasComponentLabel (event_labels newObj)
      in if oldHasLabel \<noteq> newHasLabel then True
         else if \<not> newHasLabel then False
         else (case (oldObj, newObj) of
                 (DeploymentObj oldDeploy, DeploymentObj newDeploy) \<Rightarrow>
                   deploymentStatusChanged oldDeploy newDeploy
               | _ \<Rightarrow> True))"
| "deploymentAvailabilityChangedPredicate (DeleteEvent obj) = hasComponentLabel (event_labels obj)"
| "deploymentAvailabilityChangedPredicate (GenericEvent obj) = False"

text \<open>
  What the verdicts over a list of deployments read of one deployment, apart from its name: two
  deployments that agree on it are interchangeable in \<open>deploymentsAvailability\<close>.
\<close>

lemma deploymentsAvailability_cong:
  assumes "d_Namespace d = d_Namespace e" "d_Name d = d_Name e"
    and "deploymentDesiredReplicas d = deploymentDesiredReplicas e"
    and "ReadyReplicas d = ReadyReplicas e"
  shows "deploymentsAvailability (xs @ d # ys) = deploymentsAvailability (xs @ e # ys)"
proof -
  have "deploymentsAvailability_loop (xs @ d # ys) = deploymentsAvailability_loop (xs @ e # ys)"
    using assms by (induction xs) (auto simp: Let_def deploymentDesiredReplicas_def)
  then show ?thesis by (simp add: deploymentsAvailability_def)
qed

lemma predicate_quiet:
  assumes "\<not> deploymentAvailabilityChangedPredicate (UpdateEvent (DeploymentObj d) (DeploymentObj e))"
  shows "hasComponentLabel (d_Labels d) = hasComponentLabel (d_Labels e)
    \<and> (hasComponentLabel (d_Labels e) \<longrightarrow> \<not> deploymentStatusChanged d e)"
  using assms by (auto simp: Let_def split: if_splits)

text \<open>
  If an update event of one deployment is filtered out, the labelled deployments evaluate to the same
  verdict and message before and after it, whatever the other deployments are.
\<close>

lemma filtered_update_keeps_verdict:
  assumes "\<not> deploymentAvailabilityChangedPredicate (UpdateEvent (DeploymentObj d) (DeploymentObj e))"
    and "d_Namespace d = d_Namespace e" and "d_Name d = d_Name e"
  shows "deploymentsAvailability (filter (\<lambda>x. hasComponentLabel (d_Labels x) \<and> P (d_Name x)) (xs @ d # ys)) =
         deploymentsAvailability (filter (\<lambda>x. hasComponentLabel (d_Labels x) \<and> P (d_Name x)) (xs @ e # ys))"
proof (cases "hasComponentLabel (d_Labels e)")
  case True
  with predicate_quiet [OF assms(1)] have "hasComponentLabel (d_Labels d)"
    "deploymentDesiredReplicas d = deploymentDesiredReplicas e" "ReadyReplicas d = ReadyReplicas e"
    by (auto simp: deploymentStatusChanged_def Let_def)
  with True show ?thesis
    using deploymentsAvailability_cong [OF assms(2,3)] assms(3) by simp
next
  case False
  with predicate_quiet [OF assms(1)] show ?thesis by simp
qed

definition example_typed_deployment :: "int \<Rightarrow> deployment" where
  "example_typed_deployment gen =
     \<lparr>d_Namespace = ''opendatahub'', d_Name = ''odh-notebook-controller'', d_Generation = gen,
      d_Labels = [(ComponentLabelKey, LabelTrue)], d_Replicas = None, d_TemplateAnnotations = [],
      ReadyReplicas = 1, AvailableReplicas = 1, d_ObservedGeneration = 1, UpdatedReplicas = 1,
      TotalReplicas = 1\<rparr>"

end
