(* ===== verification/Ingress_Contract.thy ===== *)
theory Ingress_Contract
  imports Environment Deployments
begin

text \<open>
  \<open>internal/controller/ingress_contract.go\<close>: the contract stamp on the pod templates of the notebook
  controllers and the evidence published as \<open>status.ingressContract\<close> with the condition
  IngressContractReady.
\<close>

definition NotebookControllerConfigMap :: string where
  "NotebookControllerConfigMap = ''odh-notebook-controller-config''"

definition conditionTypeIngressContractReady :: string where
  "conditionTypeIngressContractReady = ''IngressContractReady''"

definition notebookControllerComponentNames :: "string list" where
  "notebookControllerComponentNames = [''odh-notebook-controller'', ''kf-notebook-controller'']"

definition ingressContractStamp :: "IngressContractSpec \<Rightarrow> string" where
  "ingressContractStamp contract =
     ics_Version contract @ '':'' @ int_str (ics_SourceGeneration contract)"

definition isNotebookControllerDeployment :: "string gomap option \<Rightarrow> bool" where
  "isNotebookControllerDeployment labels =
     (case labels of
        None \<Rightarrow> False
      | Some labels \<Rightarrow>
          (case map_of labels ComponentNameLabelKey of
             None \<Rightarrow> False
           | Some name \<Rightarrow> List.member notebookControllerComponentNames name))"

section \<open>Stamping\<close>

definition podTemplateAnnotationsPath :: "string list" where
  "podTemplateAnnotationsPath = [''spec'', ''template'', ''metadata'', ''annotations'']"

text \<open>The body of the loop of \<open>stampIngressContract\<close>, for one object.\<close>

definition stampIngressContract_step :: "unstructured_api \<Rightarrow> string \<Rightarrow> object \<Rightarrow> object res" where
  "stampIngressContract_step U val obj =
     (if GetKind U obj \<noteq> ''Deployment'' \<or> \<not> isNotebookControllerDeployment (GetLabels U obj)
      then Inr obj
      else (case NestedMap U obj podTemplateAnnotationsPath of
          Inl err \<Rightarrow>
            Inl (WrapErr (''failed to read pod template annotations for deployment '' @
              GetNamespace U obj @ ''/'' @ GetName U obj @ '': '') err)
        | Inr found \<Rightarrow>
            (let annotations = (case found of None \<Rightarrow> [] | Some a \<Rightarrow> a);
                 annotations = AList.update IngressContractAnnotationKey (JStr val) annotations
             in case SetNestedMap U obj annotations podTemplateAnnotationsPath of
                  Inl err \<Rightarrow>
                    Inl (WrapErr (''failed to set pod template annotations for deployment '' @
                      GetNamespace U obj @ ''/'' @ GetName U obj @ '': '') err)
                | Inr obj' \<Rightarrow> Inr obj')))"

fun stampIngressContract_loop ::
  "unstructured_api \<Rightarrow> string \<Rightarrow> object list \<Rightarrow> object list res" where
  "stampIngressContract_loop U val [] = Inr []"
| "stampIngressContract_loop U val (obj # objects) =
     (case stampIngressContract_step U val obj of
        Inl err \<Rightarrow> Inl err
      | Inr obj' \<Rightarrow>
          (case stampIngressContract_loop U val objects of
             Inl err \<Rightarrow> Inl err
           | Inr objects' \<Rightarrow> Inr (obj' # objects')))"

definition stampIngressContract ::
  "unstructured_api \<Rightarrow> object list \<Rightarrow> IngressContractSpec option \<Rightarrow> object list res" where
  "stampIngressContract U objects contract =
     (case contract of
        None \<Rightarrow> Inr objects
      | Some contract \<Rightarrow> stampIngressContract_loop U (ingressContractStamp contract) objects)"

section \<open>Observing\<close>

text \<open>\<open>%+v\<close> of a contract.\<close>

definition contract_plus_v :: "IngressContractSpec \<Rightarrow> string" where
  "contract_plus_v k =
     ''{Version:'' @ ics_Version k @ '' SourceGeneration:'' @ int_str (ics_SourceGeneration k) @ ''}''"

text \<open>
  The observed contract with a message. The code returns the zero contract with every non-empty
  message, which its caller ignores.
\<close>

definition zero_IngressContractSpec :: IngressContractSpec where
  "zero_IngressContractSpec = \<lparr>ics_Version = [], ics_SourceGeneration = 0\<rparr>"

definition observeIngressContract ::
  "'s reconciler \<Rightarrow> Workbenches \<Rightarrow> IngressContractSpec \<Rightarrow> 's
     \<Rightarrow> (IngressContractSpec \<times> string) \<times> 's" where
  "observeIngressContract r wb specContract s =
     (let nsName = r_resolveOperandNamespace r (spec_Platform (Spec wb))
      in case cl_GetConfigMap (r_Client r) nsName NotebookControllerConfigMap s of
        (Inl err, s') \<Rightarrow>
          ((zero_IngressContractSpec,
            ''failed to read '' @ NotebookControllerConfigMap @ '' ConfigMap: '' @ Error err), s')
      | (Inr config, s') \<Rightarrow>
          (case Option.bind (cm_Data config) (\<lambda>data. map_of data IngressContractConfigMapKey) of
             None \<Rightarrow>
               ((zero_IngressContractSpec,
                 ''contract key '' @ Quote IngressContractConfigMapKey @ '' missing from '' @
                 NotebookControllerConfigMap @ '' ConfigMap''), s')
           | Some raw \<Rightarrow>
               (case r_UnmarshalContract r raw of
                  Inl err \<Rightarrow>
                    ((zero_IngressContractSpec,
                      ''contract data in '' @ NotebookControllerConfigMap @
                      '' ConfigMap is malformed: '' @ Error err), s')
                | Inr observed \<Rightarrow>
                    (if observed \<noteq> specContract then
                       ((zero_IngressContractSpec,
                         ''projected contract '' @ contract_plus_v observed @
                         '' does not match spec '' @ contract_plus_v specContract), s')
                     else ((observed, []), s')))))"

text \<open>
  One pass over the listed deployments. The result is the largest generation with the component
  names that were seen, or the message of an early return.
\<close>

fun rollout_loop ::
  "string \<Rightarrow> deployment list \<Rightarrow> int \<Rightarrow> string list \<Rightarrow> string + int \<times> string list" where
  "rollout_loop expectedStamp [] rolloutGeneration seen = Inr (rolloutGeneration, seen)"
| "rollout_loop expectedStamp (d # ds) rolloutGeneration seen =
     (if \<not> isNotebookControllerDeployment (Some (d_Labels d))
      then rollout_loop expectedStamp ds rolloutGeneration seen
      else
        let seen = get_str (d_Labels d) ComponentNameLabelKey # seen;
            desired = (case d_Replicas d of None \<Rightarrow> 1 | Some n \<Rightarrow> n);
            dname = d_Namespace d @ ''/'' @ d_Name d
        in if desired < 1 then Inl (''deployment '' @ dname @ '' is scaled to zero'')
           else if map_of (d_TemplateAnnotations d) IngressContractAnnotationKey \<noteq> Some expectedStamp
             then Inl (''deployment '' @ dname @
                    '' is not yet carrying the projected ingress contract'')
           else if d_ObservedGeneration d < d_Generation d
             then Inl (''deployment '' @ dname @ '' rollout not observed by controller (generation '' @
                    int_str (d_Generation d) @ '', observed '' @ int_str (d_ObservedGeneration d) @ '')'')
           else if UpdatedReplicas d < desired \<or> ReadyReplicas d < desired \<or> TotalReplicas d \<noteq> desired
             then Inl (''deployment '' @ dname @ '' rollout in progress ('' @
                    int_str (UpdatedReplicas d) @ ''/'' @ int_str desired @ '' updated, '' @
                    int_str (ReadyReplicas d) @ ''/'' @ int_str desired @ '' ready, '' @
                    int_str (TotalReplicas d) @ '' total)'')
           else rollout_loop expectedStamp ds
                  (if d_Generation d > rolloutGeneration then d_Generation d else rolloutGeneration)
                  seen)"

definition ingressContractRolloutGeneration ::
  "'s reconciler \<Rightarrow> Workbenches \<Rightarrow> IngressContractSpec \<Rightarrow> 's \<Rightarrow> (int \<times> string) \<times> 's" where
  "ingressContractRolloutGeneration r wb specContract s =
     (let nsName = r_resolveOperandNamespace r (spec_Platform (Spec wb))
      in case cl_ListDeployments (r_Client r) nsName [(ComponentLabelKey, LabelTrue)] s of
        (Inl err, s') \<Rightarrow> ((0, ''failed to list deployments: '' @ Error err), s')
      | (Inr deployments, s') \<Rightarrow>
          (case rollout_loop (ingressContractStamp specContract) deployments 0 [] of
             Inl msg \<Rightarrow> ((0, msg), s')
           | Inr (rolloutGeneration, seen) \<Rightarrow>
               (case find (\<lambda>name. \<not> List.member seen name) notebookControllerComponentNames of
                  Some name \<Rightarrow>
                    ((0, ''no notebook controller deployment found for component '' @ name), s')
                | None \<Rightarrow> ((rolloutGeneration, []), s'))))"

definition ingress_condition :: "string \<Rightarrow> string \<Rightarrow> string \<Rightarrow> int \<Rightarrow> condition" where
  "ingress_condition st reason msg generation =
     \<lparr>cond_Type = conditionTypeIngressContractReady, cond_Status = st, cond_Reason = reason,
      cond_Message = msg, cond_ObservedGeneration = generation\<rparr>"

definition set_ingress_status :: "IngressContractStatus \<Rightarrow> Workbenches \<Rightarrow> Workbenches" where
  "set_ingress_status st wb = wb\<lparr>Status := (Status wb)\<lparr>st_IngressContract := st\<rparr>\<rparr>"

definition syncIngressContractStatus ::
  "'s reconciler \<Rightarrow> Workbenches \<Rightarrow> 's \<Rightarrow> Workbenches \<times> 's" where
  "syncIngressContractStatus r wb s =
     (case spec_IngressContract (Spec wb) of
        None \<Rightarrow>
          (set_condition (r_Conditions r)
             (ingress_condition ConditionFalse ''IngressContractNotProjected''
                ''spec.ingressContract is not set'' (Generation wb))
             (set_ingress_status zero_IngressContractStatus wb), s)
      | Some contract \<Rightarrow>
          (case observeIngressContract r wb contract s of
            ((observed, projectionMsg), s1) \<Rightarrow>
              if projectionMsg \<noteq> [] then
                (set_condition (r_Conditions r)
                   (ingress_condition ConditionFalse ''IngressContractProjectionPending''
                      projectionMsg (Generation wb))
                   (set_ingress_status zero_IngressContractStatus wb), s1)
              else
                (case ingressContractRolloutGeneration r wb contract s1 of
                  ((rolloutGeneration, rolloutMsg), s2) \<Rightarrow>
                    if rolloutMsg \<noteq> [] then
                      (set_condition (r_Conditions r)
                         (ingress_condition ConditionFalse ''IngressContractRolloutPending''
                            rolloutMsg (Generation wb))
                         (set_ingress_status
                            \<lparr>icst_Version = ics_Version observed,
                             icst_SourceGeneration = ics_SourceGeneration observed,
                             icst_DeploymentGeneration = 0\<rparr> wb), s2)
                    else
                      (set_condition (r_Conditions r)
                         (ingress_condition ConditionTrue ''IngressContractReady''
                            (''ingress contract '' @ ics_Version observed @ '' (sourceGeneration '' @
                             int_str (ics_SourceGeneration observed) @
                             '') projected and operand rollout complete'') (Generation wb))
                         (set_ingress_status
                            \<lparr>icst_Version = ics_Version observed,
                             icst_SourceGeneration = ics_SourceGeneration observed,
                             icst_DeploymentGeneration = rolloutGeneration\<rparr> wb), s2))))"

section \<open>Facts\<close>

lemma ingressContractStamp_inj: "ingressContractStamp k = ingressContractStamp k' \<longleftrightarrow> k = k'"
  using colon_suffix_inj [OF int_str_no_colon int_str_no_colon, of "ics_Version k" _ "ics_Version k'"]
  by (cases k; cases k') (simp add: ingressContractStamp_def int_str_inj)

lemma set_ingress_status_simps [simp]:
  "st_IngressContract (Status (set_ingress_status st wb)) = st"
  "Conditions (Status (set_ingress_status st wb)) = Conditions (Status wb)"
  "Spec (set_ingress_status st wb) = Spec wb"
  "wb_Name (set_ingress_status st wb) = wb_Name wb"
  "Finalizers (set_ingress_status st wb) = Finalizers wb"
  "Deleting (set_ingress_status st wb) = Deleting wb"
  "Generation (set_ingress_status st wb) = Generation wb"
  "Releases (Status (set_ingress_status st wb)) = Releases (Status wb)"
  "ObservedGeneration (Status (set_ingress_status st wb)) = ObservedGeneration (Status wb)"
  "st_Distribution (Status (set_ingress_status st wb)) = st_Distribution (Status wb)"
  "ApplicationsNamespace (Status (set_ingress_status st wb)) = ApplicationsNamespace (Status wb)"
  "st_WorkbenchNamespace (Status (set_ingress_status st wb)) = st_WorkbenchNamespace (Status wb)"
  "Phase (Status (set_ingress_status st wb)) = Phase (Status wb)"
  by (simp_all add: set_ingress_status_def)

subsection \<open>The rollout\<close>

text \<open>What the evidence asks of one deployment.\<close>

definition rolled_out :: "string \<Rightarrow> deployment \<Rightarrow> bool" where
  "rolled_out stamp d \<longleftrightarrow>
     1 \<le> deploymentDesiredReplicas d
     \<and> map_of (d_TemplateAnnotations d) IngressContractAnnotationKey = Some stamp
     \<and> d_Generation d \<le> d_ObservedGeneration d
     \<and> deploymentDesiredReplicas d \<le> UpdatedReplicas d
     \<and> deploymentDesiredReplicas d \<le> ReadyReplicas d
     \<and> TotalReplicas d = deploymentDesiredReplicas d"

definition controllers :: "deployment list \<Rightarrow> deployment list" where
  "controllers ds = filter (\<lambda>d. isNotebookControllerDeployment (Some (d_Labels d))) ds"

definition rollout_complete :: "IngressContractSpec \<Rightarrow> deployment list \<Rightarrow> bool" where
  "rollout_complete k ds \<longleftrightarrow>
     (\<forall>d \<in> set (controllers ds). rolled_out (ingressContractStamp k) d)
     \<and> (\<forall>name \<in> set notebookControllerComponentNames.
          \<exists>d \<in> set (controllers ds). map_of (d_Labels d) ComponentNameLabelKey = Some name)"

lemma controllers_simps:
  "controllers [] = []"
  "controllers (d # ds) =
     (if isNotebookControllerDeployment (Some (d_Labels d)) then d # controllers ds
      else controllers ds)"
  by (simp_all add: controllers_def)

lemma rollout_loop_Inr:
  "rollout_loop stamp ds g seen = Inr (g', seen') \<longleftrightarrow>
     (\<forall>d \<in> set (controllers ds). rolled_out stamp d)
     \<and> g' = foldl max g (map d_Generation (controllers ds))
     \<and> seen' = rev (map (\<lambda>d. get_str (d_Labels d) ComponentNameLabelKey) (controllers ds)) @ seen"
  by (induction stamp ds g seen arbitrary: g' seen' rule: rollout_loop.induct)
    (auto simp: controllers_simps rolled_out_def deploymentDesiredReplicas_def Let_def max_def
      not_less simp del: not_le split: if_splits option.splits)

lemma rollout_loop_message: "rollout_loop stamp ds g seen = Inl msg \<Longrightarrow> msg \<noteq> []"
  by (induction stamp ds g seen rule: rollout_loop.induct) (auto simp: Let_def split: if_splits)

lemma controllers_named:
  "d \<in> set (controllers ds) \<Longrightarrow>
   map_of (d_Labels d) ComponentNameLabelKey = Some (get_str (d_Labels d) ComponentNameLabelKey)"
  by (auto simp: controllers_def isNotebookControllerDeployment_def get_str_def split: option.splits)

lemma all_controllers_seen:
  "find (\<lambda>name. \<not> List.member
      (rev (map (\<lambda>d. get_str (d_Labels d) ComponentNameLabelKey) (controllers ds))) name) names = None
   \<longleftrightarrow> (\<forall>name \<in> set names.
         \<exists>d \<in> set (controllers ds). map_of (d_Labels d) ComponentNameLabelKey = Some name)"
proof -
  have "map_of (d_Labels d) ComponentNameLabelKey = Some name \<longleftrightarrow>
        name = get_str (d_Labels d) ComponentNameLabelKey" if "d \<in> set (controllers ds)" for d name
    using controllers_named [OF that] by auto
  then show ?thesis by (auto simp: find_None_iff image_iff)
qed

text \<open>The list call that supplies the evidence.\<close>

abbreviation list_operands ::
  "'s reconciler \<Rightarrow> Workbenches \<Rightarrow> 's \<Rightarrow> deployment list res \<times> 's" where
  "list_operands r wb s \<equiv>
     cl_ListDeployments (r_Client r) (r_resolveOperandNamespace r (spec_Platform (Spec wb)))
       [(ComponentLabelKey, LabelTrue)] s"

lemma rollout_generation_iff:
  "ingressContractRolloutGeneration r wb k s = ((g, []), s') \<longleftrightarrow>
     (\<exists>ds. list_operands r wb s = (Inr ds, s') \<and> rollout_complete k ds
        \<and> g = foldl max 0 (map d_Generation (controllers ds)))"
proof (cases "list_operands r wb s")
  case (Pair res s1)
  show ?thesis
  proof (cases res)
    case (Inl e)
    with Pair show ?thesis by (simp add: ingressContractRolloutGeneration_def)
  next
    case (Inr ds)
    show ?thesis
    proof (cases "rollout_loop (ingressContractStamp k) ds 0 []")
      case (Inl msg)
      then have "\<not> (\<forall>d \<in> set (controllers ds). rolled_out (ingressContractStamp k) d)"
        using rollout_loop_Inr [of "ingressContractStamp k" ds 0 "[]"] by force
      with Pair Inr Inl rollout_loop_message [OF Inl] show ?thesis
        by (auto simp: ingressContractRolloutGeneration_def rollout_complete_def)
    next
      case inr: (Inr gs)
      then show ?thesis
        using Pair Inr rollout_loop_Inr [of "ingressContractStamp k" ds 0 "[]" "fst gs" "snd gs"]
          all_controllers_seen [of ds notebookControllerComponentNames]
        by (auto simp: ingressContractRolloutGeneration_def rollout_complete_def Let_def
            split: option.splits prod.splits)
    qed
  qed
qed

lemma rollout_generation_message:
  "ingressContractRolloutGeneration r wb k s = ((g, m), s') \<Longrightarrow> m \<noteq> [] \<Longrightarrow> g = 0"
  by (auto simp: ingressContractRolloutGeneration_def Let_def
      split: option.splits prod.splits sum.splits)

subsection \<open>The projection\<close>

definition projected :: "'s reconciler \<Rightarrow> configmap \<Rightarrow> IngressContractSpec \<Rightarrow> bool" where
  "projected r config k \<longleftrightarrow>
     (\<exists>data raw. cm_Data config = Some data \<and> map_of data IngressContractConfigMapKey = Some raw
        \<and> r_UnmarshalContract r raw = Inr k)"

abbreviation get_config ::
  "'s reconciler \<Rightarrow> Workbenches \<Rightarrow> 's \<Rightarrow> configmap res \<times> 's" where
  "get_config r wb s \<equiv>
     cl_GetConfigMap (r_Client r) (r_resolveOperandNamespace r (spec_Platform (Spec wb)))
       NotebookControllerConfigMap s"

lemma observe_iff:
  "observeIngressContract r wb k s = ((k', []), s') \<longleftrightarrow>
     (\<exists>config. get_config r wb s = (Inr config, s') \<and> projected r config k \<and> k' = k)"
  by (auto simp: observeIngressContract_def projected_def Let_def bind_eq_None_conv bind_eq_Some_conv
      split: prod.splits sum.splits option.splits if_splits)

text \<open>The evidence in one formula: the two reads, in order, and what they must return.\<close>

definition contract_confirmed ::
  "'s reconciler \<Rightarrow> Workbenches \<Rightarrow> 's \<Rightarrow> IngressContractSpec \<Rightarrow> deployment list \<Rightarrow> bool" where
  "contract_confirmed r wb s k ds \<longleftrightarrow>
     spec_IngressContract (Spec wb) = Some k
     \<and> (\<exists>config s1 s2. get_config r wb s = (Inr config, s1) \<and> projected r config k
          \<and> list_operands r wb s1 = (Inr ds, s2) \<and> rollout_complete k ds)"

lemma sync_ingress_others:
  assumes "syncIngressContractStatus r wb s = (wb', s')"
  shows "Spec wb' = Spec wb \<and> Generation wb' = Generation wb \<and> wb_Name wb' = wb_Name wb
    \<and> Finalizers wb' = Finalizers wb \<and> Deleting wb' = Deleting wb
    \<and> Releases (Status wb') = Releases (Status wb)
    \<and> st_Distribution (Status wb') = st_Distribution (Status wb)
    \<and> ObservedGeneration (Status wb') = ObservedGeneration (Status wb)
    \<and> Phase (Status wb') = Phase (Status wb)
    \<and> ApplicationsNamespace (Status wb') = ApplicationsNamespace (Status wb)
    \<and> st_WorkbenchNamespace (Status wb') = st_WorkbenchNamespace (Status wb)"
  using assms
  by (auto simp: syncIngressContractStatus_def split: option.splits prod.splits if_splits)

text \<open>Either the contract is confirmed, or the condition becomes False without a generation.\<close>

lemma sync_ingress_cases:
  assumes "syncIngressContractStatus r wb s = (wb', s')"
  obtains (confirmed) k ds msg where
      "contract_confirmed r wb s k ds"
      "wb' = set_condition (r_Conditions r)
               (ingress_condition ConditionTrue ''IngressContractReady'' msg (Generation wb))
               (set_ingress_status
                  \<lparr>icst_Version = ics_Version k, icst_SourceGeneration = ics_SourceGeneration k,
                   icst_DeploymentGeneration = foldl max 0 (map d_Generation (controllers ds))\<rparr> wb)"
    | (pending) reason msg st where
      "\<And>k ds. \<not> contract_confirmed r wb s k ds"
      "wb' = set_condition (r_Conditions r)
               (ingress_condition ConditionFalse reason msg (Generation wb))
               (set_ingress_status st wb)"
      "icst_DeploymentGeneration st = 0"
proof (cases "spec_IngressContract (Spec wb)")
  case None
  with assms pending show ?thesis
    by (auto simp: syncIngressContractStatus_def contract_confirmed_def zero_IngressContractStatus_def)
next
  case (Some k)
  obtain k' m s1 where obs: "observeIngressContract r wb k s = ((k', m), s1)"
    by (metis prod.exhaust)
  obtain g m2 s2 where roll: "ingressContractRolloutGeneration r wb k s1 = ((g, m2), s2)"
    by (metis prod.exhaust)
  show ?thesis
  proof (cases "m = [] \<and> m2 = []")
    case True
    then obtain config ds where "get_config r wb s = (Inr config, s1)" "projected r config k" "k' = k"
      "list_operands r wb s1 = (Inr ds, s2)" "rollout_complete k ds"
      "g = foldl max 0 (map d_Generation (controllers ds))"
      using obs roll by (auto simp: observe_iff rollout_generation_iff)
    moreover from this have "contract_confirmed r wb s k ds"
      using Some by (auto simp: contract_confirmed_def)
    ultimately show ?thesis
      using confirmed assms Some obs roll True by (auto simp: syncIngressContractStatus_def)
  next
    case False
    have "\<not> contract_confirmed r wb s k2 ds" for k2 ds
    proof
      assume "contract_confirmed r wb s k2 ds"
      then obtain config s1' s2' where "get_config r wb s = (Inr config, s1')" "projected r config k"
        and l: "list_operands r wb s1' = (Inr ds, s2')" "rollout_complete k ds"
        using Some by (auto simp: contract_confirmed_def)
      then have "observeIngressContract r wb k s = ((k, []), s1')" by (auto simp: observe_iff)
      moreover from l have "\<exists>g. ingressContractRolloutGeneration r wb k s1' = ((g, []), s2')"
        by (auto simp: rollout_generation_iff)
      ultimately show False using False obs roll by auto
    qed
    with pending False assms Some obs roll show ?thesis
      by (auto simp: syncIngressContractStatus_def zero_IngressContractStatus_def split: if_splits)
  qed
qed

subsection \<open>The stamp\<close>

lemma stamp_loop_Inr:
  "stampIngressContract_loop U val objs = Inr objs' \<longleftrightarrow>
   list_all2 (\<lambda>o1 o2. stampIngressContract_step U val o1 = Inr o2) objs objs'"
proof (induction objs arbitrary: objs')
  case (Cons a objs)
  then show ?case
    by (cases "stampIngressContract_step U val a"; cases "stampIngressContract_loop U val objs")
      (auto simp: list_all2_Cons1 Cons.IH [symmetric])
qed auto

text \<open>What a stamp does to one rendered object.\<close>

definition stamped :: "string \<Rightarrow> object \<Rightarrow> object \<Rightarrow> bool" where
  "stamped val obj obj' \<longleftrightarrow>
     nested_field (JObj obj') (podTemplateAnnotationsPath @ [IngressContractAnnotationKey]) =
       Inr (Some (JStr val))
     \<and> (\<forall>gs. apart (podTemplateAnnotationsPath @ [IngressContractAnnotationKey]) gs \<longrightarrow>
          nested_field (JObj obj') gs = nested_field (JObj obj) gs)"

definition carries_contract :: "unstructured_api \<Rightarrow> object \<Rightarrow> bool" where
  "carries_contract U obj \<longleftrightarrow>
     GetKind U obj = ''Deployment'' \<and> isNotebookControllerDeployment (GetLabels U obj)"

context unstructured
begin

lemma stamp_step:
  assumes "stampIngressContract_step U val obj = Inr obj'"
  shows "if carries_contract U obj then stamped val obj obj' else obj' = obj"
proof (cases "carries_contract U obj")
  case False
  with assms show ?thesis
    by (auto simp: stampIngressContract_step_def carries_contract_def)
next
  case True
  with assms obtain found where
    f: "nested_as as_obj obj podTemplateAnnotationsPath = Inr found"
    and st: "set_nested obj (JObj (AList.update IngressContractAnnotationKey (JStr val)
        (case found of None \<Rightarrow> [] | Some a \<Rightarrow> a))) podTemplateAnnotationsPath = Inr obj'"
    by (auto simp: stampIngressContract_step_def carries_contract_def api Let_def
        podTemplateAnnotationsPath_def split: sum.splits)
  have "nested_field (JObj obj) podTemplateAnnotationsPath =
          Inr (Some (JObj (case found of None \<Rightarrow> [] | Some a \<Rightarrow> a)))
      \<or> nested_field (JObj obj) podTemplateAnnotationsPath = Inr None
        \<and> (case found of None \<Rightarrow> [] | Some a \<Rightarrow> a) = []"
    using f by (cases found) (auto simp: nested_as_missing nested_as_found)
  from nested_update_key [OF st this] True show ?thesis by (simp add: stamped_def)
qed

end

section \<open>Properties\<close>

text \<open>
  C2: The ingress evidence is sound and complete for what the operator read. After the status is
  synchronised, IngressContractReady is True exactly when a contract is set in the spec, the notebook
  controller ConfigMap was read and decodes to that same contract, and the deployments listed
  afterwards show a complete rollout: both notebook controllers exist and every one of them wants
  at least one replica, carries the stamp of this very contract, has its generation observed and all
  replicas updated, ready and no surplus. When True, the evidence names the contract and the largest
  generation among them; when False, it carries no deployment generation. Nothing else of the
  resource changes, and conditions of other types are kept.
\<close>

theorem ingress_evidence_sound:
  assumes "status_conditions (r_Conditions r)"
    and "syncIngressContractStatus r wb s = (wb', s')"
  shows "(IsStatusConditionTrue (r_Conditions r) (Conditions (Status wb'))
            conditionTypeIngressContractReady \<longleftrightarrow> (\<exists>k ds. contract_confirmed r wb s k ds))
    \<and> (\<forall>k ds. contract_confirmed r wb s k ds \<longrightarrow>
         st_IngressContract (Status wb') =
           \<lparr>icst_Version = ics_Version k, icst_SourceGeneration = ics_SourceGeneration k,
            icst_DeploymentGeneration = foldl max 0 (map d_Generation (controllers ds))\<rparr>)
    \<and> ((\<nexists>k ds. contract_confirmed r wb s k ds) \<longrightarrow>
         icst_DeploymentGeneration (st_IngressContract (Status wb')) = 0)
    \<and> (\<forall>t. t \<noteq> conditionTypeIngressContractReady \<longrightarrow>
         FindStatusCondition (r_Conditions r) (Conditions (Status wb')) t =
         FindStatusCondition (r_Conditions r) (Conditions (Status wb)) t)
    \<and> Spec wb' = Spec wb \<and> Releases (Status wb') = Releases (Status wb)
    \<and> st_Distribution (Status wb') = st_Distribution (Status wb)
    \<and> Phase (Status wb') = Phase (Status wb)"
proof -
  have unique: "k = k' \<and> ds = ds'"
    if "contract_confirmed r wb s k ds" "contract_confirmed r wb s k' ds'" for k k' ds ds'
    using that by (auto simp: contract_confirmed_def)
  from assms(2) show ?thesis
  proof (cases rule: sync_ingress_cases)
    case (confirmed k ds msg)
    with unique show ?thesis
      by (auto simp: status_conditions.is_true_set [OF assms(1)] status_conditions.find_set [OF assms(1)]
          ingress_condition_def)
  next
    case (pending reason msg st)
    then show ?thesis
      by (auto simp: status_conditions.is_true_set [OF assms(1)] status_conditions.find_set [OF assms(1)]
          ingress_condition_def)
  qed
qed

definition example_controller :: "string \<Rightarrow> int \<Rightarrow> deployment" where
  "example_controller name gen =
     \<lparr>d_Namespace = ''opendatahub'', d_Name = name, d_Generation = gen,
      d_Labels = [(ComponentLabelKey, LabelTrue), (ComponentNameLabelKey, name)],
      d_Replicas = None, d_TemplateAnnotations = [(IngressContractAnnotationKey, ''v1:1'')],
      ReadyReplicas = 1, AvailableReplicas = 1, d_ObservedGeneration = gen, UpdatedReplicas = 1,
      TotalReplicas = 1\<rparr>"

definition example_controllers :: "deployment list" where
  "example_controllers =
     [example_controller ''odh-notebook-controller'' 3, example_controller ''kf-notebook-controller'' 7]"

definition example_ingress_reconciler :: "unit reconciler" where
  "example_ingress_reconciler = empty_reconciler
     \<lparr>r_Client := empty_client
        \<lparr>cl_GetConfigMap := (\<lambda>ns name s.
            (Inr \<lparr>cm_Namespace = ns, cm_Name = name,
                  cm_Data = Some [(IngressContractConfigMapKey, ''v1'')]\<rparr>, s)),
          cl_ListDeployments := (\<lambda>ns sel s. (Inr example_controllers, s))\<rparr>\<rparr>"

lemma example_rollout:
  "rollout_complete \<lparr>ics_Version = ''v1'', ics_SourceGeneration = 1\<rparr> example_controllers"
  "foldl max 0 (map d_Generation (controllers example_controllers)) = 7"
  by (simp_all add: rollout_complete_def rolled_out_def controllers_def example_controllers_def
      example_controller_def isNotebookControllerDeployment_def notebookControllerComponentNames_def
      deploymentDesiredReplicas_def ingressContractStamp_def int_str_def nat_str.simps digit_char_def
      get_str_def)

theorem ingress_evidence_sound_witness:
  "icst_DeploymentGeneration (st_IngressContract (Status
     (fst (syncIngressContractStatus example_ingress_reconciler example_wb ())))) = 7"
proof -
  let ?r = example_ingress_reconciler
  obtain wb' where run: "syncIngressContractStatus ?r example_wb () = (wb', ())"
    by (metis prod.exhaust unit.exhaust)
  have "contract_confirmed ?r example_wb () \<lparr>ics_Version = ''v1'', ics_SourceGeneration = 1\<rparr>
      example_controllers"
    using example_rollout(1)
    by (simp add: contract_confirmed_def projected_def example_ingress_reconciler_def example_env)
  moreover have "status_conditions (r_Conditions ?r)"
    using documented.status_conditions_axioms
    by (simp add: example_ingress_reconciler_def empty_reconciler_def)
  ultimately show ?thesis
    using ingress_evidence_sound [OF _ run] run example_rollout(2) by simp
qed

text \<open>
  C25: The contract stamp is exact. Stamping a rendered group with a contract writes that contract's
  stamp at the annotation of the pod template of every notebook controller Deployment and changes no
  other field of it; every other object stays as it is. Without a contract nothing changes. Two
  contracts have the same stamp only when they are equal, so the rollout check cannot accept the
  stamp of another contract.
\<close>

theorem ingress_stamp_exact:
  assumes "unstructured U" and "stampIngressContract U objects (Some k) = Inr objects'"
  shows "list_all2 (\<lambda>obj obj'. if carries_contract U obj
             then stamped (ingressContractStamp k) obj obj' else obj' = obj) objects objects'
    \<and> stampIngressContract U objects None = Inr objects
    \<and> (ingressContractStamp k = ingressContractStamp k2 \<longleftrightarrow> k = k2)"
proof -
  from assms(2) have "list_all2 (\<lambda>o1 o2. stampIngressContract_step U (ingressContractStamp k) o1 = Inr o2)
      objects objects'"
    by (simp add: stampIngressContract_def stamp_loop_Inr)
  then have "list_all2 (\<lambda>obj obj'. if carries_contract U obj
             then stamped (ingressContractStamp k) obj obj' else obj' = obj) objects objects'"
    by (rule list_all2_mono) (rule unstructured.stamp_step [OF assms(1)])
  then show ?thesis by (simp add: stampIngressContract_def ingressContractStamp_inj)
qed

definition example_rendered_controller :: object where
  "example_rendered_controller =
     [(''kind'', JStr ''Deployment''),
      (''metadata'', JObj [(''labels'', JObj [(ComponentNameLabelKey, JStr ''odh-notebook-controller'')])])]"

theorem ingress_stamp_exact_witness:
  "\<exists>obj'. stampIngressContract documented_unstructured [example_rendered_controller]
             (Some \<lparr>ics_Version = ''v1'', ics_SourceGeneration = 1\<rparr>) = Inr [obj']
     \<and> stamped ''v1:1'' example_rendered_controller obj'"
proof -
  let ?k = "\<lparr>ics_Version = ''v1'', ics_SourceGeneration = 1\<rparr>"
  have carries: "carries_contract documented_unstructured example_rendered_controller"
    by (simp add: carries_contract_def doc.api example_rendered_controller_def meta_str_def
        nested_as_def found_or_none_def string_map_def isNotebookControllerDeployment_def
        notebookControllerComponentNames_def)
  have "\<exists>obj'. stampIngressContract documented_unstructured [example_rendered_controller] (Some ?k)
      = Inr [obj']"
    using carries
    by (simp add: stampIngressContract_def stampIngressContract_step_def carries_contract_def)
      (simp add: doc.api podTemplateAnnotationsPath_def nested_as_def example_rendered_controller_def)
  then obtain obj' where run:
    "stampIngressContract documented_unstructured [example_rendered_controller] (Some ?k) = Inr [obj']"
    by blast
  have "ingressContractStamp ?k = ''v1:1''"
    by (simp add: ingressContractStamp_def int_str_def nat_str.simps digit_char_def)
  with run carries show ?thesis
    using ingress_stamp_exact [OF doc.unstructured_axioms run, of ?k] by auto
qed

end
