(* ===== verification/Objects.thy ===== *)
theory Objects
  imports Environment Ingress_Contract
begin

text \<open>
  The rewriting of rendered objects in \<open>internal/controller/manifests.go\<close> and
  \<open>internal/controller/probes.go\<close>: component labels and the selectors that follow them, dropped
  build artifacts, aggregated ClusterRoles, and the probe settings ConfigMap.
\<close>

section \<open>Kinds\<close>

definition kindClusterRole :: string where "kindClusterRole = ''ClusterRole''"
definition kindDeployment :: string where "kindDeployment = ''Deployment''"
definition kindNetworkPolicy :: string where "kindNetworkPolicy = ''NetworkPolicy''"
definition kindService :: string where "kindService = ''Service''"

definition workspaceKindImageParamsConfigMap :: string where
  "workspaceKindImageParamsConfigMap = ''workspacekind-image-params''"

lemmas kind_defs = kindClusterRole_def kindDeployment_def kindNetworkPolicy_def kindService_def

definition clusterScopedKinds :: "string list" where
  "clusterScopedKinds =
     [''Namespace'', ''ClusterRole'', ''ClusterRoleBinding'', ''CustomResourceDefinition'',
      ''MutatingWebhookConfiguration'', ''ValidatingWebhookConfiguration'', ''WorkspaceKind'']"

definition skipOwnerRefKinds :: "string list" where
  "skipOwnerRefKinds = [''Namespace'', ''CustomResourceDefinition'', ''ImageStream'']"

definition isNamespaced :: "unstructured_api \<Rightarrow> object \<Rightarrow> bool" where
  "isNamespaced U obj \<longleftrightarrow> \<not> List.member clusterScopedKinds (GetKind U obj)"

definition shouldSetOwnerReference :: "unstructured_api \<Rightarrow> object \<Rightarrow> bool" where
  "shouldSetOwnerReference U obj \<longleftrightarrow> \<not> List.member skipOwnerRefKinds (GetKind U obj)"

section \<open>Labels\<close>

definition patchNestedLabels :: "unstructured_api \<Rightarrow> object \<Rightarrow> string list \<Rightarrow> object" where
  "patchNestedLabels U obj fieldPath =
     (case NestedStringMap U obj fieldPath of
        Inl err \<Rightarrow> obj
      | Inr None \<Rightarrow> obj
      | Inr (Some nested) \<Rightarrow>
          (let nested = AList.update ComponentLabelKey LabelTrue nested;
               nested = AList.update PartOfLabelKey ComponentLabelValue nested
           in case SetNestedStringMap U obj nested fieldPath of Inl err \<Rightarrow> obj | Inr obj' \<Rightarrow> obj'))"

definition setComponentLabels :: "unstructured_api \<Rightarrow> object \<Rightarrow> object" where
  "setComponentLabels U obj =
     (let labels = (case GetLabels U obj of None \<Rightarrow> [] | Some labels \<Rightarrow> labels);
          labels = AList.update ComponentLabelKey LabelTrue labels;
          labels = AList.update PartOfLabelKey ComponentLabelValue labels;
          obj = SetLabels U obj labels;
          kind = GetKind U obj
      in if kind = kindDeployment then
           (let obj = patchNestedLabels U obj [''spec'', ''selector'', ''matchLabels'']
            in patchNestedLabels U obj [''spec'', ''template'', ''metadata'', ''labels''])
         else if kind = kindService then patchNestedLabels U obj [''spec'', ''selector'']
         else if kind = kindNetworkPolicy then
           patchNestedLabels U obj [''spec'', ''podSelector'', ''matchLabels'']
         else obj)"

section \<open>Artifacts and aggregated roles\<close>

definition prepareRenderedObjects :: "unstructured_api \<Rightarrow> object list \<Rightarrow> object list" where
  "prepareRenderedObjects U objects =
     map (\<lambda>obj. if List.member clusterScopedKinds (GetKind U obj) then SetNamespace U obj [] else obj)
       (filter (\<lambda>obj. \<not> (GetKind U obj = ''ConfigMap''
            \<and> GetName U obj = workspaceKindImageParamsConfigMap)) objects)"

definition stripAggregatedClusterRoleRules :: "unstructured_api \<Rightarrow> object \<Rightarrow> object res" where
  "stripAggregatedClusterRoleRules U obj =
     (if GetKind U obj \<noteq> kindClusterRole then Inr obj
      else (case NestedFieldNoCopy U obj [''aggregationRule''] of
          Inl err \<Rightarrow> Inl (WrapErr ''failed to inspect aggregationRule: '' err)
        | Inr None \<Rightarrow> Inr obj
        | Inr (Some _) \<Rightarrow> Inr (RemoveNestedField U obj [''rules''])))"

section \<open>Probe settings\<close>

definition notebookControllerSettingsConfigMap :: string where
  "notebookControllerSettingsConfigMap = ''notebook-controller-setting-config''"

definition workbenchProbeTimeoutKey :: string where
  "workbenchProbeTimeoutKey = ''WORKBENCH_PROBE_TIMEOUT_SECONDS''"

definition kubernetesDefaultProbeTimeout :: string where
  "kubernetesDefaultProbeTimeout = ''1''"

definition probe_timeout :: "ODHNotebookControllerProbeSpec option \<Rightarrow> string" where
  "probe_timeout probes =
     (case probes of None \<Rightarrow> kubernetesDefaultProbeTimeout | Some p \<Rightarrow> int_str (TimeoutSeconds p))"

definition is_settings :: "unstructured_api \<Rightarrow> string \<Rightarrow> object \<Rightarrow> bool" where
  "is_settings U namespace obj \<longleftrightarrow>
     \<not> (GetAPIVersion U obj \<noteq> ''v1'' \<or> GetKind U obj \<noteq> ''ConfigMap''
        \<or> GetName U obj \<noteq> notebookControllerSettingsConfigMap \<or> GetNamespace U obj \<noteq> namespace)"

text \<open>The loop: \<open>Some\<close> when a settings ConfigMap was found among the objects.\<close>

fun set_probe_timeout ::
  "unstructured_api \<Rightarrow> string \<Rightarrow> string \<Rightarrow> object list \<Rightarrow> object list option res" where
  "set_probe_timeout U timeout namespace [] = Inr None"
| "set_probe_timeout U timeout namespace (obj # objects) =
     (if \<not> is_settings U namespace obj
      then map_sum id (map_option (\<lambda>objects'. obj # objects'))
             (set_probe_timeout U timeout namespace objects)
      else (case SetNestedField U obj (JStr timeout) [''data'', workbenchProbeTimeoutKey] of
          Inl err \<Rightarrow> Inl (WrapErr (''setting '' @ workbenchProbeTimeoutKey @ '': '') err)
        | Inr obj' \<Rightarrow> Inr (Some (obj' # objects))))"

definition settings_object :: "string \<Rightarrow> string \<Rightarrow> object" where
  "settings_object timeout namespace =
     [(''apiVersion'', JStr ''v1''), (''kind'', JStr ''ConfigMap''),
      (''metadata'', JObj [(''name'', JStr notebookControllerSettingsConfigMap),
                           (''namespace'', JStr namespace)]),
      (''data'', JObj [(workbenchProbeTimeoutKey, JStr timeout)])]"

definition configureWorkbenchProbes ::
  "unstructured_api \<Rightarrow> object list \<Rightarrow> ODHNotebookControllerProbeSpec option \<Rightarrow> string
     \<Rightarrow> object list res" where
  "configureWorkbenchProbes U objects probes namespace =
     (let timeout = probe_timeout probes
      in case set_probe_timeout U timeout namespace objects of
           Inl err \<Rightarrow> Inl err
         | Inr (Some objects') \<Rightarrow> Inr objects'
         | Inr None \<Rightarrow> Inr (objects @ [settings_object timeout namespace]))"

section \<open>Facts on labels\<close>

definition labels_at :: "object \<Rightarrow> string list \<Rightarrow> string gomap option" where
  "labels_at obj fs = found_or_none (nested_as string_map obj fs)"

definition component_labelled :: "string gomap \<Rightarrow> string gomap" where
  "component_labelled m =
     AList.update PartOfLabelKey ComponentLabelValue (AList.update ComponentLabelKey LabelTrue m)"

text \<open>A label selector selects the label maps that contain it.\<close>

definition selects :: "string gomap \<Rightarrow> string gomap \<Rightarrow> bool" where
  "selects sel labels \<longleftrightarrow> map_of sel \<subseteq>\<^sub>m map_of labels"

lemma selects_component_labelled:
  "selects sel labels \<Longrightarrow> selects (component_labelled sel) (component_labelled labels)"
  by (auto simp: selects_def component_labelled_def map_le_def)

lemma labels_at_Some: "labels_at obj fs = Some l \<longleftrightarrow> nested_as string_map obj fs = Inr (Some l)"
  by (auto simp: labels_at_def found_or_none_def split: sum.splits)

lemma labels_at_cong:
  "nested_field (JObj m) fs = nested_field (JObj m') fs \<Longrightarrow> labels_at m fs = labels_at m' fs"
  unfolding labels_at_def by (simp only: nested_as_cong [of m fs m'])

lemma meta_str_cong:
  "nested_field (JObj m) fs = nested_field (JObj m') fs \<Longrightarrow> meta_str m fs = meta_str m' fs"
  unfolding meta_str_def by (simp only: nested_as_cong [of m fs m'])

text \<open>Where an object keeps the selector of the pods it applies to.\<close>

definition selector_path :: "string \<Rightarrow> string list" where
  "selector_path kind =
     (if kind = kindService then [''spec'', ''selector'']
      else if kind = kindNetworkPolicy then [''spec'', ''podSelector'', ''matchLabels'']
      else [''spec'', ''selector'', ''matchLabels''])"

context unstructured
begin

lemma patch_apart:
  "fs \<noteq> [] \<Longrightarrow> apart fs gs \<Longrightarrow>
   nested_field (JObj (patchNestedLabels U obj fs)) gs = nested_field (JObj obj) gs"
  by (auto simp: patchNestedLabels_def api Let_def nested_set_apart split: sum.splits option.splits)

lemma patch_same:
  assumes "fs \<noteq> []"
  shows "labels_at (patchNestedLabels U obj fs) fs = map_option component_labelled (labels_at obj fs)"
proof (cases "nested_as string_map obj fs")
  case (Inl e)
  then show ?thesis by (simp add: patchNestedLabels_def api labels_at_def found_or_none_def)
next
  case (Inr found)
  show ?thesis
  proof (cases found)
    case None
    with Inr show ?thesis by (simp add: patchNestedLabels_def api labels_at_def found_or_none_def)
  next
    case (Some l)
    with Inr obtain w where "nested_field (JObj obj) fs = Inr (Some w)"
      by (auto simp: nested_as_found)
    from set_nested_existing [OF assms this] obtain obj' where
      st: "set_nested obj (JObj (of_strings (component_labelled l))) fs = Inr obj'" by blast
    then have "nested_as string_map obj' fs = Inr (Some (component_labelled l))"
      by (rule nested_as_set_same) simp
    with Inr Some st assms show ?thesis
      by (simp add: patchNestedLabels_def api labels_at_def found_or_none_def Let_def
          component_labelled_def)
  qed
qed

lemma set_labels_apart:
  "apart [''metadata'', ''labels''] gs \<Longrightarrow>
   nested_field (JObj (SetLabels U obj sm)) gs = nested_field (JObj obj) gs"
  by (simp add: api set_or_same_apart)

lemma component_labels_apart:
  assumes "apart [''metadata'', ''labels''] gs"
    and "apart [''spec'', ''selector'', ''matchLabels''] gs" "apart [''spec'', ''selector''] gs"
    and "apart [''spec'', ''template'', ''metadata'', ''labels''] gs"
    and "apart [''spec'', ''podSelector'', ''matchLabels''] gs"
  shows "nested_field (JObj (setComponentLabels U obj)) gs = nested_field (JObj obj) gs"
  using assms by (simp add: setComponentLabels_def Let_def patch_apart set_labels_apart)

lemma component_labels_kind: "GetKind U (setComponentLabels U obj) = GetKind U obj"
  unfolding api by (intro meta_str_cong component_labels_apart) simp_all

lemma component_labels_name: "GetName U (setComponentLabels U obj) = GetName U obj"
  unfolding api by (intro meta_str_cong component_labels_apart) simp_all

lemma component_labels_namespace: "GetNamespace U (setComponentLabels U obj) = GetNamespace U obj"
  unfolding api by (intro meta_str_cong component_labels_apart) simp_all

lemma labels_at_set_labels:
  "apart [''metadata'', ''labels''] gs \<Longrightarrow> labels_at (SetLabels U obj sm) gs = labels_at obj gs"
  by (intro labels_at_cong set_labels_apart)

lemma labels_at_patch_apart:
  "fs \<noteq> [] \<Longrightarrow> apart fs gs \<Longrightarrow> labels_at (patchNestedLabels U obj fs) gs = labels_at obj gs"
  by (intro labels_at_cong patch_apart)

lemma set_labels_kind: "GetKind U (SetLabels U obj sm) = GetKind U obj"
  unfolding api by (intro meta_str_cong set_or_same_apart) simp

lemma component_labels_template:
  "GetKind U obj = kindDeployment \<Longrightarrow>
   labels_at (setComponentLabels U obj) [''spec'', ''template'', ''metadata'', ''labels''] =
   map_option component_labelled (labels_at obj [''spec'', ''template'', ''metadata'', ''labels''])"
  by (simp add: setComponentLabels_def Let_def set_labels_kind patch_same labels_at_patch_apart
      labels_at_set_labels)

lemma component_labels_selector:
  "GetKind U obj \<in> {kindDeployment, kindService, kindNetworkPolicy} \<Longrightarrow>
   labels_at (setComponentLabels U obj) (selector_path (GetKind U obj)) =
   map_option component_labelled (labels_at obj (selector_path (GetKind U obj)))"
  by (auto simp: setComponentLabels_def Let_def set_labels_kind patch_same labels_at_patch_apart
      labels_at_set_labels selector_path_def kind_defs)

lemma component_labels_metadata:
  assumes "nested_field (JObj obj) [''metadata''] = Inr (Some (JObj md))"
  shows "GetLabels U (setComponentLabels U obj) =
         Some (component_labelled (case GetLabels U obj of None \<Rightarrow> [] | Some l \<Rightarrow> l))"
proof -
  let ?l = "component_labelled (case GetLabels U obj of None \<Rightarrow> [] | Some l \<Rightarrow> l)"
  have "map_of obj ''metadata'' = Some (JObj md)"
    using assms by (auto split: option.splits)
  then obtain obj' where st: "set_nested obj (JObj (of_strings ?l)) [''metadata'', ''labels''] = Inr obj'"
    by simp
  then have "nested_as string_map obj' [''metadata'', ''labels''] = Inr (Some ?l)"
    by (rule nested_as_set_same) simp
  then have "labels_at (SetLabels U obj ?l) [''metadata'', ''labels''] = Some ?l"
    using st by (simp add: api set_or_same_def labels_at_def found_or_none_def)
  then have "labels_at (setComponentLabels U obj) [''metadata'', ''labels''] = Some ?l"
    by (simp add: setComponentLabels_def Let_def labels_at_patch_apart flip: component_labelled_def)
  then show ?thesis by (simp add: api labels_at_def)
qed

end

section \<open>Properties\<close>

text \<open>
  C33: Relabelling keeps selectors and pods together. When the selector of a Deployment, Service or
  NetworkPolicy selects the pod template labels of a Deployment as rendered, it still selects them
  after both objects received the component labels; both objects carry the two component labels that
  clean-up and garbage collection look for, and neither kind, name nor namespace changes.
\<close>

theorem component_labels_consistent:
  assumes "unstructured U"
    and "GetKind U dep = kindDeployment"
    and "GetKind U obj \<in> {kindDeployment, kindService, kindNetworkPolicy}"
    and "labels_at dep [''spec'', ''template'', ''metadata'', ''labels''] = Some podLabels"
    and "labels_at obj (selector_path (GetKind U obj)) = Some sel"
    and "selects sel podLabels"
    and "nested_field (JObj obj) [''metadata''] = Inr (Some (JObj md))"
  shows "(\<exists>podLabels' sel' labels.
        labels_at (setComponentLabels U dep) [''spec'', ''template'', ''metadata'', ''labels'']
          = Some podLabels'
      \<and> labels_at (setComponentLabels U obj) (selector_path (GetKind U obj)) = Some sel'
      \<and> selects sel' podLabels'
      \<and> GetLabels U (setComponentLabels U obj) = Some labels
      \<and> get_str labels ComponentLabelKey = LabelTrue
      \<and> get_str labels PartOfLabelKey = ComponentLabelValue)
    \<and> GetKind U (setComponentLabels U obj) = GetKind U obj
    \<and> GetName U (setComponentLabels U obj) = GetName U obj
    \<and> GetNamespace U (setComponentLabels U obj) = GetNamespace U obj"
  using unstructured.component_labels_template [OF assms(1,2)]
    unstructured.component_labels_selector [OF assms(1,3)]
    unstructured.component_labels_metadata [OF assms(1,7)]
    selects_component_labelled [OF assms(6)] assms(4,5)
    unstructured.component_labels_kind [OF assms(1)] unstructured.component_labels_name [OF assms(1)]
    unstructured.component_labels_namespace [OF assms(1)]
  by (auto simp: component_labelled_def)

definition example_policy :: object where
  "example_policy =
     [(''kind'', JStr ''NetworkPolicy''), (''metadata'', JObj [(''name'', JStr ''p'')]),
      (''spec'', JObj [(''podSelector'', JObj [(''matchLabels'', JObj [(''app'', JStr ''n'')])])])]"

definition example_workload :: object where
  "example_workload =
     [(''kind'', JStr ''Deployment''), (''metadata'', JObj [(''name'', JStr ''d'')]),
      (''spec'', JObj [(''template'', JObj [(''metadata'', JObj [(''labels'',
         JObj [(''app'', JStr ''n''), (''tier'', JStr ''x'')])])])])]"

theorem component_labels_consistent_witness:
  "\<exists>podLabels sel.
     labels_at (setComponentLabels documented_unstructured example_workload)
        [''spec'', ''template'', ''metadata'', ''labels''] = Some podLabels
   \<and> labels_at (setComponentLabels documented_unstructured example_policy)
        (selector_path ''NetworkPolicy'') = Some sel
   \<and> selects sel podLabels"
proof -
  have kinds: "GetKind documented_unstructured example_workload = kindDeployment"
    "GetKind documented_unstructured example_policy = ''NetworkPolicy''"
    by (simp_all add: doc.api meta_str_def nested_as_def found_or_none_def example_workload_def
        example_policy_def kind_defs)
  have w: "labels_at example_workload [''spec'', ''template'', ''metadata'', ''labels''] =
          Some [(''app'', ''n''), (''tier'', ''x'')]"
    by (simp add: labels_at_def nested_as_def found_or_none_def string_map_def example_workload_def)
  have p: "labels_at example_policy (selector_path (GetKind documented_unstructured example_policy)) =
          Some [(''app'', ''n'')]"
    unfolding kinds(2)
    by (simp add: labels_at_def nested_as_def found_or_none_def string_map_def example_policy_def
        selector_path_def kind_defs)
  have sel: "selects [(''app'', ''n'')] [(''app'', ''n''), (''tier'', ''x'')]"
    by (simp add: selects_def map_le_def)
  have md: "nested_field (JObj example_policy) [''metadata''] = Inr (Some (JObj [(''name'', JStr ''p'')]))"
    by (simp add: example_policy_def)
  have k: "GetKind documented_unstructured example_policy
      \<in> {kindDeployment, kindService, kindNetworkPolicy}"
    by (simp add: kinds(2) kind_defs)
  from component_labels_consistent [OF doc.unstructured_axioms kinds(1) k w p sel md]
  show ?thesis by (simp only: kinds(2)) blast
qed

section \<open>Facts on the probe settings\<close>

context unstructured
begin

lemma set_probe_timeout_cases:
  assumes "set_probe_timeout U timeout ns objs = Inr res"
  shows "case res of
      None \<Rightarrow> \<forall>obj \<in> set objs. \<not> is_settings U ns obj
    | Some objs' \<Rightarrow> \<exists>pre obj post obj'. objs = pre @ obj # post \<and> objs' = pre @ obj' # post
        \<and> is_settings U ns obj
        \<and> set_nested obj (JStr timeout) [''data'', workbenchProbeTimeoutKey] = Inr obj'"
  using assms
proof (induction objs arbitrary: res)
  case (Cons obj objs)
  show ?case
  proof (cases "is_settings U ns obj")
    case True
    with Cons.prems obtain obj' where "res = Some (obj' # objs)"
      "set_nested obj (JStr timeout) [''data'', workbenchProbeTimeoutKey] = Inr obj'"
      by (auto simp: api simp del: set_nested.simps split: sum.splits)
    with True show ?thesis by (auto simp del: set_nested.simps intro: exI [of _ "[]"])
  next
    case False
    with Cons.prems obtain r where r: "set_probe_timeout U timeout ns objs = Inr r"
      "res = map_option (\<lambda>objects'. obj # objects') r"
      by (auto simp: map_sum_def split: sum.splits)
    show ?thesis
    proof (cases r)
      case None
      with Cons.IH [OF r(1)] False r(2) show ?thesis by simp
    next
      case (Some objs')
      with Cons.IH [OF r(1)] obtain pre o1 post o2 where
        "objs = pre @ o1 # post" "objs' = pre @ o2 # post" "is_settings U ns o1"
        "set_nested o1 (JStr timeout) [''data'', workbenchProbeTimeoutKey] = Inr o2"
        by (auto simp del: set_nested.simps)
      with Some r(2) show ?thesis
        by (auto simp del: set_nested.simps intro!: exI [of _ "obj # pre"])
    qed
  qed
qed simp

lemma settings_object_is: "ns \<noteq> [] \<Longrightarrow> is_settings U ns (settings_object t ns)"
  by (simp add: is_settings_def api settings_object_def meta_str_def nested_as_def found_or_none_def)

lemma settings_after_set:
  assumes "set_nested obj v [''data'', k] = Inr obj'"
  shows "is_settings U ns obj' = is_settings U ns obj"
proof -
  have "meta_str obj' fs = meta_str obj fs" if "apart [''data'', k] fs" for fs
    using that assms by (intro meta_str_cong nested_set_apart)
  then show ?thesis by (simp add: is_settings_def api)
qed

end

section \<open>The probe property\<close>

text \<open>
  C34: The probe policy always reaches the cluster. Configuring the probes of a rendered group yields a
  group that holds the settings ConfigMap of the operand namespace with the timeout of the spec (the
  Kubernetes default when the policy is absent) under the controller's key. At most one object of the
  group is changed or one appended, and a changed one differs at that key only.
\<close>

theorem probe_settings_projected:
  assumes "unstructured U" and "ns \<noteq> []"
    and "configureWorkbenchProbes U objects probes ns = Inr objects'"
  shows "(\<exists>obj \<in> set objects'. is_settings U ns obj \<and>
        nested_field (JObj obj) [''data'', workbenchProbeTimeoutKey] =
          Inr (Some (JStr (probe_timeout probes))))
    \<and> (objects' = objects @ [settings_object (probe_timeout probes) ns]
       \<or> (\<exists>pre obj post obj'. objects = pre @ obj # post \<and> objects' = pre @ obj' # post
            \<and> (\<forall>gs. apart [''data'', workbenchProbeTimeoutKey] gs \<longrightarrow>
                 nested_field (JObj obj') gs = nested_field (JObj obj) gs)))"
proof -
  obtain res where res: "set_probe_timeout U (probe_timeout probes) ns objects = Inr res"
    using assms(3) by (auto simp: configureWorkbenchProbes_def Let_def split: sum.splits)
  note cases = unstructured.set_probe_timeout_cases [OF assms(1) res]
  show ?thesis
  proof (cases res)
    case None
    with assms(3) res have "objects' = objects @ [settings_object (probe_timeout probes) ns]"
      by (simp add: configureWorkbenchProbes_def Let_def)
    moreover have "nested_field (JObj (settings_object t ns)) [''data'', workbenchProbeTimeoutKey] =
        Inr (Some (JStr t))" for t
      by (simp add: settings_object_def)
    ultimately show ?thesis
      using unstructured.settings_object_is [OF assms(1,2)] by auto
  next
    case (Some os)
    with cases assms(3) res obtain pre obj post obj' where
      o: "objects = pre @ obj # post" "objects' = pre @ obj' # post" "is_settings U ns obj"
      and st: "set_nested obj (JStr (probe_timeout probes)) [''data'', workbenchProbeTimeoutKey] = Inr obj'"
      by (auto simp: configureWorkbenchProbes_def Let_def)
    from nested_set_same [OF st] nested_set_apart [OF st]
      unstructured.settings_after_set [OF assms(1) st, of ns] o show ?thesis by auto
  qed
qed

theorem probe_settings_projected_witness:
  "\<exists>obj \<in> set [settings_object ''30'' ''opendatahub''].
     nested_field (JObj obj) [''data'', workbenchProbeTimeoutKey] =
       Inr (Some (JStr (probe_timeout (Some \<lparr>TimeoutSeconds = 30\<rparr>))))"
proof -
  have "probe_timeout (Some \<lparr>TimeoutSeconds = 30\<rparr>) = ''30''"
    by (simp add: probe_timeout_def int_str_def nat_str.simps digit_char_def)
  then have "configureWorkbenchProbes documented_unstructured [] (Some \<lparr>TimeoutSeconds = 30\<rparr>)
      ''opendatahub'' = Inr [settings_object ''30'' ''opendatahub'']"
    by (simp add: configureWorkbenchProbes_def Let_def)
  from probe_settings_projected [OF doc.unstructured_axioms _ this] show ?thesis by auto
qed

end
