(* ===== verification/Merge_Deployments.thy ===== *)
theory Merge_Deployments
  imports Unstructured
begin

text \<open>
  \<open>internal/controller/merge_deployments.go\<close>: the container resources and the replica count of the
  live Deployment are carried over to the rendered one before it is applied. The Go code writes
  through the containers slice that \<open>NestedFieldNoCopy\<close> aliases; the model stores the rewritten
  list back at the same path.
\<close>

definition deploymentContainersPath :: "string list" where
  "deploymentContainersPath = [''spec'', ''template'', ''spec'', ''containers'']"

definition deploymentReplicasPath :: "string list" where
  "deploymentReplicasPath = [''spec'', ''replicas'']"

definition nestedContainerSlice :: "unstructured_api \<Rightarrow> object \<Rightarrow> string \<Rightarrow> json list res" where
  "nestedContainerSlice U obj side =
     (case NestedFieldNoCopy U obj deploymentContainersPath of
        Inl err \<Rightarrow> Inl (WrapErr (side @ '' containers path: '') err)
      | Inr None \<Rightarrow> Inr []
      | Inr (Some JNull) \<Rightarrow> Inr []
      | Inr (Some raw) \<Rightarrow>
          (case as_arr raw of
             None \<Rightarrow> Inl (GoErr (side @ '' containers field is not a slice''))
           | Some containers \<Rightarrow> Inr containers))"

fun containerResourcesByName_from :: "json gomap \<Rightarrow> json list \<Rightarrow> json gomap res" where
  "containerResourcesByName_from acc [] = Inr acc"
| "containerResourcesByName_from acc (c # cs) =
     (case as_obj c of
        None \<Rightarrow> Inl (GoErr ''source container entry is not a map'')
      | Some container \<Rightarrow>
          (case map_of container ''name'' of
             None \<Rightarrow> containerResourcesByName_from acc cs
           | Some name \<Rightarrow>
               (case as_str name of
                  None \<Rightarrow> containerResourcesByName_from acc cs
                | Some nameStr \<Rightarrow>
                    (let resources = (case map_of container ''resources'' of
                           None \<Rightarrow> JObj [] | Some r \<Rightarrow> r)
                     in containerResourcesByName_from (AList.update nameStr resources acc) cs))))"

definition containerResourcesByName :: "json list \<Rightarrow> json gomap res" where
  "containerResourcesByName containers = containerResourcesByName_from [] containers"

text \<open>The body of the loop of \<open>applyContainerResources\<close>, for one rendered container.\<close>

definition applyContainerResources_step :: "json gomap \<Rightarrow> json \<Rightarrow> json res" where
  "applyContainerResources_step resourcesByName c =
     (case as_obj c of
        None \<Rightarrow> Inl (GoErr ''target container entry is not a map'')
      | Some container \<Rightarrow>
          (case map_of container ''name'' of
             None \<Rightarrow> Inr c
           | Some name \<Rightarrow>
               (case as_str name of
                  None \<Rightarrow> Inr c
                | Some nameStr \<Rightarrow>
                    (case map_of resourcesByName nameStr of
                       None \<Rightarrow> Inr c
                     | Some resources \<Rightarrow>
                         (case as_obj resources of
                            None \<Rightarrow> Inl (GoErr ''source container resources field is not a map'')
                          | Some resourcesMap \<Rightarrow>
                              Inr (JObj (if length resourcesMap = 0
                                         then AList.delete ''resources'' container
                                         else AList.update ''resources'' resources container)))))))"

fun applyContainerResources :: "json gomap \<Rightarrow> json list \<Rightarrow> json list res" where
  "applyContainerResources resourcesByName [] = Inr []"
| "applyContainerResources resourcesByName (c # cs) =
     (case applyContainerResources_step resourcesByName c of
        Inl err \<Rightarrow> Inl err
      | Inr c' \<Rightarrow>
          (case applyContainerResources resourcesByName cs of
             Inl err \<Rightarrow> Inl err
           | Inr cs' \<Rightarrow> Inr (c' # cs')))"

definition mergeDeploymentContainerResources ::
  "unstructured_api \<Rightarrow> object \<Rightarrow> object \<Rightarrow> object res" where
  "mergeDeploymentContainerResources U source target =
     (case nestedContainerSlice U source ''source'' of
        Inl err \<Rightarrow> Inl err
      | Inr sourceContainers \<Rightarrow>
          (case nestedContainerSlice U target ''target'' of
             Inl err \<Rightarrow> Inl err
           | Inr targetContainers \<Rightarrow>
               (case containerResourcesByName sourceContainers of
                  Inl err \<Rightarrow> Inl err
                | Inr resourcesByName \<Rightarrow>
                    (case applyContainerResources resourcesByName targetContainers of
                       Inl err \<Rightarrow> Inl err
                     | Inr containers \<Rightarrow>
                         Inr (if containers = [] then target
                              else set_or_same target (JArr containers) deploymentContainersPath)))))"

definition mergeDeploymentReplicas :: "unstructured_api \<Rightarrow> object \<Rightarrow> object \<Rightarrow> object res" where
  "mergeDeploymentReplicas U source target =
     (case NestedFieldNoCopy U source deploymentReplicasPath of
        Inl err \<Rightarrow> Inl (WrapErr ''source replicas path: '' err)
      | Inr None \<Rightarrow> Inr (RemoveNestedField U target deploymentReplicasPath)
      | Inr (Some sourceReplica) \<Rightarrow>
          (case SetNestedField U target sourceReplica deploymentReplicasPath of
             Inl err \<Rightarrow> Inl (WrapErr ''set target replicas: '' err)
           | Inr target' \<Rightarrow> Inr target'))"

definition mergeDeployments :: "unstructured_api \<Rightarrow> object \<Rightarrow> object \<Rightarrow> object res" where
  "mergeDeployments U source target =
     (case mergeDeploymentContainerResources U source target of
        Inl err \<Rightarrow> Inl err
      | Inr target' \<Rightarrow> mergeDeploymentReplicas U source target')"

section \<open>Facts\<close>

text \<open>The container of a list that carries a given name, the last one when names repeat.\<close>

definition named :: "string \<Rightarrow> json \<Rightarrow> bool" where
  "named n j = (case as_obj j of None \<Rightarrow> False | Some c \<Rightarrow> map_of c ''name'' = Some (JStr n))"

definition live_resources :: "json list \<Rightarrow> string \<Rightarrow> json option" where
  "live_resources cs n =
     map_option (\<lambda>j. case as_obj j of None \<Rightarrow> JNull | Some c \<Rightarrow>
         (case map_of c ''resources'' of None \<Rightarrow> JObj [] | Some r \<Rightarrow> r))
       (find (named n) (rev cs))"

lemma live_resources_Nil [simp]: "live_resources [] n = None"
  by (simp add: live_resources_def)

lemma find_append: "find P (xs @ ys) = (case find P xs of None \<Rightarrow> find P ys | Some x \<Rightarrow> Some x)"
  by (induction xs) auto

lemma live_resources_Cons:
  "live_resources (JObj c # cs) n =
     (case live_resources cs n of
        Some r \<Rightarrow> Some r
      | None \<Rightarrow>
          (if map_of c ''name'' = Some (JStr n)
           then Some (case map_of c ''resources'' of None \<Rightarrow> JObj [] | Some r \<Rightarrow> r) else None))"
  by (simp add: live_resources_def find_append named_def split: option.split)

lemma containerResourcesByName_from_map:
  "containerResourcesByName_from acc cs = Inr rbn \<Longrightarrow>
     map_of rbn n = (case live_resources cs n of None \<Rightarrow> map_of acc n | Some r \<Rightarrow> Some r)"
proof (induction cs arbitrary: acc)
  case (Cons j cs)
  obtain c where j: "j = JObj c"
    using Cons.prems by (cases j) auto
  show ?case
  proof (cases "Option.bind (map_of c ''name'') as_str")
    case None
    then have "containerResourcesByName_from acc cs = Inr rbn" "map_of c ''name'' \<noteq> Some (JStr n)"
      using Cons.prems j by (auto split: option.splits)
    then show ?thesis
      using Cons.IH [of acc] j by (simp add: live_resources_Cons split: option.split)
  next
    case (Some k)
    let ?r = "case map_of c ''resources'' of None \<Rightarrow> JObj [] | Some r \<Rightarrow> r"
    from Some have k: "map_of c ''name'' = Some (JStr k)" by (auto simp: bind_eq_Some_conv)
    then have "containerResourcesByName_from (AList.update k ?r acc) cs = Inr rbn"
      using Cons.prems j by (simp add: Let_def)
    then show ?thesis
      using Cons.IH [of "AList.update k ?r acc"] j k
      by (simp add: live_resources_Cons split: option.split)
  qed
qed simp

lemma containerResourcesByName_map:
  "containerResourcesByName cs = Inr rbn \<Longrightarrow> map_of rbn n = live_resources cs n"
  by (auto simp: containerResourcesByName_def dest: containerResourcesByName_from_map [of _ _ _ n]
      split: option.splits)

text \<open>What the merge makes of one rendered container.\<close>

definition carried_over :: "(string \<Rightarrow> json option) \<Rightarrow> json \<Rightarrow> json \<Rightarrow> bool" where
  "carried_over live j j' \<longleftrightarrow>
     (\<exists>c c'. j = JObj c \<and> j' = JObj c' \<and>
        (\<forall>k. k \<noteq> ''resources'' \<longrightarrow> map_of c' k = map_of c k) \<and>
        (case Option.bind (map_of c ''name'') as_str of
           None \<Rightarrow> c' = c
         | Some n \<Rightarrow>
             (case live n of
                None \<Rightarrow> c' = c
              | Some r \<Rightarrow> (\<exists>rm. r = JObj rm \<and>
                  map_of c' ''resources'' = (if rm = [] then None else Some r)))))"

lemma carried_over_same:
  "(\<And>n. map_of c ''name'' = Some (JStr n) \<Longrightarrow> live n = None) \<Longrightarrow>
   carried_over live (JObj c) (JObj c)"
  by (auto simp: carried_over_def bind_eq_Some_conv split: option.split)

lemma carried_over_live:
  "map_of c ''name'' = Some (JStr n) \<Longrightarrow> live n = Some (JObj rm) \<Longrightarrow>
   carried_over live (JObj c)
     (JObj (if length rm = 0 then AList.delete ''resources'' c
            else AList.update ''resources'' (JObj rm) c))"
  by (auto simp: carried_over_def)

lemma applyContainerResources_step_carried:
  "applyContainerResources_step rbn c = Inr c' \<Longrightarrow> carried_over (map_of rbn) c c'"
  by (auto simp: applyContainerResources_step_def simp del: length_0_conv
      intro!: carried_over_same carried_over_live split: option.splits)

lemma applyContainerResources_carried:
  "applyContainerResources rbn cs = Inr cs' \<Longrightarrow> list_all2 (carried_over (map_of rbn)) cs cs'"
  by (induction rbn cs arbitrary: cs' rule: applyContainerResources.induct)
    (auto dest: applyContainerResources_step_carried split: sum.splits)

lemma paths_apart [simp]:
  "apart deploymentContainersPath deploymentReplicasPath"
  "apart deploymentReplicasPath deploymentContainersPath"
  by (simp_all add: deploymentContainersPath_def deploymentReplicasPath_def)

lemma path_nonempty [simp]: "deploymentContainersPath \<noteq> []" "deploymentReplicasPath \<noteq> []"
  by (simp_all add: deploymentContainersPath_def deploymentReplicasPath_def)

context unstructured
begin

lemma nestedContainerSlice_Inr:
  "nestedContainerSlice U m side = Inr cs \<Longrightarrow> cs \<noteq> [] \<Longrightarrow>
     nested_field (JObj m) deploymentContainersPath = Inr (Some (JArr cs))"
  by (auto simp: nestedContainerSlice_def api split: sum.splits option.splits json.splits)

lemma merge_containers:
  assumes "mergeDeploymentContainerResources U live target = Inr merged"
  shows "\<exists>sc tc tc'. nestedContainerSlice U live ''source'' = Inr sc
    \<and> nestedContainerSlice U target ''target'' = Inr tc
    \<and> list_all2 (carried_over (live_resources sc)) tc tc'
    \<and> (if tc' = [] then merged = target
       else nested_field (JObj merged) deploymentContainersPath = Inr (Some (JArr tc')))
    \<and> (\<forall>fs. apart deploymentContainersPath fs \<longrightarrow>
         nested_field (JObj merged) fs = nested_field (JObj target) fs)"
proof -
  from assms obtain sc tc rbn tc' where
    sc: "nestedContainerSlice U live ''source'' = Inr sc" and
    tc: "nestedContainerSlice U target ''target'' = Inr tc" and
    rbn: "containerResourcesByName sc = Inr rbn" and
    tc': "applyContainerResources rbn tc = Inr tc'" and
    m: "merged = (if tc' = [] then target
                  else set_or_same target (JArr tc') deploymentContainersPath)"
    by (auto simp: mergeDeploymentContainerResources_def split: sum.splits)
  have "map_of rbn = live_resources sc"
    using containerResourcesByName_map [OF rbn] by blast
  with tc' have all: "list_all2 (carried_over (live_resources sc)) tc tc'"
    by (metis applyContainerResources_carried)
  have got: "nested_field (JObj merged) deploymentContainersPath = Inr (Some (JArr tc'))"
    if ne: "tc' \<noteq> []"
  proof -
    have "tc \<noteq> []" using all ne by auto
    then have "nested_field (JObj target) deploymentContainersPath = Inr (Some (JArr tc))"
      by (rule nestedContainerSlice_Inr [OF tc])
    then obtain m' where m': "set_nested target (JArr tc') deploymentContainersPath = Inr m'"
      using set_nested_existing [OF path_nonempty(1)] by blast
    then have "merged = m'" using m ne by (simp add: set_or_same_def)
    with m' show ?thesis by (simp add: nested_set_same)
  qed
  have apart_ok: "\<forall>fs. apart deploymentContainersPath fs \<longrightarrow>
      nested_field (JObj merged) fs = nested_field (JObj target) fs"
    using m by (simp add: set_or_same_apart)
  have "tc' = [] \<Longrightarrow> merged = target" using m by simp
  with got have "if tc' = [] then merged = target
       else nested_field (JObj merged) deploymentContainersPath = Inr (Some (JArr tc'))"
    by simp
  with sc tc all apart_ok show ?thesis by (intro exI conjI)
qed

lemma merge_replicas:
  assumes "mergeDeploymentReplicas U live target = Inr merged"
  shows "found_or_none (nested_field (JObj merged) deploymentReplicasPath) =
           found_or_none (nested_field (JObj live) deploymentReplicasPath)
    \<and> (\<forall>fs. apart deploymentReplicasPath fs \<longrightarrow>
           nested_field (JObj merged) fs = nested_field (JObj target) fs)"
proof (cases "nested_field (JObj live) deploymentReplicasPath")
  case (Inl e)
  with assms show ?thesis by (simp add: mergeDeploymentReplicas_def api)
next
  case (Inr r)
  show ?thesis
  proof (cases r)
    case None
    with assms Inr have "merged = remove_nested target deploymentReplicasPath"
      by (simp add: mergeDeploymentReplicas_def api)
    with None Inr show ?thesis
      using nested_remove_same [of deploymentReplicasPath target]
      by (auto simp: found_or_none_def nested_remove_apart)
  next
    case (Some v)
    with assms Inr have "set_nested target v deploymentReplicasPath = Inr merged"
      by (auto simp: mergeDeploymentReplicas_def api split: sum.splits)
    with Some Inr show ?thesis
      by (auto simp: found_or_none_def nested_set_same nested_set_apart)
  qed
qed

lemma merge_deployments:
  assumes "mergeDeployments U live target = Inr merged"
  shows "\<exists>sc tc tc'.
      nestedContainerSlice U live ''source'' = Inr sc
    \<and> nestedContainerSlice U target ''target'' = Inr tc
    \<and> nestedContainerSlice U merged ''target'' = Inr tc'
    \<and> list_all2 (carried_over (live_resources sc)) tc tc'
    \<and> found_or_none (nested_field (JObj merged) deploymentReplicasPath) =
        found_or_none (nested_field (JObj live) deploymentReplicasPath)
    \<and> (\<forall>fs. apart deploymentContainersPath fs \<and> apart deploymentReplicasPath fs \<longrightarrow>
          nested_field (JObj merged) fs = nested_field (JObj target) fs)"
proof -
  from assms obtain mid where
    mid: "mergeDeploymentContainerResources U live target = Inr mid" and
    rep: "mergeDeploymentReplicas U live mid = Inr merged"
    by (auto simp: mergeDeployments_def split: sum.splits)
  from merge_containers [OF mid] obtain sc tc tc' where
    sc: "nestedContainerSlice U live ''source'' = Inr sc" and
    tc: "nestedContainerSlice U target ''target'' = Inr tc" and
    all: "list_all2 (carried_over (live_resources sc)) tc tc'" and
    got: "if tc' = [] then mid = target
          else nested_field (JObj mid) deploymentContainersPath = Inr (Some (JArr tc'))" and
    rest: "\<forall>fs. apart deploymentContainersPath fs \<longrightarrow>
       nested_field (JObj mid) fs = nested_field (JObj target) fs"
    by auto
  have same: "nested_field (JObj merged) deploymentContainersPath =
              nested_field (JObj mid) deploymentContainersPath"
    using merge_replicas [OF rep] by simp
  have "nestedContainerSlice U merged ''target'' = Inr tc'"
  proof (cases "tc' = []")
    case True
    with all have "tc = []" by simp
    with got same tc True show ?thesis by (simp add: nestedContainerSlice_def api)
  next
    case False
    with got same show ?thesis by (simp add: nestedContainerSlice_def api)
  qed
  with sc tc all rest merge_replicas [OF rep] show ?thesis
    by (intro exI conjI) simp_all
qed

end

section \<open>Properties\<close>

text \<open>
  C26: Merging the live Deployment into the rendered one succeeds only in this way: the container
  list keeps its length and order; a rendered container whose name also occurs in the live
  Deployment gets exactly the live resources (none when the live ones are empty or absent) and
  keeps every other field; any other container is unchanged; the replica count is the live one, and
  absent when the live Deployment has none; no field away from these two paths changes.
\<close>

theorem mergeDeployments_carries_over:
  assumes "unstructured U" and "mergeDeployments U live target = Inr merged"
  shows "\<exists>sc tc tc'.
      nestedContainerSlice U live ''source'' = Inr sc
    \<and> nestedContainerSlice U target ''target'' = Inr tc
    \<and> nestedContainerSlice U merged ''target'' = Inr tc'
    \<and> list_all2 (carried_over (live_resources sc)) tc tc'
    \<and> found_or_none (nested_field (JObj merged) deploymentReplicasPath) =
        found_or_none (nested_field (JObj live) deploymentReplicasPath)
    \<and> (\<forall>fs. apart deploymentContainersPath fs \<and> apart deploymentReplicasPath fs \<longrightarrow>
          nested_field (JObj merged) fs = nested_field (JObj target) fs)"
  by (rule unstructured.merge_deployments [OF assms])

definition example_deployment :: "json \<Rightarrow> (string \<times> json) list \<Rightarrow> object" where
  "example_deployment replicas res =
     [(''kind'', JStr ''Deployment''),
      (''spec'', JObj [(''replicas'', replicas),
         (''template'', JObj [(''spec'', JObj [(''containers'',
            JArr [JObj ((''name'', JStr ''manager'') # (''image'', JStr ''img'') # res)])])])])]"

lemma example_merge:
  "mergeDeployments documented_unstructured
     (example_deployment (JInt 3) [(''resources'', JObj [(''limits'', JStr ''2'')])])
     (example_deployment (JInt 1) []) =
   Inr (example_deployment (JInt 3) [(''resources'', JObj [(''limits'', JStr ''2'')])])"
  by (simp add: mergeDeployments_def mergeDeploymentContainerResources_def
      mergeDeploymentReplicas_def nestedContainerSlice_def containerResourcesByName_def
      applyContainerResources_step_def example_deployment_def documented_unstructured_def
      set_or_same_def deploymentContainersPath_def deploymentReplicasPath_def)

theorem mergeDeployments_carries_over_witness:
  "\<exists>merged sc tc tc'.
      mergeDeployments documented_unstructured
        (example_deployment (JInt 3) [(''resources'', JObj [(''limits'', JStr ''2'')])])
        (example_deployment (JInt 1) []) = Inr merged
    \<and> nestedContainerSlice documented_unstructured merged ''target'' = Inr tc'
    \<and> list_all2 (carried_over (live_resources sc)) tc tc'"
  using mergeDeployments_carries_over [OF doc.unstructured_axioms example_merge] example_merge
  by blast

end
