(* ===== verification/Garbage.thy ===== *)
theory Garbage
  imports Objects
begin

text \<open>
  Garbage collection and clean-up in \<open>internal/controller/manifests.go\<close>: \<open>gcOrphanedResources\<close> and
  \<open>cleanupManagedResources\<close>, which sweep over the kinds of \<open>cleanupGVKs\<close> and
  \<open>cleanupClusterGVKs\<close>. What they rely on of the API server is the locale \<open>cluster\<close>.
\<close>

section \<open>Kinds and references\<close>

definition mk_gvk :: "string \<Rightarrow> string \<Rightarrow> string \<Rightarrow> gvk" where
  "mk_gvk g v k = \<lparr>gvk_Group = g, gvk_Version = v, gvk_Kind = k\<rparr>"

definition cleanupGVKs :: "gvk list" where
  "cleanupGVKs =
     [mk_gvk ''apps'' ''v1'' kindDeployment,
      mk_gvk [] ''v1'' ''ConfigMap'',
      mk_gvk [] ''v1'' ''Secret'',
      mk_gvk [] ''v1'' kindService,
      mk_gvk [] ''v1'' ''ServiceAccount'',
      mk_gvk ''networking.k8s.io'' ''v1'' ''NetworkPolicy'',
      mk_gvk ''rbac.authorization.k8s.io'' ''v1'' ''Role'',
      mk_gvk ''rbac.authorization.k8s.io'' ''v1'' ''RoleBinding'']"

definition cleanupClusterGVKs :: "gvk list" where
  "cleanupClusterGVKs =
     [mk_gvk ''rbac.authorization.k8s.io'' ''v1'' ''ClusterRole'',
      mk_gvk ''rbac.authorization.k8s.io'' ''v1'' ''ClusterRoleBinding'',
      mk_gvk ''admissionregistration.k8s.io'' ''v1'' ''MutatingWebhookConfiguration'',
      mk_gvk ''admissionregistration.k8s.io'' ''v1'' ''ValidatingWebhookConfiguration'',
      mk_gvk ''kubeflow.org'' ''v1beta1'' ''WorkspaceKind'']"

record objectRef =
  ref_gvk :: gvk
  ref_namespace :: string
  ref_name :: string

definition objectRefFrom :: "unstructured_api \<Rightarrow> object \<Rightarrow> objectRef" where
  "objectRefFrom U obj =
     \<lparr>ref_gvk = GroupVersionKind U obj, ref_namespace = GetNamespace U obj, ref_name = GetName U obj\<rparr>"

definition componentMatchingLabels :: "string gomap" where
  "componentMatchingLabels =
     [(ComponentLabelKey, LabelTrue), (PartOfLabelKey, ComponentLabelValue)]"

section \<open>Sweeping\<close>

text \<open>\<open>client.IgnoreNotFound(r.Delete(ctx, obj))\<close>, as the list of errors to append.\<close>

definition delete_errs :: "(object \<Rightarrow> string) \<Rightarrow> object \<Rightarrow> unit res \<Rightarrow> goerror list" where
  "delete_errs errText obj res =
     (case res of
        Inr _ \<Rightarrow> []
      | Inl err \<Rightarrow> if IsNotFound err then [] else [WrapErr (errText obj) err])"

text \<open>
  The inner loop of all four sweeps: delete what is not kept. \<open>errText\<close> is the text of the error
  for an object that could not be deleted.
\<close>

fun sweep_items ::
  "'s client \<Rightarrow> (object \<Rightarrow> bool) \<Rightarrow> (object \<Rightarrow> string) \<Rightarrow> object list \<Rightarrow> 's \<Rightarrow> goerror list \<times> 's" where
  "sweep_items c keep errText [] s = ([], s)"
| "sweep_items c keep errText (obj # items) s =
     (if keep obj then sweep_items c keep errText items s
      else (case cl_Delete c obj s of
          (res, s1) \<Rightarrow>
            (case sweep_items c keep errText items s1 of
               (errs, s2) \<Rightarrow> (delete_errs errText obj res @ errs, s2))))"

text \<open>The outer loop over kinds; \<open>listPrefix\<close> is the text of the error when a kind cannot be listed.\<close>

fun sweep ::
  "'s client \<Rightarrow> (object \<Rightarrow> bool) \<Rightarrow> string option \<Rightarrow> (gvk \<Rightarrow> string) \<Rightarrow> (object \<Rightarrow> string) \<Rightarrow> gvk list \<Rightarrow> 's
     \<Rightarrow> goerror list \<times> 's" where
  "sweep c keep ns listPrefix errText [] s = ([], s)"
| "sweep c keep ns listPrefix errText (g # gs) s =
     (case cl_List c g ns componentMatchingLabels s of
        (Inl err, s1) \<Rightarrow>
          (case sweep c keep ns listPrefix errText gs s1 of
             (errs, s2) \<Rightarrow>
               (if IsNoMatchError err then errs else WrapErr (listPrefix g) err # errs, s2))
      | (Inr items, s1) \<Rightarrow>
          (case sweep_items c keep errText items s1 of
             (errs1, s2) \<Rightarrow>
               (case sweep c keep ns listPrefix errText gs s2 of
                  (errs2, s3) \<Rightarrow> (errs1 @ errs2, s3))))"

definition gcOrphanedResources ::
  "'s reconciler \<Rightarrow> string \<Rightarrow> objectRef list \<Rightarrow> 's \<Rightarrow> goerror option \<times> 's" where
  "gcOrphanedResources r namespace desired s =
     (if length desired = 0 then (None, s)
      else
        let U = r_Unstructured r; c = r_Client r;
            keep = (\<lambda>obj. List.member desired (objectRefFrom U obj));
            named = (\<lambda>obj. ''failed to GC '' @ GetKind U obj @ '' '' @ GetNamespace U obj @ ''/'' @
              GetName U obj @ '': '');
            clusterNamed = (\<lambda>obj. ''failed to GC '' @ GetKind U obj @ '' '' @ GetName U obj @ '': '')
        in case sweep c keep (Some namespace)
                  (\<lambda>g. ''failed to list '' @ GVKString U g @ '' for GC: '') named cleanupGVKs s of
             (errs1, s1) \<Rightarrow>
               (case sweep c keep None
                       (\<lambda>g. ''failed to list cluster '' @ GVKString U g @ '' for GC: '')
                       clusterNamed cleanupClusterGVKs s1 of
                  (errs2, s2) \<Rightarrow> (errors_Join (errs1 @ errs2), s2)))"

definition cleanupManagedResources ::
  "'s reconciler \<Rightarrow> string \<Rightarrow> 's \<Rightarrow> goerror option \<times> 's" where
  "cleanupManagedResources r namespace s =
     (let U = r_Unstructured r; c = r_Client r;
          named = (\<lambda>obj. ''failed to delete '' @ GetKind U obj @ '' '' @ GetNamespace U obj @ ''/'' @
            GetName U obj @ '': '');
          clusterNamed = (\<lambda>obj. ''failed to delete '' @ GetKind U obj @ '' '' @ GetName U obj @ '': '')
      in case sweep c (\<lambda>_. False) (Some namespace) (\<lambda>g. ''failed to list '' @ GVKString U g @ '': '')
                named cleanupGVKs s of
           (errs1, s1) \<Rightarrow>
             (case sweep c (\<lambda>_. False) None (\<lambda>g. ''failed to list cluster '' @ GVKString U g @ '': '')
                     clusterNamed cleanupClusterGVKs s1 of
                (errs2, s2) \<Rightarrow> (errors_Join (errs1 @ errs2), s2)))"

lemma sweep_items_Cons:
  "snd (sweep_items c keep p (obj # items) s) =
     snd (sweep_items c keep p items (if keep obj then s else snd (cl_Delete c obj s)))"
  "fst (sweep_items c keep p (obj # items) s) =
     (if keep obj then fst (sweep_items c keep p items s)
      else delete_errs p obj (fst (cl_Delete c obj s)) @
        fst (sweep_items c keep p items (snd (cl_Delete c obj s))))"
  by (simp_all split: prod.split)

lemma sweep_Cons:
  "snd (sweep c keep ns lp p (g # gs) s) =
     (case cl_List c g ns componentMatchingLabels s of
        (Inl err, s1) \<Rightarrow> snd (sweep c keep ns lp p gs s1)
      | (Inr items, s1) \<Rightarrow> snd (sweep c keep ns lp p gs (snd (sweep_items c keep p items s1))))"
  "fst (sweep c keep ns lp p (g # gs) s) = [] \<longleftrightarrow>
     (case cl_List c g ns componentMatchingLabels s of
        (Inl err, s1) \<Rightarrow> IsNoMatchError err \<and> fst (sweep c keep ns lp p gs s1) = []
      | (Inr items, s1) \<Rightarrow> fst (sweep_items c keep p items s1) = []
          \<and> fst (sweep c keep ns lp p gs (snd (sweep_items c keep p items s1))) = [])"
  by (auto split: prod.split sum.split)

section \<open>The contract of the API server\<close>

text \<open>
  \<open>live s ref\<close> is the object with that reference, unless it is absent or already being deleted.
  A list returns objects of the kind, namespace and labels asked for, each as it is now (live or
  terminating), among them all live ones, or fails; it fails with a no-match error only when the kind is not served. A delete makes its object
  absent or terminating and leaves the others alone.
\<close>

definition in_scope :: "string option \<Rightarrow> string \<Rightarrow> bool" where
  "in_scope scope ns = (case scope of None \<Rightarrow> True | Some n \<Rightarrow> ns = n)"

definition labelled :: "unstructured_api \<Rightarrow> string gomap \<Rightarrow> object \<Rightarrow> bool" where
  "labelled U sel obj =
     (case GetLabels U obj of None \<Rightarrow> sel = [] | Some labels \<Rightarrow> map_of sel \<subseteq>\<^sub>m map_of labels)"

definition matches :: "unstructured_api \<Rightarrow> gvk \<Rightarrow> string option \<Rightarrow> string gomap \<Rightarrow> object \<Rightarrow> bool" where
  "matches U g scope sel obj \<longleftrightarrow>
     GroupVersionKind U obj = g \<and> in_scope scope (GetNamespace U obj) \<and> labelled U sel obj"

locale cluster =
  fixes c :: "'s client" and U :: unstructured_api and live :: "'s \<Rightarrow> objectRef \<Rightarrow> object option"
  assumes live_ref: "live s ref = Some obj \<Longrightarrow> objectRefFrom U obj = ref"
    and list_keeps: "live (snd (cl_List c g scope sel s)) = live s"
    and list_sound: "cl_List c g scope sel s = (Inr items, s') \<Longrightarrow> obj \<in> set items \<Longrightarrow>
        matches U g scope sel obj \<and> live s (objectRefFrom U obj) \<in> {None, Some obj}"
    and list_complete: "cl_List c g scope sel s = (Inr items, s') \<Longrightarrow> live s ref = Some obj \<Longrightarrow>
        matches U g scope sel obj \<Longrightarrow> obj \<in> set items"
    and list_no_match: "cl_List c g scope sel s = (Inl err, s') \<Longrightarrow> IsNoMatchError err \<Longrightarrow>
        live s ref = Some obj \<Longrightarrow> GroupVersionKind U obj \<noteq> g"
    and delete_frame: "ref \<noteq> objectRefFrom U obj \<Longrightarrow>
        live (snd (cl_Delete c obj s)) ref = live s ref"
    and delete_only: "live (snd (cl_Delete c obj s)) ref = Some obj' \<Longrightarrow> live s ref = Some obj'"
    and delete_gone: "cl_Delete c obj s = (res, s') \<Longrightarrow> delete_errs p obj res = [] \<Longrightarrow>
        live s' (objectRefFrom U obj) = None"
begin

lemma sweep_items_only:
  "live (snd (sweep_items c keep p items s)) ref = Some obj \<Longrightarrow> live s ref = Some obj"
proof (induction items arbitrary: s)
  case (Cons o1 items)
  from Cons.prems have "live (if keep o1 then s else snd (cl_Delete c o1 s)) ref = Some obj"
    unfolding sweep_items_Cons by (rule Cons.IH)
  then show ?case by (auto split: if_splits dest: delete_only)
qed simp

lemma sweep_items_frame:
  "(\<And>obj. obj \<in> set items \<Longrightarrow> \<not> keep obj \<Longrightarrow> objectRefFrom U obj \<noteq> ref) \<Longrightarrow>
   live (snd (sweep_items c keep p items s)) ref = live s ref"
proof (induction items arbitrary: s)
  case (Cons obj items)
  have "live (if keep obj then s else snd (cl_Delete c obj s)) ref = live s ref"
    using Cons.prems [of obj] delete_frame [of ref obj s] by auto
  with Cons show ?case unfolding sweep_items_Cons by auto
qed simp

lemma sweep_items_gone:
  "fst (sweep_items c keep p items s) = [] \<Longrightarrow> obj \<in> set items \<Longrightarrow> \<not> keep obj \<Longrightarrow>
   live (snd (sweep_items c keep p items s)) (objectRefFrom U obj) = None"
proof (induction items arbitrary: s)
  case (Cons o1 items)
  let ?s1 = "if keep o1 then s else snd (cl_Delete c o1 s)"
  have errs: "fst (sweep_items c keep p items ?s1) = []"
    using Cons.prems(1) unfolding sweep_items_Cons by (auto split: if_splits)
  show ?case
  proof (cases "obj \<in> set items")
    case True
    with Cons.IH [OF errs] Cons.prems(3) show ?thesis unfolding sweep_items_Cons by blast
  next
    case False
    with Cons.prems have o1: "obj = o1" "\<not> keep o1" by auto
    with Cons.prems(1) have "delete_errs p obj (fst (cl_Delete c obj s)) = []"
      unfolding sweep_items_Cons by auto
    then have "live ?s1 (objectRefFrom U obj) = None"
      using delete_gone [of obj s] o1 by (cases "cl_Delete c obj s") auto
    with sweep_items_only [of keep p items ?s1 "objectRefFrom U obj"] show ?thesis
      unfolding sweep_items_Cons by (cases "live (snd (sweep_items c keep p items ?s1)) (objectRefFrom U obj)") auto
  qed
qed simp

lemma list_keeps': "cl_List c g scope sel s = (res, s1) \<Longrightarrow> live s1 = live s"
  using list_keeps [of g scope sel s] by simp

lemma sweep_only:
  "live (snd (sweep c keep scope lp p gs s)) ref = Some obj \<Longrightarrow> live s ref = Some obj"
proof (induction gs arbitrary: s)
  case (Cons g gs)
  obtain res s1 where l: "cl_List c g scope componentMatchingLabels s = (res, s1)"
    by (metis prod.exhaust)
  show ?case
  proof (cases res)
    case (Inl err)
    with Cons.prems l have "live (snd (sweep c keep scope lp p gs s1)) ref = Some obj"
      by (simp only: sweep_Cons prod.case sum.case)
    then have "live s1 ref = Some obj" by (rule Cons.IH)
    with list_keeps' [OF l] show ?thesis by simp
  next
    case (Inr items)
    with Cons.prems l have
      "live (snd (sweep c keep scope lp p gs (snd (sweep_items c keep p items s1)))) ref = Some obj"
      by (simp only: sweep_Cons prod.case sum.case)
    then have "live (snd (sweep_items c keep p items s1)) ref = Some obj" by (rule Cons.IH)
    from sweep_items_only [OF this] list_keeps' [OF l] show ?thesis by simp
  qed
qed simp

text \<open>A sweep touches only what it lists and does not keep.\<close>

lemma sweep_frame:
  "live s ref = Some obj \<Longrightarrow>
   (\<And>g. g \<in> set gs \<Longrightarrow> matches U g scope componentMatchingLabels obj \<Longrightarrow> keep obj) \<Longrightarrow>
   live (snd (sweep c keep scope lp p gs s)) ref = Some obj"
proof (induction gs arbitrary: s)
  case (Cons g gs)
  obtain res s1 where l: "cl_List c g scope componentMatchingLabels s = (res, s1)"
    by (metis prod.exhaust)
  have IH: "live (snd (sweep c keep scope lp p gs s2)) ref = Some obj" if "live s2 ref = Some obj" for s2
    using Cons.prems(2) by (intro Cons.IH [OF that]) auto
  show ?case
  proof (cases res)
    case (Inl err)
    with l IH [of s1] list_keeps' [OF l] Cons.prems(1) show ?thesis
      by (simp only: sweep_Cons prod.case sum.case)
  next
    case (Inr items)
    have "objectRefFrom U o1 \<noteq> ref" if "o1 \<in> set items" "\<not> keep o1" for o1
    proof
      assume "objectRefFrom U o1 = ref"
      with list_sound [OF l [unfolded Inr] that(1)] Cons.prems(1)
      have "o1 = obj" "matches U g scope componentMatchingLabels obj" by auto
      with Cons.prems(2) [of g] that(2) show False by simp
    qed
    then have "live (snd (sweep_items c keep p items s1)) ref = live s1 ref"
      by (rule sweep_items_frame)
    with list_keeps' [OF l] Cons.prems(1)
    have "live (snd (sweep_items c keep p items s1)) ref = Some obj" by simp
    from IH [OF this] l Inr show ?thesis by (simp only: sweep_Cons prod.case sum.case)
  qed
qed simp

text \<open>A sweep without errors leaves nothing of its kinds but what it keeps.\<close>

lemma sweep_complete:
  assumes "fst (sweep c keep scope lp p gs s) = []"
    and "live (snd (sweep c keep scope lp p gs s)) ref = Some obj"
    and "g \<in> set gs" "matches U g scope componentMatchingLabels obj"
  shows "keep obj"
  using assms
proof (induction gs arbitrary: s)
  case (Cons g1 gs)
  obtain res s1 where l: "cl_List c g1 scope componentMatchingLabels s = (res, s1)"
    by (metis prod.exhaust)
  have obj: "live s ref = Some obj"
    using Cons.prems(2) by (rule sweep_only)
  show ?case
  proof (cases res)
    case (Inl err)
    with l Cons.prems(1,2) have nm: "IsNoMatchError err" "fst (sweep c keep scope lp p gs s1) = []"
      and rest: "live (snd (sweep c keep scope lp p gs s1)) ref = Some obj"
      by (simp_all only: sweep_Cons prod.case sum.case)
    have "g \<noteq> g1"
      using list_no_match [OF _ nm(1) obj] l Inl Cons.prems(4) by (auto simp: matches_def)
    with Cons.IH [OF nm(2) rest] Cons.prems(3,4) show ?thesis by simp
  next
    case (Inr items)
    let ?s2 = "snd (sweep_items c keep p items s1)"
    from Inr l Cons.prems(1,2) have e: "fst (sweep_items c keep p items s1) = []"
      "fst (sweep c keep scope lp p gs ?s2) = []"
      and rest: "live (snd (sweep c keep scope lp p gs ?s2)) ref = Some obj"
      by (simp_all only: sweep_Cons prod.case sum.case)
    show ?thesis
    proof (cases "g = g1")
      case True
      then have "obj \<in> set items"
        using list_complete [OF l [unfolded Inr] obj] Cons.prems(4) by simp
      then have "keep obj \<or> live ?s2 (objectRefFrom U obj) = None"
        using sweep_items_gone [OF e(1), of obj] by (cases "keep obj") simp_all
      moreover have "live ?s2 (objectRefFrom U obj) = Some obj"
        using sweep_only [OF rest] live_ref [OF obj] by simp
      ultimately show ?thesis by simp
    next
      case False
      with Cons.IH [OF e(2) rest] Cons.prems(3,4) show ?thesis by simp
    qed
  qed
qed simp

end

text \<open>An object that clean-up in the operand namespace \<open>ns\<close> is responsible for.\<close>

definition managed :: "unstructured_api \<Rightarrow> string \<Rightarrow> object \<Rightarrow> bool" where
  "managed U ns obj \<longleftrightarrow> labelled U componentMatchingLabels obj
     \<and> (GroupVersionKind U obj \<in> set cleanupGVKs \<and> GetNamespace U obj = ns
        \<or> GroupVersionKind U obj \<in> set cleanupClusterGVKs)"

context cluster
begin

lemma two_sweeps:
  assumes "sweep c keep (Some ns) lp1 p1 cleanupGVKs s = (e1, s1)"
    and "sweep c keep None lp2 p2 cleanupClusterGVKs s1 = (e2, s2)"
  shows "live s2 ref = Some obj \<Longrightarrow> live s ref = Some obj"
    and "live s ref = Some obj \<Longrightarrow> (managed U ns obj \<Longrightarrow> keep obj) \<Longrightarrow> live s2 ref = Some obj"
    and "e1 @ e2 = [] \<Longrightarrow> live s2 ref = Some obj \<Longrightarrow> managed U ns obj \<Longrightarrow> keep obj"
proof -
  have only: "live s1 ref = Some obj" if "live s2 ref = Some obj"
    using sweep_only [of keep None lp2 p2 cleanupClusterGVKs s1] assms(2) that by simp
  then show "live s ref = Some obj" if "live s2 ref = Some obj"
    using sweep_only [of keep "Some ns" lp1 p1 cleanupGVKs s] assms(1) that by simp
  show "live s2 ref = Some obj" if "live s ref = Some obj" "managed U ns obj \<Longrightarrow> keep obj"
  proof -
    have "live s1 ref = Some obj"
      using sweep_frame [OF that(1), of cleanupGVKs "Some ns" keep lp1 p1] that(2) assms(1)
      by (auto simp: matches_def managed_def in_scope_def)
    then show ?thesis
      using sweep_frame [of s1 ref obj cleanupClusterGVKs None keep lp2 p2] that(2) assms(2)
      by (auto simp: matches_def managed_def in_scope_def)
  qed
  show "keep obj" if "e1 @ e2 = []" "live s2 ref = Some obj" "managed U ns obj"
    using sweep_complete [of keep None lp2 p2 cleanupClusterGVKs s1 ref obj]
      sweep_complete [of keep "Some ns" lp1 p1 cleanupGVKs s ref obj] only [OF that(2)] that assms
    by (auto simp: matches_def managed_def in_scope_def)
qed

end

text \<open>An API server that keeps its objects in a list.\<close>

definition store_live ::
  "unstructured_api \<Rightarrow> (objectRef \<times> object) list \<Rightarrow> objectRef \<Rightarrow> object option" where
  "store_live U s ref =
     (case map_of s ref of
        None \<Rightarrow> None
      | Some obj \<Rightarrow> if objectRefFrom U obj = ref then Some obj else None)"

definition store_client :: "unstructured_api \<Rightarrow> (objectRef \<times> object) list client" where
  "store_client U = empty_client
     \<lparr>cl_List := (\<lambda>g scope sel s.
        (Inr (map snd (filter (\<lambda>(ref, obj). store_live U s ref = Some obj \<and> matches U g scope sel obj) s)), s)),
      cl_Delete := (\<lambda>obj s. (Inr (), filter (\<lambda>(ref, _). ref \<noteq> objectRefFrom U obj) s))\<rparr>"

lemma store_live_Some:
  "store_live U s ref = Some obj \<longleftrightarrow> map_of s ref = Some obj \<and> objectRefFrom U obj = ref"
  by (auto simp: store_live_def split: option.splits)

lemma map_of_filter_fst:
  "map_of (filter (\<lambda>(k, v). P k) m) k = (if P k then map_of m k else None)"
  by (induction m) auto

lemma store_delete:
  "store_live U (filter (\<lambda>(ref, _). ref \<noteq> r1) s) ref = (if ref = r1 then None else store_live U s ref)"
  by (simp add: store_live_def map_of_filter_fst)

interpretation store: cluster "store_client documented_unstructured" documented_unstructured
  "store_live documented_unstructured"
proof
  let ?U = documented_unstructured and ?c = "store_client documented_unstructured"
  fix s s' :: "(objectRef \<times> object) list" and ref obj obj' g scope sel items err res p
  show "store_live ?U s ref = Some obj \<Longrightarrow> objectRefFrom ?U obj = ref"
    by (simp add: store_live_Some)
  show "store_live ?U (snd (cl_List ?c g scope sel s)) = store_live ?U s"
    by (simp add: store_client_def)
  show "cl_List ?c g scope sel s = (Inr items, s') \<Longrightarrow> obj \<in> set items \<Longrightarrow>
      matches ?U g scope sel obj \<and> store_live ?U s (objectRefFrom ?U obj) \<in> {None, Some obj}"
    by (auto simp: store_client_def store_live_Some)
  show "obj \<in> set items" if "cl_List ?c g scope sel s = (Inr items, s')"
    "store_live ?U s ref = Some obj" "matches ?U g scope sel obj"
    using that map_of_SomeD [of s ref obj] by (force simp: store_client_def store_live_Some)
  show "cl_List ?c g scope sel s = (Inl err, s') \<Longrightarrow> IsNoMatchError err \<Longrightarrow>
      store_live ?U s ref = Some obj \<Longrightarrow> GroupVersionKind ?U obj \<noteq> g"
    by (simp add: store_client_def)
  show "ref \<noteq> objectRefFrom ?U obj \<Longrightarrow>
      store_live ?U (snd (cl_Delete ?c obj s)) ref = store_live ?U s ref"
    by (simp add: store_client_def store_delete)
  show "store_live ?U (snd (cl_Delete ?c obj s)) ref = Some obj' \<Longrightarrow> store_live ?U s ref = Some obj'"
    by (simp add: store_client_def store_delete split: if_splits)
  show "cl_Delete ?c obj s = (res, s') \<Longrightarrow> delete_errs p obj res = [] \<Longrightarrow>
      store_live ?U s' (objectRefFrom ?U obj) = None"
    by (auto simp: store_client_def store_delete)
qed

lemma sweep_cong:
  assumes "cl_List c = cl_List c'" "cl_Delete c = cl_Delete c'"
  shows "sweep c keep scope lp p gs s = sweep c' keep scope lp p gs s"
proof -
  have "sweep_items c keep p items s = sweep_items c' keep p items s" for items s
    by (induction items arbitrary: s) (simp_all add: assms split: prod.split)
  then show ?thesis
    by (induction gs arbitrary: s) (simp_all add: assms split: prod.split sum.split)
qed

lemma store_sweep_clean:
  "fst (sweep (store_client U) keep scope lp p gs s) = []"
proof -
  have "fst (sweep_items (store_client U) keep p items s) = []" for items s
    by (induction items arbitrary: s)
      (simp_all add: sweep_items_Cons store_client_def delete_errs_def del: sweep_items.simps(2))
  then show ?thesis
    by (induction gs arbitrary: s)
      (simp_all add: sweep_Cons del: sweep.simps(2), simp add: store_client_def)
qed

lemma gc_facts:
  assumes "cluster (r_Client r) (r_Unstructured r) live"
    and "gcOrphanedResources r ns desired s = (err, s')" and "desired \<noteq> []"
  shows "live s ref = None \<Longrightarrow> live s' ref = None"
    and "live s ref = Some obj \<Longrightarrow> ref \<in> set desired \<or> \<not> managed (r_Unstructured r) ns obj \<Longrightarrow>
         live s' ref = Some obj"
    and "live s ref = Some obj \<Longrightarrow> err = None \<Longrightarrow> ref \<notin> set desired \<Longrightarrow>
         managed (r_Unstructured r) ns obj \<Longrightarrow> live s' ref = None"
proof -
  let ?U = "r_Unstructured r" and ?keep = "\<lambda>obj. List.member desired (objectRefFrom (r_Unstructured r) obj)"
  obtain lp1 p1 lp2 p2 e1 e2 s1 where
    1: "sweep (r_Client r) ?keep (Some ns) lp1 p1 cleanupGVKs s = (e1, s1)" and
    2: "sweep (r_Client r) ?keep None lp2 p2 cleanupClusterGVKs s1 = (e2, s')" and
    err: "err = errors_Join (e1 @ e2)"
    using assms(2,3) by (auto simp: gcOrphanedResources_def Let_def split: prod.splits)
  note two = cluster.two_sweeps [OF assms(1) 1 2]
  have ref: "objectRefFrom ?U obj = ref" if "live s ref = Some obj" for ref obj
    using cluster.live_ref [OF assms(1) that] .
  show "live s' ref = None" if "live s ref = None"
    using two(1) [of ref] that by (cases "live s' ref") auto
  show "live s' ref = Some obj"
    if "live s ref = Some obj" "ref \<in> set desired \<or> \<not> managed ?U ns obj"
    using two(2) [OF that(1)] that(2) ref [OF that(1)] by auto
  show "live s' ref = None"
    if "live s ref = Some obj" "err = None" "ref \<notin> set desired" "managed ?U ns obj"
  proof (cases "live s' ref")
    case (Some obj')
    with two(1) [OF Some] that(1) have "obj' = obj" by simp
    with two(3) [OF _ Some] that err ref [OF that(1)] show ?thesis by auto
  qed
qed

lemma cleanup_facts:
  assumes "cluster (r_Client r) (r_Unstructured r) live"
    and "cleanupManagedResources r ns s = (err, s')"
  shows "live s' ref = Some obj \<Longrightarrow> live s ref = Some obj"
    and "live s ref = Some obj \<Longrightarrow> \<not> managed (r_Unstructured r) ns obj \<Longrightarrow> live s' ref = Some obj"
    and "err = None \<Longrightarrow> live s' ref = Some obj \<Longrightarrow> \<not> managed (r_Unstructured r) ns obj"
proof -
  obtain lp1 p1 lp2 p2 e1 e2 s1 where
    1: "sweep (r_Client r) (\<lambda>_. False) (Some ns) lp1 p1 cleanupGVKs s = (e1, s1)" and
    2: "sweep (r_Client r) (\<lambda>_. False) None lp2 p2 cleanupClusterGVKs s1 = (e2, s')" and
    err: "err = errors_Join (e1 @ e2)"
    using assms(2) by (auto simp: cleanupManagedResources_def Let_def split: prod.splits)
  note two = cluster.two_sweeps [OF assms(1) 1 2]
  show "live s ref = Some obj" if "live s' ref = Some obj" using two(1) that .
  show "live s' ref = Some obj" if "live s ref = Some obj" "\<not> managed (r_Unstructured r) ns obj"
    using two(2) [OF that(1)] that(2) by auto
  show "\<not> managed (r_Unstructured r) ns obj" if "err = None" "live s' ref = Some obj"
    using two(3) [OF _ that(2)] that(1) err by auto
qed

section \<open>Properties\<close>

text \<open>
  C1: Garbage collection is exact. Against an API server that behaves as documented, a run with a
  non-empty desired set never removes or changes an object that is desired, an object without the
  component labels, an object of a kind outside the two clean-up lists (CustomResourceDefinitions,
  Namespaces, ImageStreams, Notebooks), or a namespaced object outside the operand namespace, whatever
  errors occur; and a run that reports no error removed every other one.
\<close>

theorem gc_exact:
  assumes "cluster (r_Client r) (r_Unstructured r) live"
    and "gcOrphanedResources r ns desired s = (err, s')" and "desired \<noteq> []"
  shows "(\<forall>ref. live s ref = None \<longrightarrow> live s' ref = None)
    \<and> (\<forall>ref obj. live s ref = Some obj \<longrightarrow>
         (ref \<in> set desired \<or> \<not> managed (r_Unstructured r) ns obj \<longrightarrow> live s' ref = Some obj)
         \<and> (err = None \<and> ref \<notin> set desired \<and> managed (r_Unstructured r) ns obj \<longrightarrow> live s' ref = None))"
  using gc_facts [OF assms] by blast

definition example_object :: "string \<Rightarrow> object" where
  "example_object name =
     [(''apiVersion'', JStr ''v1''), (''kind'', JStr ''ConfigMap''),
      (''metadata'', JObj [(''name'', JStr name), (''namespace'', JStr ''opendatahub''),
         (''labels'', JObj [(ComponentLabelKey, JStr LabelTrue), (PartOfLabelKey, JStr ComponentLabelValue)])])]"

definition example_ref :: "string \<Rightarrow> objectRef" where
  "example_ref name =
     \<lparr>ref_gvk = mk_gvk [] ''v1'' ''ConfigMap'', ref_namespace = ''opendatahub'', ref_name = name\<rparr>"

lemma example_object_facts:
  "objectRefFrom documented_unstructured (example_object name) = example_ref name"
  "managed documented_unstructured ''opendatahub'' (example_object name)"
  by (simp_all add: objectRefFrom_def doc.api meta_str_def gvk_of_def parse_gv_def nested_as_def
      found_or_none_def example_object_def example_ref_def mk_gvk_def managed_def labelled_def
      string_map_def componentMatchingLabels_def map_le_def cleanupGVKs_def kind_defs)

definition example_store :: "(objectRef \<times> object) list" where
  "example_store = [(example_ref ''kept'', example_object ''kept''), (example_ref ''old'', example_object ''old'')]"

definition example_gc_reconciler :: "(objectRef \<times> object) list reconciler" where
  "example_gc_reconciler = empty_reconciler\<lparr>r_Client := store_client documented_unstructured\<rparr>"

lemma example_store_live:
  "store_live documented_unstructured example_store (example_ref name) =
     (if name = ''kept'' \<or> name = ''old'' then Some (example_object name) else None)"
  by (auto simp: store_live_def example_store_def example_object_facts example_ref_def)

theorem gc_exact_witness:
  "store_live documented_unstructured
     (snd (gcOrphanedResources example_gc_reconciler ''opendatahub'' [example_ref ''kept''] example_store))
     (example_ref ''kept'') = Some (example_object ''kept'')"
proof -
  let ?r = example_gc_reconciler
  obtain err s' where run:
    "gcOrphanedResources ?r ''opendatahub'' [example_ref ''kept''] example_store = (err, s')"
    by (metis prod.exhaust)
  have "cluster (r_Client ?r) (r_Unstructured ?r) (store_live documented_unstructured)"
    using store.cluster_axioms by (simp add: example_gc_reconciler_def empty_reconciler_def)
  from gc_exact [OF this run] run show ?thesis
    using example_store_live [of "''kept''"] by simp
qed

text \<open>
  Clean-up is exact. Whatever errors occur, clean-up removes only objects of the clean-up kinds that
  carry the component labels (namespaced ones in the operand namespace only); when it reports no error,
  none of those objects is left. In particular CustomResourceDefinitions, Namespaces and ImageStreams
  survive the removal of the component, and with them the user's Notebooks.
\<close>

lemma cleanup_exact:
  assumes "cluster (r_Client r) (r_Unstructured r) live"
    and "cleanupManagedResources r ns s = (err, s')" and "unstructured (r_Unstructured r)"
  shows "(\<forall>ref. live s ref = None \<longrightarrow> live s' ref = None)
    \<and> (\<forall>ref obj. live s ref = Some obj \<longrightarrow>
         (\<not> managed (r_Unstructured r) ns obj \<longrightarrow> live s' ref = Some obj)
         \<and> (err = None \<and> managed (r_Unstructured r) ns obj \<longrightarrow> live s' ref = None))
    \<and> (\<forall>obj. GetKind (r_Unstructured r) obj
          \<in> {''CustomResourceDefinition'', ''Namespace'', ''ImageStream'', ''Notebook''} \<longrightarrow>
         \<not> managed (r_Unstructured r) ns obj)"
proof -
  let ?U = "r_Unstructured r"
  note facts = cleanup_facts [OF assms(1,2)]
  have c: "live s' ref = None"
    if "live s ref = Some obj" "err = None" "managed ?U ns obj" for ref obj
    using facts(1) [of ref] facts(3) [OF that(2), of ref] that by (cases "live s' ref") auto
  have d: "\<not> managed ?U ns obj"
    if "GetKind ?U obj
      \<in> {''CustomResourceDefinition'', ''Namespace'', ''ImageStream'', ''Notebook''}" for obj
  proof -
    have "gvk_Kind (GroupVersionKind ?U obj) = GetKind ?U obj"
      by (simp add: unstructured.api [OF assms(3)] gvk_of_def split: prod.split)
    with that have "GroupVersionKind ?U obj \<notin> set cleanupGVKs \<union> set cleanupClusterGVKs"
      by (auto simp: cleanupGVKs_def cleanupClusterGVKs_def mk_gvk_def kind_defs)
    then show ?thesis by (simp add: managed_def)
  qed
  have a: "live s' ref = None" if "live s ref = None" for ref
    using facts(1) [of ref] that by (cases "live s' ref") auto
  from a facts(2) c d show ?thesis by (intro conjI allI impI) simp_all
qed

lemma example_cleanup: "fst (cleanupManagedResources example_gc_reconciler ns s) = None"
proof -
  have clean: "sweep (store_client documented_unstructured) keep scope lp p gs s =
      ([], snd (sweep (store_client documented_unstructured) keep scope lp p gs s))" for keep scope lp p gs s
    using store_sweep_clean by (metis prod.collapse)
  have "r_Client example_gc_reconciler = store_client documented_unstructured"
    by (simp add: example_gc_reconciler_def)
  then show ?thesis
    unfolding cleanupManagedResources_def Let_def
    by simp (subst (1 2) clean, simp add: errors_Join_def)
qed

end
