(* ===== verification/Apply.thy ===== *)
theory Apply
  imports Objects Merge_Deployments Garbage
begin

text \<open>
  Applying rendered objects, from \<open>internal/controller/manifests.go\<close>: \<open>applyObjects\<close> with the
  preservation of live Deployment settings, and the ingress ConfigMap.
\<close>

definition FieldOwner :: string where
  "FieldOwner = ''workbenches-operator''"

definition preserveDeploymentCustomizations ::
  "'s reconciler \<Rightarrow> object \<Rightarrow> 's \<Rightarrow> object res \<times> 's" where
  "preserveDeploymentCustomizations r obj s =
     (let U = r_Unstructured r
      in if GetKind U obj \<noteq> kindDeployment then (Inr obj, s)
         else (case cl_Get (r_Client r) (GroupVersionKind U obj) (GetNamespace U obj) (GetName U obj) s of
             (Inl err, s') \<Rightarrow>
               (if IsNotFound err then Inr obj
                else Inl (WrapErr ''failed to get live Deployment: '' err), s')
           | (Inr live, s') \<Rightarrow>
               (if Option.bind (GetAnnotations U live) (\<lambda>a. map_of a ManagedAnnotation) = Some ''true''
                then Inr obj
                else (case mergeDeployments U live obj of
                    Inl err \<Rightarrow> Inl (WrapErr ''failed to merge Deployment: '' err)
                  | Inr obj' \<Rightarrow> Inr obj'), s')))"

text \<open>What is applied for one object, or the first error on the way.\<close>

definition prepareApply :: "'s reconciler \<Rightarrow> Workbenches \<Rightarrow> object \<Rightarrow> 's \<Rightarrow> object res \<times> 's" where
  "prepareApply r owner obj s =
     (let U = r_Unstructured r;
          obj = setComponentLabels U obj;
          nn = GetNamespace U obj @ ''/'' @ GetName U obj @ '': '';
          owned = (if shouldSetOwnerReference U obj
                   then (case r_SetControllerReference r owner (ClearOwnerReferences U obj) of
                           Inl err \<Rightarrow>
                             Inl (WrapErr (''failed to set owner reference on '' @ GetKind U obj @ '' '' @ nn) err)
                         | Inr obj' \<Rightarrow> Inr obj')
                   else Inr obj)
      in case owned of
           Inl err \<Rightarrow> (Inl err, s)
         | Inr obj \<Rightarrow>
             (case preserveDeploymentCustomizations r obj s of
                (Inl err, s') \<Rightarrow>
                  (Inl (WrapErr (''failed to preserve Deployment customizations for '' @ nn) err), s')
              | (Inr obj, s') \<Rightarrow>
                  (case stripAggregatedClusterRoleRules U obj of
                     Inl err \<Rightarrow>
                       (Inl (WrapErr (''failed to strip aggregated ClusterRole rules for '' @
                          GetName U obj @ '': '') err), s')
                   | Inr obj \<Rightarrow> (Inr (ClearManagedFields U obj), s'))))"

fun applyObjects :: "'s reconciler \<Rightarrow> Workbenches \<Rightarrow> object list \<Rightarrow> 's \<Rightarrow> unit res \<times> 's" where
  "applyObjects r owner [] s = (Inr (), s)"
| "applyObjects r owner (obj # objects) s =
     (case prepareApply r owner obj s of
        (Inl err, s1) \<Rightarrow> (Inl err, s1)
      | (Inr obj', s1) \<Rightarrow>
          (case cl_Apply (r_Client r) obj' FieldOwner s1 of
             (Inl err, s2) \<Rightarrow>
               (Inl (WrapErr (''failed to apply '' @ GetKind (r_Unstructured r) obj' @ '' '' @
                  GetNamespace (r_Unstructured r) obj' @ ''/'' @ GetName (r_Unstructured r) obj' @ '': '') err), s2)
           | (Inr _, s2) \<Rightarrow> applyObjects r owner objects s2))"

section \<open>The ingress ConfigMap\<close>

definition clearIngressContract :: "'s reconciler \<Rightarrow> string \<Rightarrow> 's \<Rightarrow> unit res \<times> 's" where
  "clearIngressContract r namespace s =
     (let key = namespace @ ''/'' @ NotebookControllerConfigMap
      in case cl_GetConfigMap (r_Client r) namespace NotebookControllerConfigMap s of
        (Inl err, s') \<Rightarrow>
          (if IsNotFound err then Inr () else Inl (WrapErr (''get configmap '' @ key @ '': '') err), s')
      | (Inr config, s') \<Rightarrow>
          (case cm_Data config of
             None \<Rightarrow> (Inr (), s')
           | Some data \<Rightarrow>
               if map_of data IngressContractConfigMapKey = None then (Inr (), s')
               else (case cl_PatchConfigMap (r_Client r)
                         (config\<lparr>cm_Data := Some (AList.delete IngressContractConfigMapKey data)\<rparr>)
                         config s' of
                   (Inl err, s'') \<Rightarrow> (Inl (WrapErr (''patch configmap '' @ key @ '': '') err), s'')
                 | (Inr _, s'') \<Rightarrow> (Inr (), s''))))"

definition ingress_config :: "string \<Rightarrow> string \<Rightarrow> string option \<Rightarrow> object" where
  "ingress_config namespace ingresses contract =
     [(''apiVersion'', JStr ''v1''), (''kind'', JStr ''ConfigMap''),
      (''metadata'', JObj [(''name'', JStr NotebookControllerConfigMap), (''namespace'', JStr namespace)]),
      (''data'', JObj ((''ingresses'', JStr ingresses) #
         (case contract of None \<Rightarrow> [] | Some k \<Rightarrow> [(IngressContractConfigMapKey, JStr k)])))]"

text \<open>
  The returned object is used for its reference only, which neither the labels and owner references
  set on the way nor the response of the server change.
\<close>

definition applyIngressConfig ::
  "'s reconciler \<Rightarrow> Workbenches \<Rightarrow> string \<Rightarrow> 's \<Rightarrow> object res \<times> 's" where
  "applyIngressConfig r owner namespace s =
     (case r_MarshalIngresses r (Ingresses (Spec owner)) of
        Inl err \<Rightarrow> (Inl (WrapErr ''marshal ingresses: '' err), s)
      | Inr ingresses \<Rightarrow>
          (case (case spec_IngressContract (Spec owner) of
                   None \<Rightarrow> Inr None
                 | Some k \<Rightarrow> map_sum id Some (r_MarshalContract r k)) of
             Inl err \<Rightarrow> (Inl (WrapErr ''marshal ingress contract: '' err), s)
           | Inr contract \<Rightarrow>
               (let config = ingress_config namespace ingresses contract
                in case applyObjects r owner [config] s of
                     (Inl err, s1) \<Rightarrow> (Inl (WrapErr ''failed to apply ingress configuration: '' err), s1)
                   | (Inr _, s1) \<Rightarrow>
                       if spec_IngressContract (Spec owner) = None
                       then (case clearIngressContract r namespace s1 of
                           (Inl err, s2) \<Rightarrow>
                             (Inl (WrapErr ''failed to clear stale ingress contract: '' err), s2)
                         | (Inr _, s2) \<Rightarrow> (Inr config, s2))
                       else (Inr config, s1))))"

end
