(* ===== verification/Filepath.thy ===== *)
theory Filepath
  imports Environment
begin

text \<open>
  Paths as \<open>path/filepath\<close> computes them on Unix (\<open>Clean\<close>, \<open>Join\<close>, \<open>Dir\<close>, \<open>Rel\<close>), and the
  contract of the file system that the manifest code relies on, as a locale with a model on
  in-memory files.
\<close>

section \<open>Paths\<close>

text \<open>One element of a path on the stack of elements kept so far, the last one first.\<close>

definition clean_elem :: "bool \<Rightarrow> string list \<Rightarrow> string \<Rightarrow> string list" where
  "clean_elem rooted stack e =
     (if e = [] \<or> e = ''.'' then stack
      else if e = ''..'' then
        (case stack of
           [] \<Rightarrow> if rooted then [] else [''..'']
         | t # rest \<Rightarrow> if t = ''..'' then ''..'' # stack else rest)
      else e # stack)"

definition clean_elems :: "string \<Rightarrow> string list" where
  "clean_elems path =
     rev (foldl (clean_elem (HasPrefix path ''/'')) [] (Split path (CHR ''/'')))"

definition Clean :: "string \<Rightarrow> string" where
  "Clean path =
     (let out = (if HasPrefix path ''/'' then ''/'' else []) @ Join_str ''/'' (clean_elems path)
      in if out = [] then ''.'' else out)"

definition filepath_Join :: "string list \<Rightarrow> string" where
  "filepath_Join elems =
     (case dropWhile (\<lambda>e. e = []) elems of
        [] \<Rightarrow> []
      | es \<Rightarrow> Clean (Join_str ''/'' es))"

definition filepath_Dir :: "string \<Rightarrow> string" where
  "filepath_Dir path = Clean (rev (dropWhile (\<lambda>c. c \<noteq> CHR ''/'') (rev path)))"

fun drop_common :: "string list \<Rightarrow> string list \<Rightarrow> string list \<times> string list" where
  "drop_common (a # as) (b # bs) = (if a = b then drop_common as bs else (a # as, b # bs))"
| "drop_common as bs = (as, bs)"

definition filepath_Rel :: "string \<Rightarrow> string \<Rightarrow> string res" where
  "filepath_Rel base targ =
     (let err = Inl (GoErr (''Rel: can't make '' @ targ @ '' relative to '' @ base))
      in if Clean base = Clean targ then Inr ''.''
         else if HasPrefix (Clean base) ''/'' \<noteq> HasPrefix (Clean targ) ''/'' then err
         else (case drop_common (clean_elems base) (clean_elems targ) of
             (up, down) \<Rightarrow>
               if up \<noteq> [] \<and> hd up = ''..'' then err
               else Inr (Join_str ''/'' (map (\<lambda>_. ''..'') up @ down))))"

section \<open>The contract of the file system\<close>

text \<open>
  \<open>content s p\<close> is the content of the regular file at path \<open>p\<close>. A successful write stores the data
  and a failed one may damage that file only; the other calls store nothing. There are no symbolic links:
  two clean paths are two files.
\<close>

locale disk =
  fixes F :: "'s filesys" and content :: "'s \<Rightarrow> string \<Rightarrow> string option"
  assumes read_ok: "fs_ReadFile F p s = (Inr d, s') \<Longrightarrow> content s p = Some d"
    and read_keeps: "content (snd (fs_ReadFile F p s)) = content s"
    and write_ok: "fs_WriteFile F p d s = (Inr (), s') \<Longrightarrow> content s' = (content s)(p \<mapsto> d)"
    and write_frame: "q \<noteq> p \<Longrightarrow> content (snd (fs_WriteFile F p d s)) q = content s q"
    and exists_file: "content s p = Some d \<Longrightarrow> fst (fs_Exists F p s)"
    and exists_keeps: "content (snd (fs_Exists F p s)) = content s"
    and stat_keeps: "content (snd (fs_Stat F p s)) = content s"
    and mkdir_keeps: "content (snd (fs_MkdirAll F p s)) = content s"
    and walk_keeps: "content (snd (fs_WalkDir F p s)) = content s"
begin

lemma read_keeps': "fs_ReadFile F p s = (x, s') \<Longrightarrow> content s' = content s"
  using read_keeps [of p s] by simp

lemma exists_keeps': "fs_Exists F p s = (x, s') \<Longrightarrow> content s' = content s"
  using exists_keeps [of p s] by simp

lemma write_frame': "fs_WriteFile F p d s = (x, s') \<Longrightarrow> q \<noteq> p \<Longrightarrow> content s' q = content s q"
  using write_frame [of q p d s] by simp

lemma mkdir_keeps': "fs_MkdirAll F p s = (x, s') \<Longrightarrow> content s' = content s"
  using mkdir_keeps [of p s] by simp

end

text \<open>In-memory files.\<close>

definition mem_files :: "(string \<Rightarrow> string option) filesys" where
  "mem_files = empty_files
     \<lparr>fs_ReadFile := (\<lambda>p s. (case s p of None \<Rightarrow> Inl no_file | Some d \<Rightarrow> Inr d, s)),
      fs_WriteFile := (\<lambda>p d s. (Inr (), s(p \<mapsto> d))),
      fs_Exists := (\<lambda>p s. (s p \<noteq> None, s))\<rparr>"

interpretation mem: disk mem_files "\<lambda>s. s"
  by unfold_locales (auto simp: mem_files_def empty_files_def split: option.splits)

end
