(* ===== verification/Params.thy ===== *)
theory Params
  imports Filepath
begin

text \<open>
  Parameter files. \<open>internal/controller/imageparams.go\<close> overlays the RELATED\_IMAGE environment
  variables onto \<open>params.env\<close> and \<open>params-latest.env\<close>; \<open>writeParamsEnv\<close> of \<open>manifests.go\<close> merges
  the parameters computed from the resource.
\<close>

section \<open>Reading a params file\<close>

definition newline :: char where "newline = CHR 0x0A"

text \<open>One line: blank lines, comments and lines without an equals sign give nothing.\<close>

definition parse_line :: "string \<Rightarrow> (string \<times> string) option" where
  "parse_line line =
     (let line = TrimSpace line
      in if line = [] \<or> HasPrefix line ''#'' then None else Cut line (CHR ''=''))"

definition param_entries :: "string \<Rightarrow> (string \<times> string) list" where
  "param_entries data = List.map_filter parse_line (Split data newline)"

definition params_map :: "(string \<times> string) list \<Rightarrow> string gomap" where
  "params_map entries = foldl (\<lambda>m (k, v). AList.update k v m) [] entries"

section \<open>imageparams.go\<close>

definition paramsEnvFiles :: "string list" where
  "paramsEnvFiles = [''params.env'', ''params-latest.env'']"

definition paramODHNotebookControllerImage :: string where
  "paramODHNotebookControllerImage = ''odh-notebook-controller-image''"

definition imageParamMap :: "string gomap" where
  "imageParamMap =
     [
      (paramODHNotebookControllerImage,
       ''RELATED_IMAGE_ODH_NOTEBOOK_CONTROLLER_IMAGE''),
      (''kube-rbac-proxy'',
       ''RELATED_IMAGE_ODH_KUBE_RBAC_PROXY_IMAGE''),
      (''odh-kf-notebook-controller-image'',
       ''RELATED_IMAGE_ODH_KF_NOTEBOOK_CONTROLLER_IMAGE''),
      (''odh-workbench-codeserver-datascience-cpu-py312-ubi9-n'',
       ''RELATED_IMAGE_ODH_WORKBENCH_CODESERVER_DATASCIENCE_CPU_PY312_IMAGE''),
      (''odh-workbench-codeserver-baseline-cpu-py312-c9s-n'',
       ''RELATED_IMAGE_ODH_WORKBENCH_CODESERVER_BASELINE_CPU_PY312_C9S_IMAGE''),
      (''odh-workbench-codeserver-minimal-cpu-py312-n'',
       ''RELATED_IMAGE_ODH_WORKBENCH_CODESERVER_MINIMAL_CPU_PY312_IMAGE''),
      (''odh-workbench-codeserver-minimal-cpu-py312-ubi9-n'',
       ''RELATED_IMAGE_ODH_WORKBENCH_CODESERVER_MINIMAL_CPU_PY312_IMAGE''),
      (''odh-workbench-jupyter-baseline-cpu-py312-c9s-n'',
       ''RELATED_IMAGE_ODH_WORKBENCH_JUPYTER_BASELINE_CPU_PY312_C9S_IMAGE''),
      (''odh-workbench-jupyter-datascience-cpu-py312-ubi9-n'',
       ''RELATED_IMAGE_ODH_WORKBENCH_JUPYTER_DATASCIENCE_CPU_PY312_IMAGE''),
      (''odh-workbench-jupyter-minimal-cpu-py312-ubi9-n'',
       ''RELATED_IMAGE_ODH_WORKBENCH_JUPYTER_MINIMAL_CPU_PY312_IMAGE''),
      (''odh-workbench-jupyter-minimal-cuda-py312-ubi9-n'',
       ''RELATED_IMAGE_ODH_WORKBENCH_JUPYTER_MINIMAL_CUDA_PY312_IMAGE''),
      (''odh-workbench-jupyter-minimal-rocm-py312-ubi9-n'',
       ''RELATED_IMAGE_ODH_WORKBENCH_JUPYTER_MINIMAL_ROCM_PY312_IMAGE''),
      (''odh-workbench-jupyter-pytorch-cuda-py312-ubi9-n'',
       ''RELATED_IMAGE_ODH_WORKBENCH_JUPYTER_PYTORCH_CUDA_PY312_IMAGE''),
      (''odh-workbench-jupyter-pytorch-rocm-py312-ubi9-n'',
       ''RELATED_IMAGE_ODH_WORKBENCH_JUPYTER_PYTORCH_ROCM_PY312_IMAGE''),
      (''odh-workbench-jupyter-tensorflow-cuda-py312-ubi9-n'',
       ''RELATED_IMAGE_ODH_WORKBENCH_JUPYTER_TENSORFLOW_CUDA_PY312_IMAGE''),
      (''odh-workbench-jupyter-tensorflow-rocm-py312-ubi9-n'',
       ''RELATED_IMAGE_ODH_WORKBENCH_JUPYTER_TENSORFLOW_ROCM_PY312_IMAGE''),
      (''odh-workbench-jupyter-trustyai-cpu-py312-ubi9-n'',
       ''RELATED_IMAGE_ODH_WORKBENCH_JUPYTER_TRUSTYAI_CPU_PY312_IMAGE''),
      (''odh-workbench-jupyter-pytorch-llmcompressor-cuda-py312-ubi9-n'',
       ''RELATED_IMAGE_ODH_WORKBENCH_JUPYTER_PYTORCH_LLMCOMPRESSOR_CUDA_PY312_IMAGE''),
      (''odh-workbench-jupyter-universal-cpu-py312-c9s-n'',
       ''RELATED_IMAGE_ODH_WORKBENCH_JUPYTER_UNIVERSAL_CPU_PY312_C9S_IMAGE''),
      (''odh-workbench-jupyter-universal-cpu-py312-ubi9-n'',
       ''RELATED_IMAGE_ODH_WORKBENCH_JUPYTER_UNIVERSAL_CPU_PY312_IMAGE''),
      (''odh-pipeline-runtime-baseline-cpu-py312-c9s-n'',
       ''RELATED_IMAGE_ODH_PIPELINE_RUNTIME_BASELINE_CPU_PY312_C9S_IMAGE''),
      (''odh-pipeline-runtime-datascience-cpu-py312-ubi9-n'',
       ''RELATED_IMAGE_ODH_PIPELINE_RUNTIME_DATASCIENCE_CPU_PY312_IMAGE''),
      (''odh-pipeline-runtime-minimal-cpu-py312-ubi9-n'',
       ''RELATED_IMAGE_ODH_PIPELINE_RUNTIME_MINIMAL_CPU_PY312_IMAGE''),
      (''odh-pipeline-runtime-tensorflow-cuda-py312-ubi9-n'',
       ''RELATED_IMAGE_ODH_PIPELINE_RUNTIME_TENSORFLOW_CUDA_PY312_IMAGE''),
      (''odh-pipeline-runtime-tensorflow-rocm-py312-ubi9-n'',
       ''RELATED_IMAGE_ODH_PIPELINE_RUNTIME_TENSORFLOW_ROCM_PY312_IMAGE''),
      (''odh-pipeline-runtime-pytorch-cuda-py312-ubi9-n'',
       ''RELATED_IMAGE_ODH_PIPELINE_RUNTIME_PYTORCH_CUDA_PY312_IMAGE''),
      (''odh-pipeline-runtime-pytorch-rocm-py312-ubi9-n'',
       ''RELATED_IMAGE_ODH_PIPELINE_RUNTIME_PYTORCH_ROCM_PY312_IMAGE''),
      (''odh-pipeline-runtime-pytorch-llmcompressor-cuda-py312-ubi9-n'',
       ''RELATED_IMAGE_ODH_PIPELINE_RUNTIME_PYTORCH_LLMCOMPRESSOR_CUDA_PY312_IMAGE''),
      (''WORKBENCH_CONTROLLER_IMAGE'',
       ''RELATED_IMAGE_ODH_WORKBENCHES_CONTROLLER_IMAGE''),
      (''KUBE_RBAC_PROXY_IMAGE'',
       ''RELATED_IMAGE_ODH_KUBE_RBAC_PROXY_IMAGE'')]"

definition relatedImagesFromEnv :: "(string \<Rightarrow> string) \<Rightarrow> string gomap" where
  "relatedImagesFromEnv lookupEnv =
     List.map_filter (\<lambda>(paramKey, envName).
       let v = TrimSpace (lookupEnv envName) in if v \<noteq> [] then Some (paramKey, v) else None)
       imageParamMap"

text \<open>
  The second loop of \<open>overlayExistingParams\<close>: overrides of keys that are present and differ. The
  result is the updated map with the flag \<open>updated\<close>.
\<close>

fun apply_overrides ::
  "(string \<times> string) list \<Rightarrow> string gomap \<Rightarrow> bool \<Rightarrow> (string gomap \<times> bool) res" where
  "apply_overrides [] existing updated = Inr (existing, updated)"
| "apply_overrides ((k, newVal) # overrides) existing updated =
     (case map_of existing k of
        None \<Rightarrow> apply_overrides overrides existing updated
      | Some old \<Rightarrow>
          if old = newVal then apply_overrides overrides existing updated
          else if ContainsAny newVal [newline, CHR 0x0D]
            then Inl (GoErr (''related image value for key '' @ Quote k @
                   '' contains invalid control characters''))
          else apply_overrides overrides (AList.update k newVal existing) True)"

text \<open>The third loop: one output line for each input line.\<close>

definition overlay_line :: "string gomap \<Rightarrow> string \<Rightarrow> string" where
  "overlay_line existing line =
     (let trimmed = TrimSpace line
      in if trimmed = [] \<or> HasPrefix trimmed ''#'' then line
         else (case Cut trimmed (CHR ''='') of
             None \<Rightarrow> line
           | Some (k, _) \<Rightarrow>
               (case map_of existing k of Some v \<Rightarrow> k @ ''='' @ v | None \<Rightarrow> line)))"

definition overlay_content :: "string gomap \<Rightarrow> string \<Rightarrow> string" where
  "overlay_content existing data =
     (let content = Join_str [newline] (map (overlay_line existing) (Split data newline))
      in if HasSuffix content [newline] then content else content @ [newline])"

definition overlayExistingParams ::
  "'s filesys \<Rightarrow> string \<Rightarrow> string gomap \<Rightarrow> 's \<Rightarrow> unit res \<times> 's" where
  "overlayExistingParams fSys paramsPath overrides s =
     (case fs_Exists fSys paramsPath s of
        (False, s1) \<Rightarrow> (Inr (), s1)
      | (True, s1) \<Rightarrow>
          (case fs_ReadFile fSys paramsPath s1 of
             (Inl err, s2) \<Rightarrow> (Inl (WrapErr (''reading '' @ paramsPath @ '': '') err), s2)
           | (Inr data, s2) \<Rightarrow>
               (case apply_overrides overrides (params_map (param_entries data)) False of
                  Inl err \<Rightarrow> (Inl err, s2)
                | Inr (existing, updated) \<Rightarrow>
                    if \<not> updated then (Inr (), s2)
                    else fs_WriteFile fSys paramsPath (overlay_content existing data) s2)))"

fun overlay_files ::
  "'s filesys \<Rightarrow> string \<Rightarrow> string gomap \<Rightarrow> string list \<Rightarrow> 's \<Rightarrow> unit res \<times> 's" where
  "overlay_files fSys kustomizeDir images [] s = (Inr (), s)"
| "overlay_files fSys kustomizeDir images (name # names) s =
     (case overlayExistingParams fSys (filepath_Join [kustomizeDir, name]) images s of
        (Inl err, s') \<Rightarrow>
          (Inl (WrapErr (''applying related images to '' @ name @ '': '') err), s')
      | (Inr _, s') \<Rightarrow> overlay_files fSys kustomizeDir images names s')"

definition applyRelatedImageParams ::
  "'s filesys \<Rightarrow> (string \<Rightarrow> string) \<Rightarrow> string \<Rightarrow> 's \<Rightarrow> unit res \<times> 's" where
  "applyRelatedImageParams fSys lookupEnv kustomizeDir s =
     (let images = relatedImagesFromEnv lookupEnv
      in if length images = 0 then (Inr (), s)
         else overlay_files fSys kustomizeDir images paramsEnvFiles s)"

section \<open>writeParamsEnv\<close>

text \<open>The loop over the parameters, with the keys that are new to the file.\<close>

fun merge_params ::
  "(string \<times> string) list \<Rightarrow> string gomap \<Rightarrow> string list \<Rightarrow> (string gomap \<times> string list) res" where
  "merge_params [] existing newKeys = Inr (existing, newKeys)"
| "merge_params ((k, v) # params) existing newKeys =
     (if ContainsAny k [newline, CHR 0x0D, CHR ''='']
      then Inl (GoErr (''params key contains invalid characters: '' @ Quote k))
      else if ContainsAny v [newline, CHR 0x0D]
      then Inl (GoErr (''params value for key '' @ Quote k @ '' contains invalid control characters''))
      else merge_params params (AList.update k v existing)
             (if map_of existing k = None then newKeys @ [k] else newKeys))"

definition params_content :: "string gomap \<Rightarrow> string list \<Rightarrow> string" where
  "params_content existing orderedKeys =
     Join_str [newline] (map (\<lambda>k. k @ ''='' @ get_str existing k) orderedKeys) @ [newline]"

definition writeParamsEnv ::
  "'s filesys \<Rightarrow> string \<Rightarrow> string gomap \<Rightarrow> 's \<Rightarrow> unit res \<times> 's" where
  "writeParamsEnv fSys kustomizeDir params s =
     (let paramsPath = filepath_Join [kustomizeDir, ''params.env'']
      in case fs_ReadFile fSys paramsPath s of
        (read, s1) \<Rightarrow>
          (let entries = (case read of Inl _ \<Rightarrow> [] | Inr data \<Rightarrow> param_entries data);
               orderedKeys = map fst entries
           in case merge_params params (params_map entries) [] of
                Inl err \<Rightarrow> (Inl err, s1)
              | Inr (existing, newKeys) \<Rightarrow>
                  fs_WriteFile fSys paramsPath
                    (params_content existing (orderedKeys @ sort newKeys)) s1))"

section \<open>Facts\<close>

text \<open>The value of each key, the last entry when a key is repeated.\<close>

definition param_values :: "string \<Rightarrow> string \<Rightarrow> string option" where
  "param_values data = map_of (rev (param_entries data))"

lemma map_of_params_map: "map_of (params_map es) = map_of (rev es)"
  by (induction es rule: rev_induct) (auto simp: params_map_def)

lemma no_equals_in_space_runes: "w \<in> set space_runes \<Longrightarrow> CHR ''='' \<notin> set w"
  by (auto simp: space_runes_def)

lemma prefix_before_equals:
  "CHR ''='' \<notin> set w \<Longrightarrow> prefix w (k @ CHR ''='' # v) \<longleftrightarrow> prefix w k"
  by (auto simp: prefix_append prefix_Cons)

lemma trimmed_pair:
  "trimmed (k @ CHR ''='' # v) \<longleftrightarrow>
     no_word space_runes k \<and> no_word (map rev space_runes) (rev v)"
proof -
  have "no_word space_runes (k @ CHR ''='' # v) \<longleftrightarrow> no_word space_runes k"
    using no_equals_in_space_runes by (auto simp: no_word_def prefix_before_equals)
  moreover have "no_word (map rev space_runes) (rev v @ CHR ''='' # rev k) \<longleftrightarrow>
      no_word (map rev space_runes) (rev v)"
    using no_equals_in_space_runes by (auto simp: no_word_def prefix_before_equals)
  ultimately show ?thesis by (simp add: trimmed_def)
qed

text \<open>A pair that survives being written as a line and read back.\<close>

definition line_safe :: "string \<Rightarrow> string \<Rightarrow> bool" where
  "line_safe k v \<longleftrightarrow>
     CHR ''='' \<notin> set k \<and> \<not> HasPrefix k ''#'' \<and> trimmed (k @ CHR ''='' # v)
     \<and> newline \<notin> set k \<and> newline \<notin> set v"

lemma HasPrefix_hash: "HasPrefix (k @ CHR ''='' # v) ''#'' \<longleftrightarrow> HasPrefix k ''#''"
  by (cases k) (auto simp: HasPrefix_def)

lemma parse_line_safe: "line_safe k v \<Longrightarrow> parse_line (k @ CHR ''='' # v) = Some (k, v)"
  by (simp add: line_safe_def parse_line_def TrimSpace_trimmed HasPrefix_hash Cut_append)

lemma parse_line_Some:
  assumes "parse_line line = Some (k, v)"
  shows "TrimSpace line = k @ CHR ''='' # v" and "newline \<notin> set line \<Longrightarrow> line_safe k v"
proof -
  from assms show l: "TrimSpace line = k @ CHR ''='' # v"
    by (auto simp: parse_line_def Let_def Cut_Some_iff split: if_splits)
  assume nl: "newline \<notin> set line"
  have "set (k @ CHR ''='' # v) \<subseteq> set line"
    using set_TrimSpace [of line] l by simp
  moreover have "CHR ''='' \<notin> set k" "\<not> HasPrefix k ''#''"
    using assms l by (auto simp: parse_line_def Let_def Cut_Some_iff HasPrefix_hash split: if_splits)
  moreover have "trimmed (k @ CHR ''='' # v)"
    using trimmed_TrimSpace [of line] l by simp
  ultimately show "line_safe k v"
    using nl by (auto simp: line_safe_def)
qed

lemma param_entries_safe: "(k, v) \<in> set (param_entries data) \<Longrightarrow> line_safe k v"
  by (auto simp: param_entries_def map_filter_def split: option.splits
      intro: parse_line_Some(2) dest: Split_no_sep)

lemma param_values_safe: "param_values data k = Some v \<Longrightarrow> line_safe k v"
  unfolding param_values_def by (metis map_of_SomeD param_entries_safe set_rev)

lemma line_safe_other_value:
  "line_safe k v \<Longrightarrow> trimmed v' \<Longrightarrow> newline \<notin> set v' \<Longrightarrow> line_safe k v'"
  by (auto simp: line_safe_def trimmed_pair) (auto simp: trimmed_def)

lemma map_filter_lines:
  "(\<And>x. x \<in> set xs \<Longrightarrow> f (g x) = Some (h x)) \<Longrightarrow> List.map_filter f (map g xs) = map h xs"
  by (induction xs) auto

lemma map_of_rev_pairs: "map_of (rev (map (\<lambda>k. (k, f k)) ks)) k = (if k \<in> set ks then Some (f k) else None)"
  by (induction ks rule: rev_induct) auto

subsection \<open>writeParamsEnv\<close>

lemma params_content_values:
  assumes "\<And>k. k \<in> set ks \<Longrightarrow> line_safe k (get_str existing k)"
  shows "param_values (params_content existing ks) k =
         (if k \<in> set ks then Some (get_str existing k) else None)"
proof -
  let ?lines = "map (\<lambda>k. k @ ''='' @ get_str existing k) ks"
  have "param_entries (params_content existing ks) = List.map_filter parse_line ?lines"
  proof (cases "ks = []")
    case True
    then show ?thesis
      by (simp add: param_entries_def params_content_def parse_line_def map_filter_def)
  next
    case False
    then have "Split (Join_str [newline] (?lines @ [[]])) newline = ?lines @ [[]]"
      using assms by (intro Split_Join_str) (auto simp: line_safe_def newline_def)
    moreover have "Join_str [newline] (?lines @ [[]]) = Join_str [newline] ?lines @ [newline]"
      using False by (induction ks rule: list_nonempty_induct) (auto simp: Join_str_Cons)
    ultimately show ?thesis
      by (simp add: param_entries_def params_content_def map_filter_def parse_line_def)
  qed
  also have "\<dots> = map (\<lambda>k. (k, get_str existing k)) ks"
    using assms by (intro map_filter_lines) (simp add: parse_line_safe)
  finally show ?thesis
    by (simp add: param_values_def map_of_rev_pairs)
qed

lemma map_add_upd_absent: "m k = None \<Longrightarrow> n(k \<mapsto> v) ++ m = n ++ m(k \<mapsto> v)"
  by (rule ext) (auto simp: map_add_def split: option.split)

lemma merge_params_Inr:
  assumes "merge_params params existing newKeys = Inr (existing', newKeys')"
    and "wf_map params"
  shows "map_of existing' = map_of existing ++ map_of params
    \<and> set newKeys' = set newKeys \<union> (dom (map_of params) - dom (map_of existing))"
  using assms
proof (induction params existing newKeys rule: merge_params.induct)
  case (2 k v params existing newKeys)
  then have IH: "map_of existing' = map_of (AList.update k v existing) ++ map_of params"
    "set newKeys' = set (if map_of existing k = None then newKeys @ [k] else newKeys)
        \<union> (dom (map_of params) - dom (map_of (AList.update k v existing)))"
    by (simp_all add: wf_map_Cons del: map_of_update split: if_splits)
  have "map_of params k = None"
    using 2(3) by (simp add: wf_map_Cons)
  with IH(1) have "map_of existing' = map_of existing ++ map_of ((k, v) # params)"
    by (simp add: map_add_upd_absent)
  moreover from IH(2) have "set newKeys' = set newKeys \<union>
      (dom (map_of ((k, v) # params)) - dom (map_of existing))"
    by (cases "map_of existing k") auto
  ultimately show ?case by blast
qed auto

lemma ContainsAny_iff: "ContainsAny s chars \<longleftrightarrow> (\<exists>c \<in> set s. c \<in> set chars)"
  by (auto simp: ContainsAny_def list_ex_iff)

lemma merge_params_rejects:
  "(k, v) \<in> set params \<Longrightarrow>
   ContainsAny k [newline, CHR 0x0D, CHR ''=''] \<or> ContainsAny v [newline, CHR 0x0D] \<Longrightarrow>
   \<exists>e. merge_params params existing newKeys = Inl e"
  by (induction params existing newKeys rule: merge_params.induct) auto

lemma merge_params_accepts:
  "merge_params params existing newKeys = Inr res \<Longrightarrow> (k, v) \<in> set params \<Longrightarrow>
   CHR ''='' \<notin> set k \<and> newline \<notin> set k \<and> newline \<notin> set v"
  by (induction params existing newKeys arbitrary: res rule: merge_params.induct)
    (auto simp: ContainsAny_iff split: if_splits)

subsection \<open>overlayExistingParams\<close>

lemma apply_overrides_Inr:
  assumes "apply_overrides overrides existing updated = Inr (existing', updated')"
    and "wf_map overrides"
  shows "map_of existing' k = (case map_of existing k of None \<Rightarrow> None
           | Some v \<Rightarrow> Some (case map_of overrides k of None \<Rightarrow> v | Some v' \<Rightarrow> v'))"
    and "map_of existing' k = Some v \<Longrightarrow> map_of existing k = Some v \<or> newline \<notin> set v"
    and "\<not> updated' \<Longrightarrow> existing' = existing \<and> \<not> updated"
proof -
  have "(map_of existing' k = (case map_of existing k of None \<Rightarrow> None
           | Some v \<Rightarrow> Some (case map_of overrides k of None \<Rightarrow> v | Some v' \<Rightarrow> v')))
      \<and> (map_of existing' k = Some v \<longrightarrow> map_of existing k = Some v \<or> newline \<notin> set v)
      \<and> (\<not> updated' \<longrightarrow> existing' = existing \<and> \<not> updated)"
    using assms
  proof (induction overrides existing updated rule: apply_overrides.induct)
    case (2 k1 newVal overrides existing updated)
    then have "map_of overrides k1 = None" "wf_map overrides" by (auto simp: wf_map_Cons)
    with 2 show ?case
      by (auto simp: ContainsAny_iff split: option.splits if_splits)
  qed (auto split: option.splits)
  then show "map_of existing' k = (case map_of existing k of None \<Rightarrow> None
           | Some v \<Rightarrow> Some (case map_of overrides k of None \<Rightarrow> v | Some v' \<Rightarrow> v'))"
    and "map_of existing' k = Some v \<Longrightarrow> map_of existing k = Some v \<or> newline \<notin> set v"
    and "\<not> updated' \<Longrightarrow> existing' = existing \<and> \<not> updated"
    by simp_all
qed

lemma overlay_line_eq:
  "overlay_line existing line =
     (case parse_line line of
        None \<Rightarrow> line
      | Some (k, _) \<Rightarrow> (case map_of existing k of None \<Rightarrow> line | Some v \<Rightarrow> k @ ''='' @ v))"
  by (auto simp: overlay_line_def parse_line_def Let_def split: option.splits)

lemma parse_overlay_line:
  assumes "\<And>k v. parse_line line = Some (k, v) \<Longrightarrow> \<exists>v'. map_of existing k = Some v' \<and> line_safe k v'"
  shows "parse_line (overlay_line existing line) =
         map_option (\<lambda>(k, v). (k, get_str existing k)) (parse_line line)"
  using assms
  by (auto simp: overlay_line_eq get_str_def parse_line_safe split: option.splits)

lemma Split_append_newline:
  assumes "ls \<noteq> []" "\<And>l. l \<in> set ls \<Longrightarrow> newline \<notin> set l"
  shows "Split (Join_str [newline] ls @ [newline]) newline = ls @ [[]]"
proof -
  have "Join_str [newline] (ls @ [[]]) = Join_str [newline] ls @ [newline]"
    using assms(1) by (induction ls rule: list_nonempty_induct) (auto simp: Join_str_Cons)
  moreover have "Split (Join_str [newline] (ls @ [[]])) newline = ls @ [[]]"
    using assms by (intro Split_Join_str) auto
  ultimately show ?thesis by simp
qed

lemma overlay_content_lines:
  assumes "\<And>k v. map_of existing k = Some v \<Longrightarrow> newline \<notin> set v"
  shows "\<exists>tail. (tail = [] \<or> tail = [[]]) \<and>
     Split (overlay_content existing data) newline =
       map (overlay_line existing) (Split data newline) @ tail"
proof -
  let ?ls = "map (overlay_line existing) (Split data newline)"
  have nl: "newline \<notin> set (overlay_line existing l)" if "newline \<notin> set l" for l
  proof (cases "parse_line l")
    case None
    with that show ?thesis by (simp add: overlay_line_eq)
  next
    case (Some kv)
    with that parse_line_Some(2) [of l "fst kv" "snd kv"] assms show ?thesis
      by (auto simp: overlay_line_eq line_safe_def newline_def split: option.splits prod.splits)
  qed
  then have ok: "newline \<notin> set l" if "l \<in> set ?ls" for l
    using that Split_no_sep by fastforce
  have "Split (Join_str [newline] ?ls) newline = ?ls"
    using ok by (intro Split_Join_str) auto
  moreover have "Split (Join_str [newline] ?ls @ [newline]) newline = ?ls @ [[]]"
    using ok by (intro Split_append_newline) auto
  ultimately show ?thesis
    by (auto simp: overlay_content_def Let_def)
qed

lemma map_filter_append:
  "List.map_filter f (xs @ ys) = List.map_filter f xs @ List.map_filter f ys"
  by (simp add: map_filter_def)

lemma in_map_filter: "x \<in> set xs \<Longrightarrow> f x = Some y \<Longrightarrow> y \<in> set (List.map_filter f xs)"
  by (induction xs) (auto simp: map_filter_simps split: option.splits)

text \<open>What an overlay makes of the entries, when the new values can be read back.\<close>

lemma overlay_content_entries:
  assumes "\<And>k v. map_of existing k = Some v \<Longrightarrow> newline \<notin> set v"
    and "\<And>k v. (k, v) \<in> set (param_entries data) \<Longrightarrow>
           \<exists>v'. map_of existing k = Some v' \<and> line_safe k v'"
  shows "param_entries (overlay_content existing data) =
         map (\<lambda>(k, v). (k, get_str existing k)) (param_entries data)"
proof -
  have "\<exists>tail. (tail = [] \<or> tail = [[]]) \<and> Split (overlay_content existing data) newline =
      map (overlay_line existing) (Split data newline) @ tail"
    using assms(1) by (rule overlay_content_lines)
  then obtain tail where t: "tail = [] \<or> tail = [[]]"
    "Split (overlay_content existing data) newline = map (overlay_line existing) (Split data newline) @ tail"
    by (elim exE conjE)
  have parse: "parse_line (overlay_line existing l) =
      map_option (\<lambda>(k, v). (k, get_str existing k)) (parse_line l)" if "l \<in> set (Split data newline)" for l
  proof (rule parse_overlay_line)
    fix k v
    assume "parse_line l = Some (k, v)"
    with that have "(k, v) \<in> set (param_entries data)"
      by (metis in_map_filter param_entries_def)
    with assms(2) show "\<exists>v'. map_of existing k = Some v' \<and> line_safe k v'" by blast
  qed
  have filter_tail: "List.map_filter parse_line tail = []"
    using t(1) by (auto simp: map_filter_def parse_line_def)
  have "List.map_filter parse_line (map (overlay_line existing) ls) =
      map (\<lambda>(k, v). (k, get_str existing k)) (List.map_filter parse_line ls)"
    if "set ls \<subseteq> set (Split data newline)" for ls
    using that by (induction ls) (auto simp: map_filter_simps parse split: option.split)
  from this [OF subset_refl] t(2) filter_tail show ?thesis
    unfolding param_entries_def by (simp only: map_filter_append append_Nil2)
qed

definition image_override :: "(string \<Rightarrow> string) \<Rightarrow> string \<Rightarrow> string option" where
  "image_override lookupEnv k =
     (case map_of imageParamMap k of
        None \<Rightarrow> None
      | Some envName \<Rightarrow>
          if TrimSpace (lookupEnv envName) = [] then None else Some (TrimSpace (lookupEnv envName)))"

lemma relatedImagesFromEnv_eq:
  "relatedImagesFromEnv lookupEnv =
     map (\<lambda>(p, e). (p, TrimSpace (lookupEnv e)))
       (filter (\<lambda>(p, e). TrimSpace (lookupEnv e) \<noteq> []) imageParamMap)"
proof -
  have "List.map_filter (\<lambda>(p, e). let v = TrimSpace (lookupEnv e)
            in if v \<noteq> [] then Some (p, v) else None) m =
        map (\<lambda>(p, e). (p, TrimSpace (lookupEnv e))) (filter (\<lambda>(p, e). TrimSpace (lookupEnv e) \<noteq> []) m)"
    for m
    by (induction m) (auto simp: map_filter_simps Let_def)
  then show ?thesis by (simp add: relatedImagesFromEnv_def)
qed

lemma imageParamMap_distinct: "distinct (map fst imageParamMap)"
  unfolding imageParamMap_def by code_simp

lemma map_of_filter_snd:
  "distinct (map fst m) \<Longrightarrow> map_of (filter (\<lambda>(p, e). P e) m) k =
     (case map_of m k of None \<Rightarrow> None | Some e \<Rightarrow> if P e then Some e else None)"
  by (induction m) (auto simp: map_of_eq_None_iff split: option.splits)

lemma map_of_related_images: "map_of (relatedImagesFromEnv lookupEnv) k = image_override lookupEnv k"
proof -
  have "map_of (map (\<lambda>(p, e). (p, TrimSpace (lookupEnv e))) m) k =
        map_option (\<lambda>e. TrimSpace (lookupEnv e)) (map_of m k)" for m :: "string gomap"
    by (induction m) auto
  then show ?thesis
    by (simp add: relatedImagesFromEnv_eq image_override_def
        map_of_filter_snd [OF imageParamMap_distinct] split: option.split)
qed

lemma wf_related_images: "wf_map (relatedImagesFromEnv lookupEnv)"
proof -
  have "map fst (relatedImagesFromEnv lookupEnv) =
        map fst (filter (\<lambda>(p, e). TrimSpace (lookupEnv e) \<noteq> []) imageParamMap)"
    by (auto simp: relatedImagesFromEnv_eq)
  then show ?thesis
    by (simp add: wf_map_def distinct_map_filter imageParamMap_distinct)
qed

section \<open>Properties\<close>

text \<open>
  C31: Writing parameters merges them into the file. After a successful read of params.env and a
  successful write, the file holds, for every key of the parameters, the new value, and for every
  other key the value it held before, however the file is laid out (comments, blank lines, repeated
  keys, surrounding white space); no other file changes. The parameters are to be readable back as
  lines: keys that start neither with a comment sign nor with white space and values that do not end
  in it.
\<close>

theorem params_env_merge:
  assumes "disk F content" and "wf_map params"
    and "\<forall>k v. map_of params k = Some v \<longrightarrow>
           \<not> HasPrefix k ''#'' \<and> TrimSpace (k @ ''='' @ v) = k @ ''='' @ v"
    and "fs_ReadFile F (filepath_Join [dir, ''params.env'']) s = (Inr data, s1)"
    and "writeParamsEnv F dir params s = (Inr (), s')"
  shows "(\<exists>c. content s' (filepath_Join [dir, ''params.env'']) = Some c
       \<and> (\<forall>k. param_values c k =
            (case map_of params k of Some v \<Rightarrow> Some v | None \<Rightarrow> param_values data k)))
    \<and> (\<forall>q. q \<noteq> filepath_Join [dir, ''params.env''] \<longrightarrow> content s' q = content s q)"
proof -
  let ?p = "filepath_Join [dir, ''params.env'']"
  have s1: "content s1 = content s"
    by (rule disk.read_keeps' [OF assms(1,4)])
  obtain existing newKeys where
    m: "merge_params params (params_map (param_entries data)) [] = Inr (existing, newKeys)"
    and w: "fs_WriteFile F ?p
       (params_content existing (map fst (param_entries data) @ sort newKeys)) s1 = (Inr (), s')"
    using assms(4,5) by (auto simp: writeParamsEnv_def Let_def split: sum.splits)
  let ?ks = "map fst (param_entries data) @ sort newKeys"
  have ex: "map_of existing = param_values data ++ map_of params"
    and nk: "set newKeys = dom (map_of params) - dom (param_values data)"
    using merge_params_Inr [OF m assms(2)] by (auto simp: map_of_params_map param_values_def)
  have dom: "dom (param_values data) = set (map fst (param_entries data))"
    by (simp add: param_values_def dom_map_of_conv_image_fst)
  then have ks: "set ?ks = dom (map_of existing)"
    using ex nk by auto
  have safe: "line_safe k (get_str existing k)" if k: "k \<in> set ?ks" for k
  proof (cases "map_of params k")
    case None
    have "k \<in> dom (map_of existing)"
      using k ks by (simp only:)
    with None obtain v where "param_values data k = Some v"
      using ex by (auto simp: map_add_def)
    with None ex show ?thesis
      by (simp add: get_str_def map_add_def param_values_safe)
  next
    case (Some v)
    then have "(k, v) \<in> set params" by (rule map_of_SomeD)
    with merge_params_accepts [OF m] assms(3) Some ex show ?thesis
      by (auto simp: get_str_def line_safe_def TrimSpace_fixed_iff)
  qed
  have "param_values (params_content existing ?ks) k =
      (case map_of params k of Some v \<Rightarrow> Some v | None \<Rightarrow> param_values data k)" for k
  proof -
    have "param_values (params_content existing ?ks) k =
        (if k \<in> set ?ks then Some (get_str existing k) else None)"
      by (rule params_content_values) (rule safe)
    also have "\<dots> = map_of existing k"
      unfolding ks by (auto simp: get_str_def split: option.split)
    finally show ?thesis by (simp add: ex map_add_def)
  qed
  with disk.write_ok [OF assms(1) w] s1 show ?thesis by auto
qed

theorem params_env_merge_witness:
  "\<exists>c. snd (writeParamsEnv mem_files ''d'' [(''b'', ''2'')] [''d/params.env'' \<mapsto> ''a=1'']) ''d/params.env''
        = Some c \<and> param_values c ''b'' = Some ''2'' \<and> param_values c ''a'' = Some ''1''"
proof -
  let ?s = "[''d/params.env'' \<mapsto> ''a=1'']"
  have path: "filepath_Join [''d'', ''params.env''] = ''d/params.env''"
    by (simp add: filepath_Join_def Clean_def clean_elems_def clean_elem_def HasPrefix_def)
  have rd: "fs_ReadFile mem_files (filepath_Join [''d'', ''params.env'']) ?s = (Inr ''a=1'', ?s)"
    by (simp add: path mem_files_def)
  have plain: "TrimSpace ''a=1'' = ''a=1''" "TrimSpace ''b=2'' = ''b=2''"
    by (simp_all add: TrimSpace_plain plain_ends_def space_runes_def)
  have entries: "param_entries ''a=1'' = [(''a'', ''1'')]"
    by (simp add: param_entries_def newline_def map_filter_simps parse_line_def plain HasPrefix_def)
  obtain s' where run: "writeParamsEnv mem_files ''d'' [(''b'', ''2'')] ?s = (Inr (), s')"
    by (simp add: writeParamsEnv_def rd entries ContainsAny_iff newline_def params_map_def Let_def)
      (simp add: mem_files_def)
  have "\<forall>k v. map_of [(''b'', ''2'')] k = Some v \<longrightarrow>
      \<not> HasPrefix k ''#'' \<and> TrimSpace (k @ ''='' @ v) = k @ ''='' @ v"
    using plain by (simp add: HasPrefix_def)
  from params_env_merge [OF mem.disk_axioms _ this rd run] obtain c
    where c: "s' ''d/params.env'' = Some c" and vals: "\<And>k. param_values c k =
      (case map_of [(''b'', ''2'')] k of Some v \<Rightarrow> Some v | None \<Rightarrow> param_values ''a=1'' k)"
    by (auto simp: path wf_map_def)
  from c vals [of "''a''"] vals [of "''b''"] run show ?thesis
    by (simp add: param_values_def entries)
qed

text \<open>
  C32: No parameter can inject a line. If some key of the parameters holds a line break, a carriage
  return or an equals sign, or some value a line break or a carriage return, the call fails and no
  file changes.
\<close>

theorem params_env_rejects_injection:
  assumes "disk F content" and "(k, v) \<in> set params"
    and "ContainsAny k [newline, CHR 0x0D, CHR ''=''] \<or> ContainsAny v [newline, CHR 0x0D]"
  shows "\<exists>e s'. writeParamsEnv F dir params s = (Inl e, s') \<and> content s' = content s"
proof -
  obtain res s1 where rd: "fs_ReadFile F (filepath_Join [dir, ''params.env'']) s = (res, s1)"
    by (metis prod.exhaust)
  obtain e where "merge_params params
      (params_map (case res of Inl _ \<Rightarrow> [] | Inr data \<Rightarrow> param_entries data)) [] = Inl e"
    using merge_params_rejects [OF assms(2,3)] by blast
  with rd disk.read_keeps' [OF assms(1) rd] show ?thesis
    by (simp add: writeParamsEnv_def Let_def)
qed

theorem params_env_rejects_injection_witness:
  "\<exists>e s'. writeParamsEnv mem_files ''d'' [(''gateway-url'', ''x'' @ [newline] @ ''y=z'')] Map.empty
            = (Inl e, s') \<and> s' = Map.empty"
  by (rule params_env_rejects_injection [OF mem.disk_axioms,
        of "''gateway-url''" "''x'' @ [newline] @ ''y=z''"]) (simp_all add: ContainsAny_iff)

text \<open>Reading an overlaid file back, when every key of the file has a value that can be read back.\<close>

lemma overlay_content_values:
  assumes safe: "\<And>k v. map_of existing k = Some v \<Longrightarrow> newline \<notin> set v \<and> line_safe k v"
    and dom: "\<And>k. map_of existing k = None \<longleftrightarrow> param_values data k = None"
  shows "map fst (param_entries (overlay_content existing data)) = map fst (param_entries data)"
    and "param_values (overlay_content existing data) k = map_of existing k"
proof -
  let ?c = "overlay_content existing data"
  have keys: "\<exists>v'. map_of existing k = Some v' \<and> line_safe k v'" if "(k, v) \<in> set (param_entries data)" for k v
  proof -
    have "param_values data k \<noteq> None"
      using weak_map_of_SomeI [of k v "rev (param_entries data)"] that by (auto simp: param_values_def)
    then show ?thesis using dom [of k] safe by (cases "map_of existing k") auto
  qed
  have entries: "param_entries ?c = map (\<lambda>(k, v). (k, get_str existing k)) (param_entries data)"
    using safe keys by (intro overlay_content_entries) blast+
  then show "map fst (param_entries ?c) = map fst (param_entries data)"
    by auto
  have "param_entries ?c = map (\<lambda>k. (k, get_str existing k)) (map fst (param_entries data))"
    using entries by auto
  then have c: "param_values ?c k =
      (if k \<in> fst ` set (param_entries data) then Some (get_str existing k) else None)"
    by (simp only: param_values_def map_of_rev_pairs list.set_map)
  show "param_values ?c k = map_of existing k"
  proof (cases "k \<in> fst ` set (param_entries data)")
    case True
    with keys obtain v' where "map_of existing k = Some v'" by force
    with c True show ?thesis by (simp add: get_str_def)
  next
    case False
    then have "param_values data k = None" by (simp add: param_values_def map_of_eq_None_iff)
    with c False dom [of k] show ?thesis by simp
  qed
qed

text \<open>
  C36: The related-image overlay only replaces values. When a params file exists and the overlay with
  the images from the environment succeeds, the file keeps its keys in their order, each key that is
  mapped to a set RELATED\_IMAGE variable has the trimmed value of that variable, every other key
  keeps its value, and no key is added; no other file changes.
\<close>

theorem related_images_overlay:
  assumes "disk F content" and "content s path = Some data"
    and "overlayExistingParams F path (relatedImagesFromEnv lookupEnv) s = (Inr (), s')"
  shows "(\<exists>c. content s' path = Some c
       \<and> map fst (param_entries c) = map fst (param_entries data)
       \<and> (\<forall>k. param_values c k =
            (case param_values data k of
               None \<Rightarrow> None
             | Some v \<Rightarrow> Some (case image_override lookupEnv k of None \<Rightarrow> v | Some v' \<Rightarrow> v'))))
    \<and> (\<forall>q. q \<noteq> path \<longrightarrow> content s' q = content s q)"
proof -
  let ?ov = "relatedImagesFromEnv lookupEnv"
  obtain s1 where ex: "fs_Exists F path s = (True, s1)"
    using disk.exists_file [OF assms(1,2)] by (metis prod.collapse)
  have s1: "content s1 = content s"
    by (rule disk.exists_keeps' [OF assms(1) ex])
  obtain data' s2 existing updated where rd: "fs_ReadFile F path s1 = (Inr data', s2)"
    and ap: "apply_overrides ?ov (params_map (param_entries data')) False = Inr (existing, updated)"
    and fin: "(if \<not> updated then (Inr (), s2)
               else fs_WriteFile F path (overlay_content existing data') s2) = (Inr (), s')"
    using assms(3) ex by (auto simp: overlayExistingParams_def split: prod.splits sum.splits)
  have data': "data' = data"
    using disk.read_ok [OF assms(1) rd] s1 assms(2) by simp
  have s2: "content s2 = content s"
    using disk.read_keeps' [OF assms(1) rd] s1 by simp
  have ex_k: "map_of existing k = (case param_values data k of None \<Rightarrow> None
      | Some v \<Rightarrow> Some (case image_override lookupEnv k of None \<Rightarrow> v | Some v' \<Rightarrow> v'))" for k
    using apply_overrides_Inr(1) [OF ap wf_related_images, of k] data'
    by (auto simp: map_of_params_map param_values_def map_of_related_images split: option.splits)
  show ?thesis
  proof (cases updated)
    case False
    then have "existing = params_map (param_entries data)"
      using apply_overrides_Inr(3) [OF ap wf_related_images] data' by blast
    then have "map_of existing = param_values data"
      by (simp add: map_of_params_map param_values_def)
    with False fin s2 assms(2) ex_k show ?thesis by auto
  next
    case True
    have safe: "newline \<notin> set v \<and> line_safe k v" if e: "map_of existing k = Some v" for k v
    proof -
      obtain v0 where v0: "param_values data k = Some v0"
        using e ex_k [of k] by (auto split: option.splits)
      then have "line_safe k v0" by (rule param_values_safe)
      moreover have "newline \<notin> set v"
        using apply_overrides_Inr(2) [OF ap wf_related_images e] data' param_values_safe [of data k v]
        by (auto simp: map_of_params_map param_values_def line_safe_def)
      moreover have "v = v0 \<or> trimmed v"
        using e ex_k [of k] v0
        by (auto simp: image_override_def trimmed_TrimSpace split: option.splits if_splits)
      ultimately show ?thesis using line_safe_other_value by blast
    qed
    let ?c = "overlay_content existing data"
    have dom: "map_of existing k = None \<longleftrightarrow> param_values data k = None" for k
      using ex_k [of k] by (auto split: option.splits)
    note read = overlay_content_values [of existing data, OF safe dom]
    then show ?thesis
      using ex_k disk.write_ok [OF assms(1), of path ?c s2 s'] True fin data' s2 by (simp add: fun_upd_def)
  qed
qed

theorem related_images_overlay_witness:
  "\<exists>c. snd (overlayExistingParams mem_files ''p''
          (relatedImagesFromEnv (\<lambda>e. if e = ''RELATED_IMAGE_ODH_KUBE_RBAC_PROXY_IMAGE'' then ''img'' else []))
          [''p'' \<mapsto> ''kube-rbac-proxy=x'']) ''p'' = Some c
     \<and> param_values c ''kube-rbac-proxy'' = Some ''img''"
proof -
  let ?env = "\<lambda>e. if e = ''RELATED_IMAGE_ODH_KUBE_RBAC_PROXY_IMAGE'' then ''img'' else []"
  let ?s = "[''p'' \<mapsto> ''kube-rbac-proxy=x'']"
  have plain: "TrimSpace ''img'' = ''img''" "TrimSpace ''kube-rbac-proxy=x'' = ''kube-rbac-proxy=x''"
    by (simp_all add: TrimSpace_plain plain_ends_def space_runes_def)
  have entries: "param_entries ''kube-rbac-proxy=x'' = [(''kube-rbac-proxy'', ''x'')]"
    by (simp add: param_entries_def newline_def map_filter_simps parse_line_def plain HasPrefix_def)
  have ov: "image_override ?env ''kube-rbac-proxy'' = Some ''img''"
    by (simp add: image_override_def imageParamMap_def paramODHNotebookControllerImage_def plain)
  have safe: "\<exists>st. apply_overrides ovs m b = Inr st"
    if "list_all (\<lambda>(k, v). v = ''img'') ovs" for ovs m b
    using that by (induction ovs m b rule: apply_overrides.induct)
      (simp_all add: ContainsAny_iff newline_def split: option.split)
  have "list_all (\<lambda>(k, v). v = ''img'') (relatedImagesFromEnv ?env)"
    by (auto simp: relatedImagesFromEnv_eq list_all_iff plain split: if_splits)
  then obtain st where "apply_overrides (relatedImagesFromEnv ?env)
      (params_map [(''kube-rbac-proxy'', ''x'')]) False = Inr st"
    using safe by blast
  then obtain s' where run: "overlayExistingParams mem_files ''p'' (relatedImagesFromEnv ?env) ?s = (Inr (), s')"
    by (cases st; cases "snd st") (auto simp: overlayExistingParams_def mem_files_def entries)
  from related_images_overlay [OF mem.disk_axioms _ run] obtain c
    where c: "s' ''p'' = Some c" and vals: "\<And>k. param_values c k =
      (case param_values ''kube-rbac-proxy=x'' k of None \<Rightarrow> None
       | Some v \<Rightarrow> Some (case image_override ?env k of None \<Rightarrow> v | Some v' \<Rightarrow> v'))"
    by auto
  from c vals [of "''kube-rbac-proxy''"] run show ?thesis
    by (simp add: param_values_def entries ov)
qed

end
