(* ===== verification/Manifests.thy ===== *)
theory Manifests
  imports Apply Params
begin

text \<open>
  Rendering of the manifest tree and \<open>renderAndApply\<close>, from \<open>internal/controller/manifests.go\<close>. The
  kustomizer, the YAML and JSON codecs and the file system are parameters of the reconciler.
\<close>

section \<open>Manifest groups\<close>

definition manifestGroupsForPlatform :: "string \<Rightarrow> bool \<Rightarrow> string list" where
  "manifestGroupsForPlatform platformType workbenchesV2Managed =
     (let rhoai = (platformType = SelfManagedRhoai);
          notebooksOverlay = (if rhoai then ''workbenches/notebooks/rhoai/base''
                              else ''workbenches/notebooks/odh/base'');
          odhNotebookControllerOverlay =
            (if rhoai then ''workbenches/odh-notebook-controller/overlays/rhoai''
             else ''workbenches/odh-notebook-controller/overlays/odh'');
          groups = [''workbenches/kf-notebook-controller/overlays/openshift'',
                    odhNotebookControllerOverlay, notebooksOverlay]
      in if workbenchesV2Managed
         then groups @ [''workbenches/workspaces-controller/overlays/gateway'',
                        if rhoai then ''workbenches/workspacekinds/rhoai''
                        else ''workbenches/workspacekinds/odh'']
         else groups)"

definition workbenchesV2ManifestsExist :: "'s reconciler \<Rightarrow> 's \<Rightarrow> bool \<times> 's" where
  "workbenchesV2ManifestsExist r s =
     (let v2Dir = filepath_Join
            [ManifestsBasePath r, ''workbenches'', ''workspaces-controller'', ''overlays'', ''gateway'']
      in case fs_Stat (r_Files r) v2Dir s of
           (Inl err, s') \<Rightarrow> (False, s')
         | (Inr isDir, s') \<Rightarrow> (isDir, s'))"

section \<open>Copying the tree\<close>

text \<open>Whether a copy target stays inside the destination.\<close>

definition inside :: "string \<Rightarrow> string \<Rightarrow> bool" where
  "inside dst target \<longleftrightarrow> HasPrefix (Clean target) (Clean dst @ ''/'') \<or> Clean target = Clean dst"

definition copy_entry ::
  "'s filesys \<Rightarrow> string \<Rightarrow> string \<Rightarrow> string \<times> walk_entry \<Rightarrow> 's \<Rightarrow> unit res \<times> 's" where
  "copy_entry F src dst pe s =
     (case pe of (path, e) \<Rightarrow>
       (case e of
          WalkError err \<Rightarrow> (Inl err, s)
        | _ \<Rightarrow>
           (case filepath_Rel src path of
              Inl err \<Rightarrow> (Inl err, s)
            | Inr rel \<Rightarrow>
               (let target = filepath_Join [dst, rel]
                in if \<not> inside dst target
                   then (Inl (GoErr (''path traversal detected: '' @ target @ '' escapes destination '' @ dst)), s)
                   else if e = WalkDirectory then fs_MkdirAll F target s
                   else if e = WalkSymlink then (Inl (GoErr (''refusing to copy symlink '' @ path)), s)
                   else (case fs_ReadFile F path s of
                       (Inl err, s') \<Rightarrow> (Inl (WrapErr (''failed to read '' @ path @ '': '') err), s')
                     | (Inr data, s') \<Rightarrow> fs_WriteFile F (Clean target) data s')))))"

fun copy_entries ::
  "'s filesys \<Rightarrow> string \<Rightarrow> string \<Rightarrow> (string \<times> walk_entry) list \<Rightarrow> 's \<Rightarrow> unit res \<times> 's" where
  "copy_entries F src dst [] s = (Inr (), s)"
| "copy_entries F src dst (e # es) s =
     (case copy_entry F src dst e s of
        (Inl err, s') \<Rightarrow> (Inl err, s')
      | (Inr _, s') \<Rightarrow> copy_entries F src dst es s')"

definition copyDir :: "'s filesys \<Rightarrow> string \<Rightarrow> string \<Rightarrow> 's \<Rightarrow> unit res \<times> 's" where
  "copyDir F src dst s =
     (case fs_WalkDir F src s of (es, s') \<Rightarrow> copy_entries F src dst es s')"

section \<open>Kustomization files\<close>

fun first_existing :: "'s filesys \<Rightarrow> string \<Rightarrow> string list \<Rightarrow> 's \<Rightarrow> string \<times> 's" where
  "first_existing F dir [] s = ([], s)"
| "first_existing F dir (name # names) s =
     (case fs_Stat F (filepath_Join [dir, name]) s of
        (Inr _, s') \<Rightarrow> (filepath_Join [dir, name], s')
      | (Inl _, s') \<Rightarrow> first_existing F dir names s')"

definition findKustomizationFile :: "'s filesys \<Rightarrow> string \<Rightarrow> 's \<Rightarrow> string \<times> 's" where
  "findKustomizationFile F dir s =
     first_existing F dir [''kustomization.yaml'', ''kustomization.yml'', ''Kustomization''] s"

text \<open>
  Assigning into the nil map that an empty document decodes to is a run-time panic; it is the error
  \<open>nil_map_panic\<close> here, since the controller runtime turns it into an error of the reconcile.
\<close>

definition nil_map_panic :: goerror where
  "nil_map_panic = GoErr ''panic: assignment to entry in nil map''"

definition patchKustomizeNamespace :: "'s reconciler \<Rightarrow> string \<Rightarrow> string \<Rightarrow> 's \<Rightarrow> unit res \<times> 's" where
  "patchKustomizeNamespace r dir namespace s =
     (case findKustomizationFile (r_Files r) dir s of
        (kustomizationPath, s1) \<Rightarrow>
          if kustomizationPath = []
          then (Inl (GoErr (''no kustomization file found in '' @ dir @ '' '' @ [CHR 0xE2, CHR 0x80, CHR 0x94] @ '' namespace '' @
                  Quote namespace @ '' would not be applied'')), s1)
          else (case fs_ReadFile (r_Files r) kustomizationPath s1 of
              (Inl err, s2) \<Rightarrow> (Inl (WrapErr (''failed to read '' @ kustomizationPath @ '': '') err), s2)
            | (Inr data, s2) \<Rightarrow>
                (case r_UnmarshalYAML r data of
                   Inl err \<Rightarrow> (Inl (WrapErr (''failed to parse '' @ kustomizationPath @ '': '') err), s2)
                 | Inr kustomization \<Rightarrow>
                     (let oldNS = str_field (case kustomization of None \<Rightarrow> [] | Some m \<Rightarrow> m) ''namespace''
                      in if oldNS = namespace then (Inr (), s2)
                         else (case kustomization of
                             None \<Rightarrow> (Inl nil_map_panic, s2)
                           | Some m \<Rightarrow>
                               (case r_MarshalYAML r (AList.update ''namespace'' (JStr namespace) m) of
                                  Inl err \<Rightarrow>
                                    (Inl (WrapErr (''failed to serialize '' @ kustomizationPath @ '': '') err), s2)
                                | Inr out \<Rightarrow> fs_WriteFile (r_Files r) kustomizationPath out s2))))))"

text \<open>The YAML files of a directory listing, in order.\<close>

fun yaml_files :: "'s filesys \<Rightarrow> string \<Rightarrow> string list \<Rightarrow> 's \<Rightarrow> string list \<times> 's" where
  "yaml_files F dir [] s = ([], s)"
| "yaml_files F dir (name # names) s =
     (case fs_IsDir F (filepath_Join [dir, name]) s of
        (isDir, s1) \<Rightarrow>
          (case yaml_files F dir names s1 of
             (rest, s2) \<Rightarrow>
               (if \<not> isDir \<and> (HasSuffix name ''.yaml'' \<or> HasSuffix name ''.yml'')
                then name # rest else rest, s2)))"

definition ensureKustomization :: "'s reconciler \<Rightarrow> string \<Rightarrow> 's \<Rightarrow> unit res \<times> 's" where
  "ensureKustomization r dir s =
     (let F = r_Files r
      in case fs_Exists F (filepath_Join [dir, ''kustomization.yaml'']) s of
        (True, s1) \<Rightarrow> (Inr (), s1)
      | (False, s1) \<Rightarrow>
         (case fs_Exists F (filepath_Join [dir, ''kustomization.yml'']) s1 of
           (True, s2) \<Rightarrow> (Inr (), s2)
         | (False, s2) \<Rightarrow>
            (case fs_Exists F (filepath_Join [dir, ''Kustomization'']) s2 of
              (True, s3) \<Rightarrow> (Inr (), s3)
            | (False, s3) \<Rightarrow>
               (case fs_ReadDir F dir s3 of
                 (Inl err, s4) \<Rightarrow> (Inl (WrapErr (''failed to read directory '' @ dir @ '': '') err), s4)
               | (Inr entries, s4) \<Rightarrow>
                  (case yaml_files F dir entries s4 of
                    (resources, s5) \<Rightarrow>
                     (case r_YAMLFromMap r
                         [(''apiVersion'', JStr (fst (r_KustomizationTypeMeta r))),
                          (''kind'', JStr (snd (r_KustomizationTypeMeta r))),
                          (''resources'', JArr (map JStr resources))] of
                       Inl err \<Rightarrow> (Inl (WrapErr ''failed to build kustomization node: '' err), s5)
                     | Inr node \<Rightarrow>
                        (case r_YAMLString r node of
                          Inl err \<Rightarrow> (Inl (WrapErr ''failed to serialize kustomization: '' err), s5)
                        | Inr content \<Rightarrow>
                            fs_WriteFile F (filepath_Join [dir, ''kustomization.yaml'']) content s5)))))))"

section \<open>Rendering one group\<close>

fun stage_files :: "'s filesys \<Rightarrow> string \<Rightarrow> string \<Rightarrow> string list \<Rightarrow> 's \<Rightarrow> unit res \<times> 's" where
  "stage_files F notebooksBase kustomizeDir [] s = (Inr (), s)"
| "stage_files F notebooksBase kustomizeDir (name # names) s =
     (let src = filepath_Join [notebooksBase, name]; dst = filepath_Join [kustomizeDir, name]
      in case fs_Exists F src s of
           (False, s1) \<Rightarrow> stage_files F notebooksBase kustomizeDir names s1
         | (True, s1) \<Rightarrow>
             (case fs_ReadFile F src s1 of
                (Inl err, s2) \<Rightarrow> (Inl (WrapErr (''reading '' @ src @ '': '') err), s2)
              | (Inr data, s2) \<Rightarrow>
                  (case fs_WriteFile F dst data s2 of
                     (Inl err, s3) \<Rightarrow> (Inl (WrapErr (''writing '' @ dst @ '': '') err), s3)
                   | (Inr _, s3) \<Rightarrow> stage_files F notebooksBase kustomizeDir names s3)))"

definition stageWorkspaceKindImageParams :: "'s filesys \<Rightarrow> string \<Rightarrow> 's \<Rightarrow> unit res \<times> 's" where
  "stageWorkspaceKindImageParams F kustomizeDir s =
     (if \<not> Contains kustomizeDir ''workspacekinds/'' then (Inr (), s)
      else
        let platform = (if Contains kustomizeDir ''workspacekinds/rhoai'' then ''rhoai'' else ''odh'');
            workbenchesRoot = filepath_Dir (filepath_Dir kustomizeDir);
            notebooksBase = filepath_Join [workbenchesRoot, ''notebooks'', platform, ''base'']
        in stage_files F notebooksBase kustomizeDir paramsEnvFiles s)"

fun decode_resources :: "'s reconciler \<Rightarrow> kustomize_resource list \<Rightarrow> object list res" where
  "decode_resources r [] = Inr []"
| "decode_resources r (res # resources) =
     (case res_MarshalJSON res of
        Inl err \<Rightarrow> Inl (WrapErr (''failed to marshal resource '' @ res_OrgId res @ '': '') err)
      | Inr jsonBytes \<Rightarrow>
          (case r_UnmarshalJSON r jsonBytes of
             Inl err \<Rightarrow> Inl (WrapErr ''failed to unmarshal resource: '' err)
           | Inr obj \<Rightarrow> map_sum id (\<lambda>objects. obj # objects) (decode_resources r resources)))"

definition renderKustomize ::
  "'s reconciler \<Rightarrow> string \<Rightarrow> string gomap \<Rightarrow> 's \<Rightarrow> object list res \<times> 's" where
  "renderKustomize r kustomizeDir params s =
     (let F = r_Files r
      in case stageWorkspaceKindImageParams F kustomizeDir s of
        (Inl err, s1) \<Rightarrow> (Inl (WrapErr ''failed to stage workspacekind image params: '' err), s1)
      | (Inr _, s1) \<Rightarrow>
         (case ensureKustomization r kustomizeDir s1 of
           (Inl err, s2) \<Rightarrow> (Inl (WrapErr ''failed to ensure kustomization: '' err), s2)
         | (Inr _, s2) \<Rightarrow>
            (case applyRelatedImageParams F (r_LookupEnv r) kustomizeDir s2 of
              (Inl err, s3) \<Rightarrow> (Inl (WrapErr ''failed to apply related image params: '' err), s3)
            | (Inr _, s3) \<Rightarrow>
               (case writeParamsEnv F kustomizeDir params s3 of
                 (Inl err, s4) \<Rightarrow> (Inl (WrapErr ''failed to write params.env: '' err), s4)
               | (Inr _, s4) \<Rightarrow>
                  (case r_Kustomize r kustomizeDir s4 of
                    (Inl err, s5) \<Rightarrow>
                      (Inl (WrapErr (''kustomize run failed for '' @ kustomizeDir @ '': '') err), s5)
                  | (Inr resources, s5) \<Rightarrow> (decode_resources r resources, s5))))))"

text \<open>
  One group of \<open>renderAndApply\<close> up to the objects to apply: \<open>None\<close> when its directory does not exist.
\<close>

definition render_group ::
  "'s reconciler \<Rightarrow> Workbenches \<Rightarrow> string gomap \<Rightarrow> string \<Rightarrow> string \<Rightarrow> string \<Rightarrow> 's
     \<Rightarrow> object list option res \<times> 's" where
  "render_group r owner params namespace workDir grp s =
     (let U = r_Unstructured r; renderDir = filepath_Join [workDir, grp]
      in case fs_Stat (r_Files r) renderDir s of
        (stat, s1) \<Rightarrow>
         if (case stat of Inl statErr \<Rightarrow> IsNotExist statErr | Inr _ \<Rightarrow> False) then (Inr None, s1)
         else (case (if Contains grp ''workspacekinds/'' then (Inr (), s1)
                     else patchKustomizeNamespace r renderDir namespace s1) of
            (Inl err, s2) \<Rightarrow>
              (Inl (WrapErr (''failed to patch kustomize namespace for '' @ grp @ '': '') err), s2)
          | (Inr _, s2) \<Rightarrow>
             (case renderKustomize r renderDir params s2 of
               (Inl err, s3) \<Rightarrow> (Inl (WrapErr (''failed to render manifests for '' @ grp @ '': '') err), s3)
             | (Inr objects, s3) \<Rightarrow>
                (let objects = prepareRenderedObjects U objects;
                     probed = (if HasPrefix grp ''workbenches/odh-notebook-controller/''
                               then configureWorkbenchProbes U objects
                                      (ODHNotebookControllerProbe (Spec owner)) namespace
                               else Inr objects)
                 in case probed of
                      Inl err \<Rightarrow> (Inl (WrapErr ''failed to configure workbench probes: '' err), s3)
                    | Inr objects \<Rightarrow>
                        (case stampIngressContract U objects (spec_IngressContract (Spec owner)) of
                           Inl err \<Rightarrow>
                             (Inl (WrapErr (''failed to stamp ingress contract for '' @ grp @ '': '') err), s3)
                         | Inr objects \<Rightarrow> (Inr (Some objects), s3))))))"

text \<open>The check for duplicates, extending the desired set.\<close>

fun add_desired :: "unstructured_api \<Rightarrow> object list \<Rightarrow> objectRef list \<Rightarrow> objectRef list res" where
  "add_desired U [] desired = Inr desired"
| "add_desired U (obj # objects) desired =
     (let ref = objectRefFrom U obj
      in if List.member desired ref
         then Inl (GoErr (''duplicate resource '' @ GVKString U (ref_gvk ref) @ '' '' @
                ref_namespace ref @ ''/'' @ ref_name ref))
         else add_desired U objects (desired @ [ref]))"

fun render_groups ::
  "'s reconciler \<Rightarrow> Workbenches \<Rightarrow> string gomap \<Rightarrow> string \<Rightarrow> string \<Rightarrow> string list \<Rightarrow> objectRef list \<Rightarrow> 's
     \<Rightarrow> objectRef list res \<times> 's" where
  "render_groups r owner params namespace workDir [] desired s = (Inr desired, s)"
| "render_groups r owner params namespace workDir (grp # groups) desired s =
     (case render_group r owner params namespace workDir grp s of
        (Inl err, s1) \<Rightarrow> (Inl err, s1)
      | (Inr None, s1) \<Rightarrow> render_groups r owner params namespace workDir groups desired s1
      | (Inr (Some objects), s1) \<Rightarrow>
          (case add_desired (r_Unstructured r) objects desired of
             Inl err \<Rightarrow> (Inl err, s1)
           | Inr desired' \<Rightarrow>
               (case applyObjects r owner objects s1 of
                  (Inl err, s2) \<Rightarrow>
                    (Inl (WrapErr (''failed to apply manifests for '' @ grp @ '': '') err), s2)
                | (Inr _, s2) \<Rightarrow>
                    render_groups r owner params namespace workDir groups desired' s2)))"

section \<open>renderAndApply\<close>

definition renderAndApply_in ::
  "'s reconciler \<Rightarrow> Workbenches \<Rightarrow> string gomap \<Rightarrow> string \<Rightarrow> string \<Rightarrow> string \<Rightarrow> 's \<Rightarrow> unit res \<times> 's" where
  "renderAndApply_in r owner params namespace platformType workDir s =
     (case copyDir (r_Files r) (filepath_Join [ManifestsBasePath r, ''workbenches''])
             (filepath_Join [workDir, ''workbenches'']) s of
        (Inl copyErr, s1) \<Rightarrow> (Inl (WrapErr ''failed to copy manifests tree: '' copyErr), s1)
      | (Inr _, s1) \<Rightarrow>
         (let groups = manifestGroupsForPlatform platformType (IsWorkbenchesV2Managed (Spec owner))
          in case applyIngressConfig r owner namespace s1 of
               (Inl err, s2) \<Rightarrow> (Inl err, s2)
             | (Inr config, s2) \<Rightarrow>
                 (case render_groups r owner params namespace workDir groups
                         [objectRefFrom (r_Unstructured r) config] s2 of
                    (Inl err, s3) \<Rightarrow> (Inl err, s3)
                  | (Inr desired, s3) \<Rightarrow>
                      (case gcOrphanedResources r namespace desired s3 of
                         (Some err, s4) \<Rightarrow>
                           (Inl (WrapErr ''failed to garbage-collect orphaned resources: '' err), s4)
                       | (None, s4) \<Rightarrow> (Inr (), s4)))))"

definition renderAndApply ::
  "'s reconciler \<Rightarrow> Workbenches \<Rightarrow> string gomap \<Rightarrow> string \<Rightarrow> string \<Rightarrow> 's \<Rightarrow> unit res \<times> 's" where
  "renderAndApply r owner params namespace platformType s =
     (case fs_MkdirTemp (r_Files r) s of
        (Inl err, s1) \<Rightarrow> (Inl (WrapErr ''failed to create temp work directory: '' err), s1)
      | (Inr workDir, s1) \<Rightarrow>
          (case renderAndApply_in r owner params namespace platformType workDir s1 of
             (res, s2) \<Rightarrow> (res, snd (fs_RemoveAll (r_Files r) workDir s2))))"

section \<open>Facts on copying\<close>

definition below :: "string \<Rightarrow> string \<Rightarrow> bool" where
  "below dst q \<longleftrightarrow> q = Clean dst \<or> HasPrefix q (Clean dst @ ''/'')"

context disk
begin

lemma copy_entry_confined:
  assumes "copy_entry F src dst pe s = (res, s')" and "\<not> below dst q"
  shows "content s' q = content s q"
proof -
  obtain path e where pe: "pe = (path, e)" by (cases pe)
  show ?thesis
  proof (cases "\<exists>rel. filepath_Rel src path = Inr rel \<and> inside dst (filepath_Join [dst, rel]) \<and> e = WalkFile")
    case False
    with assms(1) pe show ?thesis
      by (cases e) (auto simp: copy_entry_def Let_def dest: mkdir_keeps' split: sum.splits if_splits)
  next
    case True
    then obtain rel where rel: "filepath_Rel src path = Inr rel" "inside dst (filepath_Join [dst, rel])"
      and e: "e = WalkFile" by blast
    obtain rd s1 where rd: "fs_ReadFile F path s = (rd, s1)" by (metis prod.exhaust)
    have "q \<noteq> Clean (filepath_Join [dst, rel])"
      using rel(2) assms(2) by (auto simp: inside_def below_def)
    with assms(1) pe rel e rd read_keeps' [OF rd] show ?thesis
      by (auto simp: copy_entry_def Let_def dest: write_frame' split: sum.splits)
  qed
qed

lemma copy_entries_confined:
  "copy_entries F src dst es s = (res, s') \<Longrightarrow> \<not> below dst q \<Longrightarrow> content s' q = content s q"
proof (induction es arbitrary: s)
  case (Cons e es)
  obtain r1 s1 where e: "copy_entry F src dst e s = (r1, s1)" by (metis prod.exhaust)
  with Cons copy_entry_confined [OF e] show ?case by (cases r1) auto
qed simp

end

text \<open>
  C35: Copying the manifest tree is confined to its destination. Whatever the walk of the source
  returns (symbolic links, entries that escape, errors half-way), a file whose path is neither the
  cleaned destination nor below it keeps its content.
\<close>

theorem copyDir_confined:
  assumes "disk F content" and "copyDir F src dst s = (res, s')" and "\<not> below dst q"
  shows "content s' q = content s q"
proof -
  obtain es s1 where w: "fs_WalkDir F src s = (es, s1)" by (metis prod.exhaust)
  with assms(2) have "copy_entries F src dst es s1 = (res, s')" by (simp add: copyDir_def)
  from disk.copy_entries_confined [OF assms(1) this assms(3)] disk.walk_keeps [OF assms(1), of src s] w
  show ?thesis by simp
qed

definition walking_files :: "(string \<Rightarrow> string option) filesys" where
  "walking_files = mem_files\<lparr>fs_WalkDir := (\<lambda>p s. ([(p, WalkDirectory), (p @ ''/a'', WalkFile)], s))\<rparr>"

theorem copyDir_confined_witness:
  "snd (copyDir walking_files ''/m'' ''/t'' [''/m/a'' \<mapsto> ''x'', ''/etc/p'' \<mapsto> ''y'']) ''/etc/p'' = Some ''y''"
proof -
  let ?s = "[''/m/a'' \<mapsto> ''x'', ''/etc/p'' \<mapsto> ''y'']"
  have "disk walking_files (\<lambda>s. s)"
    by unfold_locales
      (auto simp: walking_files_def mem_files_def empty_files_def split: option.splits)
  moreover have "\<not> below ''/t'' ''/etc/p''"
    by (simp add: below_def Clean_def clean_elems_def clean_elem_def HasPrefix_def)
  ultimately show ?thesis
    using copyDir_confined [of walking_files "\<lambda>s. s" "''/m''" "''/t''" ?s] by (metis prod.collapse
        fun_upd_same)
qed

end
