(* ===== verification/Runes.thy ===== *)
theory Runes
  imports Prelude
begin

text \<open>
  UTF-8 as Go's \<open>unicode/utf8\<close> reads it: \<open>for _, r := range s\<close> and
  \<open>utf8.RuneCountInString\<close> decode one rune at a time, and a byte that does not start a
  well-formed sequence counts as one rune U+FFFD of width one.
\<close>

definition byte_of :: "char \<Rightarrow> nat" where
  "byte_of c = of_char c"

definition in_range :: "nat \<Rightarrow> nat \<Rightarrow> char \<Rightarrow> bool" where
  "in_range lo hi c \<longleftrightarrow> lo \<le> byte_of c \<and> byte_of c \<le> hi"

abbreviation continuation :: "char \<Rightarrow> bool" where
  "continuation \<equiv> in_range 0x80 0xBF"

definition RuneError :: nat where
  "RuneError = 0xFFFD"

definition low6 :: "char \<Rightarrow> nat" where
  "low6 c = byte_of c mod 64"

text \<open>The range of the second byte depends on the first (\<open>acceptRanges\<close> of the library).\<close>

definition second3 :: "char \<Rightarrow> char \<Rightarrow> bool" where
  "second3 a b \<longleftrightarrow>
     (if byte_of a = 0xE0 then in_range 0xA0 0xBF b
      else if byte_of a = 0xED then in_range 0x80 0x9F b
      else continuation b)"

definition second4 :: "char \<Rightarrow> char \<Rightarrow> bool" where
  "second4 a b \<longleftrightarrow>
     (if byte_of a = 0xF0 then in_range 0x90 0xBF b
      else if byte_of a = 0xF4 then in_range 0x80 0x8F b
      else continuation b)"

definition DecodeRune :: "string \<Rightarrow> nat \<times> nat" where
  "DecodeRune s =
     (case s of
        [] \<Rightarrow> (RuneError, 0)
      | a # s1 \<Rightarrow>
        if byte_of a < 0x80 then (byte_of a, 1)
        else (case s1 of
           [] \<Rightarrow> (RuneError, 1)
         | b # s2 \<Rightarrow>
           if in_range 0xC2 0xDF a then
             (if continuation b then ((byte_of a mod 32) * 64 + low6 b, 2) else (RuneError, 1))
           else (case s2 of
              [] \<Rightarrow> (RuneError, 1)
            | c # s3 \<Rightarrow>
              if in_range 0xE0 0xEF a then
                (if second3 a b \<and> continuation c
                 then ((byte_of a mod 16) * 4096 + low6 b * 64 + low6 c, 3) else (RuneError, 1))
              else (case s3 of
                 [] \<Rightarrow> (RuneError, 1)
               | d # _ \<Rightarrow>
                 if in_range 0xF0 0xF4 a \<and> second4 a b \<and> continuation c \<and> continuation d
                 then ((byte_of a mod 8) * 262144 + low6 b * 4096 + low6 c * 64 + low6 d, 4)
                 else (RuneError, 1)))))"

lemma DecodeRune_size:
  "s \<noteq> [] \<Longrightarrow> 1 \<le> snd (DecodeRune s) \<and> snd (DecodeRune s) \<le> length s"
  by (auto simp: DecodeRune_def split: list.splits)

function runes :: "string \<Rightarrow> nat list" where
  "runes s =
     (if s = [] then [] else fst (DecodeRune s) # runes (drop (snd (DecodeRune s)) s))"
  by pat_completeness auto
termination
proof (relation "measure length", goal_cases)
  case 1
  show ?case by simp
next
  case (2 s)
  then have "1 \<le> snd (DecodeRune s)" and "s \<noteq> []"
    using DecodeRune_size by auto
  then have "length s - snd (DecodeRune s) < length s"
    by (metis diff_less length_greater_0_conv less_eq_Suc_le One_nat_def)
  then show ?case by simp
qed

declare runes.simps [simp del]

definition RuneCountInString :: "string \<Rightarrow> nat" where
  "RuneCountInString s = length (runes s)"

text \<open>\<open>unicode.IsControl\<close>: the category Cc, which lies in Latin-1.\<close>

definition IsControl :: "nat \<Rightarrow> bool" where
  "IsControl r \<longleftrightarrow> r \<le> 0x1F \<or> (0x7F \<le> r \<and> r \<le> 0x9F)"

lemma runes_Nil [simp]: "runes [] = []"
  by (subst runes.simps) simp

lemma RuneCount_le_length: "RuneCountInString s \<le> length s"
proof -
  have "length (runes s) \<le> length s"
  proof (induction s rule: runes.induct)
    case (1 s)
    show ?case
    proof (cases "s = []")
      case False
      with 1 have "length (runes (drop (snd (DecodeRune s)) s)) \<le> length s - snd (DecodeRune s)"
        by simp
      moreover have "1 \<le> snd (DecodeRune s)" "snd (DecodeRune s) \<le> length s"
        using DecodeRune_size False by auto
      ultimately show ?thesis
        using False by (subst runes.simps) simp
    qed simp
  qed
  then show ?thesis by (simp add: RuneCountInString_def)
qed

lemma runes_ascii: "byte_of c < 0x80 \<Longrightarrow> runes (c # s) = byte_of c # runes s"
  by (subst runes.simps) (simp add: DecodeRune_def)

end
