(* ===== verification/Platform_Config.thy ===== *)
theory Platform_Config
  imports Platform Client Runes
begin

text \<open>
  \<open>internal/platformconfig/config.go\<close>: the desired distribution and the platform version read from
  the ConfigMap odh-workbenches-config, the fallbacks for incomplete data, and the platform entry
  of \<open>status.releases\<close>. The client's \<open>Get\<close> for ConfigMaps is the argument \<open>get\<close>, applied to the
  namespace, the name and the cluster state.
\<close>

definition ConfigMapName :: string where
  "ConfigMapName = ''odh-workbenches-config''"

definition DistributionNameKey :: string where
  "DistributionNameKey = ''distribution.name''"

definition DistributionVersionKey :: string where
  "DistributionVersionKey = ''distribution.version''"

definition VersionDataKey :: string where
  "VersionDataKey = ''platformVersion''"

definition ReleaseName :: string where
  "ReleaseName = ''platform''"

definition DistributionNameStandalone :: string where
  "DistributionNameStandalone = ''Standalone''"

definition DistributionNameSelfManagedRHOAI :: string where
  "DistributionNameSelfManagedRHOAI = ''SelfManagedRHOAI''"

definition maxDistributionFieldLength :: nat where
  "maxDistributionFieldLength = 64"

lemmas distribution_defs =
  DistributionNameStandalone_def DistributionNameSelfManagedRHOAI_def OpenDataHub_def

type_synonym 's cm_get = "string \<Rightarrow> string \<Rightarrow> 's \<Rightarrow> configmap res \<times> 's"

section \<open>Validation\<close>

definition validateDistributionVersion :: "string \<Rightarrow> goerror option" where
  "validateDistributionVersion val =
     (if val = [] then None
      else if RuneCountInString val > maxDistributionFieldLength
        then Some (GoErr (DistributionVersionKey @ '' exceeds max length '' @
               nat_str maxDistributionFieldLength))
      else if list_ex IsControl (runes val)
        then Some (GoErr (DistributionVersionKey @ '' contains control characters''))
      else None)"

definition validateDistributionFields :: "string \<Rightarrow> string \<Rightarrow> goerror option" where
  "validateDistributionFields name version =
     (if name \<noteq> [] \<and>
         \<not> (name = OpenDataHub \<or> name = DistributionNameSelfManagedRHOAI
            \<or> name = DistributionNameStandalone)
      then Some (GoErr (''unsupported distribution.name '' @ Quote name))
      else validateDistributionVersion version)"

section \<open>Reading the ConfigMap\<close>

definition ReadDesiredDistribution ::
  "'s cm_get \<Rightarrow> string \<Rightarrow> 's \<Rightarrow> Distribution res \<times> 's" where
  "ReadDesiredDistribution get ns s =
     (if ns = [] then (Inr zero_Distribution, s)
      else (case get ns ConfigMapName s of
          (Inl err, s') \<Rightarrow>
            (if IsNotFound err then Inr zero_Distribution
             else Inl (WrapErr (''reading ConfigMap '' @ ns @ ''/'' @ ConfigMapName @ '': '') err), s')
        | (Inr cm, s') \<Rightarrow>
            (case cm_Data cm of
               None \<Rightarrow> (Inr zero_Distribution, s')
             | Some data \<Rightarrow>
               (let name = TrimSpace (get_str data DistributionNameKey);
                    version = TrimSpace (get_str data DistributionVersionKey)
                in case validateDistributionFields name version of
                     Some err \<Rightarrow>
                       (Inl (WrapErr (''invalid distribution in ConfigMap '' @ ns @ ''/'' @
                               ConfigMapName @ '': '') err), s')
                   | None \<Rightarrow> (Inr \<lparr>dist_Name = name, dist_Version = version\<rparr>, s')))))"

definition ReadPlatformVersion :: "'s cm_get \<Rightarrow> string \<Rightarrow> 's \<Rightarrow> string res \<times> 's" where
  "ReadPlatformVersion get ns s =
     (if ns = [] then (Inr [], s)
      else (case get ns ConfigMapName s of
          (Inl err, s') \<Rightarrow>
            (if IsNotFound err then Inr []
             else Inl (WrapErr (''reading ConfigMap '' @ ns @ ''/'' @ ConfigMapName @ '': '') err), s')
        | (Inr cm, s') \<Rightarrow>
            (case cm_Data cm of
               None \<Rightarrow> (Inr [], s')
             | Some data \<Rightarrow> (Inr (TrimSpace (get_str data VersionDataKey)), s'))))"

section \<open>Distributions\<close>

definition DistributionAligned :: "Distribution \<Rightarrow> Distribution \<Rightarrow> bool" where
  "DistributionAligned desired current =
     (if dist_Name desired = [] then False
      else dist_Name desired = dist_Name current \<and> dist_Version desired = dist_Version current)"

definition StandaloneDistribution :: "string \<Rightarrow> Distribution" where
  "StandaloneDistribution operatorVersion =
     (let version = TrimSpace operatorVersion;
          version = (if version = [] \<or> validateDistributionVersion version \<noteq> None
                     then ''0.0.0'' else version)
      in \<lparr>dist_Name = DistributionNameStandalone, dist_Version = version\<rparr>)"

definition IsDistributionEmpty :: "Distribution \<Rightarrow> bool" where
  "IsDistributionEmpty d \<longleftrightarrow> TrimSpace (dist_Name d) = [] \<and> TrimSpace (dist_Version d) = []"

definition DistributionNameFromPlatform :: "string \<Rightarrow> string" where
  "DistributionNameFromPlatform specPlatform =
     (if specPlatform = SelfManagedRhoai then DistributionNameSelfManagedRHOAI
      else if specPlatform = OpenDataHub then OpenDataHub
      else [])"

definition ResolveDesiredDistribution :: "Distribution \<Rightarrow> string \<Rightarrow> string \<Rightarrow> Distribution" where
  "ResolveDesiredDistribution desired specPlatform operatorVersion =
     (if IsDistributionEmpty desired then StandaloneDistribution operatorVersion
      else
        let desired =
              (if dist_Name desired = [] \<and> specPlatform \<noteq> []
               then desired\<lparr>dist_Name := DistributionNameFromPlatform specPlatform\<rparr> else desired);
            desired =
              (if dist_Name desired = []
               then desired\<lparr>dist_Name := dist_Name (StandaloneDistribution operatorVersion)\<rparr>
               else desired);
            desired =
              (if dist_Version desired = []
               then desired\<lparr>dist_Version := dist_Version (StandaloneDistribution operatorVersion)\<rparr>
               else desired)
        in desired)"

section \<open>The platform entry of the releases\<close>

definition GetPlatformRelease :: "ComponentRelease list \<Rightarrow> ComponentRelease" where
  "GetPlatformRelease releases =
     (case find (\<lambda>r. rel_Name r = ReleaseName) releases of
        Some release \<Rightarrow> release
      | None \<Rightarrow> zero_ComponentRelease)"

fun set_first_platform :: "string \<Rightarrow> ComponentRelease list \<Rightarrow> ComponentRelease list option" where
  "set_first_platform version [] = None"
| "set_first_platform version (r # rs) =
     (if rel_Name r = ReleaseName then Some (r\<lparr>rel_Version := version\<rparr> # rs)
      else map_option (\<lambda>rs'. r # rs') (set_first_platform version rs))"

definition SetPlatformRelease :: "ComponentRelease list \<Rightarrow> string \<Rightarrow> ComponentRelease list" where
  "SetPlatformRelease releases version =
     (let version = TrimSpace version
      in if version = [] then releases
         else case set_first_platform version releases of
                Some releases' \<Rightarrow> releases'
              | None \<Rightarrow> releases @ [\<lparr>rel_Name = ReleaseName, rel_Version = version, rel_RepoURL = []\<rparr>])"

definition MergeComponentReleases ::
  "ComponentRelease list \<Rightarrow> ComponentRelease \<Rightarrow> ComponentRelease list" where
  "MergeComponentReleases componentReleases platformRelease =
     (let merged = filter (\<lambda>r. rel_Name r \<noteq> ReleaseName) componentReleases
      in if rel_Name platformRelease = ReleaseName \<and> TrimSpace (rel_Version platformRelease) \<noteq> []
         then merged @ [platformRelease] else merged)"

definition HandshakeComplete :: "string \<Rightarrow> ComponentRelease list \<Rightarrow> bool" where
  "HandshakeComplete platformVersion releases =
     (let platformVersion = TrimSpace platformVersion
      in if platformVersion = [] then False
         else rel_Version (GetPlatformRelease releases) = platformVersion)"

definition HandshakeRequired :: "Distribution \<Rightarrow> bool" where
  "HandshakeRequired desired \<longleftrightarrow> dist_Name desired \<noteq> DistributionNameStandalone"


section \<open>Facts\<close>

lemma GetPlatformRelease_append:
  "GetPlatformRelease (xs @ ys) =
     (if \<exists>r \<in> set xs. rel_Name r = ReleaseName then GetPlatformRelease xs
      else GetPlatformRelease ys)"
  by (induction xs) (auto simp: GetPlatformRelease_def)

lemma GetPlatformRelease_absent:
  "\<not> (\<exists>r \<in> set rs. rel_Name r = ReleaseName) \<Longrightarrow> GetPlatformRelease rs = zero_ComponentRelease"
  by (induction rs) (auto simp: GetPlatformRelease_def)

lemma GetPlatformRelease_name:
  "rel_Name (GetPlatformRelease rs) = ReleaseName \<longleftrightarrow> (\<exists>r \<in> set rs. rel_Name r = ReleaseName)"
  by (induction rs) (auto simp: GetPlatformRelease_def zero_ComponentRelease_def ReleaseName_def)

lemma set_first_platform_None:
  "set_first_platform v rs = None \<longleftrightarrow> \<not> (\<exists>r \<in> set rs. rel_Name r = ReleaseName)"
  by (induction rs) auto

lemma set_first_platform_Some:
  "set_first_platform v rs = Some rs' \<Longrightarrow>
     rel_Version (GetPlatformRelease rs') = v
     \<and> map rel_Name rs' = map rel_Name rs
     \<and> filter (\<lambda>r. rel_Name r \<noteq> ReleaseName) rs' = filter (\<lambda>r. rel_Name r \<noteq> ReleaseName) rs"
  by (induction rs arbitrary: rs') (auto simp: GetPlatformRelease_def split: if_splits)

lemma SetPlatformRelease_version:
  "TrimSpace v \<noteq> [] \<Longrightarrow> rel_Version (GetPlatformRelease (SetPlatformRelease rs v)) = TrimSpace v"
  by (auto simp: SetPlatformRelease_def Let_def set_first_platform_None GetPlatformRelease_append
      dest: set_first_platform_Some split: option.splits)
    (simp add: GetPlatformRelease_def)

lemma SetPlatformRelease_others:
  "filter (\<lambda>r. rel_Name r \<noteq> ReleaseName) (SetPlatformRelease rs v) =
   filter (\<lambda>r. rel_Name r \<noteq> ReleaseName) rs"
  by (auto simp: SetPlatformRelease_def Let_def dest: set_first_platform_Some split: option.splits)

lemma SetPlatformRelease_distinct:
  "distinct (map rel_Name rs) \<Longrightarrow> distinct (map rel_Name (SetPlatformRelease rs v))"
  by (auto simp: SetPlatformRelease_def Let_def set_first_platform_None
      dest: set_first_platform_Some split: option.splits)

lemma HandshakeComplete_Set:
  "TrimSpace v \<noteq> [] \<Longrightarrow> HandshakeComplete v (SetPlatformRelease rs v)"
  by (simp add: HandshakeComplete_def SetPlatformRelease_version)

lemma MergeComponentReleases_distinct:
  "distinct (map rel_Name cs) \<Longrightarrow> distinct (map rel_Name (MergeComponentReleases cs p))"
  by (auto simp: MergeComponentReleases_def Let_def distinct_map intro: inj_on_subset)

lemma MergeComponentReleases_platform:
  "GetPlatformRelease (MergeComponentReleases cs p) =
     (if rel_Name p = ReleaseName \<and> TrimSpace (rel_Version p) \<noteq> [] then p
      else zero_ComponentRelease)"
  by (auto simp: MergeComponentReleases_def Let_def GetPlatformRelease_append
      GetPlatformRelease_absent) (simp add: GetPlatformRelease_def)

lemma MergeComponentReleases_keeps_version:
  assumes "TrimSpace (rel_Version (GetPlatformRelease rs)) \<noteq> []"
  shows "rel_Version (GetPlatformRelease (MergeComponentReleases cs (GetPlatformRelease rs))) =
         rel_Version (GetPlatformRelease rs)"
proof -
  have "\<exists>r \<in> set rs. rel_Name r = ReleaseName"
    using assms GetPlatformRelease_absent [of rs] by (force simp: zero_ComponentRelease_def)
  with assms show ?thesis
    by (simp add: MergeComponentReleases_platform GetPlatformRelease_name)
qed

lemma validateDistributionVersion_None:
  "validateDistributionVersion v = None \<longleftrightarrow>
     v = [] \<or> RuneCountInString v \<le> 64 \<and> \<not> list_ex IsControl (runes v)"
  by (auto simp: validateDistributionVersion_def maxDistributionFieldLength_def)

lemma default_version_valid: "validateDistributionVersion ''0.0.0'' = None"
proof -
  have "RuneCountInString ''0.0.0'' \<le> 64"
    using RuneCount_le_length [of "''0.0.0''"] by simp
  moreover have "runes ''0.0.0'' = [0x30, 0x2E, 0x30, 0x2E, 0x30]"
    by (simp add: runes_ascii byte_of_def)
  ultimately show ?thesis
    by (simp add: validateDistributionVersion_None IsControl_def)
qed

lemma StandaloneDistribution_valid:
  "dist_Name (StandaloneDistribution v) = DistributionNameStandalone"
  "dist_Version (StandaloneDistribution v) \<noteq> []"
  "validateDistributionVersion (dist_Version (StandaloneDistribution v)) = None"
  using default_version_valid by (auto simp: StandaloneDistribution_def Let_def)

text \<open>What the CRD admits for \<open>status.distribution\<close>, with both fields present.\<close>

definition distribution_valid :: "Distribution \<Rightarrow> bool" where
  "distribution_valid d \<longleftrightarrow>
     dist_Name d \<in> {OpenDataHub, DistributionNameSelfManagedRHOAI, DistributionNameStandalone}
     \<and> dist_Version d \<noteq> [] \<and> RuneCountInString (dist_Version d) \<le> 64
     \<and> \<not> list_ex IsControl (runes (dist_Version d))"

lemma ReadDesiredDistribution_valid:
  "ReadDesiredDistribution get ns s = (Inr d, s') \<Longrightarrow>
     (dist_Name d = []
        \<or> dist_Name d \<in> {OpenDataHub, DistributionNameSelfManagedRHOAI, DistributionNameStandalone})
     \<and> validateDistributionVersion (dist_Version d) = None"
  by (auto simp: ReadDesiredDistribution_def Let_def validateDistributionFields_def zero_Distribution_def
      validateDistributionVersion_None split: if_splits prod.splits sum.splits option.splits)

lemma ResolveDesiredDistribution_valid:
  assumes "dist_Name d = []
        \<or> dist_Name d \<in> {OpenDataHub, DistributionNameSelfManagedRHOAI, DistributionNameStandalone}"
    and "validateDistributionVersion (dist_Version d) = None"
  shows "distribution_valid (ResolveDesiredDistribution d p v)"
proof -
  let ?S = "StandaloneDistribution v"
  have std: "distribution_valid ?S"
    using StandaloneDistribution_valid
    by (auto simp: distribution_valid_def validateDistributionVersion_None)
  show ?thesis
  proof (cases "IsDistributionEmpty d")
    case True
    with std show ?thesis by (simp add: ResolveDesiredDistribution_def)
  next
    case False
    have "dist_Name (ResolveDesiredDistribution d p v)
            \<in> {OpenDataHub, DistributionNameSelfManagedRHOAI, DistributionNameStandalone}"
      using False assms(1) StandaloneDistribution_valid(1) [of v]
      by (auto simp: ResolveDesiredDistribution_def Let_def DistributionNameFromPlatform_def
          platform_defs split: if_splits)
    moreover have "dist_Version (ResolveDesiredDistribution d p v) =
        (if dist_Version d = [] then dist_Version ?S else dist_Version d)"
      using False by (simp add: ResolveDesiredDistribution_def Let_def)
    ultimately show ?thesis
      using assms(2) StandaloneDistribution_valid [of v]
      by (auto simp: distribution_valid_def validateDistributionVersion_None)
  qed
qed

lemma distribution_valid_name: "distribution_valid d \<Longrightarrow> dist_Name d \<noteq> []"
  by (auto simp: distribution_valid_def distribution_defs)

lemma DistributionAligned_refl: "distribution_valid d \<Longrightarrow> DistributionAligned d d"
  by (simp add: DistributionAligned_def distribution_valid_name)


section \<open>Properties\<close>

text \<open>
  C27: Whatever the platform ConfigMap holds, a distribution that the operator resolves from a
  successful read is one the CRD admits in status.distribution: its name is OpenDataHub,
  SelfManagedRHOAI or Standalone and its version is non-empty, at most 64 runes long and free of
  control characters. Missing ConfigMaps and missing fields are covered by the fallbacks.
\<close>

theorem resolved_distribution_admissible:
  assumes "ReadDesiredDistribution get ns s = (Inr d, s')"
  shows "distribution_valid (ResolveDesiredDistribution d specPlatform operatorVersion)"
  using ReadDesiredDistribution_valid [OF assms] by (blast intro: ResolveDesiredDistribution_valid)

definition example_cm_get :: "unit cm_get" where
  "example_cm_get ns name s =
     (Inr \<lparr>cm_Namespace = ns, cm_Name = name,
           cm_Data = Some [(DistributionNameKey, ''OpenDataHub'')]\<rparr>, s)"

theorem resolved_distribution_admissible_witness:
  "distribution_valid
     (ResolveDesiredDistribution \<lparr>dist_Name = ''OpenDataHub'', dist_Version = []\<rparr> [] [])"
proof (rule resolved_distribution_admissible)
  show "ReadDesiredDistribution example_cm_get ''opendatahub'' () =
          (Inr \<lparr>dist_Name = ''OpenDataHub'', dist_Version = []\<rparr>, ())"
    by (simp add: ReadDesiredDistribution_def example_cm_get_def get_str_def
        validateDistributionFields_def validateDistributionVersion_def OpenDataHub_def
        DistributionNameKey_def DistributionVersionKey_def TrimSpace_plain plain_ends_def
        space_runes_def)
qed

text \<open>
  The platform version handshake round-trips. Recording a non-blank target version makes the
  handshake complete for that version; a later merge with freshly collected component releases
  keeps it complete; neither step changes the other releases, and both keep release names unique,
  as the list-map key of status.releases requires.
\<close>

lemma platform_handshake_roundtrip:
  assumes "TrimSpace v \<noteq> []" and "distinct (map rel_Name rs)" and "distinct (map rel_Name cs)"
  shows "HandshakeComplete v (SetPlatformRelease rs v)
    \<and> HandshakeComplete v (MergeComponentReleases cs (GetPlatformRelease (SetPlatformRelease rs v)))
    \<and> filter (\<lambda>r. rel_Name r \<noteq> ReleaseName) (SetPlatformRelease rs v) =
       filter (\<lambda>r. rel_Name r \<noteq> ReleaseName) rs
    \<and> filter (\<lambda>r. rel_Name r \<noteq> ReleaseName)
         (MergeComponentReleases cs (GetPlatformRelease (SetPlatformRelease rs v))) =
       filter (\<lambda>r. rel_Name r \<noteq> ReleaseName) cs
    \<and> distinct (map rel_Name (SetPlatformRelease rs v))
    \<and> distinct (map rel_Name (MergeComponentReleases cs (GetPlatformRelease (SetPlatformRelease rs v))))"
proof -
  have "rel_Version (GetPlatformRelease (SetPlatformRelease rs v)) = TrimSpace v"
    by (rule SetPlatformRelease_version [OF assms(1)])
  then have "HandshakeComplete v (MergeComponentReleases cs (GetPlatformRelease (SetPlatformRelease rs v)))"
    using assms(1) MergeComponentReleases_keeps_version [of "SetPlatformRelease rs v" cs]
    by (simp add: HandshakeComplete_def)
  moreover have "filter (\<lambda>r. rel_Name r \<noteq> ReleaseName) (MergeComponentReleases cs p) =
       filter (\<lambda>r. rel_Name r \<noteq> ReleaseName) cs" for p
    by (simp add: MergeComponentReleases_def Let_def)
  ultimately show ?thesis
    using assms by (simp add: HandshakeComplete_Set SetPlatformRelease_others
        SetPlatformRelease_distinct MergeComponentReleases_distinct)
qed

end
