(* ===== verification/Releases.thy ===== *)
theory Releases
  imports Filepath Platform_Config
begin

text \<open>
  \<open>internal/releases/releases.go\<close>: release metadata of the upstream component.
\<close>

definition ComponentMetadataFilename :: string where
  "ComponentMetadataFilename = ''component_metadata.yaml''"

definition metadataRelativePath :: string where
  "metadataRelativePath = ''workbenches/kf-notebook-controller''"

text \<open>The loop over the decoded entries: trimmed names and versions, incomplete entries dropped.\<close>

definition keep_releases :: "ComponentRelease list \<Rightarrow> ComponentRelease list" where
  "keep_releases items =
     concat (map (\<lambda>item.
       let name = TrimSpace (rel_Name item); version = TrimSpace (rel_Version item)
       in if name = [] \<or> version = [] then []
          else [\<lparr>rel_Name = name, rel_Version = version, rel_RepoURL = rel_RepoURL item\<rparr>]) items)"

definition loadMetadataFile ::
  "'s reconciler \<Rightarrow> string \<Rightarrow> 's \<Rightarrow> ComponentRelease list res \<times> 's" where
  "loadMetadataFile r path s =
     (case fs_ReadFile (r_Files r) path s of
        (Inl err, s') \<Rightarrow>
          (if IsNotExist err then Inr []
           else Inl (WrapErr (''reading metadata file '' @ path @ '': '') err), s')
      | (Inr data, s') \<Rightarrow>
          (case r_UnmarshalReleases r data of
             Inl err \<Rightarrow> (Inl (WrapErr (''unmarshaling metadata file '' @ path @ '': '') err), s')
           | Inr doc \<Rightarrow> (Inr (keep_releases doc), s')))"

definition CollectWorkbenchesReleases ::
  "'s reconciler \<Rightarrow> 's \<Rightarrow> ComponentRelease list res \<times> 's" where
  "CollectWorkbenchesReleases r s =
     loadMetadataFile r
       (filepath_Join [ManifestsBasePath r, metadataRelativePath, ComponentMetadataFilename]) s"

text \<open>Every release that is reported has a name and a version, both trimmed.\<close>

lemma keep_releases_complete:
  "x \<in> set (keep_releases items) \<Longrightarrow>
   rel_Name x \<noteq> [] \<and> rel_Version x \<noteq> [] \<and> TrimSpace (rel_Name x) = rel_Name x
   \<and> TrimSpace (rel_Version x) = rel_Version x"
  by (auto simp: keep_releases_def Let_def split: if_splits)

lemma CollectWorkbenchesReleases_complete:
  "CollectWorkbenchesReleases r s = (Inr rs, s') \<Longrightarrow> x \<in> set rs \<Longrightarrow>
   rel_Name x \<noteq> [] \<and> rel_Version x \<noteq> []"
  by (auto simp: CollectWorkbenchesReleases_def loadMetadataFile_def dest: keep_releases_complete
      split: prod.splits sum.splits if_splits)

end
