(* ===== verification/Phase.thy ===== *)
theory Phase
  imports Prelude
begin

text \<open>The lifecycle phase of \<open>internal/status/phase.go\<close>.\<close>

definition PhasePending :: string where "PhasePending = ''Pending''"
definition PhaseInitializing :: string where "PhaseInitializing = ''Initializing''"
definition PhaseReady :: string where "PhaseReady = ''Ready''"
definition PhaseUpgrading :: string where "PhaseUpgrading = ''Upgrading''"
definition PhaseDegraded :: string where "PhaseDegraded = ''Degraded''"
definition PhaseFailed :: string where "PhaseFailed = ''Failed''"

lemmas phase_defs = PhasePending_def PhaseInitializing_def PhaseReady_def PhaseUpgrading_def
  PhaseDegraded_def PhaseFailed_def

record PhaseContext =
  PreviousObservedGeneration :: int
  pc_Generation :: int
  WasReady :: bool
  pc_Ready :: bool
  pc_Degraded :: bool
  pc_Failed :: bool
  pc_Removed :: bool
  ProvisioningSucceeded :: bool

definition zero_PhaseContext :: PhaseContext where
  "zero_PhaseContext =
     \<lparr>PreviousObservedGeneration = 0, pc_Generation = 0, WasReady = False, pc_Ready = False,
      pc_Degraded = False, pc_Failed = False, pc_Removed = False, ProvisioningSucceeded = False\<rparr>"

definition ComputePhase :: "PhaseContext \<Rightarrow> string" where
  "ComputePhase ctx =
     (if pc_Failed ctx \<or> pc_Removed ctx then PhaseFailed
      else if pc_Ready ctx then PhaseReady
      else if WasReady ctx \<and> pc_Generation ctx > PreviousObservedGeneration ctx
              \<and> PreviousObservedGeneration ctx > 0 then PhaseUpgrading
      else if pc_Degraded ctx then PhaseDegraded
      else if PreviousObservedGeneration ctx = 0 \<and> \<not> ProvisioningSucceeded ctx then PhasePending
      else PhaseInitializing)"

text \<open>The values the CRD admits for \<open>status.phase\<close> (\<open>kubebuilder:validation:Enum\<close>).\<close>

definition phase_enum :: "string set" where
  "phase_enum = {PhasePending, PhaseInitializing, PhaseReady, PhaseUpgrading, PhaseDegraded,
                 PhaseFailed}"

lemma ComputePhase_enum [simp]: "ComputePhase ctx \<in> phase_enum"
  by (simp add: ComputePhase_def phase_enum_def)

lemma ComputePhase_Ready_iff:
  "ComputePhase ctx = PhaseReady \<longleftrightarrow> pc_Ready ctx \<and> \<not> pc_Failed ctx \<and> \<not> pc_Removed ctx"
  by (auto simp: ComputePhase_def phase_defs)

lemma ComputePhase_Failed_iff:
  "ComputePhase ctx = PhaseFailed \<longleftrightarrow> pc_Failed ctx \<or> pc_Removed ctx"
  by (auto simp: ComputePhase_def phase_defs)

lemma ComputePhase_failed [simp]:
  "pc_Failed ctx \<Longrightarrow> ComputePhase ctx = PhaseFailed"
  "pc_Removed ctx \<Longrightarrow> ComputePhase ctx = PhaseFailed"
  by (simp_all add: ComputePhase_def)

end
