(* ===== verification/Image_Streams.thy ===== *)
theory Image_Streams
  imports Environment
begin

text \<open>
  \<open>internal/controller/imagestreams.go\<close>: the informational condition ImageStreamsAvailable and the
  warning it adds to the message of Ready.
\<close>

definition conditionTypeReady :: string where "conditionTypeReady = ''Ready''"

definition conditionTypeImageStreamsAvailable :: string where
  "conditionTypeImageStreamsAvailable = ''ImageStreamsAvailable''"

definition conditionReasonImageStreamsNotReady :: string where
  "conditionReasonImageStreamsNotReady = ''ImageStreamsNotReady''"

definition conditionReasonAvailable :: string where
  "conditionReasonAvailable = ''Available''"

definition ImportSuccess :: string where "ImportSuccess = ''ImportSuccess''"

definition maxImageStreamConditionMessageLen :: nat where
  "maxImageStreamConditionMessageLen = 100"

definition maxFailedImageStreamTags :: nat where
  "maxFailedImageStreamTags = 10"

definition failedTagMessages :: "imagestream \<Rightarrow> tag_status \<Rightarrow> string list" where
  "failedTagMessages istream tagStatus =
     (if tag_Items tagStatus > 0 then []
      else concat (map (\<lambda>cond.
        if tc_Type cond \<noteq> ImportSuccess \<or> tc_Status cond \<noteq> ConditionFalse then []
        else
          let msg = (if length (tc_Message cond) > maxImageStreamConditionMessageLen
                     then take maxImageStreamConditionMessageLen (tc_Message cond) @ ''...''
                     else tc_Message cond)
          in [is_Name istream @ '':'' @ tag_Name tagStatus @ '' ('' @ msg @ '')''])
        (tag_Conditions tagStatus)))"

definition failedImageStreamTags :: "imagestream list \<Rightarrow> string list" where
  "failedImageStreamTags streams =
     concat (map (\<lambda>istream. concat (map (failedTagMessages istream) (is_Tags istream))) streams)"

definition imageStreamsCondition :: "string list \<Rightarrow> int \<Rightarrow> condition" where
  "imageStreamsCondition failedTags generation =
     (if length failedTags = 0 then
        \<lparr>cond_Type = conditionTypeImageStreamsAvailable, cond_Status = ConditionTrue,
         cond_Reason = conditionReasonAvailable,
         cond_Message = ''All ImageStream tags imported successfully'',
         cond_ObservedGeneration = generation\<rparr>
      else
        let suf = (if length failedTags > maxFailedImageStreamTags
                   then ''; ... and '' @ nat_str (length failedTags - maxFailedImageStreamTags) @ '' more''
                   else []);
            reported = (if length failedTags > maxFailedImageStreamTags
                        then take maxFailedImageStreamTags failedTags else failedTags)
        in \<lparr>cond_Type = conditionTypeImageStreamsAvailable, cond_Status = ConditionFalse,
            cond_Reason = conditionReasonImageStreamsNotReady,
            cond_Message = ''Warning: '' @ nat_str (length failedTags) @
              '' ImageStream tag(s) failed to import: '' @ Join_str ''; '' reported @ suf,
            cond_ObservedGeneration = generation\<rparr>)"

definition syncImageStreamsAvailable ::
  "conditions_api \<Rightarrow> 's client \<Rightarrow> Workbenches \<Rightarrow> string \<Rightarrow> 's \<Rightarrow> Workbenches res \<times> 's" where
  "syncImageStreamsAvailable C c wb ns s =
     (case cl_ListImageStreams c ns [(PartOfLabelKey, ComponentLabelValue)] s of
        (Inl err, s') \<Rightarrow>
          (if IsNoMatchError err \<or> IsNotRegisteredError err then Inr wb
           else Inl (WrapErr ''error listing ImageStreams: '' err), s')
      | (Inr streams, s') \<Rightarrow>
          (Inr (set_condition C
             (imageStreamsCondition (failedImageStreamTags streams) (Generation wb)) wb), s'))"

definition appendImageStreamWarningToReady :: "conditions_api \<Rightarrow> Workbenches \<Rightarrow> Workbenches" where
  "appendImageStreamWarningToReady C wb =
     (case FindStatusCondition C (Conditions (Status wb)) conditionTypeImageStreamsAvailable of
        None \<Rightarrow> wb
      | Some isCond \<Rightarrow>
          if cond_Status isCond \<noteq> ConditionFalse \<or> cond_Message isCond = [] then wb
          else (case FindStatusCondition C (Conditions (Status wb)) conditionTypeReady of
                  None \<Rightarrow> wb
                | Some readyCond \<Rightarrow>
                    (let msg = (if cond_Message readyCond \<noteq> []
                                then TrimRight (cond_Message readyCond) ''.'' @ ''. '' @ cond_Message isCond
                                else cond_Message isCond)
                     in set_condition C
                          \<lparr>cond_Type = cond_Type readyCond, cond_Status = cond_Status readyCond,
                           cond_Reason = cond_Reason readyCond, cond_Message = msg,
                           cond_ObservedGeneration = cond_ObservedGeneration readyCond\<rparr> wb)))"

section \<open>Facts\<close>

lemma failedTagMessages_empty_iff:
  "failedTagMessages istream t = [] \<longleftrightarrow> tag_Items t > 0
     \<or> (\<forall>cond \<in> set (tag_Conditions t).
          tc_Type cond \<noteq> ImportSuccess \<or> tc_Status cond \<noteq> ConditionFalse)"
  unfolding failedTagMessages_def Let_def by (simp split: if_split) blast

lemma failedImageStreamTags_empty_iff:
  "failedImageStreamTags streams = [] \<longleftrightarrow>
     (\<forall>istream \<in> set streams. \<forall>t \<in> set (is_Tags istream). tag_Items t > 0
        \<or> (\<forall>cond \<in> set (tag_Conditions t).
             tc_Type cond \<noteq> ImportSuccess \<or> tc_Status cond \<noteq> ConditionFalse))"
  unfolding failedImageStreamTags_def
  by (simp add: failedTagMessages_empty_iff image_subset_iff)

context status_conditions
begin

lemma append_warning_true:
  "IsStatusConditionTrue C (Conditions (Status (appendImageStreamWarningToReady C wb))) t =
   IsStatusConditionTrue C (Conditions (Status wb)) t"
  by (simp add: appendImageStreamWarningToReady_def is_true_set is_true_found find_type Let_def
      split: option.split)

lemma append_warning_find_other:
  "t \<noteq> conditionTypeReady \<Longrightarrow>
   FindStatusCondition C (Conditions (Status (appendImageStreamWarningToReady C wb))) t =
   FindStatusCondition C (Conditions (Status wb)) t"
  by (simp add: appendImageStreamWarningToReady_def find_set find_type Let_def split: option.split)

lemma append_warning_reason:
  "map_option cond_Reason (FindStatusCondition C
      (Conditions (Status (appendImageStreamWarningToReady C wb))) conditionTypeReady) =
   map_option cond_Reason (FindStatusCondition C (Conditions (Status wb)) conditionTypeReady)"
  by (simp add: appendImageStreamWarningToReady_def find_set find_type Let_def split: option.split)

end

lemma append_warning_simps [simp]:
  "Spec (appendImageStreamWarningToReady C wb) = Spec wb"
  "Generation (appendImageStreamWarningToReady C wb) = Generation wb"
  "Releases (Status (appendImageStreamWarningToReady C wb)) = Releases (Status wb)"
  "st_Distribution (Status (appendImageStreamWarningToReady C wb)) = st_Distribution (Status wb)"
  "st_IngressContract (Status (appendImageStreamWarningToReady C wb)) = st_IngressContract (Status wb)"
  "ApplicationsNamespace (Status (appendImageStreamWarningToReady C wb)) = ApplicationsNamespace (Status wb)"
  "st_WorkbenchNamespace (Status (appendImageStreamWarningToReady C wb)) = st_WorkbenchNamespace (Status wb)"
  by (simp_all add: appendImageStreamWarningToReady_def Let_def split: option.split)

end
