(* ===== verification/Platform_Config_Watch.thy ===== *)
theory Platform_Config_Watch
  imports Environment Platform_Config
begin

text \<open>
  The watch on the platform ConfigMap: \<open>internal/controller/platform_config_predicate.go\<close> and
  \<open>mapPlatformConfigToWorkbenches\<close> of \<open>workbenches_controller.go\<close>.
\<close>

datatype cm_object = ConfigMapObj configmap | OtherKind

definition platformConfigValue :: "configmap \<Rightarrow> string" where
  "platformConfigValue cm =
     (case cm_Data cm of
        None \<Rightarrow> []
      | Some data \<Rightarrow>
          (let name = TrimSpace (get_str data DistributionNameKey);
               version = TrimSpace (get_str data DistributionVersionKey);
               platformVersion = TrimSpace (get_str data VersionDataKey)
           in name @ [CHR 0x00] @ version @ [CHR 0x00] @ platformVersion))"

definition platformConfig_matches :: "string list \<Rightarrow> cm_object \<Rightarrow> bool" where
  "platformConfig_matches applicationsNamespaces obj =
     (case obj of
        OtherKind \<Rightarrow> False
      | ConfigMapObj cm \<Rightarrow>
          if cm_Name cm \<noteq> ConfigMapName then False
          else List.member applicationsNamespaces (cm_Namespace cm))"

fun platformConfigChangedPredicate :: "string list \<Rightarrow> cm_object watch_event \<Rightarrow> bool" where
  "platformConfigChangedPredicate nss (CreateEvent obj) = platformConfig_matches nss obj"
| "platformConfigChangedPredicate nss (UpdateEvent oldObj newObj) =
     (if \<not> platformConfig_matches nss newObj then False
      else (case (oldObj, newObj) of
              (ConfigMapObj oldCM, ConfigMapObj newCM) \<Rightarrow>
                platformConfigValue oldCM \<noteq> platformConfigValue newCM
            | _ \<Rightarrow> True))"
| "platformConfigChangedPredicate nss (DeleteEvent obj) = platformConfig_matches nss obj"
| "platformConfigChangedPredicate nss (GenericEvent obj) = False"

text \<open>The names of the requests that an event of the watch enqueues.\<close>

definition mapPlatformConfigToWorkbenches ::
  "'s reconciler \<Rightarrow> cm_object \<Rightarrow> 's \<Rightarrow> string list \<times> 's" where
  "mapPlatformConfigToWorkbenches r obj s =
     (case obj of
        OtherKind \<Rightarrow> ([], s)
      | ConfigMapObj cm \<Rightarrow>
          if cm_Name cm \<noteq> ConfigMapName then ([], s)
          else (case cl_GetWorkbenches (r_Client r) WorkbenchesInstanceName s of
              (Inl err, s') \<Rightarrow>
                (if List.member
                      (platformConfigWatchNamespaces (r_IsDNS1123Label r) (r_ApplicationsNamespace r))
                      (cm_Namespace cm)
                 then [WorkbenchesInstanceName] else [], s')
            | (Inr wb, s') \<Rightarrow>
                (if cm_Namespace cm \<noteq> r_resolveOperandNamespace r (spec_Platform (Spec wb))
                 then [] else [WorkbenchesInstanceName], s')))"

section \<open>Facts\<close>

text \<open>The three values of the ConfigMap that the reconciler reads, after trimming.\<close>

definition config_values :: "string gomap \<Rightarrow> string \<times> string \<times> string" where
  "config_values data =
     (TrimSpace (get_str data DistributionNameKey), TrimSpace (get_str data DistributionVersionKey),
      TrimSpace (get_str data VersionDataKey))"

definition no_nul :: "configmap \<Rightarrow> bool" where
  "no_nul cm =
     (case cm_Data cm of
        None \<Rightarrow> True
      | Some data \<Rightarrow> list_all (\<lambda>k. CHR 0x00 \<notin> set (get_str data k))
          [DistributionNameKey, DistributionVersionKey, VersionDataKey])"

lemma nul_separated_inj:
  assumes "CHR 0x00 \<notin> set a" "CHR 0x00 \<notin> set b" "CHR 0x00 \<notin> set a'" "CHR 0x00 \<notin> set b'"
  shows "a @ CHR 0x00 # b @ CHR 0x00 # c = a' @ CHR 0x00 # b' @ CHR 0x00 # c' \<longleftrightarrow>
         a = a' \<and> b = b' \<and> c = c'"
  using Cut_append [of "CHR 0x00"] assms by (metis option.inject prod.inject)

lemma platformConfigValue_eq:
  assumes "no_nul cm" "no_nul cm'"
  shows "platformConfigValue cm = platformConfigValue cm' \<longleftrightarrow>
         map_option config_values (cm_Data cm) = map_option config_values (cm_Data cm')"
proof -
  have nul: "CHR 0x00 \<notin> set (TrimSpace x)" if "CHR 0x00 \<notin> set x" for x
    using that set_TrimSpace [of x] by blast
  show ?thesis
    using assms nul
    by (auto simp: platformConfigValue_def no_nul_def config_values_def Let_def nul_separated_inj
        split: option.splits)
qed

text \<open>What one reconcile reads of the ConfigMap.\<close>

definition reads_of :: "configmap \<Rightarrow> string \<Rightarrow> Distribution res \<times> string res" where
  "reads_of cm ns =
     (fst (ReadDesiredDistribution (\<lambda>_ _ s. (Inr cm, s)) ns ()),
      fst (ReadPlatformVersion (\<lambda>_ _ s. (Inr cm, s)) ns ()))"

lemma reads_of_cong:
  "map_option config_values (cm_Data cm) = map_option config_values (cm_Data cm') \<Longrightarrow>
   reads_of cm ns = reads_of cm' ns"
  by (auto simp: reads_of_def ReadDesiredDistribution_def ReadPlatformVersion_def Let_def
      config_values_def split: option.splits)

section \<open>Properties\<close>

text \<open>
  C30: The platform ConfigMap watch misses nothing the reconciler reads in the operand namespace of the
  current resource. The creation and the deletion of the ConfigMap there pass the predicate. An update
  of it, with values free of NUL bytes, passes if the distribution or the platform version that a reconcile
  would read differs before and after; it passes exactly when the presence of data or one of the three
  trimmed values changed, so a rewrite with only surrounding white space starts no reconcile. The handler
  enqueues the singleton for every event that passes.
\<close>

theorem platform_config_watch_complete:
  assumes "no_nul oldCM" and "no_nul newCM"
    and "cm_Name newCM = ConfigMapName"
    and "cl_GetWorkbenches (r_Client r) WorkbenchesInstanceName s = (Inr wb, s')"
    and "cm_Namespace newCM = r_resolveOperandNamespace r (spec_Platform (Spec wb))"
  defines "nss \<equiv> platformConfigWatchNamespaces (r_IsDNS1123Label r) (r_ApplicationsNamespace r)"
  defines "passes \<equiv> platformConfigChangedPredicate nss
             (UpdateEvent (ConfigMapObj oldCM) (ConfigMapObj newCM))"
  shows "(passes \<longleftrightarrow>
            map_option config_values (cm_Data oldCM) \<noteq> map_option config_values (cm_Data newCM))
    \<and> (reads_of oldCM (cm_Namespace newCM) \<noteq> reads_of newCM (cm_Namespace newCM) \<longrightarrow> passes)
    \<and> platformConfigChangedPredicate nss (CreateEvent (ConfigMapObj newCM))
    \<and> platformConfigChangedPredicate nss (DeleteEvent (ConfigMapObj newCM))
    \<and> fst (mapPlatformConfigToWorkbenches r (ConfigMapObj newCM) s) = [WorkbenchesInstanceName]"
proof -
  have match: "platformConfig_matches nss (ConfigMapObj newCM)"
    using assms(3,5) resolveOperandNamespace_watched
      [of "r_IsDNS1123Label r" "r_ApplicationsNamespace r" "spec_Platform (Spec wb)"]
    by (simp add: platformConfig_matches_def nss_def)
  then have exact: "passes \<longleftrightarrow>
      map_option config_values (cm_Data oldCM) \<noteq> map_option config_values (cm_Data newCM)"
    by (simp add: passes_def platformConfigValue_eq [OF assms(1,2)])
  moreover have "reads_of oldCM (cm_Namespace newCM) \<noteq> reads_of newCM (cm_Namespace newCM) \<longrightarrow> passes"
    using exact reads_of_cong by blast
  ultimately show ?thesis
    using assms(3,4,5) match by (simp add: mapPlatformConfigToWorkbenches_def)
qed

definition example_config :: "string \<Rightarrow> configmap" where
  "example_config v =
     \<lparr>cm_Namespace = DefaultApplicationsNamespaceODH, cm_Name = ConfigMapName,
      cm_Data = Some [(VersionDataKey, v)]\<rparr>"

definition example_watch_reconciler :: "unit reconciler" where
  "example_watch_reconciler = empty_reconciler
     \<lparr>r_Client := empty_client\<lparr>cl_GetWorkbenches := (\<lambda>n s. (Inr example_wb, s))\<rparr>\<rparr>"

theorem platform_config_watch_complete_witness:
  "platformConfigChangedPredicate
     (platformConfigWatchNamespaces (r_IsDNS1123Label example_watch_reconciler)
        (r_ApplicationsNamespace example_watch_reconciler))
     (UpdateEvent (ConfigMapObj (example_config ''3.0'')) (ConfigMapObj (example_config ''3.1'')))"
proof -
  have keys: "VersionDataKey \<noteq> DistributionNameKey" "VersionDataKey \<noteq> DistributionVersionKey"
    by (simp_all add: VersionDataKey_def DistributionNameKey_def DistributionVersionKey_def)
  have "no_nul (example_config ''3.0'')" "no_nul (example_config ''3.1'')"
    using keys by (simp_all add: no_nul_def example_config_def get_str_def)
  moreover have "cl_GetWorkbenches (r_Client example_watch_reconciler) WorkbenchesInstanceName ()
      = (Inr example_wb, ())"
    by (simp add: example_watch_reconciler_def)
  moreover have "cm_Name (example_config ''3.1'') = ConfigMapName"
    "cm_Namespace (example_config ''3.1'') =
       r_resolveOperandNamespace example_watch_reconciler (spec_Platform (Spec example_wb))"
    by (simp_all add: example_config_def example_watch_reconciler_def example_env
        resolveOperandNamespace_def configuredApplicationsNamespace_def
        DefaultApplicationsNamespace_def platform_defs)
  moreover have "map_option config_values (cm_Data (example_config ''3.0'')) \<noteq>
                 map_option config_values (cm_Data (example_config ''3.1''))"
    by (simp add: example_config_def config_values_def get_str_def TrimSpace_plain plain_ends_def
        space_runes_def)
  ultimately show ?thesis
    using platform_config_watch_complete
      [of "example_config ''3.0''" "example_config ''3.1''" example_watch_reconciler "()" example_wb "()"]
    by blast
qed

end
