(* ===== verification/Reconciler.thy ===== *)
theory Reconciler
  imports Manifests Releases Phase Image_Streams Ingress_Contract Platform_Config_Watch
begin

text \<open>
  \<open>internal/controller/workbenches_controller.go\<close>: the reconcile loop. The resource is a pointer in
  Go, so each step takes the resource and returns it as the step leaves it; \<open>Status().Update\<close> replaces
  it by what the server stored. An outcome is the delay of \<open>ctrl.Result\<close> in nanoseconds (0: none) with
  the returned error.
\<close>

type_synonym outcome = "int \<times> goerror option"

definition second :: int where "second = 1000000000"
definition millisecond :: int where "millisecond = 1000000"

definition requeueDelay :: int where "requeueDelay = 30 * second"

definition workbenchesFinalizer :: string where
  "workbenchesFinalizer = ''components.platform.opendatahub.io/workbenches-cleanup''"

definition workspacesControllerDeploymentName :: string where
  "workspacesControllerDeploymentName = ''workspaces-controller''"

definition conditionTypeProvisioningSucceeded :: string where
  "conditionTypeProvisioningSucceeded = ''ProvisioningSucceeded''"

definition conditionTypeDegraded :: string where
  "conditionTypeDegraded = ''Degraded''"

definition conditionTypeDeploymentsAvailable :: string where
  "conditionTypeDeploymentsAvailable = ''DeploymentsAvailable''"

definition conditionTypeReleaseMetadataAvailable :: string where
  "conditionTypeReleaseMetadataAvailable = ''ReleaseMetadataAvailable''"

definition conditionTypeWorkbenchesV2Ready :: string where
  "conditionTypeWorkbenchesV2Ready = ''WorkbenchesV2Ready''"

definition conditionReasonReconcileSuccess :: string where
  "conditionReasonReconcileSuccess = ''ReconcileSuccess''"

definition paramGatewayURL :: string where "paramGatewayURL = ''gateway-url''"
definition paramMLflowEnabled :: string where "paramMLflowEnabled = ''mlflow-enabled''"
definition paramSectionTitle :: string where "paramSectionTitle = ''section-title''"

lemmas condition_type_defs =
  conditionTypeReady_def conditionTypeProvisioningSucceeded_def conditionTypeDegraded_def
  conditionTypeDeploymentsAvailable_def conditionTypeReleaseMetadataAvailable_def
  conditionTypeImageStreamsAvailable_def conditionTypeWorkbenchesV2Ready_def
  conditionTypeIngressContractReady_def

text \<open>A condition with the generation of the resource.\<close>

definition mark ::
  "conditions_api \<Rightarrow> string \<Rightarrow> string \<Rightarrow> string \<Rightarrow> string \<Rightarrow> Workbenches \<Rightarrow> Workbenches" where
  "mark C t st reason msg wb =
     set_condition C \<lparr>cond_Type = t, cond_Status = st, cond_Reason = reason, cond_Message = msg,
       cond_ObservedGeneration = Generation wb\<rparr> wb"

section \<open>Setup helpers\<close>

definition ImageStream_gvk :: gvk where
  "ImageStream_gvk = mk_gvk ''image.openshift.io'' ''v1'' ''ImageStream''"

text \<open>The result of the REST mapper's lookup decides whether ImageStreams are watched.\<close>

definition shouldWatchImageStreams :: "(gvk \<Rightarrow> unit res) \<Rightarrow> bool res" where
  "shouldWatchImageStreams restMapping =
     (case restMapping ImageStream_gvk of
        Inr _ \<Rightarrow> Inr True
      | Inl err \<Rightarrow> if IsNoMatchError err then Inr False else Inl err)"

definition mapImageStreamToWorkbenches :: "string list" where
  "mapImageStreamToWorkbenches = [WorkbenchesInstanceName]"

definition validateSpec :: "WorkbenchesSpec \<Rightarrow> goerror option" where
  "validateSpec spec =
     (if (case ODHNotebookControllerProbe spec of None \<Rightarrow> False | Some p \<Rightarrow> TimeoutSeconds p < 1)
      then Some (GoErr (''odhNotebookControllerProbe.timeoutSeconds must be at least 1 second, got '' @
             int_str (TimeoutSeconds (the (ODHNotebookControllerProbe spec)))))
      else if spec_Platform spec \<noteq> [] \<and> \<not> platform_IsValid (spec_Platform spec)
      then Some (GoErr (''unsupported platform '' @ Quote (spec_Platform spec) @ '', must be one of: '' @
             OpenDataHub @ '', '' @ SelfManagedRhoai))
      else None)"

definition setStatusNamespaces :: "Workbenches \<Rightarrow> string \<Rightarrow> Workbenches" where
  "setStatusNamespaces wb appsNS =
     wb\<lparr>Status := (Status wb)\<lparr>ApplicationsNamespace := appsNS,
          st_WorkbenchNamespace := spec_WorkbenchNamespace (Spec wb)\<rparr>\<rparr>"

definition resolveLegacyWorkbenchNamespace :: "Workbenches \<Rightarrow> string" where
  "resolveLegacyWorkbenchNamespace wb =
     (if spec_WorkbenchNamespace (Spec wb) \<noteq> [] then spec_WorkbenchNamespace (Spec wb)
      else DefaultLegacyWorkbenchNamespace (spec_Platform (Spec wb)))"

definition computeKustomizeParams :: "Workbenches \<Rightarrow> string gomap" where
  "computeKustomizeParams wb =
     (let gatewayURL = (if GatewayDomain (Spec wb) \<noteq> [] then GatewayDomain (Spec wb) else [])
      in [(paramSectionTitle, SectionTitle (spec_Platform (Spec wb))),
          (paramMLflowEnabled, FormatBool (MLflowEnabled (Spec wb))),
          (paramGatewayURL, gatewayURL)])"

section \<open>Namespaces\<close>

definition ensureGeneratedNamespace :: "'s reconciler \<Rightarrow> string \<Rightarrow> 's \<Rightarrow> unit res \<times> 's" where
  "ensureGeneratedNamespace r nsName s =
     (case cl_GetNamespace (r_Client r) nsName s of
        (Inl err, s1) \<Rightarrow>
          if \<not> IsNotFound err
          then (Inl (WrapErr (''failed to get namespace '' @ nsName @ '': '') err), s1)
          else (case cl_CreateNamespace (r_Client r)
                   \<lparr>ns_Name = nsName, ns_Labels = Some [(OwnedNamespaceLabel, LabelTrue)]\<rparr> s1 of
              (Inl createErr, s2) \<Rightarrow>
                (Inl (WrapErr (''failed to create namespace '' @ nsName @ '': '') createErr), s2)
            | (Inr _, s2) \<Rightarrow> (Inr (), s2))
      | (Inr ns, s1) \<Rightarrow>
          (let labels = (case ns_Labels ns of None \<Rightarrow> [] | Some l \<Rightarrow> l)
           in if get_str labels OwnedNamespaceLabel \<noteq> LabelTrue
              then (case cl_UpdateNamespace (r_Client r)
                       (ns\<lparr>ns_Labels := Some (AList.update OwnedNamespaceLabel LabelTrue labels)\<rparr>) s1 of
                  (Inl updateErr, s2) \<Rightarrow>
                    (Inl (WrapErr (''failed to update namespace '' @ nsName @ '' labels: '') updateErr), s2)
                | (Inr _, s2) \<Rightarrow> (Inr (), s2))
              else (Inr (), s1)))"

definition configureDependencies :: "'s reconciler \<Rightarrow> Workbenches \<Rightarrow> 's \<Rightarrow> unit res \<times> 's" where
  "configureDependencies r wb s =
     (let appsNS = r_resolveOperandNamespace r (spec_Platform (Spec wb))
      in case ensureGeneratedNamespace r appsNS s of
        (Inl err, s1) \<Rightarrow> (Inl (WrapErr ''applications namespace: '' err), s1)
      | (Inr _, s1) \<Rightarrow>
          (let legacyNS = resolveLegacyWorkbenchNamespace wb
           in if legacyNS \<noteq> appsNS
              then (case ensureGeneratedNamespace r legacyNS s1 of
                  (Inl err, s2) \<Rightarrow> (Inl (WrapErr ''legacy workbench namespace: '' err), s2)
                | (Inr _, s2) \<Rightarrow> (Inr (), s2))
              else (Inr (), s1)))"

section \<open>Reading the platform configuration\<close>

definition resolveDesiredDistribution :: "'s reconciler \<Rightarrow> Workbenches \<Rightarrow> 's \<Rightarrow> Distribution res \<times> 's" where
  "resolveDesiredDistribution r wb s =
     (let nsName = r_resolveOperandNamespace r (spec_Platform (Spec wb))
      in case ReadDesiredDistribution (cl_GetConfigMap (r_Client r)) nsName s of
           (Inl err, s') \<Rightarrow> (Inl err, s')
         | (Inr desired, s') \<Rightarrow> (Inr (ResolveDesiredDistribution desired (spec_Platform (Spec wb)) []), s'))"

definition readPlatformVersion :: "'s reconciler \<Rightarrow> Workbenches \<Rightarrow> 's \<Rightarrow> string res \<times> 's" where
  "readPlatformVersion r wb s =
     ReadPlatformVersion (cl_GetConfigMap (r_Client r))
       (r_resolveOperandNamespace r (spec_Platform (Spec wb))) s"

section \<open>Deployments\<close>

definition checkDeployments :: "'s reconciler \<Rightarrow> Workbenches \<Rightarrow> 's \<Rightarrow> (bool \<times> string) \<times> 's" where
  "checkDeployments r wb s =
     (let nsName = r_resolveOperandNamespace r (spec_Platform (Spec wb))
      in case cl_ListDeployments (r_Client r) nsName [(ComponentLabelKey, LabelTrue)] s of
           (Inl err, s') \<Rightarrow> ((False, ''failed to list deployments: '' @ Error err), s')
         | (Inr deployments, s') \<Rightarrow>
             (if length deployments = 0 then (False, ''no notebook controller deployments found'')
              else deploymentsAvailability deployments, s'))"

definition checkWorkspacesControllerDeployment ::
  "'s reconciler \<Rightarrow> Workbenches \<Rightarrow> 's \<Rightarrow> (bool \<times> string) \<times> 's" where
  "checkWorkspacesControllerDeployment r wb s =
     (let nsName = r_resolveOperandNamespace r (spec_Platform (Spec wb))
      in case cl_ListDeployments (r_Client r) nsName [(ComponentLabelKey, LabelTrue)] s of
           (Inl err, s') \<Rightarrow> ((False, ''failed to list deployments: '' @ Error err), s')
         | (Inr deployments, s') \<Rightarrow>
             (let v2Deployments = filter (\<lambda>d. d_Name d = workspacesControllerDeploymentName) deployments
              in if length v2Deployments = 0 then (False, ''workspaces-controller deployment not found'')
                 else deploymentsAvailability v2Deployments, s'))"

definition setDeploymentCondition :: "conditions_api \<Rightarrow> Workbenches \<Rightarrow> bool \<Rightarrow> string \<Rightarrow> Workbenches" where
  "setDeploymentCondition C wb ready msg =
     (if ready
      then mark C conditionTypeDeploymentsAvailable ConditionTrue conditionReasonAvailable
             ''All deployments are available'' wb
      else mark C conditionTypeDeploymentsAvailable ConditionFalse ''Unavailable'' msg wb)"

definition setWorkbenchesV2Condition :: "'s reconciler \<Rightarrow> Workbenches \<Rightarrow> 's \<Rightarrow> Workbenches \<times> 's" where
  "setWorkbenchesV2Condition r wb s =
     (let C = r_Conditions r; t = conditionTypeWorkbenchesV2Ready
      in if \<not> IsWorkbenchesV2Managed (Spec wb)
         then (mark C t ConditionFalse ManagementStateRemoved
                 ''workbenches-v2 submodule is not enabled'' wb, s)
         else (case workbenchesV2ManifestsExist r s of
             (False, s1) \<Rightarrow>
               (mark C t ConditionFalse ''ManifestsNotAvailable''
                  ''workbenches-v2 manifests are not available in this operator build'' wb, s1)
           | (True, s1) \<Rightarrow>
               (case checkWorkspacesControllerDeployment r wb s1 of
                  ((ready, msg), s2) \<Rightarrow>
                    (if \<not> ready then mark C t ConditionFalse ''Unavailable'' msg wb
                     else mark C t ConditionTrue conditionReasonAvailable
                            ''workspaces-controller deployment is available'' wb, s2))))"

section \<open>Readiness\<close>

definition mark_not_degraded :: "conditions_api \<Rightarrow> Workbenches \<Rightarrow> Workbenches" where
  "mark_not_degraded C wb =
     mark C conditionTypeDegraded ConditionFalse ''NotDegraded''
       ''Workbenches component is operating normally'' wb"

definition setReadyCondition ::
  "conditions_api \<Rightarrow> Workbenches \<Rightarrow> bool \<Rightarrow> string \<Rightarrow> bool \<Rightarrow> Distribution \<Rightarrow> string \<Rightarrow> string
     \<Rightarrow> Workbenches" where
  "setReadyCondition C wb deploymentsReady deployMsg wasReady desiredDistribution platformVersion
     reconciledPlatformVersion =
     (let distributionAligned = DistributionAligned desiredDistribution (st_Distribution (Status wb));
          handshakeRequired = HandshakeRequired desiredDistribution;
          handshakeComplete =
            (\<not> handshakeRequired \<or> HandshakeComplete platformVersion (Releases (Status wb)));
          ready = (deploymentsReady \<and> distributionAligned \<and> handshakeComplete)
      in if ready
         then mark_not_degraded C
                (mark C conditionTypeReady ConditionTrue conditionReasonReconcileSuccess
                   ''Workbenches component is ready'' wb)
         else
           let notAligned = (deploymentsReady \<and> \<not> distributionAligned);
               versionPending = (\<not> notAligned \<and> deploymentsReady \<and> distributionAligned
                 \<and> handshakeRequired \<and> \<not> handshakeComplete);
               readyReason =
                 (if notAligned then ''DistributionNotAligned''
                  else if versionPending then ''PlatformVersionPending''
                  else ''DeploymentsNotReady'');
               readyMsg =
                 (if notAligned
                  then ''Waiting for distribution alignment: desired '' @ dist_Name desiredDistribution @
                       ''/'' @ dist_Version desiredDistribution @ '', current '' @
                       dist_Name (st_Distribution (Status wb)) @ ''/'' @
                       dist_Version (st_Distribution (Status wb))
                  else if versionPending
                  then (if platformVersion = []
                        then ''waiting for platform version from odh-workbenches-config''
                        else ''platform upgrade in progress: reconciled '' @
                             Quote reconciledPlatformVersion @ '', target '' @ Quote platformVersion)
                  else if deployMsg = [] then ''Waiting for deployments to become available''
                  else deployMsg);
               wb = (if versionPending then mark_not_degraded C wb else wb);
               wb = mark C conditionTypeReady ConditionFalse readyReason readyMsg wb
           in if \<not> deploymentsReady \<and> wasReady
              then mark C conditionTypeDegraded ConditionTrue ''DeploymentsNotReady'' deployMsg wb
              else wb)"

section \<open>Errors\<close>

definition sanitized :: "Workbenches \<Rightarrow> Workbenches" where
  "sanitized wb = wb\<lparr>Status := (Status wb)\<lparr>Conditions := sanitizeConditions (Conditions (Status wb))\<rparr>\<rparr>"

text \<open>The resource as \<open>setErrorStatus\<close> submits it.\<close>

definition error_status ::
  "conditions_api \<Rightarrow> Workbenches \<Rightarrow> string \<Rightarrow> goerror \<Rightarrow> Workbenches" where
  "error_status C wb reason reconcileErr =
     (let wb = mark C conditionTypeReady ConditionFalse reason (Error reconcileErr) wb;
          wb = wb\<lparr>Status := (Status wb)
                 \<lparr>Phase := ComputePhase (zero_PhaseContext\<lparr>pc_Failed := True\<rparr>),
                  ObservedGeneration := Generation wb,
                  st_IngressContract := zero_IngressContractStatus\<rparr>\<rparr>;
          wb = mark C conditionTypeIngressContractReady ConditionFalse ''IngressContractEvidenceStale''
                 (Error reconcileErr) wb
      in sanitized wb)"

definition setErrorStatus ::
  "'s reconciler \<Rightarrow> Workbenches \<Rightarrow> string \<Rightarrow> goerror \<Rightarrow> 's \<Rightarrow> (outcome \<times> Workbenches) \<times> 's" where
  "setErrorStatus r wb reason reconcileErr s =
     (let wb = error_status (r_Conditions r) wb reason reconcileErr
      in case cl_StatusUpdate (r_Client r) wb s of
           (Inl err, s') \<Rightarrow> (((0, Some reconcileErr), wb), s')
         | (Inr wb', s') \<Rightarrow> (((0, Some reconcileErr), wb'), s'))"

section \<open>Managed\<close>

definition set_releases :: "ComponentRelease list \<Rightarrow> Workbenches \<Rightarrow> Workbenches" where
  "set_releases rs wb = wb\<lparr>Status := (Status wb)\<lparr>Releases := rs\<rparr>\<rparr>"

definition set_distribution :: "Distribution \<Rightarrow> Workbenches \<Rightarrow> Workbenches" where
  "set_distribution d wb = wb\<lparr>Status := (Status wb)\<lparr>st_Distribution := d\<rparr>\<rparr>"

definition set_phase :: "string \<Rightarrow> Workbenches \<Rightarrow> Workbenches" where
  "set_phase p wb = wb\<lparr>Status := (Status wb)\<lparr>Phase := p\<rparr>\<rparr>"

definition populateReleases :: "'s reconciler \<Rightarrow> Workbenches \<Rightarrow> 's \<Rightarrow> Workbenches res \<times> 's" where
  "populateReleases r wb s =
     (let platformRelease = GetPlatformRelease (Releases (Status wb))
      in case CollectWorkbenchesReleases r s of
           (Inl err, s') \<Rightarrow> (Inl (WrapErr ''collecting component releases: '' err), s')
         | (Inr componentReleases, s') \<Rightarrow>
             (Inr (set_releases (MergeComponentReleases componentReleases platformRelease) wb), s'))"

text \<open>
  The steps of \<open>reconcileManaged\<close> that can fail before the status is evaluated, in order. The result
  is the reason and the error, or the desired distribution with the platform version.
\<close>

definition provision ::
  "'s reconciler \<Rightarrow> Workbenches \<Rightarrow> string \<Rightarrow> 's \<Rightarrow> (string \<times> goerror + Distribution \<times> string) \<times> 's" where
  "provision r wb nsName s =
     (case validateSpec (Spec wb) of
        Some err \<Rightarrow> (Inl (''InvalidSpec'', err), s)
      | None \<Rightarrow>
        (case resolveDesiredDistribution r wb s of
          (Inl err, s1) \<Rightarrow> (Inl (''PlatformConfigReadFailed'', err), s1)
        | (Inr desiredDistribution, s1) \<Rightarrow>
          (case readPlatformVersion r wb s1 of
            (Inl err, s2) \<Rightarrow> (Inl (''PlatformVersionReadFailed'', err), s2)
          | (Inr platformVersion, s2) \<Rightarrow>
            (case configureDependencies r wb s2 of
              (Inl err, s3) \<Rightarrow> (Inl (''ConfigureDependenciesFailed'', err), s3)
            | (Inr _, s3) \<Rightarrow>
              (case renderAndApply r wb (computeKustomizeParams wb) nsName (spec_Platform (Spec wb)) s3 of
                (Inl err, s4) \<Rightarrow> (Inl (''ManifestApplyFailed'', err), s4)
              | (Inr _, s4) \<Rightarrow> (Inr (desiredDistribution, platformVersion), s4))))))"

text \<open>Release metadata with its condition, and the condition ProvisioningSucceeded.\<close>

definition record_provisioned :: "'s reconciler \<Rightarrow> Workbenches \<Rightarrow> 's \<Rightarrow> Workbenches \<times> 's" where
  "record_provisioned r wb s =
     (let C = r_Conditions r
      in case populateReleases r wb s of
        (res, s') \<Rightarrow>
          (let wb = (case res of
                 Inl err \<Rightarrow>
                   mark C conditionTypeReleaseMetadataAvailable ConditionFalse ''ReleaseMetadataFailed''
                     (Error err)
                     (set_releases (MergeComponentReleases [] (GetPlatformRelease (Releases (Status wb)))) wb)
               | Inr wb' \<Rightarrow>
                   mark C conditionTypeReleaseMetadataAvailable ConditionTrue conditionReasonAvailable
                     ''Component release metadata is available'' wb')
           in (mark C conditionTypeProvisioningSucceeded ConditionTrue ''Provisioned''
                 ''Workbenches manifests have been provisioned'' wb, s')))"

text \<open>The alignment of the distribution and the version handshake.\<close>

definition align_distribution ::
  "conditions_api \<Rightarrow> bool \<Rightarrow> Distribution \<Rightarrow> Workbenches \<Rightarrow> Workbenches" where
  "align_distribution C deploymentsReady desiredDistribution wb =
     (if deploymentsReady
         \<and> IsStatusConditionTrue C (Conditions (Status wb)) conditionTypeProvisioningSucceeded
         \<and> \<not> DistributionAligned desiredDistribution (st_Distribution (Status wb))
      then set_distribution desiredDistribution wb else wb)"

definition handshake ::
  "conditions_api \<Rightarrow> bool \<Rightarrow> Distribution \<Rightarrow> string \<Rightarrow> Workbenches \<Rightarrow> Workbenches \<times> string" where
  "handshake C deploymentsReady desiredDistribution platformVersion wb =
     (let currentPlatformVersion = rel_Version (GetPlatformRelease (Releases (Status wb)));
          wasPlatformVersionPending =
            (case FindStatusCondition C (Conditions (Status wb)) conditionTypeReady of
               None \<Rightarrow> False
             | Some readyCond \<Rightarrow> cond_Reason readyCond = ''PlatformVersionPending'');
          handshakeRequired = HandshakeRequired desiredDistribution
      in if deploymentsReady \<and> platformVersion \<noteq> [] \<and> currentPlatformVersion \<noteq> platformVersion
            \<and> (currentPlatformVersion = [] \<or> wasPlatformVersionPending \<or> \<not> handshakeRequired)
         then (set_releases (SetPlatformRelease (Releases (Status wb)) platformVersion) wb, platformVersion)
         else (wb, currentPlatformVersion))"

text \<open>
  The status of a provisioned resource up to the final update, or the error of the ImageStream check.
  The flag is \<open>deploymentsReady\<close>.
\<close>

definition evaluate_status ::
  "'s reconciler \<Rightarrow> PhaseContext \<Rightarrow> string \<Rightarrow> Distribution \<Rightarrow> string \<Rightarrow> Workbenches \<Rightarrow> 's
     \<Rightarrow> (Workbenches \<times> goerror + bool \<times> Workbenches) \<times> 's" where
  "evaluate_status r phaseCtx nsName desiredDistribution platformVersion wb s =
     (let C = r_Conditions r
      in case record_provisioned r wb s of (wb1, s1) \<Rightarrow>
        (case checkDeployments r wb1 s1 of ((deploymentsReady, deployMsg), s2) \<Rightarrow>
        (case syncIngressContractStatus r (setDeploymentCondition C wb1 deploymentsReady deployMsg) s2 of
          (wb2, s3) \<Rightarrow>
        (case setWorkbenchesV2Condition r wb2 s3 of (wb3, s4) \<Rightarrow>
        (case syncImageStreamsAvailable C (r_Client r) wb3 nsName s4 of
          (Inl err, s5) \<Rightarrow> (Inl (wb3, err), s5)
        | (Inr wb4, s5) \<Rightarrow>
           (case handshake C deploymentsReady desiredDistribution platformVersion
                   (align_distribution C deploymentsReady desiredDistribution wb4) of
             (wb5, reconciledPlatformVersion) \<Rightarrow>
              (let wb6 = appendImageStreamWarningToReady C
                     (setReadyCondition C wb5 deploymentsReady deployMsg (WasReady phaseCtx)
                        desiredDistribution platformVersion reconciledPlatformVersion);
                   wb7 = wb6\<lparr>Status := (Status wb6)\<lparr>ObservedGeneration := Generation wb6\<rparr>\<rparr>;
                   conds = Conditions (Status wb7);
                   ctx = phaseCtx
                     \<lparr>pc_Ready := IsStatusConditionTrue C conds conditionTypeReady,
                      pc_Degraded := IsStatusConditionTrue C conds conditionTypeDegraded,
                      ProvisioningSucceeded :=
                        IsStatusConditionTrue C conds conditionTypeProvisioningSucceeded\<rparr>
               in (Inr (deploymentsReady, sanitized (set_phase (ComputePhase ctx) wb7)), s5))))))))"

definition needs_requeue ::
  "conditions_api \<Rightarrow> bool \<Rightarrow> Distribution \<Rightarrow> string \<Rightarrow> Workbenches \<Rightarrow> bool" where
  "needs_requeue C deploymentsReady desiredDistribution platformVersion wb \<longleftrightarrow>
     (let ingressContractPending =
            (spec_IngressContract (Spec wb) \<noteq> None
             \<and> \<not> IsStatusConditionTrue C (Conditions (Status wb)) conditionTypeIngressContractReady)
      in \<not> deploymentsReady \<or> ingressContractPending
         \<or> \<not> DistributionAligned desiredDistribution (st_Distribution (Status wb))
         \<or> (HandshakeRequired desiredDistribution
            \<and> \<not> HandshakeComplete platformVersion (Releases (Status wb))))"

definition reconcileManaged ::
  "'s reconciler \<Rightarrow> Workbenches \<Rightarrow> 's \<Rightarrow> (outcome \<times> Workbenches) \<times> 's" where
  "reconcileManaged r wb s =
     (let C = r_Conditions r;
          phaseCtx = zero_PhaseContext
            \<lparr>PreviousObservedGeneration := ObservedGeneration (Status wb),
             pc_Generation := Generation wb,
             WasReady := IsStatusConditionTrue C (Conditions (Status wb)) conditionTypeReady\<rparr>
      in if Phase (Status wb) = [] \<and> ObservedGeneration (Status wb) = 0
         then (let wb = sanitized (set_phase PhasePending wb)
               in case cl_StatusUpdate (r_Client r) wb s of
                    (Inl err, s') \<Rightarrow> (((requeueDelay, Some err), wb), s')
                  | (Inr wb', s') \<Rightarrow> (((millisecond, None), wb'), s'))
         else
           let nsName = r_resolveOperandNamespace r (spec_Platform (Spec wb));
               wb = setStatusNamespaces wb nsName
           in case provision r wb nsName s of
                (Inl (reason, err), s1) \<Rightarrow> setErrorStatus r wb reason err s1
              | (Inr (desiredDistribution, platformVersion), s1) \<Rightarrow>
                  (case evaluate_status r phaseCtx nsName desiredDistribution platformVersion wb s1 of
                     (Inl (wb, err), s2) \<Rightarrow> setErrorStatus r wb ''ImageStreamsStatusFailed'' err s2
                   | (Inr (deploymentsReady, wb), s2) \<Rightarrow>
                       (case cl_StatusUpdate (r_Client r) wb s2 of
                          (Inl err, s3) \<Rightarrow> (((requeueDelay, Some err), wb), s3)
                        | (Inr wb', s3) \<Rightarrow>
                            (((if needs_requeue C deploymentsReady desiredDistribution platformVersion wb'
                               then requeueDelay else 0, None), wb'), s3))))"

section \<open>Removed and deleted\<close>

definition reconcileDelete :: "'s reconciler \<Rightarrow> Workbenches \<Rightarrow> 's \<Rightarrow> (outcome \<times> Workbenches) \<times> 's" where
  "reconcileDelete r wb s =
     (let Z = r_Finalizers r
      in if ContainsFinalizer Z (Finalizers wb) workbenchesFinalizer
         then (let nsName = r_resolveOperandNamespace r (spec_Platform (Spec wb))
               in case cleanupManagedResources r nsName s of
                    (Some err, s1) \<Rightarrow> (((0, Some err), wb), s1)
                  | (None, s1) \<Rightarrow>
                      (let wb = wb\<lparr>Finalizers := RemoveFinalizer Z (Finalizers wb) workbenchesFinalizer\<rparr>
                       in case cl_UpdateWorkbenches (r_Client r) wb s1 of
                            (Inl err, s2) \<Rightarrow>
                              (((0, Some (WrapErr ''failed to remove finalizer: '' err)), wb), s2)
                          | (Inr wb', s2) \<Rightarrow> (((0, None), wb'), s2)))
         else (((0, None), wb), s))"

text \<open>The resource as \<open>reconcileRemoved\<close> submits it after a clean-up.\<close>

definition removed_status :: "conditions_api \<Rightarrow> Workbenches \<Rightarrow> Workbenches" where
  "removed_status C wb =
     (let gone = (\<lambda>t. mark C t ConditionFalse ManagementStateRemoved ''Workbenches component has been removed'');
          wb = gone conditionTypeReady wb;
          wb = gone conditionTypeProvisioningSucceeded wb;
          wb = gone conditionTypeWorkbenchesV2Ready wb;
          wb = gone conditionTypeIngressContractReady wb
      in sanitized (wb\<lparr>Status := (Status wb)
           \<lparr>Phase := ComputePhase (zero_PhaseContext\<lparr>pc_Removed := True\<rparr>),
            Releases := [],
            st_Distribution := zero_Distribution,
            st_IngressContract := zero_IngressContractStatus,
            ObservedGeneration := Generation wb\<rparr>\<rparr>))"

definition reconcileRemoved :: "'s reconciler \<Rightarrow> Workbenches \<Rightarrow> 's \<Rightarrow> (outcome \<times> Workbenches) \<times> 's" where
  "reconcileRemoved r wb s =
     (let nsName = r_resolveOperandNamespace r (spec_Platform (Spec wb));
          wb = setStatusNamespaces wb nsName
      in case cleanupManagedResources r nsName s of
           (Some err, s1) \<Rightarrow> setErrorStatus r wb ''CleanupFailed'' err s1
         | (None, s1) \<Rightarrow>
             (let wb = removed_status (r_Conditions r) wb
              in case cl_StatusUpdate (r_Client r) wb s1 of
                   (Inl err, s2) \<Rightarrow> (((0, Some err), wb), s2)
                 | (Inr wb', s2) \<Rightarrow> (((0, None), wb'), s2)))"

section \<open>Reconcile\<close>

text \<open>\<open>None\<close> for the resource when it could not be read.\<close>

definition Reconcile :: "'s reconciler \<Rightarrow> string \<Rightarrow> 's \<Rightarrow> (outcome \<times> Workbenches option) \<times> 's" where
  "Reconcile r name s =
     (let c = r_Client r; Z = r_Finalizers r;
          wrap = (\<lambda>((out, wb), s). ((out, Some wb), s))
      in case cl_GetWorkbenches c name s of
        (Inl err, s1) \<Rightarrow> (((0, if IsNotFound err then None else Some err), None), s1)
      | (Inr workbenches, s1) \<Rightarrow>
          if Deleting workbenches then wrap (reconcileDelete r workbenches s1)
          else
            (case (if ContainsFinalizer Z (Finalizers workbenches) workbenchesFinalizer
                   then (Inr workbenches, s1)
                   else cl_UpdateWorkbenches c
                          (workbenches\<lparr>Finalizers :=
                             AddFinalizer Z (Finalizers workbenches) workbenchesFinalizer\<rparr>) s1) of
               (Inl err, s2) \<Rightarrow>
                 (((0, Some (WrapErr ''failed to add finalizer: '' err)), Some workbenches), s2)
             | (Inr workbenches, s2) \<Rightarrow>
                 if ManagementState (Spec workbenches) = ManagementStateRemoved
                 then wrap (reconcileRemoved r workbenches s2)
                 else wrap (reconcileManaged r workbenches s2)))"

end
