(* ===== verification/Reconcile_Status.thy ===== *)
theory Reconcile_Status
  imports Reconciler
begin

text \<open>
  What a reconcile publishes: facts and properties of the status steps of \<open>Reconciler\<close>.
\<close>

section \<open>Frame facts\<close>

text \<open>The parts of a resource that a condition does not touch.\<close>

definition same_rest :: "Workbenches \<Rightarrow> Workbenches \<Rightarrow> bool" where
  "same_rest wb' wb \<longleftrightarrow>
     Spec wb' = Spec wb \<and> Generation wb' = Generation wb \<and> wb_Name wb' = wb_Name wb
     \<and> Finalizers wb' = Finalizers wb \<and> Deleting wb' = Deleting wb
     \<and> ApplicationsNamespace (Status wb') = ApplicationsNamespace (Status wb)
     \<and> st_WorkbenchNamespace (Status wb') = st_WorkbenchNamespace (Status wb)"

lemma same_rest_refl [simp]: "same_rest wb wb"
  by (simp add: same_rest_def)

lemma same_rest_trans: "same_rest a b \<Longrightarrow> same_rest b c \<Longrightarrow> same_rest a c"
  by (simp add: same_rest_def)

lemma mark_simps [simp]:
  "Spec (mark C t st re m wb) = Spec wb"
  "Generation (mark C t st re m wb) = Generation wb"
  "wb_Name (mark C t st re m wb) = wb_Name wb"
  "Finalizers (mark C t st re m wb) = Finalizers wb"
  "Deleting (mark C t st re m wb) = Deleting wb"
  "Releases (Status (mark C t st re m wb)) = Releases (Status wb)"
  "ObservedGeneration (Status (mark C t st re m wb)) = ObservedGeneration (Status wb)"
  "st_Distribution (Status (mark C t st re m wb)) = st_Distribution (Status wb)"
  "st_IngressContract (Status (mark C t st re m wb)) = st_IngressContract (Status wb)"
  "ApplicationsNamespace (Status (mark C t st re m wb)) = ApplicationsNamespace (Status wb)"
  "st_WorkbenchNamespace (Status (mark C t st re m wb)) = st_WorkbenchNamespace (Status wb)"
  "Phase (Status (mark C t st re m wb)) = Phase (Status wb)"
  by (simp_all add: mark_def)

lemma setter_simps [simp]:
  "Conditions (Status (set_releases rs wb)) = Conditions (Status wb)"
  "Releases (Status (set_releases rs wb)) = rs"
  "st_Distribution (Status (set_releases rs wb)) = st_Distribution (Status wb)"
  "st_IngressContract (Status (set_releases rs wb)) = st_IngressContract (Status wb)"
  "Generation (set_releases rs wb) = Generation wb"
  "Spec (set_releases rs wb) = Spec wb"
  "Conditions (Status (set_distribution d wb)) = Conditions (Status wb)"
  "Releases (Status (set_distribution d wb)) = Releases (Status wb)"
  "st_Distribution (Status (set_distribution d wb)) = d"
  "st_IngressContract (Status (set_distribution d wb)) = st_IngressContract (Status wb)"
  "Generation (set_distribution d wb) = Generation wb"
  "Spec (set_distribution d wb) = Spec wb"
  "Conditions (Status (set_phase p wb)) = Conditions (Status wb)"
  "Releases (Status (set_phase p wb)) = Releases (Status wb)"
  "st_Distribution (Status (set_phase p wb)) = st_Distribution (Status wb)"
  "st_IngressContract (Status (set_phase p wb)) = st_IngressContract (Status wb)"
  "Phase (Status (set_phase p wb)) = p"
  "ObservedGeneration (Status (set_phase p wb)) = ObservedGeneration (Status wb)"
  "Generation (set_phase p wb) = Generation wb"
  "Spec (set_phase p wb) = Spec wb"
  by (simp_all add: set_releases_def set_distribution_def set_phase_def)

lemma sanitized_simps [simp]:
  "Conditions (Status (sanitized wb)) = sanitizeConditions (Conditions (Status wb))"
  "Releases (Status (sanitized wb)) = Releases (Status wb)"
  "st_Distribution (Status (sanitized wb)) = st_Distribution (Status wb)"
  "st_IngressContract (Status (sanitized wb)) = st_IngressContract (Status wb)"
  "Phase (Status (sanitized wb)) = Phase (Status wb)"
  "ObservedGeneration (Status (sanitized wb)) = ObservedGeneration (Status wb)"
  "Generation (sanitized wb) = Generation wb"
  "Spec (sanitized wb) = Spec wb"
  by (simp_all add: sanitized_def)

lemma namespaces_simps [simp]:
  "Conditions (Status (setStatusNamespaces wb ns)) = Conditions (Status wb)"
  "Releases (Status (setStatusNamespaces wb ns)) = Releases (Status wb)"
  "st_Distribution (Status (setStatusNamespaces wb ns)) = st_Distribution (Status wb)"
  "Generation (setStatusNamespaces wb ns) = Generation wb"
  "Spec (setStatusNamespaces wb ns) = Spec wb"
  by (simp_all add: setStatusNamespaces_def)

lemma sanitize_reasons: "c \<in> set (sanitizeConditions cs) \<Longrightarrow> cond_Reason c \<noteq> []"
  by (auto simp: sanitizeConditions_def conditionReasonUnknown_def)

lemma condition_types_distinct [simp]:
  "distinct [conditionTypeReady, conditionTypeProvisioningSucceeded, conditionTypeDegraded,
     conditionTypeDeploymentsAvailable, conditionTypeReleaseMetadataAvailable,
     conditionTypeImageStreamsAvailable, conditionTypeWorkbenchesV2Ready,
     conditionTypeIngressContractReady]"
  by (simp add: condition_type_defs)

lemmas type_neq = condition_types_distinct [simplified]

lemma imageStreamsCondition_type [simp]:
  "cond_Type (imageStreamsCondition failed gen) = conditionTypeImageStreamsAvailable"
  by (simp add: imageStreamsCondition_def Let_def)

lemma contract_confirmed_cong:
  "Spec wb = Spec wb' \<Longrightarrow> contract_confirmed r wb s k ds = contract_confirmed r wb' s k ds"
  by (simp add: contract_confirmed_def)

text \<open>The last steps of \<open>evaluate_status\<close>.\<close>

definition finished ::
  "conditions_api \<Rightarrow> PhaseContext \<Rightarrow> bool \<Rightarrow> string \<Rightarrow> Distribution \<Rightarrow> string \<Rightarrow> string \<Rightarrow> Workbenches \<Rightarrow> Workbenches" where
  "finished C ctx dr msg d pv rec wb5 =
     (let wb6 = appendImageStreamWarningToReady C (setReadyCondition C wb5 dr msg (WasReady ctx) d pv rec);
          wb7 = wb6\<lparr>Status := (Status wb6)\<lparr>ObservedGeneration := Generation wb6\<rparr>\<rparr>;
          conds = Conditions (Status wb7)
      in sanitized (set_phase (ComputePhase (ctx
           \<lparr>pc_Ready := IsStatusConditionTrue C conds conditionTypeReady,
            pc_Degraded := IsStatusConditionTrue C conds conditionTypeDegraded,
            ProvisioningSucceeded := IsStatusConditionTrue C conds conditionTypeProvisioningSucceeded\<rparr>)) wb7))"

context status_conditions
begin

lemma find_mark:
  "FindStatusCondition C (Conditions (Status (mark C t st re m wb))) t' =
     (if t' = t then Some \<lparr>cond_Type = t, cond_Status = st, cond_Reason = re, cond_Message = m,
        cond_ObservedGeneration = Generation wb\<rparr>
      else FindStatusCondition C (Conditions (Status wb)) t')"
  by (simp add: mark_def find_set)

lemma is_true_mark:
  "IsStatusConditionTrue C (Conditions (Status (mark C t st re m wb))) t' \<longleftrightarrow>
     (if t' = t then st = ConditionTrue else IsStatusConditionTrue C (Conditions (Status wb)) t')"
  by (simp add: mark_def is_true_set)

lemma sanitize_reason:
  "map_option cond_Reason (FindStatusCondition C (sanitizeConditions cs) t) =
   map_option (\<lambda>re. if re = [] then conditionReasonUnknown else re)
     (map_option cond_Reason (FindStatusCondition C cs t))"
  by (simp add: find_sanitize option.map_comp comp_def if_distrib cong: if_cong)

lemmas mark_facts = find_mark is_true_mark find_sanitize is_true_sanitize

subsection \<open>The error status\<close>

lemma error_status_facts:
  "reason \<noteq> [] \<Longrightarrow>
   FindStatusCondition C (Conditions (Status (error_status C wb reason err))) conditionTypeReady =
     Some \<lparr>cond_Type = conditionTypeReady, cond_Status = ConditionFalse, cond_Reason = reason,
       cond_Message = Error err, cond_ObservedGeneration = Generation wb\<rparr>"
  "\<not> IsStatusConditionTrue C (Conditions (Status (error_status C wb reason err)))
     conditionTypeIngressContractReady"
  "st_IngressContract (Status (error_status C wb reason err)) = zero_IngressContractStatus"
  "Phase (Status (error_status C wb reason err)) = PhaseFailed"
  "ObservedGeneration (Status (error_status C wb reason err)) = Generation wb"
  "Spec (error_status C wb reason err) = Spec wb"
  "Releases (Status (error_status C wb reason err)) = Releases (Status wb)"
  "st_Distribution (Status (error_status C wb reason err)) = st_Distribution (Status wb)"
  using type_neq by (simp_all add: error_status_def Let_def mark_def cond_simps)

lemma error_status_reasons:
  "c \<in> set (Conditions (Status (error_status C wb reason err))) \<Longrightarrow> cond_Reason c \<noteq> []"
  unfolding error_status_def Let_def sanitized_simps by (rule sanitize_reasons)

subsection \<open>Steps\<close>

lemma record_provisioned_facts:
  assumes "record_provisioned r wb s = (wb', s')" and "r_Conditions r = C"
  shows "IsStatusConditionTrue C (Conditions (Status wb')) conditionTypeProvisioningSucceeded"
    and "t \<notin> {conditionTypeProvisioningSucceeded, conditionTypeReleaseMetadataAvailable} \<Longrightarrow>
      FindStatusCondition C (Conditions (Status wb')) t = FindStatusCondition C (Conditions (Status wb)) t"
    and "\<exists>cs. Releases (Status wb') = MergeComponentReleases cs (GetPlatformRelease (Releases (Status wb)))"
    and "st_Distribution (Status wb') = st_Distribution (Status wb)"
    and "Spec wb' = Spec wb" and "Generation wb' = Generation wb"
  using assms(1)
  by (auto simp: record_provisioned_def populateReleases_def Let_def assms(2) find_mark is_true_mark
      split: prod.splits sum.splits)

lemma setDeploymentCondition_facts:
  "t \<noteq> conditionTypeDeploymentsAvailable \<Longrightarrow>
   FindStatusCondition C (Conditions (Status (setDeploymentCondition C wb b m))) t =
   FindStatusCondition C (Conditions (Status wb)) t"
  "IsStatusConditionTrue C (Conditions (Status (setDeploymentCondition C wb b m)))
     conditionTypeDeploymentsAvailable = b"
  "Releases (Status (setDeploymentCondition C wb b m)) = Releases (Status wb)"
  "st_Distribution (Status (setDeploymentCondition C wb b m)) = st_Distribution (Status wb)"
  "Spec (setDeploymentCondition C wb b m) = Spec wb"
  "Generation (setDeploymentCondition C wb b m) = Generation wb"
  by (simp_all add: setDeploymentCondition_def find_mark is_true_mark)

lemma setWorkbenchesV2Condition_facts:
  assumes "setWorkbenchesV2Condition r wb s = (wb', s')" and "r_Conditions r = C"
  shows "t \<noteq> conditionTypeWorkbenchesV2Ready \<Longrightarrow>
      FindStatusCondition C (Conditions (Status wb')) t = FindStatusCondition C (Conditions (Status wb)) t"
    and "Releases (Status wb') = Releases (Status wb)"
    and "st_Distribution (Status wb') = st_Distribution (Status wb)"
    and "Spec wb' = Spec wb" and "Generation wb' = Generation wb"
    and "st_IngressContract (Status wb') = st_IngressContract (Status wb)"
  using assms(1)
  by (auto simp: setWorkbenchesV2Condition_def Let_def assms(2) find_mark split: if_splits prod.splits bool.splits)

lemma syncImageStreams_facts:
  assumes "syncImageStreamsAvailable C c wb ns s = (Inr wb', s')"
  shows "t \<noteq> conditionTypeImageStreamsAvailable \<Longrightarrow>
      FindStatusCondition C (Conditions (Status wb')) t = FindStatusCondition C (Conditions (Status wb)) t"
    and "Releases (Status wb') = Releases (Status wb)"
    and "st_Distribution (Status wb') = st_Distribution (Status wb)"
    and "Spec wb' = Spec wb" and "Generation wb' = Generation wb"
    and "st_IngressContract (Status wb') = st_IngressContract (Status wb)"
  using assms
  by (auto simp: syncImageStreamsAvailable_def find_set split: prod.splits sum.splits if_splits)

lemma syncIngress_facts:
  assumes "syncIngressContractStatus r wb s = (wb', s')" and "r_Conditions r = C"
    and "t \<noteq> conditionTypeIngressContractReady"
  shows "FindStatusCondition C (Conditions (Status wb')) t = FindStatusCondition C (Conditions (Status wb)) t"
  using assms(1)
  by (cases rule: sync_ingress_cases) (use assms(3) in \<open>simp_all add: assms(2) find_set ingress_condition_def\<close>)

lemma sync_ingress_true:
  assumes "syncIngressContractStatus r wb s = (wb', s')" and "r_Conditions r = C"
  shows "IsStatusConditionTrue C (Conditions (Status wb')) conditionTypeIngressContractReady \<longleftrightarrow>
    (\<exists>k ds. contract_confirmed r wb s k ds)"
  using assms(1) by (cases rule: sync_ingress_cases) (auto simp: assms(2) is_true_set ingress_condition_def)

subsection \<open>Readiness\<close>

lemma setReadyCondition_frame:
  "t \<notin> {conditionTypeReady, conditionTypeDegraded} \<Longrightarrow>
   FindStatusCondition C (Conditions (Status (setReadyCondition C wb dr m was d pv rec))) t =
   FindStatusCondition C (Conditions (Status wb)) t"
  "Releases (Status (setReadyCondition C wb dr m was d pv rec)) = Releases (Status wb)"
  "st_Distribution (Status (setReadyCondition C wb dr m was d pv rec)) = st_Distribution (Status wb)"
  "st_IngressContract (Status (setReadyCondition C wb dr m was d pv rec)) = st_IngressContract (Status wb)"
  "Spec (setReadyCondition C wb dr m was d pv rec) = Spec wb"
  "Generation (setReadyCondition C wb dr m was d pv rec) = Generation wb"
  by (simp_all add: setReadyCondition_def mark_not_degraded_def Let_def find_mark)

lemma setReadyCondition_ready:
  "IsStatusConditionTrue C (Conditions (Status (setReadyCondition C wb dr m was d pv rec)))
     conditionTypeReady \<longleftrightarrow>
   dr \<and> DistributionAligned d (st_Distribution (Status wb))
   \<and> (HandshakeRequired d \<longrightarrow> HandshakeComplete pv (Releases (Status wb)))"
  using type_neq
  by (auto simp: setReadyCondition_def mark_not_degraded_def Let_def is_true_mark)

lemma setReadyCondition_reason:
  "map_option cond_Reason (FindStatusCondition C
     (Conditions (Status (setReadyCondition C wb dr m was d pv rec))) conditionTypeReady) =
   Some (if \<not> dr then ''DeploymentsNotReady''
     else if \<not> DistributionAligned d (st_Distribution (Status wb)) then ''DistributionNotAligned''
     else if HandshakeRequired d \<and> \<not> HandshakeComplete pv (Releases (Status wb))
       then ''PlatformVersionPending''
     else conditionReasonReconcileSuccess)"
  using type_neq
  by (auto simp: setReadyCondition_def mark_not_degraded_def Let_def find_mark)

lemma setReadyCondition_degraded:
  "dr \<Longrightarrow> DistributionAligned d (st_Distribution (Status wb)) \<Longrightarrow>
   \<not> IsStatusConditionTrue C (Conditions (Status (setReadyCondition C wb dr m was d pv rec)))
      conditionTypeDegraded"
  "\<not> dr \<Longrightarrow> was \<Longrightarrow>
   IsStatusConditionTrue C (Conditions (Status (setReadyCondition C wb dr m was d pv rec)))
      conditionTypeDegraded"
  using type_neq
  by (auto simp: setReadyCondition_def mark_not_degraded_def Let_def is_true_mark)

lemma align_facts:
  assumes "distribution_valid d"
    and "IsStatusConditionTrue C (Conditions (Status wb)) conditionTypeProvisioningSucceeded"
  shows "dr \<Longrightarrow> DistributionAligned d (st_Distribution (Status (align_distribution C dr d wb)))"
    and "\<not> dr \<Longrightarrow> align_distribution C dr d wb = wb"
    and "Conditions (Status (align_distribution C dr d wb)) = Conditions (Status wb)"
    and "Releases (Status (align_distribution C dr d wb)) = Releases (Status wb)"
    and "Spec (align_distribution C dr d wb) = Spec wb"
    and "Generation (align_distribution C dr d wb) = Generation wb"
    and "st_IngressContract (Status (align_distribution C dr d wb)) = st_IngressContract (Status wb)"
  using assms by (auto simp: align_distribution_def DistributionAligned_refl)

lemma handshake_facts:
  assumes "handshake C dr d pv wb = (wb', rec)"
  shows "Conditions (Status wb') = Conditions (Status wb)"
    and "st_Distribution (Status wb') = st_Distribution (Status wb)"
    and "Spec wb' = Spec wb" and "Generation wb' = Generation wb"
    and "st_IngressContract (Status wb') = st_IngressContract (Status wb)"
    and "Releases (Status wb') = Releases (Status wb) \<or>
         Releases (Status wb') = SetPlatformRelease (Releases (Status wb)) pv"
    and "dr \<Longrightarrow> TrimSpace pv = pv \<Longrightarrow> pv \<noteq> [] \<Longrightarrow>
         rel_Version (GetPlatformRelease (Releases (Status wb))) \<in> {[], pv}
         \<or> \<not> HandshakeRequired d
         \<or> map_option cond_Reason (FindStatusCondition C (Conditions (Status wb)) conditionTypeReady)
             = Some ''PlatformVersionPending'' \<Longrightarrow>
         HandshakeComplete pv (Releases (Status wb'))"
proof -
  show "Conditions (Status wb') = Conditions (Status wb)"
    "st_Distribution (Status wb') = st_Distribution (Status wb)"
    "Spec wb' = Spec wb" "Generation wb' = Generation wb"
    "st_IngressContract (Status wb') = st_IngressContract (Status wb)"
    "Releases (Status wb') = Releases (Status wb) \<or>
         Releases (Status wb') = SetPlatformRelease (Releases (Status wb)) pv"
    using assms by (auto simp: handshake_def Let_def split: if_splits)
  assume "dr" "TrimSpace pv = pv" "pv \<noteq> []" and
    c: "rel_Version (GetPlatformRelease (Releases (Status wb))) \<in> {[], pv}
         \<or> \<not> HandshakeRequired d
         \<or> map_option cond_Reason (FindStatusCondition C (Conditions (Status wb)) conditionTypeReady)
             = Some ''PlatformVersionPending''"
  then have "Releases (Status wb') = SetPlatformRelease (Releases (Status wb)) pv
      \<or> rel_Version (GetPlatformRelease (Releases (Status wb))) = pv \<and> wb' = wb"
    using assms by (auto simp: handshake_def Let_def split: if_splits option.splits)
  then show "HandshakeComplete pv (Releases (Status wb'))"
    using \<open>TrimSpace pv = pv\<close> \<open>pv \<noteq> []\<close> HandshakeComplete_Set [of pv]
    by (auto simp: HandshakeComplete_def)
qed

subsection \<open>The evaluated status\<close>

lemma finished_facts:
  fixes ctx dr msg d pv rec wb
  defines "wb' \<equiv> finished C ctx dr msg d pv rec wb"
  shows "IsStatusConditionTrue C (Conditions (Status wb')) t =
      IsStatusConditionTrue C (Conditions (Status (setReadyCondition C wb dr msg (WasReady ctx) d pv rec))) t"
    and "Releases (Status wb') = Releases (Status wb)"
    and "st_Distribution (Status wb') = st_Distribution (Status wb)"
    and "Spec wb' = Spec wb" and "Generation wb' = Generation wb"
    and "ObservedGeneration (Status wb') = Generation wb"
    and "c \<in> set (Conditions (Status wb')) \<Longrightarrow> cond_Reason c \<noteq> []"
    and "Phase (Status wb') \<in> phase_enum"
    and "\<not> pc_Failed ctx \<Longrightarrow> \<not> pc_Removed ctx \<Longrightarrow>
      (Phase (Status wb') = PhaseReady \<longleftrightarrow> IsStatusConditionTrue C (Conditions (Status wb')) conditionTypeReady)
      \<and> Phase (Status wb') \<noteq> PhaseFailed"
    and "(dr \<longrightarrow> DistributionAligned d (st_Distribution (Status wb))) \<Longrightarrow>
      map_option cond_Reason (FindStatusCondition C (Conditions (Status wb')) conditionTypeReady) =
        Some (if \<not> dr then ''DeploymentsNotReady''
          else if HandshakeRequired d \<and> \<not> HandshakeComplete pv (Releases (Status wb))
            then ''PlatformVersionPending'' else conditionReasonReconcileSuccess)"
proof -
  note defs = wb'_def finished_def Let_def
  show "IsStatusConditionTrue C (Conditions (Status wb')) t =
      IsStatusConditionTrue C (Conditions (Status (setReadyCondition C wb dr msg (WasReady ctx) d pv rec))) t"
    by (simp add: defs append_warning_true)
  show "Releases (Status wb') = Releases (Status wb)" "st_Distribution (Status wb') = st_Distribution (Status wb)"
    "Spec wb' = Spec wb" "Generation wb' = Generation wb" "ObservedGeneration (Status wb') = Generation wb"
    "Phase (Status wb') \<in> phase_enum"
    by (simp_all add: defs setReadyCondition_frame)
  show "cond_Reason c \<noteq> []" if "c \<in> set (Conditions (Status wb'))"
    using that unfolding defs sanitized_simps by (rule sanitize_reasons)
  show "(Phase (Status wb') = PhaseReady \<longleftrightarrow> IsStatusConditionTrue C (Conditions (Status wb')) conditionTypeReady)
      \<and> Phase (Status wb') \<noteq> PhaseFailed" if "\<not> pc_Failed ctx" "\<not> pc_Removed ctx"
    using that by (simp add: defs ComputePhase_Ready_iff ComputePhase_Failed_iff append_warning_true)
  show "map_option cond_Reason (FindStatusCondition C (Conditions (Status wb')) conditionTypeReady) =
        Some (if \<not> dr then ''DeploymentsNotReady''
          else if HandshakeRequired d \<and> \<not> HandshakeComplete pv (Releases (Status wb))
            then ''PlatformVersionPending'' else conditionReasonReconcileSuccess)"
    if "dr \<longrightarrow> DistributionAligned d (st_Distribution (Status wb))"
    using that append_warning_reason [of "setReadyCondition C wb dr msg (WasReady ctx) d pv rec"]
      setReadyCondition_reason [of wb dr msg "WasReady ctx" d pv rec]
    by (auto simp: defs sanitize_reason setReadyCondition_frame conditionReasonReconcileSuccess_def
        simp del: map_option_eq_Some split: if_splits)
qed

lemma evaluate_cases:
  assumes "evaluate_status r ctx ns d pv wb s = (Inr (dr, wb'), s')" and C: "r_Conditions r = C"
  obtains wb4 wb5 rec msg cs s2 where
    "IsStatusConditionTrue C (Conditions (Status wb4)) conditionTypeProvisioningSucceeded"
    "FindStatusCondition C (Conditions (Status wb4)) conditionTypeReady =
       FindStatusCondition C (Conditions (Status wb)) conditionTypeReady"
    "Releases (Status wb4) = MergeComponentReleases cs (GetPlatformRelease (Releases (Status wb)))"
    "Spec wb4 = Spec wb" "Generation wb4 = Generation wb"
    "IsStatusConditionTrue C (Conditions (Status wb4)) conditionTypeIngressContractReady \<longleftrightarrow>
       (\<exists>k ds. contract_confirmed r wb s2 k ds)"
    "IsStatusConditionTrue C (Conditions (Status wb4)) conditionTypeDeploymentsAvailable = dr"
    "handshake C dr d pv (align_distribution C dr d wb4) = (wb5, rec)"
    "wb' = finished C ctx dr msg d pv rec wb5"
proof -
  obtain wb1 s1 msg s2 wb2 s3 wb3 s4 wb4 wb5 rec where
    1: "record_provisioned r wb s = (wb1, s1)" and
    2: "checkDeployments r wb1 s1 = ((dr, msg), s2)" and
    3: "syncIngressContractStatus r (setDeploymentCondition C wb1 dr msg) s2 = (wb2, s3)" and
    4: "setWorkbenchesV2Condition r wb2 s3 = (wb3, s4)" and
    5: "syncImageStreamsAvailable C (r_Client r) wb3 ns s4 = (Inr wb4, s')" and
    6: "handshake C dr d pv (align_distribution C dr d wb4) = (wb5, rec)" and
    7: "wb' = finished C ctx dr msg d pv rec wb5"
    using assms(1) unfolding evaluate_status_def finished_def C Let_def
    by (auto split: prod.splits sum.splits)
  have keeps: "FindStatusCondition C (Conditions (Status wb4)) t = FindStatusCondition C (Conditions (Status wb1)) t"
    if "t = conditionTypeReady \<or> t = conditionTypeProvisioningSucceeded" for t
    using that type_neq syncImageStreams_facts(1) [OF 5, of t]
      setWorkbenchesV2Condition_facts(1) [OF 4 C, of t]
      syncIngress_facts [OF 3 C, of t] setDeploymentCondition_facts(1) [of t wb1 dr msg] by auto
  note one = record_provisioned_facts [OF 1 C]
  have "IsStatusConditionTrue C (Conditions (Status wb4)) conditionTypeProvisioningSucceeded"
    using one(1) keeps by (simp add: is_true)
  moreover have "FindStatusCondition C (Conditions (Status wb4)) conditionTypeReady =
       FindStatusCondition C (Conditions (Status wb)) conditionTypeReady"
    using keeps one(2) [of conditionTypeReady] type_neq by simp
  moreover obtain cs where "Releases (Status wb1) =
      MergeComponentReleases cs (GetPlatformRelease (Releases (Status wb)))"
    using one(3) by blast
  then have "Releases (Status wb4) = MergeComponentReleases cs (GetPlatformRelease (Releases (Status wb)))"
    using syncImageStreams_facts(2) [OF 5] setWorkbenchesV2Condition_facts(2) [OF 4 C]
      sync_ingress_others [OF 3] by (simp add: setDeploymentCondition_facts)
  moreover have "Spec wb4 = Spec wb" "Generation wb4 = Generation wb"
    using syncImageStreams_facts(4,5) [OF 5] setWorkbenchesV2Condition_facts(4,5) [OF 4 C]
      sync_ingress_others [OF 3] one(5,6) by (simp_all add: setDeploymentCondition_facts)
  moreover have "IsStatusConditionTrue C (Conditions (Status wb4)) conditionTypeIngressContractReady \<longleftrightarrow>
      (\<exists>k ds. contract_confirmed r wb s2 k ds)"
    using sync_ingress_true [OF 3 C] syncImageStreams_facts(1) [OF 5, of conditionTypeIngressContractReady]
      setWorkbenchesV2Condition_facts(1) [OF 4 C, of conditionTypeIngressContractReady] type_neq
      contract_confirmed_cong [of "setDeploymentCondition C wb1 dr msg" wb r s2]
    by (auto simp: is_true setDeploymentCondition_facts one(5))
  moreover have "IsStatusConditionTrue C (Conditions (Status wb4)) conditionTypeDeploymentsAvailable = dr"
    using syncImageStreams_facts(1) [OF 5, of conditionTypeDeploymentsAvailable]
      setWorkbenchesV2Condition_facts(1) [OF 4 C, of conditionTypeDeploymentsAvailable]
      syncIngress_facts [OF 3 C, of conditionTypeDeploymentsAvailable] type_neq
      setDeploymentCondition_facts(2) [of wb1 dr msg] by (auto simp: is_true)
  ultimately show ?thesis using that 6 7 by blast
qed

text \<open>What a run of \<open>evaluate_status\<close> publishes.\<close>

lemma evaluate_facts:
  assumes run: "evaluate_status r ctx ns d pv wb s = (Inr (dr, wb'), s')" and C: "r_Conditions r = C"
    and d: "distribution_valid d" and ctx: "\<not> pc_Failed ctx" "\<not> pc_Removed ctx"
  shows "IsStatusConditionTrue C (Conditions (Status wb')) conditionTypeReady \<longleftrightarrow>
      dr \<and> (HandshakeRequired d \<longrightarrow> HandshakeComplete pv (Releases (Status wb')))"
    and "map_option cond_Reason (FindStatusCondition C (Conditions (Status wb')) conditionTypeReady) =
      Some (if \<not> dr then ''DeploymentsNotReady''
        else if HandshakeRequired d \<and> \<not> HandshakeComplete pv (Releases (Status wb'))
          then ''PlatformVersionPending'' else conditionReasonReconcileSuccess)"
    and "dr \<Longrightarrow> DistributionAligned d (st_Distribution (Status wb'))"
    and "dr \<Longrightarrow> \<not> IsStatusConditionTrue C (Conditions (Status wb')) conditionTypeDegraded"
    and "\<not> dr \<Longrightarrow> WasReady ctx \<Longrightarrow>
      IsStatusConditionTrue C (Conditions (Status wb')) conditionTypeDegraded"
    and "IsStatusConditionTrue C (Conditions (Status wb')) conditionTypeProvisioningSucceeded"
    and "Phase (Status wb') = PhaseReady \<longleftrightarrow>
      IsStatusConditionTrue C (Conditions (Status wb')) conditionTypeReady"
    and "Phase (Status wb') \<noteq> PhaseFailed"
    and "ObservedGeneration (Status wb') = Generation wb"
    and "Spec wb' = Spec wb" and "Generation wb' = Generation wb"
    and "c \<in> set (Conditions (Status wb')) \<Longrightarrow> cond_Reason c \<noteq> []"
    and "\<exists>s2. IsStatusConditionTrue C (Conditions (Status wb')) conditionTypeIngressContractReady \<longleftrightarrow>
      (\<exists>k ds. contract_confirmed r wb s2 k ds)"
    and "IsStatusConditionTrue C (Conditions (Status wb')) conditionTypeDeploymentsAvailable = dr"
proof -
  obtain wb4 wb5 rec msg cs s2 where
    prov: "IsStatusConditionTrue C (Conditions (Status wb4)) conditionTypeProvisioningSucceeded" and
    sg: "Spec wb4 = Spec wb" "Generation wb4 = Generation wb" and
    ing: "IsStatusConditionTrue C (Conditions (Status wb4)) conditionTypeIngressContractReady \<longleftrightarrow>
       (\<exists>k ds. contract_confirmed r wb s2 k ds)" and
    dep: "IsStatusConditionTrue C (Conditions (Status wb4)) conditionTypeDeploymentsAvailable = dr" and
    hs: "handshake C dr d pv (align_distribution C dr d wb4) = (wb5, rec)" and
    final: "wb' = finished C ctx dr msg d pv rec wb5"
    by (rule evaluate_cases [OF run C])
  note al = align_facts [OF d prov, of dr] and hf = handshake_facts [OF hs]
  note fin = finished_facts [where ctx = ctx and dr = dr and msg = msg and d = d and pv = pv and rec = rec and wb = wb5,
      folded final]
  have aligned: "dr \<longrightarrow> DistributionAligned d (st_Distribution (Status wb5))"
    using al(1) hf(2) by simp
  show "IsStatusConditionTrue C (Conditions (Status wb')) conditionTypeReady \<longleftrightarrow>
      dr \<and> (HandshakeRequired d \<longrightarrow> HandshakeComplete pv (Releases (Status wb')))"
    using aligned by (auto simp: fin(1,2) setReadyCondition_ready)
  show "map_option cond_Reason (FindStatusCondition C (Conditions (Status wb')) conditionTypeReady) =
      Some (if \<not> dr then ''DeploymentsNotReady''
        else if HandshakeRequired d \<and> \<not> HandshakeComplete pv (Releases (Status wb'))
          then ''PlatformVersionPending'' else conditionReasonReconcileSuccess)"
    using fin(10) [OF aligned] by (simp only: fin(2))
  show "dr \<Longrightarrow> DistributionAligned d (st_Distribution (Status wb'))"
    "dr \<Longrightarrow> \<not> IsStatusConditionTrue C (Conditions (Status wb')) conditionTypeDegraded"
    "\<not> dr \<Longrightarrow> WasReady ctx \<Longrightarrow> IsStatusConditionTrue C (Conditions (Status wb')) conditionTypeDegraded"
    using aligned by (simp_all add: fin(1,3) setReadyCondition_degraded)
  have kept: "IsStatusConditionTrue C (Conditions (Status wb')) t =
      IsStatusConditionTrue C (Conditions (Status wb4)) t"
    if "t \<notin> {conditionTypeReady, conditionTypeDegraded}" for t
    using that hf(1) al(3) unfolding fin(1) by (simp add: is_true setReadyCondition_frame)
  show "IsStatusConditionTrue C (Conditions (Status wb')) conditionTypeProvisioningSucceeded"
    "IsStatusConditionTrue C (Conditions (Status wb')) conditionTypeDeploymentsAvailable = dr"
    "\<exists>s2. IsStatusConditionTrue C (Conditions (Status wb')) conditionTypeIngressContractReady \<longleftrightarrow>
      (\<exists>k ds. contract_confirmed r wb s2 k ds)"
    using prov dep ing type_neq by (subst kept; auto)+
  show "Phase (Status wb') = PhaseReady \<longleftrightarrow> IsStatusConditionTrue C (Conditions (Status wb')) conditionTypeReady"
    "Phase (Status wb') \<noteq> PhaseFailed"
    using fin(9) [OF ctx] by blast+
  show "ObservedGeneration (Status wb') = Generation wb" "Spec wb' = Spec wb" "Generation wb' = Generation wb"
    using hf(3,4) al(5,6) sg by (simp_all add: fin(4-6))
  show "c \<in> set (Conditions (Status wb')) \<Longrightarrow> cond_Reason c \<noteq> []" by (rule fin(7))
qed

lemma evaluate_phase:
  assumes "evaluate_status r ctx ns d pv wb s = (Inr (dr, wb'), s')" and "r_Conditions r = C"
  shows "Phase (Status wb') \<in> phase_enum"
  using assms by (rule evaluate_cases) (simp add: finished_facts)

text \<open>The handshake over a run: the version a run records or keeps.\<close>

lemma evaluate_handshake:
  assumes run: "evaluate_status r ctx ns d pv wb s = (Inr (True, wb'), s')" and C: "r_Conditions r = C"
    and d: "distribution_valid d" and pv: "TrimSpace pv = pv" "pv \<noteq> []"
    and start: "TrimSpace (rel_Version (GetPlatformRelease (Releases (Status wb)))) = []
      \<or> rel_Version (GetPlatformRelease (Releases (Status wb))) = pv
      \<or> map_option cond_Reason (FindStatusCondition C (Conditions (Status wb)) conditionTypeReady)
          = Some ''PlatformVersionPending''"
  shows "HandshakeComplete pv (Releases (Status wb'))"
proof -
  obtain wb4 wb5 rec msg cs s2 where
    prov: "IsStatusConditionTrue C (Conditions (Status wb4)) conditionTypeProvisioningSucceeded" and
    same: "FindStatusCondition C (Conditions (Status wb4)) conditionTypeReady =
       FindStatusCondition C (Conditions (Status wb)) conditionTypeReady" and
    rel: "Releases (Status wb4) = MergeComponentReleases cs (GetPlatformRelease (Releases (Status wb)))" and
    hs: "handshake C True d pv (align_distribution C True d wb4) = (wb5, rec)" and
    final: "wb' = finished C ctx True msg d pv rec wb5"
    by (rule evaluate_cases [OF run C])
  note al = align_facts [OF d prov, of True]
  have "rel_Version (GetPlatformRelease (Releases (Status wb4))) \<in> {[], pv}
      \<or> map_option cond_Reason (FindStatusCondition C (Conditions (Status wb4)) conditionTypeReady)
          = Some ''PlatformVersionPending''"
    using start pv MergeComponentReleases_keeps_version [of "Releases (Status wb)" cs]
    by (auto simp: rel same MergeComponentReleases_platform zero_ComponentRelease_def split: if_splits)
  then have "HandshakeComplete pv (Releases (Status wb5))"
    using handshake_facts(7) [OF hs] pv al(3,4) by auto
  then show ?thesis by (simp add: final finished_facts)
qed

end

end
