(* ===== verification/Frames.thy ===== *)
theory Frames
  imports Manifests
begin

text \<open>
  What the steps of the reconciler leave alone. A view is any function of the state; if no call of a
  kind changes it, then no operation built from those calls does. The rendering of manifests only uses
  the file system and the kustomizer (locale \<open>rendering\<close>); everything else the reconciler does between
  reading the resource and writing its status goes through the client calls of \<open>operating\<close>, none of which
  is for the Workbenches resource.
\<close>

section \<open>Rendering\<close>

locale rendering =
  fixes r :: "'s reconciler" and view :: "'s \<Rightarrow> 'v"
  assumes read_keeps: "fs_ReadFile (r_Files r) p s = (x4, s') \<Longrightarrow> view s' = view s"
    and write_keeps: "fs_WriteFile (r_Files r) p d s = (x5, s') \<Longrightarrow> view s' = view s"
    and exists_keeps: "fs_Exists (r_Files r) p s = (b, s') \<Longrightarrow> view s' = view s"
    and stat_keeps: "fs_Stat (r_Files r) p s = (x6, s') \<Longrightarrow> view s' = view s"
    and readdir_keeps: "fs_ReadDir (r_Files r) p s = (x7, s') \<Longrightarrow> view s' = view s"
    and isdir_keeps: "fs_IsDir (r_Files r) p s = (b, s') \<Longrightarrow> view s' = view s"
    and mkdir_keeps: "fs_MkdirAll (r_Files r) p s = (x5, s') \<Longrightarrow> view s' = view s"
    and mkdtemp_keeps: "fs_MkdirTemp (r_Files r) s = (x8, s') \<Longrightarrow> view s' = view s"
    and remove_keeps: "view (snd (fs_RemoveAll (r_Files r) p s)) = view s"
    and walk_keeps: "fs_WalkDir (r_Files r) p s = (es, s') \<Longrightarrow> view s' = view s"
    and kustomize_keeps: "r_Kustomize r p s = (x9, s') \<Longrightarrow> view s' = view s"
begin

lemmas file_calls = read_keeps write_keeps exists_keeps stat_keeps readdir_keeps isdir_keeps
  mkdir_keeps walk_keeps kustomize_keeps

lemma copy_entry_keeps: "copy_entry (r_Files r) src dst pe s = (res, s') \<Longrightarrow> view s' = view s"
  by (auto simp: copy_entry_def Let_def dest!: file_calls
      split: prod.splits walk_entry.splits sum.splits if_splits)

lemma copyDir_keeps: "copyDir (r_Files r) src dst s = (res, s') \<Longrightarrow> view s' = view s"
proof -
  have "copy_entries (r_Files r) src dst es s = (res, s') \<Longrightarrow> view s' = view s" for es s
    by (induction es arbitrary: s) (auto dest!: copy_entry_keeps split: prod.splits sum.splits)
  then show "copyDir (r_Files r) src dst s = (res, s') \<Longrightarrow> view s' = view s"
    by (auto simp: copyDir_def dest: file_calls split: prod.splits)
qed

lemma first_existing_keeps: "first_existing (r_Files r) dir names s = (res, s') \<Longrightarrow> view s' = view s"
  by (induction names arbitrary: s) (auto dest!: file_calls split: prod.splits sum.splits)

lemma patchKustomizeNamespace_keeps:
  "patchKustomizeNamespace r dir ns s = (res, s') \<Longrightarrow> view s' = view s"
  by (auto simp: patchKustomizeNamespace_def findKustomizationFile_def Let_def
      dest!: first_existing_keeps file_calls
      split: prod.splits sum.splits if_splits option.splits)

lemma yaml_files_keeps: "yaml_files (r_Files r) dir names s = (res, s') \<Longrightarrow> view s' = view s"
  by (induction names arbitrary: s res s') (force dest: isdir_keeps split: prod.splits)+

lemma ensureKustomization_keeps: "ensureKustomization r dir s = (res, s') \<Longrightarrow> view s' = view s"
  by (auto simp: ensureKustomization_def Let_def dest!: yaml_files_keeps file_calls
      split: prod.splits sum.splits bool.splits)

lemma stage_files_keeps: "stage_files (r_Files r) nb dir names s = (res, s') \<Longrightarrow> view s' = view s"
  by (induction names arbitrary: s)
    (auto simp: Let_def dest!: file_calls split: prod.splits sum.splits bool.splits)

lemma stageWorkspaceKindImageParams_keeps:
  "stageWorkspaceKindImageParams (r_Files r) dir s = (res, s') \<Longrightarrow> view s' = view s"
  by (auto simp: stageWorkspaceKindImageParams_def Let_def dest!: stage_files_keeps split: if_splits)

lemma overlayExistingParams_keeps:
  "overlayExistingParams (r_Files r) p ov s = (res, s') \<Longrightarrow> view s' = view s"
  by (auto simp: overlayExistingParams_def dest!: file_calls
      split: prod.splits sum.splits bool.splits if_splits)

lemma applyRelatedImageParams_keeps:
  "applyRelatedImageParams (r_Files r) env dir s = (res, s') \<Longrightarrow> view s' = view s"
proof -
  have "overlay_files (r_Files r) dir images names s = (res, s') \<Longrightarrow> view s' = view s" for images names s
    by (induction names arbitrary: s) (auto dest!: overlayExistingParams_keeps split: prod.splits sum.splits)
  then show "applyRelatedImageParams (r_Files r) env dir s = (res, s') \<Longrightarrow> view s' = view s"
    by (auto simp: applyRelatedImageParams_def Let_def split: if_splits)
qed

lemma writeParamsEnv_keeps: "writeParamsEnv (r_Files r) dir params s = (res, s') \<Longrightarrow> view s' = view s"
  by (auto simp: writeParamsEnv_def Let_def dest!: file_calls split: prod.splits sum.splits)

lemma renderKustomize_keeps: "renderKustomize r dir params s = (res, s') \<Longrightarrow> view s' = view s"
  by (auto simp: renderKustomize_def Let_def dest!: stageWorkspaceKindImageParams_keeps
      ensureKustomization_keeps applyRelatedImageParams_keeps writeParamsEnv_keeps file_calls
      split: prod.splits sum.splits)

lemma render_group_keeps: "render_group r owner params ns workDir g s = (res, s') \<Longrightarrow> view s' = view s"
  by (auto simp: render_group_def Let_def dest!: patchKustomizeNamespace_keeps renderKustomize_keeps
      file_calls split: prod.splits sum.splits if_splits)

end

section \<open>Operating\<close>

locale operating = rendering +
  assumes get: "cl_Get (r_Client r) g ns n s = (y1, s') \<Longrightarrow> view s' = view s"
    and lists: "cl_List (r_Client r) g scope sel s = (y2, s') \<Longrightarrow> view s' = view s"
    and apply_obj: "cl_Apply (r_Client r) obj fo s = (y3, s') \<Longrightarrow> view s' = view s"
    and delete_obj: "cl_Delete (r_Client r) obj s = (y3, s') \<Longrightarrow> view s' = view s"
    and get_configmap: "cl_GetConfigMap (r_Client r) ns n s = (y4, s') \<Longrightarrow> view s' = view s"
    and patch_configmap: "cl_PatchConfigMap (r_Client r) cm cm' s = (y3, s') \<Longrightarrow> view s' = view s"
    and get_namespace: "cl_GetNamespace (r_Client r) n s = (y5, s') \<Longrightarrow> view s' = view s"
    and create_namespace: "cl_CreateNamespace (r_Client r) nso s = (y3, s') \<Longrightarrow> view s' = view s"
    and update_namespace: "cl_UpdateNamespace (r_Client r) nso s = (y3, s') \<Longrightarrow> view s' = view s"
    and list_deployments: "cl_ListDeployments (r_Client r) n sel s = (y6, s') \<Longrightarrow> view s' = view s"
    and list_imagestreams: "cl_ListImageStreams (r_Client r) n sel s = (y7, s') \<Longrightarrow> view s' = view s"
begin

lemmas client_calls = get lists apply_obj delete_obj get_configmap patch_configmap get_namespace
  create_namespace update_namespace list_deployments list_imagestreams

lemma sweep_items_keeps: "sweep_items (r_Client r) keep p items s = (res, s') \<Longrightarrow> view s' = view s"
  by (induction items arbitrary: s res s') (force dest: client_calls split: if_splits prod.splits)+

lemma sweep_keeps: "sweep (r_Client r) keep ns lp p gs s = (res, s') \<Longrightarrow> view s' = view s"
  by (induction gs arbitrary: s res s')
    (force dest: client_calls sweep_items_keeps split: prod.splits sum.splits)+

lemma cleanup_keeps: "cleanupManagedResources r ns s = (res, s') \<Longrightarrow> view s' = view s"
  by (auto simp: cleanupManagedResources_def Let_def dest!: sweep_keeps split: prod.splits)

lemma gc_keeps: "gcOrphanedResources r ns desired s = (res, s') \<Longrightarrow> view s' = view s"
  by (auto simp: gcOrphanedResources_def Let_def dest!: sweep_keeps split: prod.splits if_splits)

lemma prepareApply_keeps: "prepareApply r owner obj s = (res, s') \<Longrightarrow> view s' = view s"
  by (auto simp: prepareApply_def preserveDeploymentCustomizations_def Let_def dest!: client_calls
      split: prod.splits sum.splits if_splits)

lemma applyObjects_keeps: "applyObjects r owner objs s = (res, s') \<Longrightarrow> view s' = view s"
  by (induction objs arbitrary: s)
    (auto dest!: client_calls prepareApply_keeps split: prod.splits sum.splits)

lemma clearIngressContract_keeps: "clearIngressContract r ns s = (res, s') \<Longrightarrow> view s' = view s"
  by (auto simp: clearIngressContract_def Let_def dest!: client_calls
      split: prod.splits sum.splits option.splits if_splits)

lemma applyIngressConfig_keeps: "applyIngressConfig r owner ns s = (res, s') \<Longrightarrow> view s' = view s"
  by (auto simp: applyIngressConfig_def Let_def simp del: applyObjects.simps
      dest!: applyObjects_keeps clearIngressContract_keeps
      split: prod.splits sum.splits option.splits if_splits)

lemma render_groups_keeps:
  "render_groups r owner params ns workDir groups desired s = (res, s') \<Longrightarrow> view s' = view s"
  by (induction groups arbitrary: desired s)
    (auto dest!: render_group_keeps applyObjects_keeps split: prod.splits sum.splits option.splits)

lemma renderAndApply_keeps: "renderAndApply r owner params ns platform s = (res, s') \<Longrightarrow> view s' = view s"
  by (auto simp: renderAndApply_def renderAndApply_in_def Let_def remove_keeps
      dest!: mkdtemp_keeps copyDir_keeps applyIngressConfig_keeps render_groups_keeps gc_keeps
      split: prod.splits sum.splits option.splits)

end

end
