(* ===== verification/Convergence.thy ===== *)
theory Convergence
  imports Frames
begin

text \<open>
  What one successful \<open>renderAndApply\<close> makes of the cluster. The locale \<open>world\<close> joins the contracts
  of the API server and of the unstructured accessors with what the calls in between leave alone:
  rendering and reads change no object, a successful apply makes its object present.
\<close>

locale world =
  cluster "r_Client r" "r_Unstructured r" live + unstructured "r_Unstructured r" + rendering r live
  for r :: "'s reconciler" and live :: "'s \<Rightarrow> objectRef \<Rightarrow> object option" +
  assumes owner_reference:
      "r_SetControllerReference r owner obj = Inr obj' \<Longrightarrow>
       apart [''metadata'', ''ownerReferences''] gs \<Longrightarrow>
       nested_field (JObj obj') gs = nested_field (JObj obj) gs"
    and get_keeps: "cl_Get (r_Client r) g ns n s = (x1, s') \<Longrightarrow> live s' = live s"
    and get_configmap_keeps: "cl_GetConfigMap (r_Client r) ns n s = (x2, s') \<Longrightarrow> live s' = live s"
    and patch_keeps: "cl_PatchConfigMap (r_Client r) cm cm' s = (x3, s') \<Longrightarrow> dom (live s') = dom (live s)"
    and apply_present: "cl_Apply (r_Client r) obj fo s = (Inr (), s') \<Longrightarrow>
       dom (live s') = insert (objectRefFrom (r_Unstructured r) obj) (dom (live s))"
begin

subsection \<open>Applying keeps references\<close>

definition ref_paths :: "string list set" where
  "ref_paths = {[''apiVersion''], [''kind''], [''metadata'', ''name''], [''metadata'', ''namespace'']}"

lemma ref_cong:
  assumes "\<And>gs. gs \<in> ref_paths \<Longrightarrow> nested_field (JObj obj') gs = nested_field (JObj obj) gs"
  shows "objectRefFrom (r_Unstructured r) obj' = objectRefFrom (r_Unstructured r) obj"
proof -
  have "meta_str obj' gs = meta_str obj gs" if "gs \<in> ref_paths" for gs
    using assms [OF that] by (rule meta_str_cong)
  then show ?thesis by (simp add: objectRefFrom_def api gvk_of_def ref_paths_def)
qed

lemma set_labels_ref: "objectRefFrom (r_Unstructured r) (setComponentLabels (r_Unstructured r) obj) =
    objectRefFrom (r_Unstructured r) obj"
  by (rule ref_cong) (auto simp: ref_paths_def intro!: component_labels_apart)

lemma owned_ref:
  "r_SetControllerReference r owner (ClearOwnerReferences (r_Unstructured r) obj) = Inr obj' \<Longrightarrow>
   objectRefFrom (r_Unstructured r) obj' = objectRefFrom (r_Unstructured r) obj"
  by (rule ref_cong)
    (auto simp: ref_paths_def api owner_reference nested_remove_apart
      simp del: nested_field.simps remove_nested.simps)

lemma merge_ref:
  "mergeDeployments (r_Unstructured r) dep obj = Inr obj' \<Longrightarrow>
   objectRefFrom (r_Unstructured r) obj' = objectRefFrom (r_Unstructured r) obj"
  using merge_deployments [of dep obj obj']
  by (intro ref_cong)
    (auto simp: ref_paths_def deploymentContainersPath_def deploymentReplicasPath_def
      simp del: nested_field.simps)

lemma preserve_ref:
  assumes "preserveDeploymentCustomizations r obj s = (Inr obj', s')"
  shows "objectRefFrom (r_Unstructured r) obj' = objectRefFrom (r_Unstructured r) obj \<and> live s' = live s"
  using assms
  by (auto simp: preserveDeploymentCustomizations_def Let_def merge_ref dest!: get_keeps
      split: if_splits prod.splits sum.splits)

lemma strip_ref:
  "stripAggregatedClusterRoleRules (r_Unstructured r) obj = Inr obj' \<Longrightarrow>
   objectRefFrom (r_Unstructured r) (ClearManagedFields (r_Unstructured r) obj') =
   objectRefFrom (r_Unstructured r) obj"
  by (rule ref_cong)
    (auto simp: stripAggregatedClusterRoleRules_def ref_paths_def api nested_remove_apart
      simp del: nested_field.simps remove_nested.simps split: if_splits sum.splits option.splits)

lemma prepareApply_ref:
  assumes "prepareApply r owner obj s = (Inr obj', s')"
  shows "objectRefFrom (r_Unstructured r) obj' = objectRefFrom (r_Unstructured r) obj \<and> live s' = live s"
proof -
  let ?U = "r_Unstructured r"
  obtain o1 o2 o3 where
    1: "o1 = setComponentLabels ?U obj \<or>
        r_SetControllerReference r owner (ClearOwnerReferences ?U (setComponentLabels ?U obj)) = Inr o1" and
    2: "preserveDeploymentCustomizations r o1 s = (Inr o2, s')" and
    3: "stripAggregatedClusterRoleRules ?U o2 = Inr o3" "obj' = ClearManagedFields ?U o3"
    using assms by (auto simp: prepareApply_def Let_def split: if_splits sum.splits prod.splits)
  have "objectRefFrom ?U o1 = objectRefFrom ?U obj"
    using 1 owned_ref set_labels_ref by metis
  with preserve_ref [OF 2] strip_ref [OF 3(1)] 3(2) show ?thesis by simp
qed

lemma applyObjects_present:
  "applyObjects r owner objs s = (Inr (), s') \<Longrightarrow>
   dom (live s') = dom (live s) \<union> objectRefFrom (r_Unstructured r) ` set objs"
proof (induction objs arbitrary: s)
  case (Cons obj objs)
  obtain obj' s1 s2 where
    p: "prepareApply r owner obj s = (Inr obj', s1)" and
    a: "cl_Apply (r_Client r) obj' FieldOwner s1 = (Inr (), s2)" and
    rest: "applyObjects r owner objs s2 = (Inr (), s')"
    using Cons.prems by (auto split: prod.splits sum.splits)
  from prepareApply_ref [OF p] apply_present [OF a] Cons.IH [OF rest] show ?case by auto
qed simp

lemma applyIngressConfig_present:
  assumes "applyIngressConfig r owner ns s = (Inr config, s')"
  shows "dom (live s') = insert (objectRefFrom (r_Unstructured r) config) (dom (live s))"
proof -
  have clear: "dom (live s2) = dom (live s1)" if cl: "clearIngressContract r ns s1 = (Inr (), s2)" for s1 s2
  proof -
    obtain s3 where "live s3 = live s1" "s2 = s3 \<or> dom (live s2) = dom (live s3)"
      using cl by (auto simp: clearIngressContract_def Let_def simp del: domIff
          dest!: get_configmap_keeps patch_keeps
          split: prod.splits sum.splits option.splits if_splits)
    then show ?thesis by auto
  qed
  from assms obtain s1 where a: "applyObjects r owner [config] s = (Inr (), s1)"
    and "s' = s1 \<or> clearIngressContract r ns s1 = (Inr (), s')"
    by (auto simp: applyIngressConfig_def Let_def simp del: applyObjects.simps
        split: sum.splits prod.splits if_splits option.splits)
  then have "dom (live s') = dom (live s1)" using clear by metis
  with applyObjects_present [OF a] show ?thesis by simp
qed

lemma add_desired_Inr:
  "add_desired U objs desired = Inr desired' \<Longrightarrow>
   desired' = desired @ map (objectRefFrom U) objs"
  by (induction U objs desired rule: add_desired.induct) (auto simp: Let_def split: if_splits)

lemma render_groups_present:
  "render_groups r owner params ns workDir groups desired s = (Inr desired', s') \<Longrightarrow>
   set desired \<subseteq> dom (live s) \<Longrightarrow> set desired \<subseteq> set desired' \<and> set desired' \<subseteq> dom (live s')"
proof (induction groups arbitrary: desired s)
  case (Cons g groups)
  obtain res s1 where g: "render_group r owner params ns workDir g s = (res, s1)" by (metis prod.exhaust)
  note keeps = render_group_keeps [OF g]
  show ?case
  proof (cases "\<exists>objs. res = Inr (Some objs)")
    case True
    then obtain objs where res: "res = Inr (Some objs)" by blast
    with Cons.prems(1) g obtain d2 s2 where
      d2: "add_desired (r_Unstructured r) objs desired = Inr d2" and
      a: "applyObjects r owner objs s1 = (Inr (), s2)" and
      rest: "render_groups r owner params ns workDir groups d2 s2 = (Inr desired', s')"
      by (auto split: prod.splits sum.splits)
    have "set d2 \<subseteq> dom (live s2)"
      using add_desired_Inr [OF d2] applyObjects_present [OF a] keeps Cons.prems(2) by auto
    with Cons.IH [OF rest] add_desired_Inr [OF d2] show ?thesis by auto
  next
    case False
    with Cons.prems(1) g have "render_groups r owner params ns workDir groups desired s1 = (Inr desired', s')"
      by (auto split: sum.splits option.splits)
    with Cons.IH keeps Cons.prems(2) show ?thesis by simp
  qed
qed simp

text \<open>
  The state after the sweeps holds the desired references and no other managed object. The hidden
  states are those between the ingress ConfigMap, the groups and the garbage collection.
\<close>

lemma renderAndApply_converges:
  assumes "renderAndApply r owner params ns platform s = (Inr (), s')"
  shows "\<exists>workDir config desired s1 s2 s3.
      applyIngressConfig r owner ns s1 = (Inr config, s2)
    \<and> render_groups r owner params ns workDir
        (manifestGroupsForPlatform platform (IsWorkbenchesV2Managed (Spec owner)))
        [objectRefFrom (r_Unstructured r) config] s2 = (Inr desired, s3)
    \<and> objectRefFrom (r_Unstructured r) config \<in> set desired
    \<and> set desired \<subseteq> dom (live s')
    \<and> (\<forall>ref obj. live s' ref = Some obj \<longrightarrow> managed (r_Unstructured r) ns obj \<longrightarrow> ref \<in> set desired)
    \<and> (\<forall>ref obj. live s3 ref = Some obj \<longrightarrow> \<not> managed (r_Unstructured r) ns obj \<longrightarrow> live s' ref = Some obj)"
proof -
  obtain workDir s0 s4 where
    "renderAndApply_in r owner params ns platform workDir s0 = (Inr (), s4)"
    and rm: "s' = snd (fs_RemoveAll (r_Files r) workDir s4)"
    using assms by (auto simp: renderAndApply_def split: prod.splits sum.splits)
  then obtain s1 config s2 desired s3 where
    i: "applyIngressConfig r owner ns s1 = (Inr config, s2)" and
    g: "render_groups r owner params ns workDir
        (manifestGroupsForPlatform platform (IsWorkbenchesV2Managed (Spec owner)))
        [objectRefFrom (r_Unstructured r) config] s2 = (Inr desired, s3)" and
    gc: "gcOrphanedResources r ns desired s3 = (None, s4)"
    by (auto simp: renderAndApply_in_def Let_def split: prod.splits sum.splits option.splits)
  have s': "live s' = live s4"
    using rm remove_keeps by simp
  have d: "objectRefFrom (r_Unstructured r) config \<in> set desired" "set desired \<subseteq> dom (live s3)"
    using render_groups_present [OF g] applyIngressConfig_present [OF i] by auto
  then have ne: "desired \<noteq> []" by auto
  note exact = gc_facts [OF cluster_axioms gc ne]
  have a: "set desired \<subseteq> dom (live s')"
    using d(2) exact(2) s' by fastforce
  have b: "\<forall>ref obj. live s' ref = Some obj \<longrightarrow> managed (r_Unstructured r) ns obj \<longrightarrow> ref \<in> set desired"
  proof (intro allI impI)
    fix ref obj
    assume obj: "live s' ref = Some obj" and m: "managed (r_Unstructured r) ns obj"
    then obtain obj3 where obj3: "live s3 ref = Some obj3"
      using exact(1) [of ref] s' by (cases "live s3 ref") auto
    show "ref \<in> set desired"
    proof (rule ccontr)
      assume nd: "ref \<notin> set desired"
      show False
      proof (cases "managed (r_Unstructured r) ns obj3")
        case True
        with exact(3) [OF obj3 _ nd] obj s' show False by simp
      next
        case False
        with exact(2) [OF obj3] obj s' m show False by simp
      qed
    qed
  qed
  have c: "\<forall>ref obj. live s3 ref = Some obj \<longrightarrow> \<not> managed (r_Unstructured r) ns obj \<longrightarrow>
      live s' ref = Some obj"
    using exact(2) s' by simp
  from i g d(1) a b c show ?thesis by (intro exI conjI)
qed

end

section \<open>A concrete world\<close>

text \<open>
  The stored API server with apply and given deployments and ConfigMaps, beside an operator image
  without manifests.
\<close>

definition store_reconciler ::
  "deployment list \<Rightarrow> (string \<Rightarrow> string \<Rightarrow> configmap res) \<Rightarrow> (objectRef \<times> object) list reconciler" where
  "store_reconciler ds cms = empty_reconciler
     \<lparr>r_Client := (store_client documented_unstructured)
        \<lparr>cl_Apply := (\<lambda>obj fo s.
           (Inr (), AList.update (objectRefFrom documented_unstructured obj) obj s)),
         cl_ListDeployments := (\<lambda>_ _ s. (Inr ds, s)), cl_GetConfigMap := (\<lambda>ns name s. (cms ns name, s))\<rparr>\<rparr>"

lemma store_reconciler_simps:
  "r_Unstructured (store_reconciler ds cms) = documented_unstructured"
  "cl_List (r_Client (store_reconciler ds cms)) = cl_List (store_client documented_unstructured)"
  "cl_Delete (r_Client (store_reconciler ds cms)) = cl_Delete (store_client documented_unstructured)"
  "r_Files (store_reconciler ds cms) = empty_files"
  by (simp_all add: store_reconciler_def empty_reconciler_def)

interpretation stored: world "store_reconciler ds cms" "store_live documented_unstructured" for ds cms
proof (rule world.intro)
  let ?U = documented_unstructured
  show "cluster (r_Client (store_reconciler ds cms)) (r_Unstructured (store_reconciler ds cms)) (store_live ?U)"
    using store.cluster_axioms unfolding cluster_def store_reconciler_simps .
  show "unstructured (r_Unstructured (store_reconciler ds cms))"
    using doc.unstructured_axioms by (simp only: store_reconciler_simps)
  show "rendering (store_reconciler ds cms) (store_live ?U)"
    by unfold_locales (auto simp: store_reconciler_def empty_reconciler_def empty_files_def)
  have dom: "dom (store_live ?U (AList.update (objectRefFrom ?U obj) obj s)) =
      insert (objectRefFrom ?U obj) (dom (store_live ?U s))" for obj s
    by (auto simp: store_live_def split: option.splits if_splits)
  show "world_axioms (store_reconciler ds cms) (store_live ?U)"
    by unfold_locales
      (use dom in \<open>auto simp: store_reconciler_def empty_reconciler_def empty_files_def store_client_def
        empty_client_def simp del: domIff\<close>)
qed

section \<open>The property\<close>

text \<open>
  C9: A successful render-and-apply converges the cluster to the desired set. Against an API server
  that behaves as documented, after a run that reports no error every desired object exists (the
  ingress ConfigMap and every rendered one), every component-labelled object of the clean-up kinds in
  the operand namespace or cluster-wide is a desired one, so nothing of an earlier version is left,
  and the sweep left every other object as it was.
\<close>

theorem render_apply_converges:
  assumes "world r live" and "renderAndApply r owner params ns platform s = (Inr (), s')"
  shows "\<exists>workDir config desired s1 s2 s3.
      applyIngressConfig r owner ns s1 = (Inr config, s2)
    \<and> render_groups r owner params ns workDir
        (manifestGroupsForPlatform platform (IsWorkbenchesV2Managed (Spec owner)))
        [objectRefFrom (r_Unstructured r) config] s2 = (Inr desired, s3)
    \<and> objectRefFrom (r_Unstructured r) config \<in> set desired
    \<and> set desired \<subseteq> dom (live s')
    \<and> (\<forall>ref obj. live s' ref = Some obj \<longrightarrow> managed (r_Unstructured r) ns obj \<longrightarrow> ref \<in> set desired)
    \<and> (\<forall>ref obj. live s3 ref = Some obj \<longrightarrow> \<not> managed (r_Unstructured r) ns obj \<longrightarrow> live s' ref = Some obj)"
  by (rule world.renderAndApply_converges [OF assms])

text \<open>When no group directory exists, no group adds to the desired set.\<close>

lemma render_groups_missing:
  assumes "\<And>p s. \<exists>e s1. fs_Stat (r_Files r) p s = (Inl e, s1) \<and> IsNotExist e"
    and "render_groups r owner params ns workDir groups desired s = (res, s')"
  shows "res = Inr desired"
proof -
  have "fst (render_group r owner params ns workDir g s) = Inr None" for g s
    using assms(1) [of "filepath_Join [workDir, g]" s] by (auto simp: render_group_def Let_def)
  then have "fst (render_groups r owner params ns workDir groups desired s) = Inr desired"
  proof (induction groups arbitrary: s)
    case (Cons g groups)
    obtain s1 where "render_group r owner params ns workDir g s = (Inr None, s1)"
      using Cons.prems [of g s] by (metis prod.collapse)
    with Cons show ?case by simp
  qed simp
  with assms(2) show ?thesis by simp
qed

text \<open>
  A successful run with files in which no group directory is found keeps the ingress ConfigMap only, of
  all managed objects: the test for an empty desired set in \<open>gcOrphanedResources\<close> cannot fire, since the
  ConfigMap is always in it.
\<close>

lemma missing_manifests_collected:
  assumes "world r live" and "renderAndApply r owner params ns platform s = (Inr (), s')"
    and "\<And>p s. \<exists>e s1. fs_Stat (r_Files r) p s = (Inl e, s1) \<and> IsNotExist e"
  shows "\<exists>config s1 s2. applyIngressConfig r owner ns s1 = (Inr config, s2)
    \<and> (\<forall>ref obj. live s' ref = Some obj \<longrightarrow> managed (r_Unstructured r) ns obj \<longrightarrow>
         ref = objectRefFrom (r_Unstructured r) config)"
proof -
  obtain workDir config desired s1 s2 s3 where
    i: "applyIngressConfig r owner ns s1 = (Inr config, s2)" and
    g: "render_groups r owner params ns workDir
        (manifestGroupsForPlatform platform (IsWorkbenchesV2Managed (Spec owner)))
        [objectRefFrom (r_Unstructured r) config] s2 = (Inr desired, s3)" and
    m: "\<forall>ref obj. live s' ref = Some obj \<longrightarrow> managed (r_Unstructured r) ns obj \<longrightarrow> ref \<in> set desired"
    using world.renderAndApply_converges [OF assms(1,2)] by (elim exE conjE)
  from render_groups_missing [OF assms(3) g] m i show ?thesis by auto
qed

lemma store_run:
  assumes spec: "Spec wb = example_spec"
  shows "\<exists>s'. renderAndApply (store_reconciler ds cms) wb params ns OpenDataHub s = (Inr (), s')"
proof -
  let ?r = "store_reconciler ds cms" and ?U = documented_unstructured
  have prep: "\<exists>obj'. prepareApply ?r owner (ingress_config ns ing k) s = (Inr obj', s)" for owner ing k s
  proof -
    have kind: "GetKind ?U (setComponentLabels ?U (ingress_config ns ing k)) = ''ConfigMap''"
      unfolding doc.component_labels_kind
      by (simp add: doc.api meta_str_def nested_as_def found_or_none_def ingress_config_def)
    have owned: "r_SetControllerReference ?r owner obj = Inr obj" for owner obj
      by (simp add: store_reconciler_def empty_reconciler_def)
    have cleared: "GetKind ?U (ClearOwnerReferences ?U obj) = GetKind ?U obj" for obj
      unfolding doc.api by (intro meta_str_cong nested_remove_apart) simp
    show ?thesis
      by (simp add: prepareApply_def Let_def store_reconciler_simps owned kind cleared
          shouldSetOwnerReference_def skipOwnerRefKinds_def preserveDeploymentCustomizations_def
          stripAggregatedClusterRoleRules_def kind_defs)
  qed
  have applied: "\<exists>s'. applyObjects ?r owner [ingress_config ns ing k] s = (Inr (), s')" for owner ing k s
    using prep [of owner ing k s] by (auto simp: store_reconciler_def)
  have ingress: "\<exists>config s'. applyIngressConfig ?r wb ns s = (Inr config, s')" for s
  proof -
    have ma: "r_MarshalIngresses ?r (Ingresses (Spec wb)) = Inr ''[]''"
      "r_MarshalContract ?r \<lparr>ics_Version = ''v1'', ics_SourceGeneration = 1\<rparr> = Inr ''v1''"
      "spec_IngressContract (Spec wb) = Some \<lparr>ics_Version = ''v1'', ics_SourceGeneration = 1\<rparr>"
      by (simp_all add: store_reconciler_def example_env spec)
    obtain s' where "applyObjects ?r wb [ingress_config ns ''[]'' (Some ''v1'')] s = (Inr (), s')"
      using applied by blast
    then show ?thesis
      by (simp add: applyIngressConfig_def ma Let_def del: applyObjects.simps)
  qed
  have stat: "\<exists>e s1. fs_Stat (r_Files ?r) p s = (Inl e, s1) \<and> IsNotExist e" for p s
    by (simp add: store_reconciler_simps empty_files_def no_file_def)
  have gc: "\<exists>s'. gcOrphanedResources ?r ns desired s = (None, s')" for desired s
  proof -
    have clean: "sweep (r_Client ?r) keep scope lp p gs s = ([], snd (sweep (r_Client ?r) keep scope lp p gs s))"
      for keep scope lp p gs s
      using store_sweep_clean [of ?U keep scope lp p gs s]
        sweep_cong [of "r_Client ?r" "store_client ?U" keep scope lp p gs s] store_reconciler_simps(2,3)
      by (metis prod.collapse)
    show ?thesis
      unfolding gcOrphanedResources_def Let_def by (subst clean, subst clean) (simp add: errors_Join_def)
  qed
  obtain config s1 where i: "applyIngressConfig ?r wb ns s = (Inr config, s1)"
    using ingress by blast
  obtain desired s2 where g: "render_groups ?r wb params ns ''/tmp/workbenches-manifests-1''
      (manifestGroupsForPlatform OpenDataHub (IsWorkbenchesV2Managed (Spec wb)))
      [objectRefFrom ?U config] s1 = (Inr desired, s2)"
    using render_groups_missing [OF stat] by (metis prod.exhaust)
  obtain s3 where "gcOrphanedResources ?r ns desired s2 = (None, s3)" using gc by blast
  moreover have "fs_MkdirTemp (r_Files ?r) s = (Inr ''/tmp/workbenches-manifests-1'', s)"
    "copyDir (r_Files ?r) src dst s = (Inr (), s)" for src dst
    by (simp_all add: store_reconciler_simps empty_files_def copyDir_def)
  ultimately show ?thesis
    using i g by (simp add: renderAndApply_def renderAndApply_in_def Let_def store_reconciler_simps)
qed

theorem render_apply_converges_witness:
  "\<exists>s' ref. renderAndApply (store_reconciler [] (\<lambda>_ _. Inl missing)) example_wb [] ''opendatahub'' OpenDataHub example_store = (Inr (), s')
     \<and> ref_name ref = NotebookControllerConfigMap \<and> ref \<in> dom (store_live documented_unstructured s')"
proof -
  obtain s' where run:
    "renderAndApply (store_reconciler [] (\<lambda>_ _. Inl missing)) example_wb [] ''opendatahub'' OpenDataHub example_store = (Inr (), s')"
    using store_run [OF example_wb_spec] by blast
  from render_apply_converges [OF stored.world_axioms run] obtain config desired s1 s2 where
    i: "applyIngressConfig (store_reconciler [] (\<lambda>_ _. Inl missing)) example_wb ''opendatahub'' s1 = (Inr config, s2)" and
    d: "objectRefFrom (r_Unstructured (store_reconciler [] (\<lambda>_ _. Inl missing))) config \<in> set desired"
    "set desired \<subseteq> dom (store_live documented_unstructured s')"
    by (elim exE conjE)
  have "\<exists>ing k. config = ingress_config ''opendatahub'' ing k"
    using i by (auto simp: applyIngressConfig_def Let_def simp del: applyObjects.simps
        split: sum.splits prod.splits if_splits option.splits)
  then have "ref_name (objectRefFrom documented_unstructured config) = NotebookControllerConfigMap"
    by (auto simp: objectRefFrom_def doc.api meta_str_def nested_as_def found_or_none_def ingress_config_def)
  with run d show ?thesis by (auto simp: store_reconciler_simps)
qed

lemma missing_manifests_example:
  "\<exists>s'. renderAndApply (store_reconciler [] (\<lambda>_ _. Inl missing)) example_wb [] ''opendatahub'' OpenDataHub
      example_store = (Inr (), s')
    \<and> store_live documented_unstructured example_store (example_ref ''old'') \<noteq> None
    \<and> store_live documented_unstructured s' (example_ref ''old'') \<noteq> Some (example_object ''old'')"
proof -
  let ?r = "store_reconciler [] (\<lambda>_ _. Inl missing)" and ?U = documented_unstructured
  obtain s' where run: "renderAndApply ?r example_wb [] ''opendatahub'' OpenDataHub example_store = (Inr (), s')"
    using store_run [OF example_wb_spec] by blast
  have "\<exists>e s1. fs_Stat (r_Files ?r) p s = (Inl e, s1) \<and> IsNotExist e" for p s
    by (simp add: store_reconciler_simps empty_files_def no_file_def)
  from missing_manifests_collected [OF stored.world_axioms run this] obtain config s1 s2 where
    i: "applyIngressConfig ?r example_wb ''opendatahub'' s1 = (Inr config, s2)" and
    only: "store_live ?U s' ref = Some obj \<Longrightarrow> managed ?U ''opendatahub'' obj \<Longrightarrow> ref = objectRefFrom ?U config" for ref obj
    by (auto simp: store_reconciler_simps)
  have "\<exists>ing k. config = ingress_config ''opendatahub'' ing k"
    using i by (auto simp: applyIngressConfig_def Let_def simp del: applyObjects.simps
        split: sum.splits prod.splits if_splits option.splits)
  then have "ref_name (objectRefFrom ?U config) = NotebookControllerConfigMap"
    by (auto simp: objectRefFrom_def doc.api meta_str_def nested_as_def found_or_none_def ingress_config_def)
  then have "objectRefFrom ?U config \<noteq> example_ref ''old''"
    by (auto simp: example_ref_def NotebookControllerConfigMap_def)
  with only [of "example_ref ''old''" "example_object ''old''"] have
    "store_live ?U s' (example_ref ''old'') \<noteq> Some (example_object ''old'')"
    using example_object_facts(2) by auto
  with run example_store_live show ?thesis by auto
qed

end
