(* ===== verification/Reconcile_Properties.thy ===== *)
theory Reconcile_Properties
  imports Reconcile_Status Convergence
begin

text \<open>
  Properties of whole reconciles: what a failed one publishes, when the component is reported Ready,
  when the operator stops requeueing, how the version handshake completes, and how deletion, removal
  and the finalizer fit together.
\<close>

section \<open>Runs of \<open>reconcileManaged\<close>\<close>

text \<open>The first visit of a resource only sets the phase.\<close>

definition first_visit :: "Workbenches \<Rightarrow> bool" where
  "first_visit wb \<longleftrightarrow> Phase (Status wb) = [] \<and> ObservedGeneration (Status wb) = 0"

definition managed_context :: "conditions_api \<Rightarrow> Workbenches \<Rightarrow> PhaseContext" where
  "managed_context C wb = zero_PhaseContext
     \<lparr>PreviousObservedGeneration := ObservedGeneration (Status wb),
      pc_Generation := Generation wb,
      WasReady := IsStatusConditionTrue C (Conditions (Status wb)) conditionTypeReady\<rparr>"

lemma managed_context_simps [simp]:
  "\<not> pc_Failed (managed_context C wb)" "\<not> pc_Removed (managed_context C wb)"
  by (simp_all add: managed_context_def zero_PhaseContext_def)

text \<open>The operand namespace of a resource, and the resource with it in its status.\<close>

abbreviation operand_ns :: "'s reconciler \<Rightarrow> Workbenches \<Rightarrow> string" where
  "operand_ns r wb \<equiv> r_resolveOperandNamespace r (spec_Platform (Spec wb))"

abbreviation with_ns :: "'s reconciler \<Rightarrow> Workbenches \<Rightarrow> Workbenches" where
  "with_ns r wb \<equiv> setStatusNamespaces wb (operand_ns r wb)"

lemma reconcileManaged_later:
  "\<not> first_visit wb \<Longrightarrow>
   reconcileManaged r wb s =
     (case provision r (with_ns r wb) (operand_ns r wb) s of
        (Inl (reason, err), s1) \<Rightarrow> setErrorStatus r (with_ns r wb) reason err s1
      | (Inr (d, pv), s1) \<Rightarrow>
          (case evaluate_status r (managed_context (r_Conditions r) wb) (operand_ns r wb) d pv (with_ns r wb) s1 of
             (Inl (wb', err), s2) \<Rightarrow> setErrorStatus r wb' ''ImageStreamsStatusFailed'' err s2
           | (Inr (dr, wb'), s2) \<Rightarrow>
               (case cl_StatusUpdate (r_Client r) wb' s2 of
                  (Inl err, s3) \<Rightarrow> (((requeueDelay, Some err), wb'), s3)
                | (Inr wb'', s3) \<Rightarrow>
                    (((if needs_requeue (r_Conditions r) dr d pv wb'' then requeueDelay else 0, None), wb''), s3))))"
  unfolding reconcileManaged_def first_visit_def managed_context_def Let_def by (rule if_not_P)

lemma setErrorStatus_error: "snd (fst (fst (setErrorStatus r wb reason err s))) = Some err"
  by (auto simp: setErrorStatus_def Let_def split: prod.splits sum.splits)

text \<open>A run without an error went through every step.\<close>

lemma managed_success:
  assumes "reconcileManaged r wb s = (((delay, None), wb'), s')" and "\<not> first_visit wb"
  obtains d pv s1 dr sub s2 where
    "provision r (with_ns r wb) (operand_ns r wb) s = (Inr (d, pv), s1)"
    "evaluate_status r (managed_context (r_Conditions r) wb) (operand_ns r wb) d pv (with_ns r wb) s1 =
       (Inr (dr, sub), s2)"
    "cl_StatusUpdate (r_Client r) sub s2 = (Inr wb', s')"
    "delay = (if needs_requeue (r_Conditions r) dr d pv wb' then requeueDelay else 0)"
proof -
  have no: "setErrorStatus r x re e t \<noteq> (((delay, None), wb'), s')" for x re e t
    using setErrorStatus_error [of r x re e t] by auto
  show ?thesis
    using assms(1) that no unfolding reconcileManaged_later [OF assms(2)]
    by (auto split: prod.splits sum.splits)
qed

lemma provision_facts:
  assumes "provision r wb ns s = (Inr (d, pv), s')"
  shows "distribution_valid d" and "TrimSpace pv = pv" and "validateSpec (Spec wb) = None"
proof -
  from assms obtain d0 s1 s2 where
    d0: "ReadDesiredDistribution (cl_GetConfigMap (r_Client r)) (operand_ns r wb) s = (Inr d0, s1)"
    and d: "d = ResolveDesiredDistribution d0 (spec_Platform (Spec wb)) []"
    and pv: "ReadPlatformVersion (cl_GetConfigMap (r_Client r)) (operand_ns r wb) s1 = (Inr pv, s2)"
    and v: "validateSpec (Spec wb) = None"
    by (auto simp: provision_def resolveDesiredDistribution_def readPlatformVersion_def Let_def
        split: option.splits prod.splits sum.splits)
  from ReadDesiredDistribution_valid [OF d0] show "distribution_valid d"
    unfolding d by (blast intro: ResolveDesiredDistribution_valid)
  from pv show "TrimSpace pv = pv"
    by (auto simp: ReadPlatformVersion_def split: if_splits prod.splits sum.splits option.splits)
  from v show "validateSpec (Spec wb) = None" .
qed

definition provision_reasons :: "string set" where
  "provision_reasons = {''InvalidSpec'', ''PlatformConfigReadFailed'', ''PlatformVersionReadFailed'',
     ''ConfigureDependenciesFailed'', ''ManifestApplyFailed''}"

lemma provision_error:
  assumes "provision r wb ns s = (Inl (reason, err), s')"
  shows "reason \<in> provision_reasons"
    and "reason = ''InvalidSpec'' \<longleftrightarrow> validateSpec (Spec wb) \<noteq> None"
    and "validateSpec (Spec wb) \<noteq> None \<Longrightarrow> s' = s"
  using assms
  by (auto simp: provision_def provision_reasons_def Let_def split: option.splits prod.splits sum.splits)

text \<open>What a status after an error says.\<close>

definition failed_closed ::
  "conditions_api \<Rightarrow> Workbenches \<Rightarrow> string \<Rightarrow> goerror \<Rightarrow> Workbenches \<Rightarrow> bool" where
  "failed_closed C wb reason err sub \<longleftrightarrow>
     FindStatusCondition C (Conditions (Status sub)) conditionTypeReady =
       Some \<lparr>cond_Type = conditionTypeReady, cond_Status = ConditionFalse, cond_Reason = reason,
         cond_Message = Error err, cond_ObservedGeneration = Generation wb\<rparr>
     \<and> Phase (Status sub) = PhaseFailed
     \<and> \<not> IsStatusConditionTrue C (Conditions (Status sub)) conditionTypeIngressContractReady
     \<and> st_IngressContract (Status sub) = zero_IngressContractStatus
     \<and> ObservedGeneration (Status sub) = Generation wb
     \<and> Releases (Status sub) = Releases (Status wb)
     \<and> st_Distribution (Status sub) = st_Distribution (Status wb)
     \<and> (\<forall>c \<in> set (Conditions (Status sub)). cond_Reason c \<noteq> [])"

lemma error_status_closed:
  assumes "status_conditions C" and "reason \<noteq> []"
  shows "failed_closed C wb reason err (error_status C wb reason err)"
  using assms status_conditions.error_status_facts [OF assms(1)]
    status_conditions.error_status_reasons [OF assms(1)]
  by (auto simp: failed_closed_def)

text \<open>What the API server does with a status update: it stores the submitted status and nothing else.\<close>

definition echoes_status :: "'s client \<Rightarrow> bool" where
  "echoes_status c \<longleftrightarrow>
     (\<forall>wb s wb' s'. cl_StatusUpdate c wb s = (Inr wb', s') \<longrightarrow>
        Status wb' = Status wb \<and> Spec wb' = Spec wb \<and> Generation wb' = Generation wb)"

text \<open>Which conditions a status reports True.\<close>

abbreviation reports :: "'s reconciler \<Rightarrow> Workbenches \<Rightarrow> string \<Rightarrow> bool" where
  "reports r wb t \<equiv> IsStatusConditionTrue (r_Conditions r) (Conditions (Status wb)) t"

section \<open>A concrete managed run\<close>

text \<open>
  The stored API server with both controllers rolled out, the contract projected and the platform
  version published.
\<close>

definition example_configmaps :: "string \<Rightarrow> string \<Rightarrow> configmap res" where
  "example_configmaps ns name = Inr
     \<lparr>cm_Namespace = ns, cm_Name = name,
      cm_Data = Some [(IngressContractConfigMapKey, ''v1''), (DistributionNameKey, ''OpenDataHub''),
        (VersionDataKey, ''2.25'')]\<rparr>"

abbreviation example_managed :: "(objectRef \<times> object) list reconciler" where
  "example_managed \<equiv> store_reconciler example_controllers example_configmaps"

definition example_distribution :: Distribution where
  "example_distribution = \<lparr>dist_Name = ''OpenDataHub'', dist_Version = ''0.0.0''\<rparr>"

definition example_pending :: Workbenches where
  "example_pending = example_wb\<lparr>Status := (Status example_wb)\<lparr>Phase := PhasePending\<rparr>\<rparr>"

lemma example_conditions: "status_conditions (r_Conditions example_managed)"
  using documented.status_conditions_axioms by (simp add: store_reconciler_def empty_reconciler_def)

lemma example_client:
  "cl_StatusUpdate (r_Client example_managed) wb s = (Inr wb, s)"
  "cl_GetNamespace (r_Client example_managed) n s = (Inl missing, s)"
  "cl_CreateNamespace (r_Client example_managed) nso s = (Inr (), s)"
  "cl_GetConfigMap (r_Client example_managed) n m s = (example_configmaps n m, s)"
  "cl_ListDeployments (r_Client example_managed) n sel s = (Inr example_controllers, s)"
  "cl_ListImageStreams (r_Client example_managed) n sel s = (Inr [], s)"
  by (simp_all add: store_reconciler_def store_client_def empty_client_def)

lemma example_echoes: "echoes_status (r_Client example_managed)"
  by (simp add: echoes_status_def example_client)

lemma example_provision:
  assumes "Spec wb = example_spec"
  shows "\<exists>s1. provision example_managed wb ns s = (Inr (example_distribution, ''2.25''), s1)"
proof -
  have valid: "validateSpec (Spec wb) = None"
    by (simp add: assms validateSpec_def example_spec_def platform_IsValid_def platform_defs)
  have trims: "TrimSpace ''2.25'' = ''2.25''" "TrimSpace ''OpenDataHub'' = ''OpenDataHub''"
    by (simp_all add: TrimSpace_plain plain_ends_def space_runes_def)
  have n: "operand_ns example_managed wb \<noteq> []"
    by (simp add: resolveOperandNamespace_def assms example_spec_def platform_defs Let_def
        DefaultApplicationsNamespace_def)
  have keys: "get_str [(IngressContractConfigMapKey, ''v1''), (DistributionNameKey, ''OpenDataHub''),
        (VersionDataKey, ''2.25'')] VersionDataKey = ''2.25''"
    "get_str [(IngressContractConfigMapKey, ''v1''), (DistributionNameKey, ''OpenDataHub''),
        (VersionDataKey, ''2.25'')] DistributionNameKey = ''OpenDataHub''"
    "get_str [(IngressContractConfigMapKey, ''v1''), (DistributionNameKey, ''OpenDataHub''),
        (VersionDataKey, ''2.25'')] DistributionVersionKey = []"
    by (simp_all add: get_str_def IngressContractConfigMapKey_def DistributionNameKey_def
        VersionDataKey_def DistributionVersionKey_def)
  have d: "resolveDesiredDistribution example_managed wb s = (Inr example_distribution, s)" for s
    using n keys
    by (simp add: resolveDesiredDistribution_def ReadDesiredDistribution_def example_client
        example_configmaps_def trims validateDistributionFields_def validateDistributionVersion_def
        ResolveDesiredDistribution_def IsDistributionEmpty_def StandaloneDistribution_def
        example_distribution_def Let_def OpenDataHub_def)
  have v: "readPlatformVersion example_managed wb s = (Inr ''2.25'', s)" for s
    using n keys by (simp add: readPlatformVersion_def ReadPlatformVersion_def example_client
        example_configmaps_def trims)
  have c: "configureDependencies example_managed wb s = (Inr (), s)" for s
    by (simp add: configureDependencies_def ensureGeneratedNamespace_def example_client missing_def Let_def)
  obtain s1 where "renderAndApply example_managed wb (computeKustomizeParams wb) ns OpenDataHub s = (Inr (), s1)"
    using store_run [OF assms] by blast
  moreover have "spec_Platform (Spec wb) = OpenDataHub" by (simp add: assms example_spec_def)
  ultimately show ?thesis by (simp add: provision_def valid d v c)
qed

lemma example_available: "deploymentsAvailability example_controllers = (True, [])"
  by (simp add: deploymentsAvailability_def example_controllers_def example_controller_def
      deploymentDesiredReplicas_def)

lemma example_evaluate:
  "\<exists>sub s2. evaluate_status example_managed ctx ns d pv wb s = (Inr (True, sub), s2)"
proof -
  have "checkDeployments example_managed wb s = ((True, []), s)" for wb s
    by (simp add: checkDeployments_def example_client example_available Let_def)
      (simp add: example_controllers_def)
  moreover have "\<exists>wb'. syncImageStreamsAvailable C (r_Client example_managed) wb ns s = (Inr wb', s)" for C wb s
    by (simp add: syncImageStreamsAvailable_def example_client)
  ultimately show ?thesis
    by (auto simp: evaluate_status_def Let_def split: prod.splits sum.splits)
      (metis Inl_Inr_False Pair_inject)
qed

lemma example_run:
  assumes "Spec wb = example_spec" and "\<not> first_visit wb"
  obtains delay wb' s' where
    "reconcileManaged example_managed wb s = (((delay, None), wb'), s')"
    "Spec wb' = example_spec" "Generation wb' = Generation wb" "\<not> first_visit wb'"
    "reports example_managed wb' conditionTypeDeploymentsAvailable"
proof -
  let ?r = example_managed
  obtain s1 where p: "provision ?r (with_ns ?r wb) (operand_ns ?r wb) s = (Inr (example_distribution, ''2.25''), s1)"
    using example_provision [of "with_ns ?r wb"] assms(1) by auto
  obtain sub s2 where e: "evaluate_status ?r (managed_context (r_Conditions ?r) wb) (operand_ns ?r wb)
      example_distribution ''2.25'' (with_ns ?r wb) s1 = (Inr (True, sub), s2)"
    using example_evaluate by blast
  note f = status_conditions.evaluate_facts [OF example_conditions e refl provision_facts(1) [OF p]
      managed_context_simps]
  have "\<not> first_visit sub"
    using status_conditions.evaluate_phase [OF example_conditions e refl]
    by (auto simp: first_visit_def phase_enum_def phase_defs)
  with p e f(10,11,14) assms show ?thesis
    using that by (simp add: reconcileManaged_later example_client)
qed

lemma example_pending_facts: "Spec example_pending = example_spec" "\<not> first_visit example_pending"
  by (simp_all add: example_pending_def example_wb_def first_visit_def phase_defs)

section \<open>Properties\<close>

text \<open>
  C4: A failed reconcile fails closed. When a step before the status evaluation fails, the run
  performs no further step but one status update: it reports that step's error to the caller whatever
  the update returns, and what it submits has Ready False with the reason of the failed step and the
  error's text, phase Failed, no ingress evidence and IngressContractReady not True, keeps the
  distribution and the releases last recorded, observes the current generation and gives every
  condition a reason. An invalid spec is rejected before the first call to the cluster.
\<close>

theorem failed_reconcile_fails_closed:
  assumes "status_conditions (r_Conditions r)" and "\<not> first_visit wb"
    and "provision r (with_ns r wb) (operand_ns r wb) s = (Inl (reason, err), s1)"
  shows "\<exists>sub. failed_closed (r_Conditions r) wb reason err sub
    \<and> reconcileManaged r wb s =
        (case cl_StatusUpdate (r_Client r) sub s1 of
           (Inl _, s2) \<Rightarrow> (((0, Some err), sub), s2)
         | (Inr wb', s2) \<Rightarrow> (((0, Some err), wb'), s2))
    \<and> reason \<in> provision_reasons
    \<and> (reason = ''InvalidSpec'' \<longleftrightarrow> validateSpec (Spec wb) \<noteq> None)
    \<and> (validateSpec (Spec wb) \<noteq> None \<longrightarrow> s1 = s)"
proof -
  let ?sub = "error_status (r_Conditions r) (with_ns r wb) reason err"
  note pe = provision_error [OF assms(3)]
  have "reason \<noteq> []" using pe(1) by (auto simp: provision_reasons_def)
  then have "failed_closed (r_Conditions r) wb reason err ?sub"
    using error_status_closed [OF assms(1), of reason "with_ns r wb" err] by (simp add: failed_closed_def)
  moreover have "reconcileManaged r wb s =
        (case cl_StatusUpdate (r_Client r) ?sub s1 of
           (Inl _, s2) \<Rightarrow> (((0, Some err), ?sub), s2)
         | (Inr wb', s2) \<Rightarrow> (((0, Some err), wb'), s2))"
    by (simp add: reconcileManaged_later [OF assms(2)] assms(3) setErrorStatus_def Let_def)
  ultimately show ?thesis using pe by auto
qed

definition example_invalid :: Workbenches where
  "example_invalid = example_wb\<lparr>Spec := example_spec\<lparr>spec_Platform := ''Vanilla''\<rparr>,
     Status := (Status example_wb)\<lparr>Phase := PhasePending\<rparr>\<rparr>"

theorem failed_reconcile_fails_closed_witness:
  "\<exists>err sub. failed_closed documented_conditions example_invalid ''InvalidSpec'' err sub
     \<and> reconcileManaged (empty_reconciler :: unit reconciler) example_invalid () = (((0, Some err), sub), ())"
proof -
  let ?r = "empty_reconciler :: unit reconciler"
  have "validateSpec (Spec example_invalid) \<noteq> None"
    by (simp add: validateSpec_def example_invalid_def example_env platform_IsValid_def platform_defs)
  then obtain err where
    p: "provision ?r (with_ns ?r example_invalid) (operand_ns ?r example_invalid) () = (Inl (''InvalidSpec'', err), ())"
    by (auto simp: provision_def)
  moreover have "\<not> first_visit example_invalid"
    by (simp add: first_visit_def example_invalid_def phase_defs)
  moreover have "status_conditions (r_Conditions ?r)"
    using documented.status_conditions_axioms by (simp add: empty_reconciler_def)
  ultimately show ?thesis
    using failed_reconcile_fails_closed [of ?r example_invalid "()" "''InvalidSpec''" err "()"]
    by (auto simp: empty_reconciler_def empty_client_def)
qed

text \<open>
  C3: The published status is truthful. When a reconcile of a managed resource completes, Ready is
  True exactly when the deployments are reported available and, on a distribution that has a platform,
  the recorded platform release is the target version; the phase is Ready exactly when the condition
  is. A Ready component has the desired distribution recorded and is not Degraded; one that was Ready
  and lost its deployments is Degraded. Provisioning is reported as succeeded, the phase is never
  Failed, and the observed generation is that of the spec that was applied.
\<close>

theorem managed_status_truthful:
  assumes "status_conditions (r_Conditions r)" and "echoes_status (r_Client r)" and "\<not> first_visit wb"
    and "reconcileManaged r wb s = (((delay, None), wb'), s')"
  shows "\<exists>d pv s1. provision r (with_ns r wb) (operand_ns r wb) s = (Inr (d, pv), s1)
    \<and> (reports r wb' conditionTypeReady \<longleftrightarrow> reports r wb' conditionTypeDeploymentsAvailable
         \<and> (HandshakeRequired d \<longrightarrow> HandshakeComplete pv (Releases (Status wb'))))
    \<and> (Phase (Status wb') = PhaseReady \<longleftrightarrow> reports r wb' conditionTypeReady)
    \<and> (reports r wb' conditionTypeReady \<longrightarrow>
         st_Distribution (Status wb') = d \<and> \<not> reports r wb' conditionTypeDegraded)
    \<and> (reports r wb conditionTypeReady \<and> \<not> reports r wb' conditionTypeDeploymentsAvailable \<longrightarrow>
         reports r wb' conditionTypeDegraded)
    \<and> reports r wb' conditionTypeProvisioningSucceeded
    \<and> Phase (Status wb') \<noteq> PhaseFailed
    \<and> ObservedGeneration (Status wb') = Generation wb"
proof -
  obtain d pv s1 dr sub s2 where
    p: "provision r (with_ns r wb) (operand_ns r wb) s = (Inr (d, pv), s1)" and
    e: "evaluate_status r (managed_context (r_Conditions r) wb) (operand_ns r wb) d pv (with_ns r wb) s1 =
       (Inr (dr, sub), s2)" and
    u: "cl_StatusUpdate (r_Client r) sub s2 = (Inr wb', s')"
    using managed_success [OF assms(4,3)] by metis
  note f = status_conditions.evaluate_facts [OF assms(1) e refl provision_facts(1) [OF p]
      managed_context_simps]
  have "Status wb' = Status sub" using assms(2) u by (auto simp: echoes_status_def)
  moreover have "WasReady (managed_context (r_Conditions r) wb) = reports r wb conditionTypeReady"
    by (simp add: managed_context_def)
  moreover have "st_Distribution (Status sub) = d" if dr
    using f(3) [OF that] by (auto simp: DistributionAligned_def split: if_splits)
  ultimately show ?thesis
    using p f(1,4-9,14) by auto
qed

theorem managed_status_truthful_witness:
  "\<exists>delay wb' s'. reconcileManaged example_managed example_pending [] = (((delay, None), wb'), s')
     \<and> reports example_managed wb' conditionTypeProvisioningSucceeded
     \<and> Phase (Status wb') \<noteq> PhaseFailed"
proof -
  obtain delay wb' s' where run:
    "reconcileManaged example_managed example_pending [] = (((delay, None), wb'), s')"
    by (rule example_run [OF example_pending_facts])
  from managed_status_truthful [OF example_conditions example_echoes example_pending_facts(2) run] run
  show ?thesis by blast
qed

text \<open>
  C11: The operator comes to rest only when there is nothing left to wait for. A reconcile of a managed
  resource that returns neither an error nor a requeue delay published Ready True, the desired
  distribution and the current generation; and if the spec asks for an ingress contract, its evidence
  was confirmed during that run. Otherwise the delay is exactly the requeue delay.
\<close>

theorem managed_rest_is_ready:
  assumes "status_conditions (r_Conditions r)" and "echoes_status (r_Client r)" and "\<not> first_visit wb"
    and "reconcileManaged r wb s = (((delay, None), wb'), s')"
  shows "delay = requeueDelay \<or>
    delay = 0 \<and> reports r wb' conditionTypeReady \<and> Phase (Status wb') = PhaseReady
    \<and> \<not> reports r wb' conditionTypeDegraded
    \<and> ObservedGeneration (Status wb') = Generation wb
    \<and> (\<forall>k. spec_IngressContract (Spec wb) = Some k \<longrightarrow>
         reports r wb' conditionTypeIngressContractReady
         \<and> (\<exists>t ds. contract_confirmed r wb t k ds))"
proof -
  obtain d pv s1 dr sub s2 where
    p: "provision r (with_ns r wb) (operand_ns r wb) s = (Inr (d, pv), s1)" and
    e: "evaluate_status r (managed_context (r_Conditions r) wb) (operand_ns r wb) d pv (with_ns r wb) s1 =
       (Inr (dr, sub), s2)" and
    u: "cl_StatusUpdate (r_Client r) sub s2 = (Inr wb', s')" and
    delay: "delay = (if needs_requeue (r_Conditions r) dr d pv wb' then requeueDelay else 0)"
    using managed_success [OF assms(4,3)] by metis
  note f = status_conditions.evaluate_facts [OF assms(1) e refl provision_facts(1) [OF p]
      managed_context_simps]
  have echo: "Status wb' = Status sub" "Spec wb' = Spec sub"
    using assms(2) u by (auto simp: echoes_status_def)
  show ?thesis
  proof (cases "needs_requeue (r_Conditions r) dr d pv wb'")
    case False
    then have rest: "dr" "HandshakeRequired d \<longrightarrow> HandshakeComplete pv (Releases (Status sub))"
      "spec_IngressContract (Spec wb) \<noteq> None \<longrightarrow> reports r sub conditionTypeIngressContractReady"
      using echo f(10) by (auto simp: needs_requeue_def Let_def)
    have "\<exists>t ds. contract_confirmed r wb t k ds"
      if k: "spec_IngressContract (Spec wb) = Some k" for k
    proof -
      obtain t k' ds where "contract_confirmed r (with_ns r wb) t k' ds"
        using f(13) rest(3) k by auto
      then have "contract_confirmed r wb t k' ds"
        using contract_confirmed_cong [of "with_ns r wb" wb r] by simp
      moreover from this k have "k' = k" by (simp add: contract_confirmed_def)
      ultimately show ?thesis by blast
    qed
    with False rest f(1,4,7,9) echo delay show ?thesis by auto
  qed (simp add: delay)
qed

theorem managed_rest_is_ready_witness:
  "\<exists>delay wb' s'. reconcileManaged example_managed example_pending [] = (((delay, None), wb'), s')
     \<and> (delay = requeueDelay \<or> reports example_managed wb' conditionTypeReady)"
proof -
  obtain delay wb' s' where run:
    "reconcileManaged example_managed example_pending [] = (((delay, None), wb'), s')"
    by (rule example_run [OF example_pending_facts])
  from managed_rest_is_ready [OF example_conditions example_echoes example_pending_facts(2) run] run
  show ?thesis by blast
qed

text \<open>
  A platform upgrade completes. Once the deployments are available, two consecutive reconciles
  that see the same non-empty target version make the component Ready, whatever version was recorded
  before: the first publishes either Ready or the reason PlatformVersionPending, and the second
  records the version.
\<close>

lemma handshake_completes_in_two:
  assumes "status_conditions (r_Conditions r)" and "echoes_status (r_Client r)"
    and "\<not> first_visit wb"
    and run1: "reconcileManaged r wb s = (((delay1, None), wb1), s1)"
    and run2: "reconcileManaged r wb1 s' = (((delay2, None), wb2), s2)"
    and "provision r (with_ns r wb) (operand_ns r wb) s = (Inr (d, pv), t1)"
    and "provision r (with_ns r wb1) (operand_ns r wb1) s' = (Inr (d, pv), t2)" and "pv \<noteq> []"
    and "reports r wb1 conditionTypeDeploymentsAvailable"
    and "reports r wb2 conditionTypeDeploymentsAvailable"
  shows "reports r wb2 conditionTypeReady
    \<and> HandshakeComplete pv (Releases (Status wb2)) = (rel_Version (GetPlatformRelease (Releases (Status wb2))) = pv)
    \<and> (HandshakeRequired d \<longrightarrow> HandshakeComplete pv (Releases (Status wb2)))
    \<and> (reports r wb1 conditionTypeReady
       \<or> map_option cond_Reason (FindStatusCondition (r_Conditions r) (Conditions (Status wb1)) conditionTypeReady)
           = Some ''PlatformVersionPending'')"
proof -
  let ?C = "r_Conditions r"
  note pf = provision_facts [OF assms(6)]
  obtain dr1 sub1 u1 where
    e1: "evaluate_status r (managed_context ?C wb) (operand_ns r wb) d pv (with_ns r wb) t1 = (Inr (dr1, sub1), u1)"
    and c1: "cl_StatusUpdate (r_Client r) sub1 u1 = (Inr wb1, s1)"
    using managed_success [OF run1 assms(3)] assms(6) by (metis Inr_inject Pair_inject)
  note f1 = status_conditions.evaluate_facts [OF assms(1) e1 refl pf(1) managed_context_simps]
  have st1: "Status wb1 = Status sub1" using assms(2) c1 by (auto simp: echoes_status_def)
  have "PhaseReady \<noteq> []" by (simp add: phase_defs)
  have dr1: "dr1" using f1(14) assms(9) st1 by simp
  have later: "\<not> first_visit wb1"
    using status_conditions.evaluate_phase [OF assms(1) e1 refl] st1 by (auto simp: first_visit_def phase_enum_def phase_defs)
  obtain dr2 sub2 u2 where
    e2: "evaluate_status r (managed_context ?C wb1) (operand_ns r wb1) d pv (with_ns r wb1) t2 = (Inr (dr2, sub2), u2)"
    and c2: "cl_StatusUpdate (r_Client r) sub2 u2 = (Inr wb2, s2)"
    using managed_success [OF run2 later] assms(7) by (metis Inr_inject Pair_inject)
  note f2 = status_conditions.evaluate_facts [OF assms(1) e2 refl pf(1) managed_context_simps]
  have st2: "Status wb2 = Status sub2" using assms(2) c2 by (auto simp: echoes_status_def)
  have dr2: "dr2" using f2(14) assms(10) st2 by simp
  have pending: "reports r wb1 conditionTypeReady
       \<or> map_option cond_Reason (FindStatusCondition ?C (Conditions (Status wb1)) conditionTypeReady)
           = Some ''PlatformVersionPending''"
    using f1(1,2) dr1 st1 by auto
  have done2: "HandshakeComplete pv (Releases (Status wb2))" if hr: "HandshakeRequired d"
  proof -
    have "rel_Version (GetPlatformRelease (Releases (Status wb1))) = pv
      \<or> map_option cond_Reason (FindStatusCondition ?C (Conditions (Status wb1)) conditionTypeReady)
          = Some ''PlatformVersionPending''"
      using f1(1) pending hr st1 pf(2) assms(8) by (auto simp: HandshakeComplete_def)
    then show ?thesis
      using status_conditions.evaluate_handshake [OF assms(1) e2 [simplified dr2] refl pf(1,2) assms(8)]
        dr2 st2 by auto
  qed
  have "HandshakeComplete pv rs = (rel_Version (GetPlatformRelease rs) = pv)" for rs
    using pf(2) assms(8) by (simp add: HandshakeComplete_def)
  with f2(1) st2 dr2 done2 pending show ?thesis by auto
qed

end
