(* ===== verification/Lifecycle.thy ===== *)
theory Lifecycle
  imports Reconcile_Properties
begin

text \<open>
  The life of a resource around \<open>reconcileManaged\<close>: the finalizer, deletion, and the management state
  Removed.
\<close>

text \<open>An update of the resource that the API server accepts stores the submitted finalizers.\<close>

definition echoes_update :: "'s client \<Rightarrow> bool" where
  "echoes_update c \<longleftrightarrow>
     (\<forall>wb s wb' s'. cl_UpdateWorkbenches c wb s = (Inr wb', s') \<longrightarrow> Finalizers wb' = Finalizers wb)"

lemma removed_status_facts:
  assumes "status_conditions C"
  shows "t \<in> {conditionTypeReady, conditionTypeProvisioningSucceeded, conditionTypeWorkbenchesV2Ready,
      conditionTypeIngressContractReady} \<Longrightarrow>
    \<not> IsStatusConditionTrue C (Conditions (Status (removed_status C wb))) t"
    and "map_option cond_Reason (FindStatusCondition C (Conditions (Status (removed_status C wb))) conditionTypeReady)
      = Some ManagementStateRemoved"
    and "Releases (Status (removed_status C wb)) = []"
    and "st_Distribution (Status (removed_status C wb)) = zero_Distribution"
    and "st_IngressContract (Status (removed_status C wb)) = zero_IngressContractStatus"
    and "Phase (Status (removed_status C wb)) = PhaseFailed"
    and "ObservedGeneration (Status (removed_status C wb)) = Generation wb"
    and "Spec (removed_status C wb) = Spec wb" and "Finalizers (removed_status C wb) = Finalizers wb"
  using type_neq
  by (auto simp: removed_status_def Let_def status_conditions.mark_facts [OF assms]
      sanitized_def ManagementStateRemoved_def)

text \<open>
  C13: The finalizer is released only after a complete clean-up. Reconciling a deleted resource that
  carries the finalizer either reports the clean-up's error and leaves the resource alone, or submits
  it without the finalizer (and with every other finalizer, spec and status as they were) from a state
  in which no managed object of the component is left. A resource without the finalizer is left
  alone. In no case is an object removed that the component does not manage.
\<close>

theorem delete_releases_after_cleanup:
  assumes "cluster (r_Client r) (r_Unstructured r) live" and "finalizers (r_Finalizers r)"
  shows "if workbenchesFinalizer \<in> set (Finalizers wb)
    then \<exists>res s1. cleanupManagedResources r (operand_ns r wb) s = (res, s1)
      \<and> (\<forall>ref obj. live s ref = Some obj \<longrightarrow>
           \<not> managed (r_Unstructured r) (operand_ns r wb) obj \<longrightarrow> live s1 ref = Some obj)
      \<and> (case res of
           Some err \<Rightarrow> reconcileDelete r wb s = (((0, Some err), wb), s1)
         | None \<Rightarrow>
             (\<forall>ref obj. live s1 ref = Some obj \<longrightarrow> \<not> managed (r_Unstructured r) (operand_ns r wb) obj)
             \<and> (\<exists>sub. set (Finalizers sub) = set (Finalizers wb) - {workbenchesFinalizer}
                  \<and> Spec sub = Spec wb \<and> Status sub = Status wb
                  \<and> reconcileDelete r wb s =
                      (case cl_UpdateWorkbenches (r_Client r) sub s1 of
                         (Inl err, s2) \<Rightarrow> (((0, Some (WrapErr ''failed to remove finalizer: '' err)), sub), s2)
                       | (Inr wb', s2) \<Rightarrow> (((0, None), wb'), s2))))
    else reconcileDelete r wb s = (((0, None), wb), s)"
proof (cases "workbenchesFinalizer \<in> set (Finalizers wb)")
  case True
  note z = finalizers.contains [OF assms(2)] finalizers.remove [OF assms(2)]
  obtain res s1 where c: "cleanupManagedResources r (operand_ns r wb) s = (res, s1)"
    by (metis prod.exhaust)
  let ?sub = "wb\<lparr>Finalizers := RemoveFinalizer (r_Finalizers r) (Finalizers wb) workbenchesFinalizer\<rparr>"
  have run: "reconcileDelete r wb s =
      (case res of
         Some err \<Rightarrow> (((0, Some err), wb), s1)
       | None \<Rightarrow> (case cl_UpdateWorkbenches (r_Client r) ?sub s1 of
                    (Inl err, s2) \<Rightarrow> (((0, Some (WrapErr ''failed to remove finalizer: '' err)), ?sub), s2)
                  | (Inr wb', s2) \<Rightarrow> (((0, None), wb'), s2)))"
    using True by (simp add: reconcileDelete_def z Let_def c split: option.split)
  have sub: "set (Finalizers ?sub) = set (Finalizers wb) - {workbenchesFinalizer}"
    "Spec ?sub = Spec wb" "Status ?sub = Status wb"
    by (simp_all add: z)
  note facts = cleanup_facts [OF assms(1) c]
  show ?thesis
  proof (cases res)
    case None
    then have gone: "\<forall>ref obj. live s1 ref = Some obj \<longrightarrow> \<not> managed (r_Unstructured r) (operand_ns r wb) obj"
      using facts(3) by blast
    have submitted: "\<exists>sub. set (Finalizers sub) = set (Finalizers wb) - {workbenchesFinalizer}
        \<and> Spec sub = Spec wb \<and> Status sub = Status wb
        \<and> reconcileDelete r wb s =
            (case cl_UpdateWorkbenches (r_Client r) sub s1 of
               (Inl err, s2) \<Rightarrow> (((0, Some (WrapErr ''failed to remove finalizer: '' err)), sub), s2)
             | (Inr wb', s2) \<Rightarrow> (((0, None), wb'), s2))"
      using run None sub by (intro exI [of _ ?sub]) simp
    have kept: "\<forall>ref obj. live s ref = Some obj \<longrightarrow>
        \<not> managed (r_Unstructured r) (operand_ns r wb) obj \<longrightarrow> live s1 ref = Some obj"
      using facts(2) by blast
    show ?thesis
      unfolding if_P [OF True] using None gone submitted kept
      by (intro exI [of _ res] exI [of _ s1] conjI) (rule c, simp_all only: option.case simp_thms)
  next
    case (Some err)
    with True c facts(2) run show ?thesis by auto
  qed
qed (simp add: reconcileDelete_def finalizers.contains [OF assms(2)] Let_def)

definition example_deleted :: Workbenches where
  "example_deleted = example_wb\<lparr>Finalizers := [''other'', workbenchesFinalizer], Deleting := True\<rparr>"

theorem delete_releases_after_cleanup_witness:
  "\<exists>wb' s'. reconcileDelete example_gc_reconciler example_deleted example_store = (((0, None), wb'), s')
     \<and> set (Finalizers wb') = {''other''}"
proof -
  let ?r = example_gc_reconciler
  have r: "r_Client ?r = store_client documented_unstructured"
    "r_Unstructured ?r = documented_unstructured" "r_Finalizers ?r = list_finalizers"
    by (simp_all add: example_gc_reconciler_def empty_reconciler_def)
  have up: "cl_UpdateWorkbenches (r_Client ?r) wb s = (Inr wb, s)" for wb s
    by (simp add: r store_client_def empty_client_def)
  have f: "workbenchesFinalizer \<in> set (Finalizers example_deleted)"
    "set (Finalizers example_deleted) - {workbenchesFinalizer} = {''other''}"
    by (auto simp: example_deleted_def workbenchesFinalizer_def)
  have "cluster (r_Client ?r) (r_Unstructured ?r) (store_live documented_unstructured)"
    "finalizers (r_Finalizers ?r)"
    using store.cluster_axioms listed.finalizers_axioms by (simp_all only: r)
  note del = delete_releases_after_cleanup [OF this, of example_deleted example_store]
  obtain s1 where c: "cleanupManagedResources ?r (operand_ns ?r example_deleted) example_store = (None, s1)"
    using example_cleanup by (metis prod.collapse)
  obtain sub where "set (Finalizers sub) = {''other''}"
    "reconcileDelete ?r example_deleted example_store =
       (case cl_UpdateWorkbenches (r_Client ?r) sub s1 of
          (Inl err, s2) \<Rightarrow> (((0, Some (WrapErr ''failed to remove finalizer: '' err)), sub), s2)
        | (Inr wb', s2) \<Rightarrow> (((0, None), wb'), s2))"
    using del f(1) unfolding c f(2) by auto
  then show ?thesis by (simp add: up)
qed

text \<open>
  C15: Removing the component withdraws every promise. When the management state is Removed and the
  clean-up succeeds, the submitted status reports Ready, ProvisioningSucceeded, WorkbenchesV2Ready and
  IngressContractReady as not True, with the reason Removed, holds no releases, no distribution and no
  ingress evidence, observes the current generation and has phase Failed; and no managed object is
  left. When the clean-up fails, the error is reported and the status fails closed with the reason
  CleanupFailed.
\<close>

theorem removed_withdraws_status:
  assumes "status_conditions (r_Conditions r)" and "cluster (r_Client r) (r_Unstructured r) live"
    and "cleanupManagedResources r (operand_ns r wb) s = (res, s1)"
  shows "\<exists>sub.
    (case res of
       None \<Rightarrow>
         reconcileRemoved r wb s =
           (case cl_StatusUpdate (r_Client r) sub s1 of
              (Inl err, s2) \<Rightarrow> (((0, Some err), sub), s2)
            | (Inr wb', s2) \<Rightarrow> (((0, None), wb'), s2))
         \<and> (\<forall>t \<in> {conditionTypeReady, conditionTypeProvisioningSucceeded, conditionTypeWorkbenchesV2Ready,
                conditionTypeIngressContractReady}. \<not> reports r sub t)
         \<and> map_option cond_Reason (FindStatusCondition (r_Conditions r) (Conditions (Status sub)) conditionTypeReady)
             = Some ManagementStateRemoved
         \<and> Releases (Status sub) = [] \<and> st_Distribution (Status sub) = zero_Distribution
         \<and> st_IngressContract (Status sub) = zero_IngressContractStatus
         \<and> ObservedGeneration (Status sub) = Generation wb \<and> Phase (Status sub) = PhaseFailed
         \<and> (\<forall>ref obj. live s1 ref = Some obj \<longrightarrow> \<not> managed (r_Unstructured r) (operand_ns r wb) obj)
     | Some err \<Rightarrow>
         failed_closed (r_Conditions r) wb ''CleanupFailed'' err sub
         \<and> reconcileRemoved r wb s =
             (case cl_StatusUpdate (r_Client r) sub s1 of
                (Inl _, s2) \<Rightarrow> (((0, Some err), sub), s2)
              | (Inr wb', s2) \<Rightarrow> (((0, Some err), wb'), s2)))"
proof (cases res)
  case None
  note facts = removed_status_facts [OF assms(1), where wb = "with_ns r wb"]
  have "reconcileRemoved r wb s =
      (case cl_StatusUpdate (r_Client r) (removed_status (r_Conditions r) (with_ns r wb)) s1 of
         (Inl err, s2) \<Rightarrow> (((0, Some err), removed_status (r_Conditions r) (with_ns r wb)), s2)
       | (Inr wb', s2) \<Rightarrow> (((0, None), wb'), s2))"
    using assms(3) None by (simp add: reconcileRemoved_def Let_def)
  with None facts cleanup_facts(3) [OF assms(2,3)] show ?thesis
    by (intro exI [of _ "removed_status (r_Conditions r) (with_ns r wb)"]) auto
next
  case (Some err)
  let ?sub = "error_status (r_Conditions r) (with_ns r wb) ''CleanupFailed'' err"
  have "failed_closed (r_Conditions r) wb ''CleanupFailed'' err ?sub"
    using error_status_closed [OF assms(1), of "''CleanupFailed''" "with_ns r wb" err]
    by (simp add: failed_closed_def)
  moreover have "reconcileRemoved r wb s =
             (case cl_StatusUpdate (r_Client r) ?sub s1 of
                (Inl _, s2) \<Rightarrow> (((0, Some err), ?sub), s2)
              | (Inr wb', s2) \<Rightarrow> (((0, Some err), wb'), s2))"
    using assms(3) Some by (simp add: reconcileRemoved_def Let_def setErrorStatus_def)
  ultimately show ?thesis using Some by auto
qed

theorem removed_withdraws_status_witness:
  "\<exists>wb' s'. reconcileRemoved example_gc_reconciler example_wb example_store = (((0, None), wb'), s')
     \<and> Releases (Status wb') = [] \<and> \<not> reports example_gc_reconciler wb' conditionTypeReady"
proof -
  let ?r = example_gc_reconciler
  have r: "r_Client ?r = store_client documented_unstructured"
    "r_Unstructured ?r = documented_unstructured" "r_Conditions ?r = documented_conditions"
    by (simp_all add: example_gc_reconciler_def empty_reconciler_def)
  obtain s1 where run: "cleanupManagedResources ?r (operand_ns ?r example_wb) example_store = (None, s1)"
    using example_cleanup by (metis prod.collapse)
  have up: "cl_StatusUpdate (r_Client ?r) wb s = (Inr wb, s)" for wb s
    by (simp add: r store_client_def empty_client_def)
  have "status_conditions (r_Conditions ?r)"
    "cluster (r_Client ?r) (r_Unstructured ?r) (store_live documented_unstructured)"
    using store.cluster_axioms documented.status_conditions_axioms by (simp_all only: r)
  from removed_withdraws_status [OF this run] up show ?thesis by auto
qed

text \<open>A run for a resource that is not being deleted: the finalizer comes first.\<close>

lemma Reconcile_live:
  assumes "finalizers (r_Finalizers r)" and "cl_GetWorkbenches (r_Client r) name s = (Inr wb, s1)"
    and "\<not> Deleting wb"
  shows "Reconcile r name s =
    (case (if workbenchesFinalizer \<in> set (Finalizers wb) then (Inr wb, s1)
           else cl_UpdateWorkbenches (r_Client r)
             (wb\<lparr>Finalizers := AddFinalizer (r_Finalizers r) (Finalizers wb) workbenchesFinalizer\<rparr>) s1) of
       (Inl err, s2) \<Rightarrow> (((0, Some (WrapErr ''failed to add finalizer: '' err)), Some wb), s2)
     | (Inr wb1, s2) \<Rightarrow> map_prod (map_prod id Some) id
         (if ManagementState (Spec wb1) = ManagementStateRemoved
          then reconcileRemoved r wb1 s2 else reconcileManaged r wb1 s2))"
  using assms(2,3)
  by (auto simp: Reconcile_def Let_def finalizers.contains [OF assms(1)] split: prod.split sum.split)

text \<open>
  C14: Every reconcile is guarded by the finalizer. A resource that cannot be read ends the run, without
  an error exactly when it is gone. A resource under deletion is only ever deleted. Any other one
  carries the finalizer before the operator does anything else for it: when it has to be added and
  the update fails, the run stops with that error after this one call; otherwise the stored resource
  carries the finalizer and the management state alone decides between removal and management.
\<close>

theorem reconcile_guarded_by_finalizer:
  assumes "finalizers (r_Finalizers r)" and "echoes_update (r_Client r)"
    and "cl_GetWorkbenches (r_Client r) name s = (res, s1)"
  shows "case res of
      Inl err \<Rightarrow> Reconcile r name s = (((0, if IsNotFound err then None else Some err), None), s1)
    | Inr wb \<Rightarrow>
        if Deleting wb
        then \<exists>out wb' s2. reconcileDelete r wb s1 = ((out, wb'), s2) \<and> Reconcile r name s = ((out, Some wb'), s2)
        else
          (\<exists>sub err s2. workbenchesFinalizer \<notin> set (Finalizers wb)
             \<and> cl_UpdateWorkbenches (r_Client r) sub s1 = (Inl err, s2)
             \<and> Reconcile r name s = (((0, Some (WrapErr ''failed to add finalizer: '' err)), Some wb), s2))
          \<or> (\<exists>wb1 s2 out wb' s3.
               workbenchesFinalizer \<in> set (Finalizers wb1)
             \<and> (if workbenchesFinalizer \<in> set (Finalizers wb) then wb1 = wb \<and> s2 = s1
                else \<exists>sub. Spec sub = Spec wb \<and> Status sub = Status wb
                  \<and> set (Finalizers sub) = insert workbenchesFinalizer (set (Finalizers wb))
                  \<and> cl_UpdateWorkbenches (r_Client r) sub s1 = (Inr wb1, s2))
             \<and> (if ManagementState (Spec wb1) = ManagementStateRemoved
                then reconcileRemoved r wb1 s2 else reconcileManaged r wb1 s2) = ((out, wb'), s3)
             \<and> Reconcile r name s = ((out, Some wb'), s3))"
proof (cases res)
  case (Inl err)
  then show ?thesis using assms(3) by (simp add: Reconcile_def)
next
  case (Inr wb)
  note z = finalizers.contains [OF assms(1)] finalizers.add [OF assms(1)]
  show ?thesis
  proof (cases "Deleting wb")
    case True
    then show ?thesis
      using assms(3) Inr by (cases "reconcileDelete r wb s1") (auto simp: Reconcile_def Let_def)
  next
    case False
    note run = Reconcile_live [OF assms(1) assms(3) [unfolded Inr] False]
    let ?next = "\<lambda>wb1 s2. if ManagementState (Spec wb1) = ManagementStateRemoved
        then reconcileRemoved r wb1 s2 else reconcileManaged r wb1 s2"
    have go: "\<exists>out wb' s3. ?next wb1 s2 = ((out, wb'), s3)
        \<and> map_prod (map_prod id Some) id (?next wb1 s2) = ((out, Some wb'), s3)" for wb1 s2
      by (cases "?next wb1 s2") auto
    show ?thesis
    proof (cases "workbenchesFinalizer \<in> set (Finalizers wb)")
      case has: True
      with run go [of wb s1] Inr False show ?thesis by auto
    next
      case lacks: False
      let ?sub = "wb\<lparr>Finalizers := AddFinalizer (r_Finalizers r) (Finalizers wb) workbenchesFinalizer\<rparr>"
      have sub: "Spec ?sub = Spec wb" "Status ?sub = Status wb"
        "set (Finalizers ?sub) = insert workbenchesFinalizer (set (Finalizers wb))"
        by (simp_all add: z)
      obtain u s2 where u: "cl_UpdateWorkbenches (r_Client r) ?sub s1 = (u, s2)" by (metis prod.exhaust)
      show ?thesis
      proof (cases u)
        case (Inl err)
        with u run lacks False \<open>res = Inr wb\<close> show ?thesis by auto
      next
        case upd: (Inr wb1)
        then have "workbenchesFinalizer \<in> set (Finalizers wb1)"
          using assms(2) u sub(3) unfolding echoes_update_def by (metis insertI1)
        then show ?thesis
          using u run lacks False Inr upd sub go [of wb1 s2] by (simp only: sum.case prod.case if_False) blast
      qed
    qed
  qed
qed

text \<open>A server that holds one resource.\<close>

definition example_held :: "unit reconciler" where
  "example_held = empty_reconciler\<lparr>r_Client := empty_client\<lparr>cl_GetWorkbenches := (\<lambda>_ s. (Inr example_wb, s))\<rparr>\<rparr>"

theorem reconcile_guarded_by_finalizer_witness:
  "\<exists>out wb'. Reconcile example_held WorkbenchesInstanceName () = ((out, Some wb'), ())"
proof -
  have "finalizers (r_Finalizers example_held)"
    using listed.finalizers_axioms by (simp add: example_held_def empty_reconciler_def)
  moreover have "echoes_update (r_Client example_held)"
    by (simp add: echoes_update_def example_held_def empty_client_def)
  moreover have "cl_GetWorkbenches (r_Client example_held) WorkbenchesInstanceName () = (Inr example_wb, ())"
    by (simp add: example_held_def)
  ultimately show ?thesis
    using reconcile_guarded_by_finalizer [of example_held WorkbenchesInstanceName "()" "Inr example_wb" "()"]
    by (auto simp: example_wb_def)
qed

section \<open>What the API server accepts\<close>

text \<open>The CRD admits six phases, and a condition must have a reason.\<close>

definition status_admissible :: "Workbenches \<Rightarrow> bool" where
  "status_admissible wb \<longleftrightarrow>
     Phase (Status wb) \<in> phase_enum \<and> (\<forall>c \<in> set (Conditions (Status wb)). cond_Reason c \<noteq> [])"

lemma sanitized_admissible: "Phase (Status wb) \<in> phase_enum \<Longrightarrow> status_admissible (sanitized wb)"
  by (simp add: status_admissible_def sanitize_reasons)

lemma echoed_admissible:
  assumes "echoes_status c" and "cl_StatusUpdate c wb s = (Inr wb', s')" and "status_admissible wb"
  shows "status_admissible wb'"
proof -
  have "Status wb' = Status wb" using assms(1,2) by (auto simp: echoes_status_def)
  with assms(3) show ?thesis by (simp add: status_admissible_def)
qed

lemma submitted_admissible:
  "status_admissible (sanitized (set_phase PhasePending wb))"
  "status_admissible (error_status C wb reason err)" "status_admissible (removed_status C wb)"
  by (auto simp: error_status_def removed_status_def set_phase_def phase_enum_def Let_def
      intro!: sanitized_admissible)

lemma evaluated_admissible:
  assumes "evaluate_status r ctx ns d pv wb s = (Inr (dr, wb'), s')"
  shows "status_admissible wb'"
  using assms
  by (auto simp: evaluate_status_def set_phase_def Let_def intro!: sanitized_admissible
      split: prod.splits sum.splits)

lemma error_status_published:
  assumes "echoes_status (r_Client r)" and "setErrorStatus r wb reason err s = ((out, wb'), s')"
  shows "status_admissible wb'"
proof (cases "fst (cl_StatusUpdate (r_Client r) (error_status (r_Conditions r) wb reason err) s)")
  case (Inl e)
  with assms(2) have "wb' = error_status (r_Conditions r) wb reason err"
    by (auto simp: setErrorStatus_def Let_def split: prod.splits)
  then show ?thesis by (simp add: submitted_admissible)
next
  case (Inr wb2)
  with assms(2) have "cl_StatusUpdate (r_Client r) (error_status (r_Conditions r) wb reason err) s = (Inr wb', s')"
    by (auto simp: setErrorStatus_def Let_def split: prod.splits)
  with assms(1) show ?thesis by (rule echoed_admissible) (rule submitted_admissible)
qed

text \<open>
  C23: Every status that is published is well-typed. Whatever the spec, the manifests and the cluster
  look like, and whether a step failed or not, the status that a reconcile of a managed or a removed
  resource leaves has one of the six phases of the CRD, and each of its conditions, also those written by
  other controllers, has a reason.
\<close>

theorem published_status_admissible:
  assumes "echoes_status (r_Client r)"
  shows "(reconcileManaged r wb s = ((out, wb'), s') \<longrightarrow> status_admissible wb')
    \<and> (reconcileRemoved r wb s = ((out, wb'), s') \<longrightarrow> status_admissible wb')"
proof -
  note keep = echoed_admissible [OF assms] and failed = error_status_published [OF assms]
  have "status_admissible wb'" if run: "reconcileManaged r wb s = ((out, wb'), s')"
  proof (cases "Phase (Status wb) = [] \<and> ObservedGeneration (Status wb) = 0")
    case True
    with run show ?thesis
      by (auto simp: reconcileManaged_def Let_def submitted_admissible intro: keep [OF _ submitted_admissible(1)]
          split: prod.splits sum.splits)
  next
    case False
    with run show ?thesis
      unfolding reconcileManaged_def Let_def
      by (auto simp del: split_paired_All split_paired_Ex dest: failed
          intro: evaluated_admissible keep [OF _ evaluated_admissible]
          split: prod.splits sum.splits)
  qed
  moreover have "status_admissible wb'" if "reconcileRemoved r wb s = ((out, wb'), s')"
    using that
    by (auto simp: reconcileRemoved_def Let_def submitted_admissible dest: failed
        intro: keep [OF _ submitted_admissible(3)] split: option.splits prod.splits sum.splits)
  ultimately show ?thesis by blast
qed

theorem published_status_admissible_witness:
  "\<exists>out wb' s'. reconcileManaged example_managed example_pending [] = ((out, wb'), s') \<and> status_admissible wb'"
proof -
  obtain out wb' s' where run: "reconcileManaged example_managed example_pending [] = ((out, wb'), s')"
    by (metis prod.exhaust)
  with published_status_admissible [OF example_echoes, of example_pending "[]" out wb' s'] show ?thesis by blast
qed

end
