(* ===== verification/Operator_Machine.thy ===== *)
theory Operator_Machine
  imports Lifecycle
begin

text \<open>
  The operator and its surroundings as a state machine: runs of \<open>Reconcile\<close> interleaved with users who
  create, edit and delete the resource, and with other actors in the cluster. The invariant is that no
  operand of a namespace that stays the operand namespace outlives the resource that it belongs to.
\<close>

section \<open>Reconciles and the resource\<close>

text \<open>What the machine keeps of the resource: its finalizers, whether it is being deleted, and its spec.\<close>

type_synonym resource = "(string list \<times> bool \<times> WorkbenchesSpec) option"

definition resource_of :: "Workbenches \<Rightarrow> string list \<times> bool \<times> WorkbenchesSpec" where
  "resource_of wb = (Finalizers wb, Deleting wb, Spec wb)"

text \<open>Between reading the resource and writing its status, no step of the reconciler touches it.\<close>

context operating
begin

lemma provision_keeps: "provision r wb ns s = (res, s') \<Longrightarrow> view s' = view s"
proof -
  have d: "resolveDesiredDistribution r wb s = (x, s') \<Longrightarrow> view s' = view s" for x s s'
    by (auto simp: resolveDesiredDistribution_def ReadDesiredDistribution_def Let_def dest!: client_calls
        split: prod.splits sum.splits option.splits if_splits)
  have v: "readPlatformVersion r wb s = (x, s') \<Longrightarrow> view s' = view s" for x s s'
    by (auto simp: readPlatformVersion_def ReadPlatformVersion_def dest!: client_calls
        split: prod.splits sum.splits option.splits if_splits)
  have n: "ensureGeneratedNamespace r n s = (x, s') \<Longrightarrow> view s' = view s" for n x s s'
    by (auto simp: ensureGeneratedNamespace_def Let_def dest!: client_calls
        split: prod.splits sum.splits if_splits)
  have c: "configureDependencies r wb s = (x, s') \<Longrightarrow> view s' = view s" for x s s'
    by (auto simp: configureDependencies_def Let_def dest!: n split: prod.splits sum.splits if_splits)
  show "provision r wb ns s = (res, s') \<Longrightarrow> view s' = view s"
    by (auto simp: provision_def dest!: d v c renderAndApply_keeps
        split: prod.splits sum.splits option.splits)
qed

lemma record_provisioned_keeps: "record_provisioned r wb s = (res, s') \<Longrightarrow> view s' = view s"
  by (auto simp: record_provisioned_def populateReleases_def CollectWorkbenchesReleases_def loadMetadataFile_def
      Let_def dest!: file_calls split: prod.splits sum.splits if_splits)

lemma sync_ingress_keeps: "syncIngressContractStatus r wb s = (res, s') \<Longrightarrow> view s' = view s"
proof -
  have o: "observeIngressContract r wb k s = (x, s') \<Longrightarrow> view s' = view s" for k x s s'
    by (auto simp: observeIngressContract_def Let_def dest!: client_calls
        split: prod.splits sum.splits option.splits if_splits)
  have g: "ingressContractRolloutGeneration r wb k s = (x, s') \<Longrightarrow> view s' = view s" for k x s s'
    by (auto simp: ingressContractRolloutGeneration_def Let_def dest!: client_calls
        split: prod.splits sum.splits option.splits)
  show "syncIngressContractStatus r wb s = (res, s') \<Longrightarrow> view s' = view s"
    by (auto simp: syncIngressContractStatus_def dest!: o g split: prod.splits option.splits if_splits)
qed

lemma workbenchesV2_keeps: "setWorkbenchesV2Condition r wb s = (res, s') \<Longrightarrow> view s' = view s"
proof -
  have m: "workbenchesV2ManifestsExist r s = (x, s') \<Longrightarrow> view s' = view s" for x s s'
    by (auto simp: workbenchesV2ManifestsExist_def Let_def dest!: file_calls split: prod.splits sum.splits)
  have c: "checkWorkspacesControllerDeployment r wb s = (x, s') \<Longrightarrow> view s' = view s" for x s s'
    by (auto simp: checkWorkspacesControllerDeployment_def Let_def dest!: client_calls
        split: prod.splits sum.splits)
  show "setWorkbenchesV2Condition r wb s = (res, s') \<Longrightarrow> view s' = view s"
    by (auto simp: setWorkbenchesV2Condition_def Let_def dest!: m c split: prod.splits bool.splits if_splits)
qed

lemma evaluate_status_keeps: "evaluate_status r ctx ns d pv wb s = (res, s') \<Longrightarrow> view s' = view s"
proof -
  have c: "checkDeployments r wb s = (x, s') \<Longrightarrow> view s' = view s" for wb x s s'
    by (auto simp: checkDeployments_def Let_def dest!: client_calls split: prod.splits sum.splits)
  have i: "syncImageStreamsAvailable C (r_Client r) wb ns s = (x, s') \<Longrightarrow> view s' = view s" for C wb x s s'
    by (auto simp: syncImageStreamsAvailable_def dest!: client_calls split: prod.splits sum.splits)
  show "evaluate_status r ctx ns d pv wb s = (res, s') \<Longrightarrow> view s' = view s"
    by (auto simp: evaluate_status_def Let_def
        dest!: c i record_provisioned_keeps sync_ingress_keeps workbenchesV2_keeps
        split: prod.splits sum.splits)
qed

end

text \<open>
  What the API server promises about the resource. A read is current. A status update leaves finalizers,
  deletion and spec alone. An accepted update stores the submitted finalizers, and drops a resource under
  deletion whose last finalizer went; an update that reports an error may still have been carried out.
\<close>

locale operator_cluster =
  operating r resource + cluster "r_Client r" "r_Unstructured r" live + finalizers "r_Finalizers r"
  for r :: "'s reconciler" and resource :: "'s \<Rightarrow> resource" and live :: "'s \<Rightarrow> objectRef \<Rightarrow> object option" +
  assumes get_resource: "cl_GetWorkbenches (r_Client r) n s = (res, s') \<Longrightarrow>
      resource s' = resource s \<and> live s' = live s \<and> (\<forall>wb. res = Inr wb \<longrightarrow> resource s = Some (resource_of wb))"
    and update_status: "cl_StatusUpdate (r_Client r) wb s = (res1, s') \<Longrightarrow> resource s' = resource s \<and> live s' = live s"
    and update_keeps: "cl_UpdateWorkbenches (r_Client r) wb s = (res1, s') \<Longrightarrow> live s' = live s"
    and update_stores: "cl_UpdateWorkbenches (r_Client r) wb s = (res1, s') \<Longrightarrow>
      resource s' = Some (resource_of wb) \<or> Deleting wb \<and> Finalizers wb = [] \<and> resource s' = None
      \<or> (\<exists>err. res1 = Inl err) \<and> resource s' = resource s"
    and update_returns: "cl_UpdateWorkbenches (r_Client r) wb s = (Inr wb', s') \<Longrightarrow> Spec wb' = Spec wb"
begin

lemma setErrorStatus_keeps: "setErrorStatus r wb reason err s = (res, s') \<Longrightarrow> resource s' = resource s"
  by (auto simp: setErrorStatus_def Let_def dest!: update_status split: prod.splits sum.splits)

lemma reconcileManaged_keeps: "reconcileManaged r wb s = (res, s') \<Longrightarrow> resource s' = resource s"
  by (auto simp: reconcileManaged_def Let_def
      dest!: update_status setErrorStatus_keeps provision_keeps evaluate_status_keeps
      split: prod.splits sum.splits if_splits)

lemma reconcileRemoved_keeps: "reconcileRemoved r wb s = (res, s') \<Longrightarrow> resource s' = resource s"
  by (auto simp: reconcileRemoved_def Let_def dest!: update_status setErrorStatus_keeps cleanup_keeps
      split: prod.splits sum.splits option.splits)

end

section \<open>The machine\<close>

text \<open>The resource carries the operator's finalizer.\<close>

definition guarded :: "resource \<Rightarrow> bool" where
  "guarded res \<longleftrightarrow> (\<exists>fs del sp. res = Some (fs, del, sp) \<and> workbenchesFinalizer \<in> set fs)"

text \<open>The operand namespace of the resource, if there is one, is \<open>ns\<close>.\<close>

definition resides :: "'s reconciler \<Rightarrow> string \<Rightarrow> resource \<Rightarrow> bool" where
  "resides r ns res \<longleftrightarrow> (\<forall>fs del sp. res = Some (fs, del, sp) \<longrightarrow> r_resolveOperandNamespace r (spec_Platform sp) = ns)"

text \<open>
  The steps: a run of the reconciler, as one step; the creation of the resource; an edit of its spec and
  finalizers, which does not take the operator's finalizer away and completes a deletion that nothing holds
  any more; the request to delete it, which removes it at once when nothing holds it; and a change by another
  actor, who may add and change whatever the component does not manage, and delete anything.
\<close>

inductive operator_step ::
  "'s reconciler \<Rightarrow> ('s \<Rightarrow> resource) \<Rightarrow> ('s \<Rightarrow> objectRef \<Rightarrow> object option) \<Rightarrow> string \<Rightarrow> 's \<Rightarrow> 's \<Rightarrow> bool"
  for r resource live ns where
  reconcile: "Reconcile r WorkbenchesInstanceName s = (out, s') \<Longrightarrow> operator_step r resource live ns s s'"
| create: "resource s = None \<Longrightarrow> resource s' = Some (fs, False, sp) \<Longrightarrow> live s' = live s \<Longrightarrow>
    operator_step r resource live ns s s'"
| edit: "resource s = Some (fs, del, sp) \<Longrightarrow> resource s' = (if del \<and> fs' = [] then None else Some (fs', del, sp')) \<Longrightarrow>
    (workbenchesFinalizer \<in> set fs \<Longrightarrow> workbenchesFinalizer \<in> set fs') \<Longrightarrow> live s' = live s \<Longrightarrow>
    operator_step r resource live ns s s'"
| delete: "resource s = Some (fs, del, sp) \<Longrightarrow>
    resource s' = (if fs = [] then None else Some (fs, True, sp)) \<Longrightarrow>
    live s' = live s \<Longrightarrow> operator_step r resource live ns s s'"
| others: "resource s' = resource s \<Longrightarrow>
    (\<And>ref obj. live s' ref = Some obj \<Longrightarrow> managed (r_Unstructured r) ns obj \<Longrightarrow> live s ref = Some obj) \<Longrightarrow>
    operator_step r resource live ns s s'"

text \<open>Every managed object has a resource that carries the finalizer.\<close>

definition orphan_free ::
  "'s reconciler \<Rightarrow> ('s \<Rightarrow> resource) \<Rightarrow> ('s \<Rightarrow> objectRef \<Rightarrow> object option) \<Rightarrow> string \<Rightarrow> 's \<Rightarrow> bool" where
  "orphan_free r resource live ns s \<longleftrightarrow>
     (\<forall>ref obj. live s ref = Some obj \<and> managed (r_Unstructured r) ns obj \<longrightarrow> guarded (resource s))"

lemma orphan_free_guarded: "guarded (resource s) \<Longrightarrow> orphan_free r resource live ns s"
  by (simp add: orphan_free_def)

lemma orphan_free_mono:
  "orphan_free r resource live ns s \<Longrightarrow> (guarded (resource s) \<Longrightarrow> guarded (resource s')) \<Longrightarrow>
   (\<And>ref obj. live s' ref = Some obj \<Longrightarrow> managed (r_Unstructured r) ns obj \<Longrightarrow> live s ref = Some obj) \<Longrightarrow>
   orphan_free r resource live ns s'"
  unfolding orphan_free_def by blast

context operator_cluster
begin

lemma delete_step:
  assumes "reconcileDelete r wb s = (out, s')" and res: "resource s = Some (resource_of wb)"
    and "orphan_free r resource live ns s" and ns: "resides r ns (resource s)"
  shows "orphan_free r resource live ns s' \<and> resides r ns (resource s')"
proof (cases "workbenchesFinalizer \<in> set (Finalizers wb)")
  case False
  with assms show ?thesis by (simp add: reconcileDelete_def contains Let_def)
next
  case True
  have at: "operand_ns r wb = ns" using res ns by (simp add: resides_def resource_of_def)
  obtain err s1 where c: "cleanupManagedResources r ns s = (err, s1)" by (metis prod.exhaust)
  have r1: "resource s1 = resource s" using cleanup_keeps [OF c] .
  show ?thesis
  proof (cases err)
    case (Some e)
    with assms(1) True c at have "s' = s1" by (simp add: reconcileDelete_def contains Let_def)
    with True res r1 ns show ?thesis
      by (auto simp: guarded_def resource_of_def intro!: orphan_free_guarded)
  next
    case None
    let ?sub = "wb\<lparr>Finalizers := RemoveFinalizer (r_Finalizers r) (Finalizers wb) workbenchesFinalizer\<rparr>"
    obtain u where u: "cl_UpdateWorkbenches (r_Client r) ?sub s1 = (u, s')"
      using assms(1) True c at None
      by (auto simp: reconcileDelete_def contains Let_def split: prod.splits sum.splits)
    have "\<not> managed (r_Unstructured r) ns obj" if "live s' ref = Some obj" for ref obj
      using cleanup_facts(3) [OF cluster_axioms c None] update_keeps [OF u] that by simp
    then have "orphan_free r resource live ns s'" by (auto simp: orphan_free_def)
    moreover have "resides r ns (resource s')"
      using update_stores [OF u] r1 ns res by (auto simp: resides_def resource_of_def)
    ultimately show ?thesis by simp
  qed
qed

text \<open>A run that goes on with a guarded resource leaves it guarded.\<close>

lemma guarded_run:
  assumes "(if ManagementState (Spec wb) = ManagementStateRemoved then reconcileRemoved r wb s
      else reconcileManaged r wb s) = (out, s')"
    and "resource s = Some (fs, del, sp)" and "workbenchesFinalizer \<in> set fs" and "resides r ns (Some (fs, del, sp))"
  shows "orphan_free r resource live ns s' \<and> resides r ns (resource s')"
proof -
  have "resource s' = resource s"
    using assms(1) reconcileRemoved_keeps reconcileManaged_keeps by (auto split: if_splits)
  with assms(2-4) show ?thesis by (auto simp: guarded_def intro!: orphan_free_guarded)
qed

text \<open>A run on a resource that lacks the finalizer adds it first, or ends there.\<close>

lemma unguarded_run:
  assumes run: "Reconcile r WorkbenchesInstanceName s = (out, s')"
    and g: "cl_GetWorkbenches (r_Client r) WorkbenchesInstanceName s = (Inr wb, s1)"
    and wb: "\<not> Deleting wb" "workbenchesFinalizer \<notin> set (Finalizers wb)"
    and free: "orphan_free r resource live ns s1" and ns: "resides r ns (resource s1)"
    and res: "resource s1 = Some (resource_of wb)"
  shows "orphan_free r resource live ns s' \<and> resides r ns (resource s')"
proof -
  let ?sub = "wb\<lparr>Finalizers := AddFinalizer (r_Finalizers r) (Finalizers wb) workbenchesFinalizer\<rparr>"
  obtain u s2 where u: "cl_UpdateWorkbenches (r_Client r) ?sub s1 = (u, s2)" by (metis prod.exhaust)
  have fin: "workbenchesFinalizer \<in> set (Finalizers ?sub)" by (simp add: add)
  have at: "resides r ns (Some (Finalizers ?sub, False, Spec wb))"
    using ns res by (simp add: resides_def resource_of_def)
  have added: "resource s2 = Some (Finalizers ?sub, False, Spec wb) \<or> (\<exists>err. u = Inl err) \<and> resource s2 = resource s1"
    using update_stores [OF u] wb(1) by (auto simp: resource_of_def)
  show ?thesis
  proof (cases u)
    case (Inl e)
    with run g wb u have "s' = s2" by (simp add: Reconcile_def Let_def contains)
    with added show ?thesis
      using fin at free ns update_keeps [OF u]
      by (auto simp: guarded_def orphan_free_def simp del: Workbenches.simps)
  next
    case (Inr wb1)
    then have stored: "resource s2 = Some (Finalizers ?sub, False, Spec wb)" using added by auto
    obtain out' where "(if ManagementState (Spec wb1) = ManagementStateRemoved then reconcileRemoved r wb1 s2
        else reconcileManaged r wb1 s2) = (out', s')"
      using Inr run g wb u by (auto simp: Reconcile_def Let_def contains split: prod.splits if_splits)
    from guarded_run [OF this stored fin at] show ?thesis .
  qed
qed

lemma reconcile_step:
  assumes run: "Reconcile r WorkbenchesInstanceName s = (out, s')"
    and free: "orphan_free r resource live ns s" and ns: "resides r ns (resource s)"
  shows "orphan_free r resource live ns s' \<and> resides r ns (resource s')"
proof -
  obtain res s1 where g: "cl_GetWorkbenches (r_Client r) WorkbenchesInstanceName s = (res, s1)"
    by (metis prod.exhaust)
  note one = get_resource [OF g]
  have s1: "orphan_free r resource live ns s1" "resides r ns (resource s1)"
    using free ns one by (auto simp: orphan_free_def)
  show ?thesis
  proof (cases res)
    case (Inl err)
    with run g have "s' = s1" by (simp add: Reconcile_def)
    with s1 show ?thesis by simp
  next
    case (Inr wb)
    with one have res1: "resource s1 = Some (resource_of wb)" by simp
    consider "Deleting wb" | "\<not> Deleting wb" "workbenchesFinalizer \<in> set (Finalizers wb)"
      | "\<not> Deleting wb" "workbenchesFinalizer \<notin> set (Finalizers wb)" by blast
    then show ?thesis
    proof cases
      case 1
      then obtain out' where "reconcileDelete r wb s1 = (out', s')"
        using run g Inr by (auto simp: Reconcile_def Let_def split: prod.splits)
      from delete_step [OF this res1 s1] show ?thesis .
    next
      case 2
      then obtain out' where "(if ManagementState (Spec wb) = ManagementStateRemoved then reconcileRemoved r wb s1
          else reconcileManaged r wb s1) = (out', s')"
        using run g Inr by (auto simp: Reconcile_def Let_def contains split: prod.splits if_splits)
      from guarded_run [OF this res1 [unfolded resource_of_def] 2(2)] s1(2) res1 show ?thesis
        by (simp add: resource_of_def)
    next
      case 3
      from unguarded_run [OF run g [unfolded Inr] 3 s1 res1] show ?thesis .
    qed
  qed
qed

lemma step_invariant:
  assumes "operator_step r resource live ns s s'"
    and free: "orphan_free r resource live ns s" and ns: "resides r ns (resource s)"
  shows "orphan_free r resource live ns s'"
  using assms(1)
proof (cases rule: operator_step.cases)
  case reconcile
  with reconcile_step free ns show ?thesis by blast
next
  case create
  with free show ?thesis by (auto simp: orphan_free_def guarded_def)
next
  case edit
  with free show ?thesis by (auto simp: orphan_free_def guarded_def split: if_splits)
next
  case delete
  with free ns show ?thesis by (auto simp: orphan_free_def guarded_def resides_def)
next
  case others
  with free ns show ?thesis by (auto intro: orphan_free_mono)
qed

end

text \<open>A configured applications namespace is the operand namespace of every spec.\<close>

lemma configured_resides:
  "configuredApplicationsNamespace (r_IsDNS1123Label r) (r_ApplicationsNamespace r) = ns \<Longrightarrow> ns \<noteq> [] \<Longrightarrow> resides r ns res"
  by (simp add: resides_def resolveOperandNamespace_def Let_def)

text \<open>
  The assumption on the namespace is needed: without a configured applications namespace it follows the
  platform of the spec, which may be edited, and neither clean-up nor garbage collection in the new
  namespace reaches the namespaced operands of the old one.
\<close>

lemma moved_operands_survive:
  assumes "cluster (r_Client r) (r_Unstructured r) live"
    and "live s ref = Some obj" and "managed (r_Unstructured r) ns obj" and "ns' \<noteq> ns"
    and "GroupVersionKind (r_Unstructured r) obj \<in> set cleanupGVKs"
  shows "cleanupManagedResources r ns' s = (err, s') \<Longrightarrow> live s' ref = Some obj"
    and "gcOrphanedResources r ns' desired s = (err, s') \<Longrightarrow> live s' ref = Some obj"
proof -
  have "set cleanupGVKs \<inter> set cleanupClusterGVKs = {}"
    by (simp add: cleanupGVKs_def cleanupClusterGVKs_def mk_gvk_def kind_defs)
  with assms(3-5) have other: "\<not> managed (r_Unstructured r) ns' obj" by (auto simp: managed_def)
  show "live s' ref = Some obj" if "cleanupManagedResources r ns' s = (err, s')"
    using cleanup_facts(2) [OF assms(1) that assms(2) other] .
  show "live s' ref = Some obj" if "gcOrphanedResources r ns' desired s = (err, s')"
    using gc_facts(2) [OF assms(1) that _ assms(2)] other that assms(2)
    by (cases "desired = []") (auto simp: gcOrphanedResources_def)
qed

section \<open>A server with one resource and a store of objects\<close>

type_synonym machine = "Workbenches option \<times> (objectRef \<times> object) list"

definition machine_client :: "machine client" where
  "machine_client =
     (let U = documented_unstructured
      in empty_client
        \<lparr>cl_GetWorkbenches := (\<lambda>_ s. (case fst s of None \<Rightarrow> Inl missing | Some wb \<Rightarrow> Inr wb, s)),
         cl_UpdateWorkbenches := (\<lambda>wb s. if fst s = None then (Inl missing, s)
           else (Inr wb, (if Deleting wb \<and> Finalizers wb = [] then None else Some wb, snd s))),
         cl_StatusUpdate := (\<lambda>wb s. case fst s of
             None \<Rightarrow> (Inl missing, s)
           | Some old \<Rightarrow> (Inr (old\<lparr>Status := Status wb\<rparr>), (Some (old\<lparr>Status := Status wb\<rparr>), snd s))),
         cl_List := (\<lambda>g scope sel s. (fst (cl_List (store_client U) g scope sel (snd s)), s)),
         cl_Delete := (\<lambda>obj s. (Inr (), (fst s, snd (cl_Delete (store_client U) obj (snd s))))),
         cl_Apply := (\<lambda>obj fo s. (Inr (), (fst s, AList.update (objectRefFrom U obj) obj (snd s))))\<rparr>)"

definition machine_reconciler :: "machine reconciler" where
  "machine_reconciler = empty_reconciler\<lparr>r_Client := machine_client, r_ApplicationsNamespace := ''opendatahub''\<rparr>"

definition machine_resource :: "machine \<Rightarrow> resource" where
  "machine_resource s = map_option resource_of (fst s)"

definition machine_live :: "machine \<Rightarrow> objectRef \<Rightarrow> object option" where
  "machine_live s = store_live documented_unstructured (snd s)"

lemma machine_cluster: "cluster machine_client documented_unstructured machine_live"
proof
  let ?U = documented_unstructured and ?c = "store_client documented_unstructured"
  note defs = machine_client_def machine_live_def Let_def
  have del: "cl_Delete ?c obj t = (Inr (), snd (cl_Delete ?c obj t))" for t obj
    by (simp add: store_client_def)
  fix s s' :: machine and ref obj obj' g scope sel items err res p
  have listed: "cl_List machine_client g scope sel s = (Inr items, s') \<Longrightarrow> cl_List ?c g scope sel (snd s) = (Inr items, snd s)"
    by (auto simp: machine_client_def store_client_def Let_def)
  show "machine_live s ref = Some obj \<Longrightarrow> objectRefFrom ?U obj = ref"
    unfolding machine_live_def by (rule store.live_ref)
  show "machine_live (snd (cl_List machine_client g scope sel s)) = machine_live s" by (simp add: defs)
  show "cl_List machine_client g scope sel s = (Inr items, s') \<Longrightarrow> obj \<in> set items \<Longrightarrow>
      matches ?U g scope sel obj \<and> machine_live s (objectRefFrom ?U obj) \<in> {None, Some obj}"
    unfolding machine_live_def by (rule store.list_sound [OF listed])
  show "cl_List machine_client g scope sel s = (Inr items, s') \<Longrightarrow> machine_live s ref = Some obj \<Longrightarrow>
      matches ?U g scope sel obj \<Longrightarrow> obj \<in> set items"
    unfolding machine_live_def by (rule store.list_complete [OF listed])
  show "cl_List machine_client g scope sel s = (Inl err, s') \<Longrightarrow> IsNoMatchError err \<Longrightarrow>
      machine_live s ref = Some obj \<Longrightarrow> GroupVersionKind ?U obj \<noteq> g"
    by (simp add: defs store_client_def)
  show "ref \<noteq> objectRefFrom ?U obj \<Longrightarrow> machine_live (snd (cl_Delete machine_client obj s)) ref = machine_live s ref"
    using store.delete_frame [of ref obj "snd s"] by (simp add: defs)
  show "machine_live (snd (cl_Delete machine_client obj s)) ref = Some obj' \<Longrightarrow> machine_live s ref = Some obj'"
    using store.delete_only [of obj "snd s" ref obj'] by (simp add: defs)
  show "cl_Delete machine_client obj s = (res, s') \<Longrightarrow> delete_errs p obj res = [] \<Longrightarrow>
      machine_live s' (objectRefFrom ?U obj) = None"
    using store.delete_gone [OF del [of obj "snd s"]] by (auto simp: defs)
qed

lemma machine_simps:
  "r_Client machine_reconciler = machine_client" "r_Unstructured machine_reconciler = documented_unstructured"
  "r_Finalizers machine_reconciler = list_finalizers"
  by (simp_all add: machine_reconciler_def empty_reconciler_def)

interpretation machine: operator_cluster machine_reconciler machine_resource machine_live
proof (rule operator_cluster.intro)
  show "operating machine_reconciler machine_resource"
    by unfold_locales
      (auto simp: machine_reconciler_def empty_reconciler_def machine_client_def empty_client_def empty_files_def
        machine_resource_def Let_def)
  show "cluster (r_Client machine_reconciler) (r_Unstructured machine_reconciler) machine_live"
    using machine_cluster by (simp add: machine_simps)
  show "finalizers (r_Finalizers machine_reconciler)"
    using listed.finalizers_axioms by (simp add: machine_simps)
  show "operator_cluster_axioms machine_reconciler machine_resource machine_live"
    by unfold_locales
      (auto simp: machine_simps machine_client_def machine_resource_def machine_live_def resource_of_def Let_def
        split: option.splits if_splits)
qed

section \<open>Properties\<close>

text \<open>
  C12: No operand outlives its resource. Start the machine in a state in which every managed object has a
  resource with the operator's finalizer, for instance in a cluster without managed objects, and let
  runs of the reconciler, whether they succeed or fail at any call, take turns with other actors and
  with users who create, delete and edit the resource but do not take the operator's finalizer away. In a
  process with a configured applications namespace, whatever the edits put into the spec, and without one
  as long as the spec keeps the same operand namespace, every state that is reached has this property
  again: while a managed object of the operand namespace is live, the resource exists and carries the
  finalizer, so the API server cannot drop it before the operator has cleaned up.
\<close>

theorem no_operand_outlives_resource:
  assumes "operator_cluster r resource live" and "orphan_free r resource live ns s"
    and "configuredApplicationsNamespace (r_IsDNS1123Label r) (r_ApplicationsNamespace r) = ns \<and> ns \<noteq> []
           \<and> (operator_step r resource live ns)\<^sup>*\<^sup>* s s'
       \<or> resides r ns (resource s) \<and> (\<lambda>t u. operator_step r resource live ns t u \<and> resides r ns (resource u))\<^sup>*\<^sup>* s s'"
  shows "\<forall>ref obj. live s' ref = Some obj \<and> managed (r_Unstructured r) ns obj \<longrightarrow>
    (\<exists>fs del sp. resource s' = Some (fs, del, sp) \<and> workbenchesFinalizer \<in> set fs)"
proof -
  let ?kept = "\<lambda>t u. operator_step r resource live ns t u \<and> resides r ns (resource u)"
  have "?kept\<^sup>*\<^sup>* s s' \<and> resides r ns (resource s)"
    using assms(3)
  proof
    assume c: "configuredApplicationsNamespace (r_IsDNS1123Label r) (r_ApplicationsNamespace r) = ns \<and> ns \<noteq> []
      \<and> (operator_step r resource live ns)\<^sup>*\<^sup>* s s'"
    then have "resides r ns res" for res using configured_resides by blast
    with c show ?thesis by simp
  qed blast
  then have "?kept\<^sup>*\<^sup>* s s'" and at: "resides r ns (resource s)" by blast+
  from this(1) have "orphan_free r resource live ns s' \<and> resides r ns (resource s')"
  proof (induction rule: rtranclp_induct)
    case base
    show ?case using assms(2) at by blast
  next
    case (step t u)
    with operator_cluster.step_invariant [OF assms(1)] show ?case by blast
  qed
  then show ?thesis by (auto simp: orphan_free_def guarded_def)
qed

text \<open>
  The resource of an operand is moved to another platform and deleted, and a run completes the deletion.
\<close>

definition example_machine :: machine where
  "example_machine = (Some (example_wb\<lparr>Finalizers := [workbenchesFinalizer]\<rparr>), example_store)"

lemma machine_cleanup: "fst (cleanupManagedResources machine_reconciler ns s) = None"
proof -
  have "fst (sweep_items machine_client keep p items s) = []" for keep p items s
    by (induction items arbitrary: s)
      (simp_all add: sweep_items_Cons machine_client_def delete_errs_def Let_def del: sweep_items.simps(2))
  then have "fst (sweep machine_client keep scope lp p gs s) = []" for keep scope lp p gs s
    by (induction gs arbitrary: s)
      (simp_all add: sweep_Cons del: sweep.simps(2), simp add: machine_client_def store_client_def Let_def)
  then have clean: "sweep machine_client keep scope lp p gs s =
      ([], snd (sweep machine_client keep scope lp p gs s))" for keep scope lp p gs s
    by (metis prod.collapse)
  show ?thesis
    unfolding cleanupManagedResources_def Let_def machine_simps
    by (subst clean, simp, subst clean, simp add: errors_Join_def)
qed

lemma machine_deletes:
  assumes "fst s = Some wb" and "Deleting wb" and "Finalizers wb = [workbenchesFinalizer]"
  shows "machine_resource (snd (Reconcile machine_reconciler WorkbenchesInstanceName s)) = None"
proof -
  let ?r = machine_reconciler
  obtain s1 where c: "cleanupManagedResources ?r (operand_ns ?r wb) s = (None, s1)"
    using machine_cleanup by (metis prod.collapse)
  have "fst s1 \<noteq> None"
    using machine.cleanup_keeps [OF c] assms(1) by (auto simp: machine_resource_def)
  with assms c show ?thesis
    by (auto simp: Reconcile_def reconcileDelete_def machine_simps machine_client_def list_finalizers_def
        machine_resource_def Let_def)
qed

theorem no_operand_outlives_resource_witness:
  "\<exists>s1 s2 out. (operator_step machine_reconciler machine_resource machine_live ''opendatahub'')\<^sup>*\<^sup>* example_machine s2
     \<and> Reconcile machine_reconciler WorkbenchesInstanceName s1 = (out, s2) \<and> machine_resource s2 = None
     \<and> (\<forall>ref obj. machine_live s2 ref = Some obj \<longrightarrow> \<not> managed documented_unstructured ''opendatahub'' obj)"
proof -
  let ?r = machine_reconciler and ?ns = "''opendatahub''"
  let ?step = "operator_step ?r machine_resource machine_live ?ns"
  let ?wb = "example_wb\<lparr>Finalizers := [workbenchesFinalizer], Spec := (Spec example_wb)\<lparr>spec_Platform := SelfManagedRhoai\<rparr>\<rparr>"
  let ?s0 = "(Some ?wb, example_store)" and ?s1 = "(Some (?wb\<lparr>Deleting := True\<rparr>), example_store)"
  obtain out s2 where run: "Reconcile ?r WorkbenchesInstanceName ?s1 = (out, s2)" by (metis prod.exhaust)
  have "\<not> Deleting example_wb" by (simp add: example_env)
  then have "?step example_machine ?s0"
    by (intro operator_step.edit [where fs = "[workbenchesFinalizer]" and fs' = "[workbenchesFinalizer]" and del = False
          and sp = "Spec example_wb" and sp' = "Spec ?wb"])
      (auto simp: example_machine_def machine_resource_def machine_live_def resource_of_def)
  moreover have "?step ?s0 ?s1"
    by (rule operator_step.delete) (auto simp: machine_resource_def machine_live_def resource_of_def)
  moreover have "?step ?s1 s2" using run by (rule operator_step.reconcile)
  ultimately have reach: "?step\<^sup>*\<^sup>* example_machine s2" by (meson converse_rtranclp_into_rtranclp r_into_rtranclp)
  have free: "orphan_free ?r machine_resource machine_live ?ns example_machine"
    by (rule orphan_free_guarded) (simp add: guarded_def machine_resource_def example_machine_def resource_of_def)
  have at: "configuredApplicationsNamespace (r_IsDNS1123Label ?r) (r_ApplicationsNamespace ?r) = ?ns"
    by (simp add: machine_reconciler_def example_env empty_reconciler_def configuredApplicationsNamespace_def Let_def
        ValidApplicationsNamespace_def TrimSpace_plain plain_ends_def space_runes_def)
  have gone: "machine_resource s2 = None" using machine_deletes [of ?s1 "?wb\<lparr>Deleting := True\<rparr>"] run by simp
  have "\<forall>ref obj. machine_live s2 ref = Some obj \<longrightarrow> \<not> managed documented_unstructured ?ns obj"
    using no_operand_outlives_resource [OF machine.operator_cluster_axioms free, of s2] reach at gone
    by (simp add: machine_simps)
  with run reach gone show ?thesis by blast
qed

end
