(* ===== verification/Requeue.thy ===== *)
theory Requeue
  imports Reconcile_Properties
begin

text \<open>
  The requeue loop of a managed resource. \<open>controller-runtime\<close> runs the reconciler again when it returned
  a delay or an error, and drops the request otherwise; without another writer the next run reads the
  resource as the last status update stored it. Nothing in the reconciler bounds the number of runs, so
  the loop is a partial function, and \<open>None\<close> means that the operator never comes to rest.
\<close>

section \<open>The loop\<close>

partial_function (option) requeue_loop ::
  "'s reconciler \<Rightarrow> Workbenches \<Rightarrow> 's \<Rightarrow> (nat \<times> Workbenches \<times> 's) option" where
  "requeue_loop r wb s =
     (case reconcileManaged r wb s of
        (((delay, err), wb'), s') \<Rightarrow>
          if delay = 0 \<and> err = None then Some (1, wb', s')
          else Option.bind (requeue_loop r wb' s') (\<lambda>(n, res). Some (Suc n, res)))"

lemma requeue_loop_rest:
  "reconcileManaged r wb s = (((0, None), wb'), s') \<Longrightarrow> requeue_loop r wb s = Some (1, wb', s')"
  by (simp add: requeue_loop.simps [of r wb s])

lemma requeue_loop_again:
  "reconcileManaged r wb s = (((delay, None), wb'), s') \<Longrightarrow> delay \<noteq> 0 \<Longrightarrow>
   requeue_loop r wb s = Option.bind (requeue_loop r wb' s') (\<lambda>(n, res). Some (Suc n, res))"
  by (simp add: requeue_loop.simps [of r wb s])

section \<open>A settled cluster\<close>

text \<open>
  Nothing outside the operator is pending: installing the manifests succeeds and reads the distribution
  \<open>d\<close> and the platform version \<open>pv\<close>, every list of deployments is available and rolled out, the
  contract is projected, ImageStreams can be listed or do not exist, and the status can be written.
\<close>

definition settled :: "'s reconciler \<Rightarrow> WorkbenchesSpec \<Rightarrow> Distribution \<Rightarrow> string \<Rightarrow> bool" where
  "settled r sp d pv \<longleftrightarrow>
     (let ns = r_resolveOperandNamespace r (spec_Platform sp)
      in (\<forall>wb s. Spec wb = sp \<longrightarrow> (\<exists>s'. provision r wb ns s = (Inr (d, pv), s')))
       \<and> (\<forall>s. \<exists>ds s'. cl_ListDeployments (r_Client r) ns [(ComponentLabelKey, LabelTrue)] s = (Inr ds, s')
              \<and> fst (deploymentsAvailability ds)
              \<and> (\<forall>k. spec_IngressContract sp = Some k \<longrightarrow> rollout_complete k ds))
       \<and> (\<forall>s k. spec_IngressContract sp = Some k \<longrightarrow>
              (\<exists>config s'. cl_GetConfigMap (r_Client r) ns NotebookControllerConfigMap s = (Inr config, s')
                 \<and> projected r config k))
       \<and> (\<forall>s err s'. cl_ListImageStreams (r_Client r) ns [(PartOfLabelKey, ComponentLabelValue)] s = (Inl err, s')
              \<longrightarrow> IsNoMatchError err \<or> IsNotRegisteredError err)
       \<and> (\<forall>wb s. \<exists>wb' s'. cl_StatusUpdate (r_Client r) wb s = (Inr wb', s')))"

lemma settled_provision:
  "settled r sp d pv \<Longrightarrow> Spec wb = sp \<Longrightarrow>
   \<exists>s'. provision r wb (r_resolveOperandNamespace r (spec_Platform sp)) s = (Inr (d, pv), s')"
  unfolding settled_def Let_def by blast

lemma settled_deployments:
  "settled r sp d pv \<Longrightarrow> Spec wb = sp \<Longrightarrow>
   \<exists>ds s'. list_operands r wb s = (Inr ds, s') \<and> fst (deploymentsAvailability ds)
     \<and> (\<forall>k. spec_IngressContract sp = Some k \<longrightarrow> rollout_complete k ds)"
  unfolding settled_def Let_def by blast

lemma settled_config:
  "settled r sp d pv \<Longrightarrow> Spec wb = sp \<Longrightarrow> spec_IngressContract sp = Some k \<Longrightarrow>
   \<exists>config s'. get_config r wb s = (Inr config, s') \<and> projected r config k"
  unfolding settled_def Let_def by blast

lemma settled_images:
  "settled r sp d pv \<Longrightarrow>
   cl_ListImageStreams (r_Client r) (r_resolveOperandNamespace r (spec_Platform sp))
     [(PartOfLabelKey, ComponentLabelValue)] s = (Inl err, s') \<Longrightarrow>
   IsNoMatchError err \<or> IsNotRegisteredError err"
  unfolding settled_def Let_def by blast

lemma settled_update: "settled r sp d pv \<Longrightarrow> \<exists>wb' s'. cl_StatusUpdate (r_Client r) wb s = (Inr wb', s')"
  unfolding settled_def Let_def by blast

lemma settled_confirmed:
  assumes "settled r sp d pv" and "Spec wb = sp" and "spec_IngressContract sp = Some k"
  shows "\<exists>k ds. contract_confirmed r wb s k ds"
proof -
  obtain config s1 where c: "get_config r wb s = (Inr config, s1)" "projected r config k"
    using settled_config [OF assms] by blast
  obtain ds s2 where d: "list_operands r wb s1 = (Inr ds, s2)" "rollout_complete k ds"
    using settled_deployments [OF assms(1,2)] assms(3) by blast
  have "contract_confirmed r wb s k ds"
    unfolding contract_confirmed_def using c d assms(2,3) by blast
  then show ?thesis by blast
qed

lemma settled_evaluates:
  assumes "settled r sp d pv" and "Spec wb = sp" and "status_conditions (r_Conditions r)"
  shows "\<exists>sub s'. evaluate_status r ctx (operand_ns r wb) d pv wb s = (Inr (True, sub), s')"
proof -
  let ?C = "r_Conditions r"
  obtain wb1 s1 where 1: "record_provisioned r wb s = (wb1, s1)" by fastforce
  have sp1: "Spec wb1 = sp" using status_conditions.record_provisioned_facts(5) [OF assms(3) 1 refl] assms(2) by simp
  obtain ds s2 where ds: "list_operands r wb1 s1 = (Inr ds, s2)" "fst (deploymentsAvailability ds)"
    using settled_deployments [OF assms(1) sp1] by blast
  then have "ds \<noteq> []" by (auto simp: deploymentsAvailability_def)
  with ds obtain msg where 2: "checkDeployments r wb1 s1 = ((True, msg), s2)"
    by (cases "deploymentsAvailability ds") (simp add: checkDeployments_def)
  obtain wb2 s3 where 3: "syncIngressContractStatus r (setDeploymentCondition ?C wb1 True msg) s2 = (wb2, s3)"
    by fastforce
  obtain wb3 s4 where 4: "setWorkbenchesV2Condition r wb2 s3 = (wb3, s4)" by fastforce
  obtain wb4 s5 where 5: "syncImageStreamsAvailable ?C (r_Client r) wb3 (operand_ns r wb) s4 = (Inr wb4, s5)"
  proof (cases "cl_ListImageStreams (r_Client r) (operand_ns r wb) [(PartOfLabelKey, ComponentLabelValue)] s4")
    case (Pair res s5)
    with settled_images [OF assms(1), of s4] assms(2) that show ?thesis
      by (cases res) (auto simp: syncImageStreamsAvailable_def)
  qed
  show ?thesis
    unfolding evaluate_status_def Let_def 1 prod.case 2 3 4 5 sum.case
    by (auto split: prod.splits)
qed

text \<open>
  One run in a settled cluster: it publishes a status, and whether it rests depends on the handshake
  alone.
\<close>

lemma settled_run:
  assumes "settled r sp d pv" and "Spec wb = sp" and "status_conditions (r_Conditions r)"
    and "echoes_status (r_Client r)" and "\<not> first_visit wb"
  obtains delay wb' s' where
    "reconcileManaged r wb s = (((delay, None), wb'), s')" "Spec wb' = sp" "\<not> first_visit wb'"
    "reports r wb' conditionTypeDeploymentsAvailable"
    "\<forall>k. spec_IngressContract sp = Some k \<longrightarrow> reports r wb' conditionTypeIngressContractReady"
    "delay = 0 \<longleftrightarrow> (HandshakeRequired d \<longrightarrow> HandshakeComplete pv (Releases (Status wb')))"
    "reports r wb' conditionTypeReady \<longleftrightarrow> delay = 0"
    "Phase (Status wb') = PhaseReady \<longleftrightarrow> delay = 0"
proof -
  let ?C = "r_Conditions r" and ?wb = "with_ns r wb" and ?ns = "operand_ns r wb"
  obtain s1 where p: "provision r ?wb ?ns s = (Inr (d, pv), s1)"
    using settled_provision [OF assms(1), of ?wb s] assms(2) by auto
  obtain sub s2 where e: "evaluate_status r (managed_context ?C wb) ?ns d pv ?wb s1 = (Inr (True, sub), s2)"
    using settled_evaluates [OF assms(1) _ assms(3), of ?wb "managed_context ?C wb" s1] assms(2) by auto
  obtain wb' s' where u: "cl_StatusUpdate (r_Client r) sub s2 = (Inr wb', s')"
    using settled_update [OF assms(1)] by blast
  note f = status_conditions.evaluate_facts [OF assms(3) e refl provision_facts(1) [OF p] managed_context_simps]
  have "Status wb' = Status sub \<and> Spec wb' = Spec sub" using assms(4) u unfolding echoes_status_def by blast
  then have st: "Status wb' = Status sub" "Spec wb' = sp" using assms(2) f(10) by simp_all
  have ing: "\<forall>k. spec_IngressContract sp = Some k \<longrightarrow> reports r wb' conditionTypeIngressContractReady"
    using f(13) settled_confirmed [OF assms(1), of ?wb] assms(2) st(1) by auto
  let ?done = "HandshakeRequired d \<longrightarrow> HandshakeComplete pv (Releases (Status wb'))"
  have need: "needs_requeue ?C True d pv wb' \<longleftrightarrow> \<not> ?done"
    using f(3) st ing by (auto simp: needs_requeue_def Let_def)
  have run: "reconcileManaged r wb s = (((if ?done then 0 else requeueDelay, None), wb'), s')"
    using p e u need by (auto simp: reconcileManaged_later [OF assms(5)])
  have "\<not> first_visit wb'"
    using status_conditions.evaluate_phase [OF assms(3) e refl] st
    by (auto simp: first_visit_def phase_enum_def phase_defs)
  moreover have "requeueDelay \<noteq> 0" by (simp add: requeueDelay_def second_def)
  ultimately show ?thesis
    using f(1,7,14) st(1) by (intro that [OF run st(2)]) (use ing in simp_all)
qed

text \<open>The first visit only sets the phase and asks for another run.\<close>

lemma settled_first_visit:
  assumes "settled r sp d pv" and "Spec wb = sp" and "echoes_status (r_Client r)" and "first_visit wb"
  obtains wb' s' where "reconcileManaged r wb s = (((millisecond, None), wb'), s')" "Spec wb' = sp" "\<not> first_visit wb'"
proof -
  obtain wb' s' where u: "cl_StatusUpdate (r_Client r) (sanitized (set_phase PhasePending wb)) s = (Inr wb', s')"
    using settled_update [OF assms(1)] by blast
  have "Status wb' = Status (sanitized (set_phase PhasePending wb)) \<and> Spec wb' = Spec wb"
    using assms(3) u unfolding echoes_status_def by fastforce
  then have "\<not> first_visit wb'" by (simp add: first_visit_def phase_defs)
  with u \<open>_ \<and> _\<close> assms(2,4) that show ?thesis
    by (simp add: reconcileManaged_def first_visit_def)
qed

text \<open>Without a target version a required handshake never completes, and no run rests.\<close>

lemma requeue_loop_never:
  assumes "settled r sp d []" and "status_conditions (r_Conditions r)" and "echoes_status (r_Client r)"
    and "HandshakeRequired d" and "Spec wb = sp"
  shows "requeue_loop r wb s \<noteq> Some (n, res)"
  using assms(5)
proof (induction n arbitrary: wb s res)
  case 0
  show ?case
    by (simp add: requeue_loop.simps [of r wb s] split: prod.split bind_splits)
next
  case (Suc n)
  obtain delay wb' s' where run: "reconcileManaged r wb s = (((delay, None), wb'), s')" "delay \<noteq> 0" "Spec wb' = sp"
  proof (cases "first_visit wb")
    case True
    with settled_first_visit [OF assms(1) Suc.prems assms(3), of s] that show ?thesis
      by (metis millisecond_def zero_neq_numeral)
  next
    case False
    obtain delay wb' s' where "reconcileManaged r wb s = (((delay, None), wb'), s')" "Spec wb' = sp"
      "delay = 0 \<longleftrightarrow> (HandshakeRequired d \<longrightarrow> HandshakeComplete [] (Releases (Status wb')))"
      by (rule settled_run [OF assms(1) Suc.prems assms(2,3) False])
    with assms(4) show ?thesis by (intro that) (auto simp: HandshakeComplete_def)
  qed
  with Suc.IH [OF run(3)] show ?case
    by (auto simp: requeue_loop_again [OF run(1,2)] bind_eq_Some_conv)
qed

text \<open>With a target version, or when no handshake is required, a resource that was visited needs two runs.\<close>

lemma requeue_visited:
  assumes "settled r sp d pv" and "status_conditions (r_Conditions r)" and "echoes_status (r_Client r)"
    and sp: "Spec wb = sp" and visited: "\<not> first_visit wb" and pv: "HandshakeRequired d \<Longrightarrow> pv \<noteq> []"
  obtains n wb' s' where "requeue_loop r wb s = Some (n, wb', s')" "n \<le> 2"
    "reports r wb' conditionTypeReady" "Phase (Status wb') = PhaseReady" "Spec wb' = sp"
    "spec_IngressContract sp \<noteq> None \<longrightarrow> reports r wb' conditionTypeIngressContractReady"
    "HandshakeRequired d \<longrightarrow> HandshakeComplete pv (Releases (Status wb'))"
proof -
  obtain delay1 wb1 s1 where run1: "reconcileManaged r wb s = (((delay1, None), wb1), s1)" and
    1: "Spec wb1 = sp" "\<not> first_visit wb1" "reports r wb1 conditionTypeDeploymentsAvailable"
      "\<forall>k. spec_IngressContract sp = Some k \<longrightarrow> reports r wb1 conditionTypeIngressContractReady"
      "delay1 = 0 \<longleftrightarrow> (HandshakeRequired d \<longrightarrow> HandshakeComplete pv (Releases (Status wb1)))"
      "reports r wb1 conditionTypeReady \<longleftrightarrow> delay1 = 0" "Phase (Status wb1) = PhaseReady \<longleftrightarrow> delay1 = 0"
    by (rule settled_run [OF assms(1) sp assms(2,3) visited])
  show ?thesis
  proof (cases "delay1 = 0")
    case True
    show ?thesis
      using 1 True by (intro that [of 1 wb1 s1]) (auto simp: requeue_loop_rest [OF run1 [unfolded True]])
  next
    case False
    obtain delay2 wb2 s2 where run2: "reconcileManaged r wb1 s1 = (((delay2, None), wb2), s2)" and
      2: "Spec wb2 = sp" "\<not> first_visit wb2" "reports r wb2 conditionTypeDeploymentsAvailable"
        "\<forall>k. spec_IngressContract sp = Some k \<longrightarrow> reports r wb2 conditionTypeIngressContractReady"
        "delay2 = 0 \<longleftrightarrow> (HandshakeRequired d \<longrightarrow> HandshakeComplete pv (Releases (Status wb2)))"
        "reports r wb2 conditionTypeReady \<longleftrightarrow> delay2 = 0" "Phase (Status wb2) = PhaseReady \<longleftrightarrow> delay2 = 0"
      by (rule settled_run [OF assms(1) 1(1) assms(2,3) 1(2)])
    have "\<exists>t1. provision r (with_ns r wb) (operand_ns r wb) s = (Inr (d, pv), t1)"
      using settled_provision [OF assms(1), of "with_ns r wb" s] sp by simp
    moreover have "\<exists>t2. provision r (with_ns r wb1) (operand_ns r wb1) s1 = (Inr (d, pv), t2)"
      using settled_provision [OF assms(1), of "with_ns r wb1" s1] 1(1) by simp
    ultimately have "reports r wb2 conditionTypeReady"
      using handshake_completes_in_two [OF assms(2,3) visited run1 run2] 1(3,5) 2(3) pv False by blast
    with 2(6) have rest: "delay2 = 0" by simp
    have "requeue_loop r wb s = Some (2, wb2, s2)"
      using run2 rest by (simp add: requeue_loop_again [OF run1 False] requeue_loop_rest numeral_2_eq_2)
    then show ?thesis using 2 rest by (intro that [of 2 wb2 s2]) auto
  qed
qed

section \<open>Properties\<close>

text \<open>
  C10: The requeue loop ends. In a settled cluster the operator comes to rest after at most two runs on a
  resource it has visited, and at most three on a new one: the loop returns, and the resource it leaves
  is Ready in phase Ready, with a requested ingress contract confirmed and a required version handshake
  complete. The one exception is a required handshake without a target version: then no run ever rests.
\<close>

theorem requeues_end:
  assumes "settled r sp d pv" and "status_conditions (r_Conditions r)" and "echoes_status (r_Client r)"
    and "Spec wb = sp"
  shows "if HandshakeRequired d \<and> pv = [] then requeue_loop r wb s = None
    else \<exists>n wb' s'. requeue_loop r wb s = Some (n, wb', s')
      \<and> n \<le> (if first_visit wb then 3 else 2)
      \<and> reports r wb' conditionTypeReady \<and> Phase (Status wb') = PhaseReady \<and> Spec wb' = sp
      \<and> (spec_IngressContract sp \<noteq> None \<longrightarrow> reports r wb' conditionTypeIngressContractReady)
      \<and> (HandshakeRequired d \<longrightarrow> HandshakeComplete pv (Releases (Status wb')))"
proof (cases "HandshakeRequired d \<and> pv = []")
  case True
  with requeue_loop_never [of r sp d wb s] assms show ?thesis
    by (cases "requeue_loop r wb s") auto
next
  case False
  then have pv: "HandshakeRequired d \<Longrightarrow> pv \<noteq> []" by blast
  show ?thesis
  proof (cases "first_visit wb")
    case True
    obtain wb1 s1 where 1: "reconcileManaged r wb s = (((millisecond, None), wb1), s1)" "Spec wb1 = sp" "\<not> first_visit wb1"
      by (rule settled_first_visit [OF assms(1,4,3) True])
    have m: "millisecond \<noteq> 0" by (simp add: millisecond_def)
    obtain n wb' s' where loop: "requeue_loop r wb1 s1 = Some (n, wb', s')" "n \<le> 2" and
      rest: "reports r wb' conditionTypeReady" "Phase (Status wb') = PhaseReady" "Spec wb' = sp"
        "spec_IngressContract sp \<noteq> None \<longrightarrow> reports r wb' conditionTypeIngressContractReady"
        "HandshakeRequired d \<longrightarrow> HandshakeComplete pv (Releases (Status wb'))"
      by (rule requeue_visited [OF assms(1-3) 1(2,3) pv, of s1])
    have "requeue_loop r wb s = Some (Suc n, wb', s')"
      by (simp add: requeue_loop_again [OF 1(1) m] loop(1))
    with loop(2) rest False True show ?thesis by auto
  next
    case visited: False
    show ?thesis
      by (rule requeue_visited [OF assms visited pv, of s]) (use False visited in auto)
  qed
qed

section \<open>A run\<close>

lemma example_settled: "settled example_managed example_spec example_distribution ''2.25''"
proof -
  have "rollout_complete k example_controllers" if "spec_IngressContract example_spec = Some k" for k
    using that example_rollout by (simp add: example_spec_def)
  moreover have "projected example_managed config k"
    if "spec_IngressContract example_spec = Some k" "example_configmaps ns n = Inr config" for config ns n k
    using that by (auto simp: projected_def example_configmaps_def example_spec_def store_reconciler_def empty_reconciler_def)
  ultimately show ?thesis
    using example_provision
    by (auto simp: settled_def Let_def example_client example_available example_configmaps_def)
qed

theorem requeues_end_witness:
  "\<exists>n wb' s'. requeue_loop example_managed example_wb [] = Some (n, wb', s') \<and> n \<le> 3
     \<and> reports example_managed wb' conditionTypeReady
     \<and> HandshakeComplete ''2.25'' (Releases (Status wb'))"
proof -
  have "HandshakeRequired example_distribution"
    by (simp add: HandshakeRequired_def example_distribution_def DistributionNameStandalone_def)
  with requeues_end [OF example_settled example_conditions example_echoes example_wb_spec, of "[]"]
  show ?thesis by (fastforce simp: first_visit_def example_wb_def)
qed

end
