(* ===== verification/Admission.thy ===== *)
theory Admission
  imports Unstructured Platform
begin

text \<open>
  Admission webhooks as \<open>sigs.k8s.io/controller-runtime/pkg/webhook/admission\<close> presents them: the
  fields of a request that the handlers read, the responses they build, and the codecs they call.
  \<open>None\<close> for a raw object is a nil slice.
\<close>

record request =
  req_Operation :: string
  req_Kind :: string
  req_Namespace :: string
  req_Username :: string
  req_Groups :: "string list"
  req_Object :: string
  req_OldObject :: "string option"
  req_DryRun :: "bool option"

definition op_Create :: string where "op_Create = ''CREATE''"
definition op_Update :: string where "op_Update = ''UPDATE''"

lemma op_distinct [simp]: "op_Create \<noteq> op_Update" "op_Update \<noteq> op_Create"
  by (simp_all add: op_Create_def op_Update_def)

text \<open>
  The constructors are the functions of the package. \<open>Allowed\<close> and a patch carry warnings; a patch is
  the difference from the raw object of the request to the marshalled one.
\<close>

datatype response =
    is_Allowed: Allowed string "string list"
  | Denied string
  | Errored int goerror
  | is_Patch: PatchResponseFromRaw string string "string list"

definition StatusBadRequest :: int where "StatusBadRequest = 400"
definition StatusInternalServerError :: int where "StatusInternalServerError = 500"

text \<open>\<open>admission.Decoder\<close>: of the request's object, and of a raw one.\<close>

record decoder =
  Decode :: "request \<Rightarrow> object res"
  DecodeRaw :: "string option \<Rightarrow> object res"

text \<open>
  \<open>json.Marshal\<close> and \<open>json.Unmarshal\<close> at unstructured objects, and the accessors of metadata that only
  the webhooks call.
\<close>

record admission_api =
  json_Marshal :: "object \<Rightarrow> string res"
  json_Unmarshal :: "string \<Rightarrow> object res"
  DeletionTimestampIsZero :: "object \<Rightarrow> bool"
  GetUID :: "object \<Rightarrow> string"

text \<open>The apostrophe of the messages.\<close>

definition apos :: string where "apos = [CHR 0x27]"

text \<open>Both webhook packages have their own copy of this function.\<close>

definition getAnnotation :: "unstructured_api \<Rightarrow> object \<Rightarrow> string \<Rightarrow> string" where
  "getAnnotation U obj key =
     (case GetAnnotations U obj of None \<Rightarrow> [] | Some annotations \<Rightarrow> get_str annotations key)"

text \<open>The guards that both handlers start with: \<open>Inl\<close> is the response, \<open>Inr\<close> the object to mutate.\<close>

definition admit_object ::
  "decoder option \<Rightarrow> admission_api \<Rightarrow> request \<Rightarrow> string \<Rightarrow> response + object" where
  "admit_object dec A req skipped =
     (if req_Operation req \<noteq> op_Create \<and> req_Operation req \<noteq> op_Update
      then Inl (Allowed (''Operation '' @ req_Operation req @ '' on '' @ req_Kind req @ '' allowed'') [])
      else case dec of
          None \<Rightarrow> Inl (Errored StatusInternalServerError (GoErr ''webhook decoder not initialized''))
        | Some D \<Rightarrow>
            (case Decode D req of
               Inl err \<Rightarrow> Inl (Errored StatusBadRequest (WrapErr ''failed to decode object: '' err))
             | Inr obj \<Rightarrow>
                 if \<not> DeletionTimestampIsZero A obj then Inl (Allowed skipped []) else Inr obj))"

text \<open>A request to create a Notebook.\<close>

definition example_request :: request where
  "example_request =
     \<lparr>req_Operation = op_Create, req_Kind = ''Notebook'', req_Namespace = ''ns'', req_Username = ''jane'',
      req_Groups = [], req_Object = ''{}'', req_OldObject = None, req_DryRun = None\<rparr>"

end
