(* ===== verification/Notebook_Webhook.thy ===== *)
theory Notebook_Webhook
  imports Admission
begin

text \<open>
  \<open>internal/webhook/notebook/mutating.go\<close>: the webhook that injects connection secrets into the first
  container of a Notebook. A nil slice of \<open>envFrom\<close> is \<open>None\<close>; stored in the object it marshals to null.
\<close>

definition NotebookContainersPath :: "string list" where
  "NotebookContainersPath = [''spec'', ''template'', ''spec'', ''containers'']"

definition action_Create :: string where "action_Create = ''create''"
definition action_Delete :: string where "action_Delete = ''delete''"

definition maxConnectionAnnotationLength :: nat where "maxConnectionAnnotationLength = 4096"
definition maxConnectionSecrets :: nat where "maxConnectionSecrets = 32"

record secret_ref =
  sr_Name :: string
  sr_Namespace :: string

record NotebookSecretReference =
  nsr_Secret :: secret_ref
  nsr_Action :: string

text \<open>\<open>authorizationv1.SubjectAccessReviewSpec\<close> with its resource attributes.\<close>

record access_review =
  sar_User :: string
  sar_Groups :: "string list"
  sar_Namespace :: string
  sar_Verb :: string
  sar_Group :: string
  sar_Version :: string
  sar_Resource :: string
  sar_Name :: string

text \<open>
  The fields of the webhook: the reader's Get of a Secret by namespace and name, the creation of an
  access review, which answers whether access is allowed, and the decoder (\<open>None\<close> when it is nil).
\<close>

record 's NotebookWebhook =
  nw_GetSecret :: "string \<Rightarrow> string \<Rightarrow> 's \<Rightarrow> unit res \<times> 's"
  nw_CreateReview :: "access_review \<Rightarrow> 's \<Rightarrow> bool res \<times> 's"
  nw_Decoder :: "decoder option"
  nw_Unstructured :: unstructured_api
  nw_Admission :: admission_api

definition secretRefKey :: "secret_ref \<Rightarrow> string" where
  "secretRefKey secretRef = sr_Namespace secretRef @ ''/'' @ sr_Name secretRef"

section \<open>The annotation\<close>

fun parse_parts :: "string list \<Rightarrow> secret_ref list \<Rightarrow> string list \<Rightarrow> secret_ref list res" where
  "parse_parts [] secretRefs seen = Inr secretRefs"
| "parse_parts (p # parts) secretRefs seen =
     (let part = TrimSpace p
      in if part = [] then parse_parts parts secretRefs seen
         else (case Split part (CHR ''/'') of
             [a, b] \<Rightarrow>
               (let namespace = TrimSpace a; name = TrimSpace b; key = namespace @ ''/'' @ name
                in if namespace = [] \<or> name = []
                   then Inl (GoErr (''invalid secret reference '' @ apos @ part @
                          apos @ '' - namespace and name cannot be empty''))
                   else if List.member seen key then parse_parts parts secretRefs seen
                   else if length secretRefs \<ge> maxConnectionSecrets
                   then Inl (GoErr (''too many connection secrets (max '' @
                          nat_str maxConnectionSecrets @ '')''))
                   else parse_parts parts (secretRefs @ [\<lparr>sr_Name = name, sr_Namespace = namespace\<rparr>])
                          (key # seen))
           | _ \<Rightarrow> Inl (GoErr (''invalid secret reference format '' @ apos @ part @
                       apos @ '' - expected '' @ apos @ ''namespace/name'' @ apos))))"

definition parseConnectionsAnnotation :: "string \<Rightarrow> secret_ref list res" where
  "parseConnectionsAnnotation val =
     (if TrimSpace val = [] then Inr []
      else if length val > maxConnectionAnnotationLength
      then Inl (GoErr (''connections annotation exceeds '' @ nat_str maxConnectionAnnotationLength @ '' bytes''))
      else parse_parts (Split val (CHR '','')) [] [])"

section \<open>Existence and permission\<close>

fun checkSecretExists ::
  "'s NotebookWebhook \<Rightarrow> request \<Rightarrow> secret_ref list \<Rightarrow> 's \<Rightarrow> string list res \<times> 's" where
  "checkSecretExists w req [] s = (Inr [], s)"
| "checkSecretExists w req (secretRef # secretRefs) s =
     (let missing = (\<lambda>s. case checkSecretExists w req secretRefs s of
            (Inl err, s') \<Rightarrow> (Inl err, s')
          | (Inr errs, s') \<Rightarrow> (Inr (secretRefKey secretRef # errs), s'))
      in if sr_Namespace secretRef \<noteq> req_Namespace req then missing s
         else (case nw_GetSecret w (sr_Namespace secretRef) (sr_Name secretRef) s of
             (Inl err, s1) \<Rightarrow>
               if IsNotFound err then missing s1
               else (Inl (WrapErr ''failed to check if secret exists: '' err), s1)
           | (Inr _, s1) \<Rightarrow> checkSecretExists w req secretRefs s1))"

definition review_for :: "request \<Rightarrow> secret_ref \<Rightarrow> access_review" where
  "review_for req secretRef =
     \<lparr>sar_User = req_Username req, sar_Groups = req_Groups req, sar_Namespace = sr_Namespace secretRef,
      sar_Verb = ''get'', sar_Group = [], sar_Version = ''v1'', sar_Resource = ''secrets'',
      sar_Name = sr_Name secretRef\<rparr>"

fun checkUserHasPermission ::
  "'s NotebookWebhook \<Rightarrow> request \<Rightarrow> secret_ref list \<Rightarrow> 's \<Rightarrow> string list res \<times> 's" where
  "checkUserHasPermission w req [] s = (Inr [], s)"
| "checkUserHasPermission w req (secretRef # secretRefs) s =
     (case nw_CreateReview w (review_for req secretRef) s of
        (Inl err, s1) \<Rightarrow> (Inl (WrapErr ''failed to create SubjectAccessReview: '' err), s1)
      | (Inr allowed, s1) \<Rightarrow>
          (case checkUserHasPermission w req secretRefs s1 of
             (Inl err, s2) \<Rightarrow> (Inl err, s2)
           | (Inr errs, s2) \<Rightarrow>
               (Inr (if allowed then errs else secretRefKey secretRef # errs), s2)))"

definition checkSecretsExistsAndUserHasPermissions ::
  "'s NotebookWebhook \<Rightarrow> request \<Rightarrow> secret_ref list \<Rightarrow> 's \<Rightarrow> (string list \<times> string list) res \<times> 's" where
  "checkSecretsExistsAndUserHasPermissions w req secretRefs s =
     (case checkSecretExists w req secretRefs s of
        (Inl err, s1) \<Rightarrow> (Inl (WrapErr ''failed to check secret exists: '' err), s1)
      | (Inr secretExistsErrors, s1) \<Rightarrow>
          (case checkUserHasPermission w req secretRefs s1 of
             (Inl err, s2) \<Rightarrow> (Inl (WrapErr ''failed to check user has permission: '' err), s2)
           | (Inr permissionErrors, s2) \<Rightarrow> (Inr (secretExistsErrors, permissionErrors), s2)))"

section \<open>Actions\<close>

definition determineSecretActions :: "secret_ref list \<Rightarrow> secret_ref list \<Rightarrow> string gomap" where
  "determineSecretActions oldSecretRefs currentSecretRefs =
     (let created = fold (\<lambda>secretRef actions.
            if List.member (map secretRefKey oldSecretRefs) (secretRefKey secretRef) then actions
            else AList.update (secretRefKey secretRef) action_Create actions) currentSecretRefs []
      in fold (\<lambda>oldSecretRef actions.
            if List.member (map secretRefKey currentSecretRefs) (secretRefKey oldSecretRef) then actions
            else AList.update (secretRefKey oldSecretRef) action_Delete actions) oldSecretRefs created)"

definition getOldConnectionSecrets ::
  "'s NotebookWebhook \<Rightarrow> decoder \<Rightarrow> request \<Rightarrow> secret_ref list res" where
  "getOldConnectionSecrets w D req =
     (case DecodeRaw D (req_OldObject req) of
        Inl err \<Rightarrow> Inl (WrapErr ''failed to decode old notebook object: '' err)
      | Inr oldNotebook \<Rightarrow>
          (let oldAnnotationValue = getAnnotation (nw_Unstructured w) oldNotebook ConnectionAnnotation
           in if oldAnnotationValue = [] then Inr []
              else (case parseConnectionsAnnotation oldAnnotationValue of
                  Inl err \<Rightarrow> Inl (WrapErr ''failed to parse old secret references: '' err)
                | Inr oldSecretRefs \<Rightarrow> Inr oldSecretRefs)))"

definition getNotebookSecretRefs ::
  "'s NotebookWebhook \<Rightarrow> decoder \<Rightarrow> request \<Rightarrow> secret_ref list \<Rightarrow> NotebookSecretReference list res" where
  "getNotebookSecretRefs w D req secretRefs =
     (if req_Operation req = op_Update
      then (case getOldConnectionSecrets w D req of
          Inl err \<Rightarrow> Inl (WrapErr ''failed to get old secret references: '' err)
        | Inr oldSecretRefs \<Rightarrow>
            (let secretActions = determineSecretActions oldSecretRefs secretRefs
             in Inr (map (\<lambda>secretRef. \<lparr>nsr_Secret = secretRef,
                  nsr_Action = get_str secretActions (secretRefKey secretRef)\<rparr>)
                  (secretRefs @ oldSecretRefs))))
      else Inr (map (\<lambda>secretRef. \<lparr>nsr_Secret = secretRef, nsr_Action = action_Create\<rparr>) secretRefs))"

section \<open>Injection\<close>

definition refers_to :: "string \<Rightarrow> json \<Rightarrow> bool" where
  "refers_to name entry \<longleftrightarrow>
     (case Option.bind (Option.bind (as_obj entry) (\<lambda>m. map_of m ''secretRef'')) as_obj of
        None \<Rightarrow> False
      | Some secretRefMap \<Rightarrow> map_of secretRefMap ''name'' = Some (JStr name))"

fun remove_entry :: "string \<Rightarrow> json list \<Rightarrow> json list" where
  "remove_entry name [] = []"
| "remove_entry name (e # es) = (if refers_to name e then es else e # remove_entry name es)"

definition secret_entry :: "string \<Rightarrow> json" where
  "secret_entry name = JObj [(''secretRef'', JObj [(''name'', JStr name)])]"

definition handleConnectionSecret ::
  "NotebookSecretReference \<Rightarrow> json list option \<Rightarrow> json list option" where
  "handleConnectionSecret nbSecretRef existingEnvFrom =
     (if nsr_Action nbSecretRef = action_Create
      then Some ((case existingEnvFrom of None \<Rightarrow> [] | Some es \<Rightarrow> es)
             @ [secret_entry (sr_Name (nsr_Secret nbSecretRef))])
      else if nsr_Action nbSecretRef = action_Delete
      then map_option (remove_entry (sr_Name (nsr_Secret nbSecretRef))) existingEnvFrom
      else existingEnvFrom)"

definition env_from :: "object \<Rightarrow> json list option" where
  "env_from container = Option.bind (map_of container ''envFrom'') as_arr"

definition env_json :: "json list option \<Rightarrow> json" where
  "env_json existingEnvFrom = (case existingEnvFrom of None \<Rightarrow> JNull | Some es \<Rightarrow> JArr es)"

definition performConnectionInjection ::
  "unstructured_api \<Rightarrow> object \<Rightarrow> NotebookSecretReference list \<Rightarrow> object res" where
  "performConnectionInjection U nb notebookSecretRefs =
     (case NestedSlice U nb NotebookContainersPath of
        Inl err \<Rightarrow> Inl (WrapErr ''failed to get containers array: '' err)
      | Inr found \<Rightarrow>
          (case (case found of None \<Rightarrow> [] | Some containers \<Rightarrow> containers) of
             [] \<Rightarrow> Inl (GoErr ''no containers found in notebook'')
           | first # others \<Rightarrow>
               (case as_obj first of
                  None \<Rightarrow> Inl (GoErr ''first container is not a map[string]interface{}'')
                | Some container \<Rightarrow>
                    (let existingEnvFrom = fold handleConnectionSecret notebookSecretRefs (env_from container);
                         container = AList.update ''envFrom'' (env_json existingEnvFrom) container
                     in case SetNestedSlice U nb (JObj container # others) NotebookContainersPath of
                          Inl err \<Rightarrow> Inl (WrapErr ''failed to set containers array: '' err)
                        | Inr nb' \<Rightarrow> Inr nb'))))"

section \<open>The handler\<close>

text \<open>\<open>%s\<close> of a slice of secret references.\<close>

definition refs_text :: "secret_ref list \<Rightarrow> string" where
  "refs_text refs =
     ''['' @ Join_str '' '' (map (\<lambda>r. ''{'' @ sr_Name r @ '' '' @ sr_Namespace r @ ''}'') refs) @ '']''"

text \<open>The em dash of the message, in UTF-8.\<close>

definition em_dash :: string where
  "em_dash = [CHR 0xE2, CHR 0x80, CHR 0x94]"

definition validateNotebookConnectionAnnotation ::
  "'s NotebookWebhook \<Rightarrow> decoder \<Rightarrow> object \<Rightarrow> request \<Rightarrow> 's
     \<Rightarrow> (response \<times> bool \<times> NotebookSecretReference list) \<times> 's" where
  "validateNotebookConnectionAnnotation w D nb req s =
     (let annotationValue = getAnnotation (nw_Unstructured w) nb ConnectionAnnotation
      in if req_Operation req = op_Create \<and> annotationValue = []
         then ((Allowed (''Annotation '' @ apos @ ConnectionAnnotation @
                  apos @ '' not present or empty value, skipping validation'') [], False, []), s)
         else (case parseConnectionsAnnotation annotationValue of
             Inl err \<Rightarrow>
               ((Denied (''failed to parse connections annotation: '' @ Error err), False, []), s)
           | Inr connectionSecrets \<Rightarrow>
               (case checkSecretsExistsAndUserHasPermissions w req connectionSecrets s of
                  (Inl err, s1) \<Rightarrow>
                    ((Errored StatusInternalServerError
                        (WrapErr (''error verifying secret(s) exist/user has permissions for them '' @
                           refs_text connectionSecrets @ '': '') err), False, []), s1)
                | (Inr (secretExistsErrors, permissionsErrors), s1) \<Rightarrow>
                    if length secretExistsErrors > 0 \<or> length permissionsErrors > 0
                    then ((Denied (''the following connection secret(s) are invalid '' @ em_dash @
                             '' they may not exist, may be outside the Notebook'' @ apos @ ''s namespace, or you may lack permission to access them: '' @
                             Join_str '', '' (secretExistsErrors @ permissionsErrors)), False, []), s1)
                    else (case getNotebookSecretRefs w D req connectionSecrets of
                        Inl err \<Rightarrow>
                          ((Errored StatusInternalServerError
                              (WrapErr ''failed to get notebook secret references: '' err), False, []), s1)
                      | Inr notebookSecretRefs \<Rightarrow>
                          ((Allowed ''Connection permissions validated successfully'' [], True,
                            notebookSecretRefs), s1)))))"

definition notebook_Handle :: "'s NotebookWebhook \<Rightarrow> request \<Rightarrow> 's \<Rightarrow> response \<times> 's" where
  "notebook_Handle w req s =
     (case admit_object (nw_Decoder w) (nw_Admission w) req
             ''Object marked for deletion, skipping connection logic'' of
        Inl resp \<Rightarrow> (resp, s)
      | Inr notebook \<Rightarrow>
          (case validateNotebookConnectionAnnotation w (the (nw_Decoder w)) notebook req s of
             ((validationResp, shouldInject, notebookSecretRefs), s1) \<Rightarrow>
               (if \<not> is_Allowed validationResp then validationResp
                else if \<not> shouldInject \<or> notebookSecretRefs = []
                then Allowed (''Connection annotation validation passed in namespace '' @
                       req_Namespace req @ '' for '' @ req_Kind req @ '', no injection needed'') []
                else (case performConnectionInjection (nw_Unstructured w) notebook notebookSecretRefs of
                    Inl err \<Rightarrow> Errored StatusInternalServerError err
                  | Inr obj \<Rightarrow>
                      (case json_Marshal (nw_Admission w) obj of
                         Inl err \<Rightarrow> Errored StatusInternalServerError err
                       | Inr marshaledObj \<Rightarrow> PatchResponseFromRaw (req_Object req) marshaledObj [])),
                s1)))"

end
