(* ===== verification/Notebook_Injection.thy ===== *)
theory Notebook_Injection
  imports Notebook_Webhook
begin

text \<open>
  Properties of the connection webhook: what the annotation may name, who may have a secret injected,
  and what an update does to the environment of the first container.
\<close>

section \<open>The annotation\<close>

definition wf_ref :: "secret_ref \<Rightarrow> bool" where
  "wf_ref r \<longleftrightarrow> sr_Namespace r \<noteq> [] \<and> sr_Name r \<noteq> [] \<and> trimmed (sr_Namespace r) \<and> trimmed (sr_Name r)
     \<and> CHR ''/'' \<notin> set (sr_Namespace r) \<and> CHR ''/'' \<notin> set (sr_Name r)
     \<and> CHR '','' \<notin> set (sr_Namespace r) \<and> CHR '','' \<notin> set (sr_Name r)"

definition wf_refs :: "secret_ref list \<Rightarrow> bool" where
  "wf_refs refs \<longleftrightarrow> length refs \<le> maxConnectionSecrets \<and> distinct (map secretRefKey refs)
     \<and> (\<forall>r \<in> set refs. wf_ref r)"

lemma secretRefKey_inj: "wf_ref r \<Longrightarrow> wf_ref r' \<Longrightarrow> secretRefKey r = secretRefKey r' \<longleftrightarrow> r = r'"
proof -
  assume "wf_ref r" "wf_ref r'"
  then have "Cut (secretRefKey r) (CHR ''/'') = Some (sr_Namespace r, sr_Name r)"
    "Cut (secretRefKey r') (CHR ''/'') = Some (sr_Namespace r', sr_Name r')"
    by (simp_all add: secretRefKey_def Cut_append wf_ref_def)
  then show ?thesis by (auto intro: secret_ref.equality)
qed

lemma Split_pair:
  "Split p c = [a, b] \<longleftrightarrow> p = a @ c # b \<and> c \<notin> set a \<and> c \<notin> set b"
proof
  assume s: "Split p c = [a, b]"
  then have "p = a @ c # b" using Join_str_Split [of c p] by simp
  with s show "p = a @ c # b \<and> c \<notin> set a \<and> c \<notin> set b"
    using Split_no_sep [of a p c] Split_no_sep [of b p c] by simp
qed (simp add: Split_append Split_absent)

lemma parse_parts_wf:
  assumes "parse_parts parts acc seen = Inr refs" and "\<And>p. p \<in> set parts \<Longrightarrow> CHR '','' \<notin> set p"
    and "set seen = secretRefKey ` set acc" and "wf_refs acc"
  shows "wf_refs refs"
  using assms
proof (induction parts acc seen rule: parse_parts.induct)
  case (2 p parts acc seen)
  let ?part = "TrimSpace p"
  show ?case
  proof (cases "?part = []")
    case True
    with 2 show ?thesis by simp
  next
    case False
    obtain a b where ab: "Split ?part (CHR ''/'') = [a, b]"
      using 2(4) False by (auto simp: Let_def split: list.splits)
    let ?r = "\<lparr>sr_Name = TrimSpace b, sr_Namespace = TrimSpace a\<rparr>"
    have key: "secretRefKey ?r = TrimSpace a @ ''/'' @ TrimSpace b" by (simp add: secretRefKey_def)
    have no: "TrimSpace a \<noteq> []" "TrimSpace b \<noteq> []"
      using 2(4) False ab by (auto simp: Let_def split: if_splits)
    have "CHR '','' \<notin> set ?part" using 2(5) set_TrimSpace [of p] by auto
    then have "wf_ref ?r"
      using ab no set_TrimSpace [of a] set_TrimSpace [of b]
      by (auto simp: Split_pair wf_ref_def trimmed_TrimSpace)
    show ?thesis
    proof (cases "List.member seen (TrimSpace a @ ''/'' @ TrimSpace b)")
      case True
      with 2(4) False ab no have "parse_parts parts acc seen = Inr refs" by (simp add: Let_def)
      with 2(2) [OF refl False ab] True no 2(5-7) show ?thesis by auto
    next
      case new: False
      with 2(4) False ab no have lt: "length acc < maxConnectionSecrets"
        and rest: "parse_parts parts (acc @ [?r]) ((TrimSpace a @ ''/'' @ TrimSpace b) # seen) = Inr refs"
        by (auto simp: Let_def split: if_splits)
      from new 2(6) key have "secretRefKey ?r \<notin> secretRefKey ` set acc" by simp
      with lt \<open>wf_ref ?r\<close> 2(7) have "wf_refs (acc @ [?r])" by (auto simp: wf_refs_def)
      moreover have "set ((TrimSpace a @ ''/'' @ TrimSpace b) # seen) = secretRefKey ` set (acc @ [?r])"
        using 2(6) key by auto
      ultimately show ?thesis
        using 2(3) [OF refl False ab refl refl refl] no new lt rest 2(5) by auto
    qed
  qed
qed (simp add: wf_refs_def)

lemma parse_wf: "parseConnectionsAnnotation val = Inr refs \<Longrightarrow> wf_refs refs"
  using parse_parts_wf [of "Split val (CHR '','')" "[]" "[]" refs] Split_no_sep
  by (auto simp: parseConnectionsAnnotation_def wf_refs_def split: if_splits)

subsection \<open>Round trip\<close>

lemma slash_not_space: "w \<in> set space_runes \<Longrightarrow> CHR ''/'' \<notin> set w"
  by (auto simp: space_runes_def)

lemma no_word_slash:
  assumes "no_word ws a" and "\<And>w. w \<in> set ws \<Longrightarrow> CHR ''/'' \<notin> set w"
  shows "no_word ws (a @ CHR ''/'' # b)"
proof -
  have "prefix w a" if "w \<in> set ws" "prefix w (a @ CHR ''/'' # b)" for w
    using that assms(2) [OF that(1)] by (auto simp: prefix_append prefix_Cons)
  with assms(1) show ?thesis by (auto simp: no_word_def)
qed

lemma trimmed_slash:
  assumes "trimmed a" and "trimmed c" and "s = a @ CHR ''/'' # b" and "s = d @ CHR ''/'' # c"
  shows "trimmed s"
proof -
  have "no_word space_runes s"
    using assms(1,3) slash_not_space by (auto simp: trimmed_def intro: no_word_slash)
  moreover have "no_word (map rev space_runes) (rev s)"
  proof -
    have "no_word (map rev space_runes) (rev c @ CHR ''/'' # rev d)"
      by (rule no_word_slash) (use assms(2) slash_not_space in \<open>auto simp: trimmed_def\<close>)
    then show ?thesis by (simp add: assms(4))
  qed
  ultimately show ?thesis by (simp add: trimmed_def)
qed

lemma TrimSpace_key: "wf_ref r \<Longrightarrow> TrimSpace (secretRefKey r) = secretRefKey r"
  using trimmed_slash [of "sr_Namespace r" "sr_Name r" "secretRefKey r" "sr_Name r" "sr_Namespace r"]
  by (simp add: TrimSpace_trimmed wf_ref_def secretRefKey_def)

lemma parse_parts_keys:
  assumes "wf_refs (acc @ rs)" and "set seen = secretRefKey ` set acc"
  shows "parse_parts (map secretRefKey rs) acc seen = Inr (acc @ rs)"
  using assms
proof (induction rs arbitrary: acc seen)
  case (Cons r rs)
  then have r: "wf_ref r" by (simp add: wf_refs_def)
  have split: "Split (secretRefKey r) (CHR ''/'') = [sr_Namespace r, sr_Name r]"
    using r by (simp add: Split_pair secretRefKey_def wf_ref_def)
  have t: "TrimSpace (sr_Namespace r) = sr_Namespace r" "TrimSpace (sr_Name r) = sr_Name r"
    "sr_Namespace r \<noteq> []" "sr_Name r \<noteq> []"
    using r by (auto simp: wf_ref_def TrimSpace_trimmed)
  have ne: "secretRefKey r \<noteq> []" by (simp add: secretRefKey_def)
  have key: "sr_Namespace r @ CHR ''/'' # sr_Name r = secretRefKey r" by (simp add: secretRefKey_def)
  have self: "\<lparr>sr_Name = sr_Name r, sr_Namespace = sr_Namespace r\<rparr> = r" by simp
  have new: "secretRefKey r \<notin> set seen"
    using Cons.prems by (auto simp: wf_refs_def)
  have "length acc < maxConnectionSecrets" using Cons.prems(1) by (simp add: wf_refs_def)
  moreover have "parse_parts (map secretRefKey rs) (acc @ [r]) (secretRefKey r # seen) = Inr ((acc @ [r]) @ rs)"
    using Cons.prems by (intro Cons.IH) auto
  ultimately show ?case
    using split t ne new TrimSpace_key [OF r] by (simp add: Let_def key self)
qed simp

lemma joined_ends:
  assumes "refs \<noteq> []"
  obtains b d where "Join_str '','' (map secretRefKey refs) = sr_Namespace (hd refs) @ CHR ''/'' # b"
    "Join_str '','' (map secretRefKey refs) = d @ CHR ''/'' # sr_Name (last refs)"
  using assms
proof (induction refs arbitrary: thesis rule: list_nonempty_induct)
  case (single r)
  then show ?case by (auto simp: secretRefKey_def)
next
  case (cons r rs)
  obtain b d where "Join_str '','' (map secretRefKey rs) = sr_Namespace (hd rs) @ CHR ''/'' # b"
    and d: "Join_str '','' (map secretRefKey rs) = d @ CHR ''/'' # sr_Name (last rs)"
    using cons.IH by blast
  have j: "Join_str '','' (map secretRefKey (r # rs)) =
      secretRefKey r @ '','' @ Join_str '','' (map secretRefKey rs)"
    using cons.hyps by (simp add: Join_str_Cons)
  show ?case
    by (rule cons.prems [of "sr_Name r @ '','' @ Join_str '','' (map secretRefKey rs)"
          "secretRefKey r @ '','' @ d"])
      (use j d cons.hyps in \<open>simp_all add: secretRefKey_def [of r]\<close>)
qed

section \<open>Who may have a secret injected\<close>

text \<open>The run of the existence checks, and of the access reviews, when each of them succeeds.\<close>

fun secrets_exist :: "'s NotebookWebhook \<Rightarrow> request \<Rightarrow> secret_ref list \<Rightarrow> 's \<Rightarrow> 's \<Rightarrow> bool" where
  "secrets_exist w req [] s s' \<longleftrightarrow> s' = s"
| "secrets_exist w req (r # rs) s s' \<longleftrightarrow>
     sr_Namespace r = req_Namespace req
     \<and> (\<exists>s1. nw_GetSecret w (sr_Namespace r) (sr_Name r) s = (Inr (), s1) \<and> secrets_exist w req rs s1 s')"

fun user_may_read :: "'s NotebookWebhook \<Rightarrow> request \<Rightarrow> secret_ref list \<Rightarrow> 's \<Rightarrow> 's \<Rightarrow> bool" where
  "user_may_read w req [] s s' \<longleftrightarrow> s' = s"
| "user_may_read w req (r # rs) s s' \<longleftrightarrow>
     (\<exists>s1. nw_CreateReview w (review_for req r) s = (Inr True, s1) \<and> user_may_read w req rs s1 s')"

lemma checkSecretExists_none:
  "checkSecretExists w req rs s = (Inr [], s') \<longleftrightarrow> secrets_exist w req rs s s'"
proof (induction rs arbitrary: s)
  case (Cons r rs)
  show ?case
    by (auto simp: Let_def Cons.IH [symmetric] split: prod.splits sum.splits)
qed auto

lemma checkUserHasPermission_none:
  "checkUserHasPermission w req rs s = (Inr [], s') \<longleftrightarrow> user_may_read w req rs s s'"
proof (induction rs arbitrary: s)
  case (Cons r rs)
  show ?case
    by (auto simp: Cons.IH [symmetric] split: prod.splits sum.splits if_splits)
qed auto

lemma both_checks_none:
  "checkSecretsExistsAndUserHasPermissions w req rs s = (Inr ([], []), s') \<longleftrightarrow>
     (\<exists>s1. secrets_exist w req rs s s1 \<and> user_may_read w req rs s1 s')"
  by (auto simp: checkSecretsExistsAndUserHasPermissions_def checkSecretExists_none [symmetric]
      checkUserHasPermission_none [symmetric] split: prod.splits sum.splits)

section \<open>Actions\<close>

lemma fold_update_same:
  "map_of (fold (\<lambda>r m. if P r then m else AList.update (f r) v m) rs m0) k =
     (if \<exists>r \<in> set rs. \<not> P r \<and> f r = k then Some v else map_of m0 k)"
  by (induction rs arbitrary: m0) auto

lemma action_of:
  "get_str (determineSecretActions old cur) (secretRefKey r) =
     (if secretRefKey r \<in> secretRefKey ` set cur - secretRefKey ` set old then action_Create
      else if secretRefKey r \<in> secretRefKey ` set old - secretRefKey ` set cur then action_Delete
      else [])"
proof -
  have "(\<exists>x \<in> set xs. \<not> List.member (map secretRefKey ys) (secretRefKey x) \<and> secretRefKey x = secretRefKey r) \<longleftrightarrow>
      secretRefKey r \<in> secretRefKey ` set xs - secretRefKey ` set ys" for xs ys
    by (simp add: image_iff) metis
  then show ?thesis
    unfolding determineSecretActions_def Let_def get_str_def fold_update_same by simp
qed

section \<open>The environment\<close>

definition entries :: "json list option \<Rightarrow> json list" where
  "entries env = (case env of None \<Rightarrow> [] | Some es \<Rightarrow> es)"

definition injections :: "string \<Rightarrow> json list option \<Rightarrow> nat" where
  "injections name env = length (filter (refers_to name) (entries env))"

lemma refers_to_secret_entry [simp]: "refers_to n (secret_entry m) \<longleftrightarrow> n = m"
  by (auto simp: refers_to_def secret_entry_def)

lemma remove_entry_count:
  "length (filter (refers_to n) (remove_entry m es)) =
     length (filter (refers_to n) es) - (if n = m then 1 else 0)"
proof (induction es)
  case (Cons e es)
  have "n = m" if "refers_to n e" "refers_to m e"
    using that by (auto simp: refers_to_def split: option.splits)
  with Cons show ?case by (cases "filter (refers_to n) es") auto
qed simp

lemma handle_count:
  "injections n (handleConnectionSecret \<lparr>nsr_Secret = r, nsr_Action = a\<rparr> env) =
     (if a = action_Create \<and> sr_Name r = n then Suc (injections n env)
      else if a = action_Delete \<and> sr_Name r = n then injections n env - 1
      else injections n env)"
  by (cases env)
    (auto simp: handleConnectionSecret_def injections_def entries_def remove_entry_count
      action_Create_def action_Delete_def)

lemma keep_others_entry:
  "(\<And>n. \<not> refers_to n e) \<Longrightarrow> e \<in> set (remove_entry m es) \<longleftrightarrow> e \<in> set es"
  by (induction es) auto

lemma handle_others:
  "filter (\<lambda>e. \<forall>n. \<not> refers_to n e) (entries (handleConnectionSecret x env)) =
   filter (\<lambda>e. \<forall>n. \<not> refers_to n e) (entries env)"
proof -
  have "filter (\<lambda>e. \<forall>n. \<not> refers_to n e) (remove_entry m es) = filter (\<lambda>e. \<forall>n. \<not> refers_to n e) es" for m es
    by (induction es) auto
  then show ?thesis
    by (cases env) (auto simp: handleConnectionSecret_def entries_def)
qed

lemma fold_handle_others:
  "filter (\<lambda>e. \<forall>n. \<not> refers_to n e) (entries (fold handleConnectionSecret xs env)) =
   filter (\<lambda>e. \<forall>n. \<not> refers_to n e) (entries env)"
  by (induction xs arbitrary: env) (simp_all add: handle_others)

lemma fold_count:
  assumes "distinct (map sr_Name zs)"
  shows "injections n (fold handleConnectionSecret (map (\<lambda>r. \<lparr>nsr_Secret = r, nsr_Action = act r\<rparr>) zs) env) =
     (if \<exists>r \<in> set zs. sr_Name r = n \<and> act r = action_Create then Suc (injections n env)
      else if \<exists>r \<in> set zs. sr_Name r = n \<and> act r = action_Delete then injections n env - 1
      else injections n env)"
  using assms
proof (induction zs arbitrary: env)
  case (Cons z zs)
  have "\<not> (\<exists>r \<in> set zs. sr_Name r = n)" if "sr_Name z = n"
    using Cons.prems that by (auto simp: image_iff)
  with Cons show ?case by (cases "sr_Name z = n") (auto simp: handle_count)
qed simp

lemma same_namespace_names:
  "sr_Namespace r = ns \<Longrightarrow> (\<forall>x \<in> set xs. sr_Namespace x = ns) \<Longrightarrow>
   secretRefKey r \<in> secretRefKey ` set xs \<longleftrightarrow> sr_Name r \<in> sr_Name ` set xs"
  by (auto simp: secretRefKey_def image_iff)

lemma distinct_names:
  "wf_refs xs \<Longrightarrow> (\<forall>x \<in> set xs. sr_Namespace x = ns) \<Longrightarrow> distinct (map sr_Name xs)"
  by (auto simp: wf_refs_def distinct_map inj_on_def secretRefKey_def)

lemma difference_count:
  assumes "wf_refs cur" and "wf_refs old" and ns: "\<forall>r \<in> set cur \<union> set old. sr_Namespace r = ns"
  shows "injections n (fold handleConnectionSecret (map (\<lambda>r. \<lparr>nsr_Secret = r,
           nsr_Action = get_str (determineSecretActions old cur) (secretRefKey r)\<rparr>) (cur @ old)) env) =
     (if n \<in> sr_Name ` set cur - sr_Name ` set old then Suc (injections n env)
      else if n \<in> sr_Name ` set old - sr_Name ` set cur then injections n env - 1
      else injections n env)"
proof -
  let ?act = "\<lambda>r. get_str (determineSecretActions old cur) (secretRefKey r)"
  have act: "?act r = (if sr_Name r \<in> sr_Name ` set cur - sr_Name ` set old then action_Create
      else if sr_Name r \<in> sr_Name ` set old - sr_Name ` set cur then action_Delete else [])"
    if "r \<in> set cur \<union> set old" for r
    using same_namespace_names [of r ns cur] same_namespace_names [of r ns old] ns that
    by (simp add: action_of)
  have d: "distinct (map sr_Name cur)" "distinct (map sr_Name old)"
    using distinct_names ns assms by blast+
  have neq: "action_Create \<noteq> action_Delete" "action_Delete \<noteq> action_Create" "[] \<noteq> action_Create" "[] \<noteq> action_Delete"
    by (simp_all add: action_Create_def action_Delete_def)
  have created: "(\<exists>r \<in> set cur. sr_Name r = n \<and> ?act r = action_Create) \<longleftrightarrow>
      n \<in> sr_Name ` set cur - sr_Name ` set old"
    using act neq by (auto split: if_splits)
  have deleted: "(\<exists>r \<in> set old. sr_Name r = n \<and> ?act r = action_Delete) \<longleftrightarrow>
      n \<in> sr_Name ` set old - sr_Name ` set cur"
    using act neq by (auto split: if_splits)
  have none: "\<not> (\<exists>r \<in> set cur. sr_Name r = n \<and> ?act r = action_Delete)"
    "\<not> (\<exists>r \<in> set old. sr_Name r = n \<and> ?act r = action_Create)"
    using act neq by (force split: if_splits)+
  show ?thesis
    unfolding map_append fold_append comp_def fold_count [OF d(1)] fold_count [OF d(2)] created deleted
    using none by (simp del: Diff_iff) blast
qed

section \<open>Properties\<close>

text \<open>
  C5: A connection is injected only with authority. When the webhook answers a request with a patch,
  the annotation parsed to a list of references each of which lies in the request's namespace, was
  found there, and was granted to the requesting user by an access review for getting that very
  secret, in that order of calls and with no other call; only these secrets are added to the
  container, and the patch is the injected object.
\<close>

theorem injection_authorised:
  assumes "notebook_Handle w req s = (PatchResponseFromRaw raw patched warnings, s')"
  shows "\<exists>D nb refs nrefs nb' s1.
      nw_Decoder w = Some D \<and> Decode D req = Inr nb
    \<and> parseConnectionsAnnotation (getAnnotation (nw_Unstructured w) nb ConnectionAnnotation) = Inr refs
    \<and> secrets_exist w req refs s s1 \<and> user_may_read w req refs s1 s'
    \<and> getNotebookSecretRefs w D req refs = Inr nrefs
    \<and> (\<forall>x \<in> set nrefs. nsr_Action x = action_Create \<longrightarrow> nsr_Secret x \<in> set refs)
    \<and> performConnectionInjection (nw_Unstructured w) nb nrefs = Inr nb'
    \<and> json_Marshal (nw_Admission w) nb' = Inr patched \<and> raw = req_Object req"
proof -
  obtain D nb where D: "nw_Decoder w = Some D" "Decode D req = Inr nb"
    and admitted: "admit_object (nw_Decoder w) (nw_Admission w) req
      ''Object marked for deletion, skipping connection logic'' = Inr nb"
    using assms by (auto simp: notebook_Handle_def admit_object_def split: if_splits option.splits sum.splits)
  obtain resp inject nrefs s2 where
    v: "validateNotebookConnectionAnnotation w D nb req s = ((resp, inject, nrefs), s2)"
    by (metis prod.exhaust)
  have "\<not> is_Patch resp"
    using v by (auto simp: validateNotebookConnectionAnnotation_def Let_def split: if_splits sum.splits prod.splits)
  then have s2: "s2 = s'" and inject: "inject" "is_Allowed resp"
    using assms admitted D v by (auto simp: notebook_Handle_def split: if_splits)
  obtain nb' where nb': "performConnectionInjection (nw_Unstructured w) nb nrefs = Inr nb'"
    "json_Marshal (nw_Admission w) nb' = Inr patched" "raw = req_Object req"
    using assms admitted D v inject by (auto simp: notebook_Handle_def split: if_splits sum.splits)
  obtain refs where
    parsed: "parseConnectionsAnnotation (getAnnotation (nw_Unstructured w) nb ConnectionAnnotation) = Inr refs"
    and checked: "checkSecretsExistsAndUserHasPermissions w req refs s = (Inr ([], []), s')"
    and nrefs: "getNotebookSecretRefs w D req refs = Inr nrefs"
    using v inject s2
    by (auto simp: validateNotebookConnectionAnnotation_def Let_def split: if_splits sum.splits prod.splits)
  have "nsr_Secret x \<in> set refs" if x: "x \<in> set nrefs" "nsr_Action x = action_Create" for x
    using nrefs x
    by (auto simp: getNotebookSecretRefs_def Let_def action_of action_Create_def action_Delete_def
        split: if_splits sum.splits)
  with D parsed checked nrefs nb' show ?thesis
    unfolding both_checks_none by blast
qed

definition example_notebook :: object where
  "example_notebook =
     [(''kind'', JStr ''Notebook''),
      (''metadata'', JObj [(''name'', JStr ''nb''), (''annotations'', JObj [(ConnectionAnnotation, JStr ''ns/db'')])]),
      (''spec'', JObj [(''template'', JObj [(''spec'', JObj [(''containers'', JArr [JObj [(''name'', JStr ''nb'')]])])])])]"

definition example_webhook :: "unit NotebookWebhook" where
  "example_webhook =
     \<lparr>nw_GetSecret = (\<lambda>_ _ s. (Inr (), s)), nw_CreateReview = (\<lambda>_ s. (Inr True, s)),
      nw_Decoder = Some \<lparr>Decode = (\<lambda>_. Inr example_notebook), DecodeRaw = (\<lambda>_. Inr [])\<rparr>,
      nw_Unstructured = documented_unstructured,
      nw_Admission = \<lparr>json_Marshal = (\<lambda>_. Inr ''patched''), json_Unmarshal = (\<lambda>_. Inr []),
        DeletionTimestampIsZero = (\<lambda>_. True), GetUID = (\<lambda>_. [])\<rparr>\<rparr>"

lemma example_annotation: "getAnnotation documented_unstructured example_notebook ConnectionAnnotation = ''ns/db''"
  by (simp add: getAnnotation_def doc.api nested_as_def found_or_none_def string_map_def example_notebook_def
      get_str_def)

lemma example_ref_wf: "wf_refs [\<lparr>sr_Name = ''db'', sr_Namespace = ''ns''\<rparr>]"
  by (simp add: wf_refs_def wf_ref_def maxConnectionSecrets_def plain_ends_trimmed plain_ends_def space_runes_def)

lemma example_parse: "parseConnectionsAnnotation ''ns/db'' = Inr [\<lparr>sr_Name = ''db'', sr_Namespace = ''ns''\<rparr>]"
proof -
  have "TrimSpace ''ns/db'' \<noteq> []" by (simp add: TrimSpace_plain plain_ends_def space_runes_def)
  moreover have "parse_parts [''ns/db''] [] [] = Inr [\<lparr>sr_Name = ''db'', sr_Namespace = ''ns''\<rparr>]"
    using parse_parts_keys [of "[]" "[\<lparr>sr_Name = ''db'', sr_Namespace = ''ns''\<rparr>]" "[]"] example_ref_wf
    by (simp add: secretRefKey_def del: parse_parts.simps)
  ultimately show ?thesis
    by (simp add: parseConnectionsAnnotation_def maxConnectionAnnotationLength_def del: parse_parts.simps)
qed

lemma example_injection:
  "notebook_Handle example_webhook example_request () = (PatchResponseFromRaw ''{}'' ''patched'' [], ())"
proof -
  have "\<exists>nb'. performConnectionInjection documented_unstructured example_notebook
      [\<lparr>nsr_Secret = \<lparr>sr_Name = ''db'', sr_Namespace = ''ns''\<rparr>, nsr_Action = action_Create\<rparr>] = Inr nb'"
    by (simp add: performConnectionInjection_def doc.api nested_as_def NotebookContainersPath_def
        example_notebook_def Let_def)
  then show ?thesis
    by (auto simp: notebook_Handle_def admit_object_def example_webhook_def example_request_def
        validateNotebookConnectionAnnotation_def example_annotation example_parse Let_def
        checkSecretsExistsAndUserHasPermissions_def getNotebookSecretRefs_def)
qed

theorem injection_authorised_witness:
  "\<exists>refs s1. parseConnectionsAnnotation ''ns/db'' = Inr refs
     \<and> secrets_exist example_webhook example_request refs () s1
     \<and> user_may_read example_webhook example_request refs s1 ()"
proof -
  obtain D nb refs s1 where "nw_Decoder example_webhook = Some D" "Decode D example_request = Inr nb"
    "parseConnectionsAnnotation (getAnnotation (nw_Unstructured example_webhook) nb ConnectionAnnotation) = Inr refs"
    "secrets_exist example_webhook example_request refs () s1"
    "user_may_read example_webhook example_request refs s1 ()"
    using injection_authorised [OF example_injection] by (elim exE conjE)
  moreover from this have "getAnnotation (nw_Unstructured example_webhook) nb ConnectionAnnotation = ''ns/db''"
    by (auto simp: example_webhook_def example_annotation)
  ultimately show ?thesis by auto
qed

text \<open>
  C38: The annotation is bounded and normalised. A parsed annotation names at most 32 secrets, each
  once, with non-empty trimmed namespace and name free of separators; an annotation of more than 4096
  bytes that is not blank is refused.
\<close>

theorem connections_annotation_bounds:
  "(parseConnectionsAnnotation val = Inr refs \<longrightarrow>
      length refs \<le> 32 \<and> distinct (map secretRefKey refs) \<and> (\<forall>r \<in> set refs. wf_ref r))
   \<and> (TrimSpace val \<noteq> [] \<and> length val > 4096 \<longrightarrow> (\<exists>err. parseConnectionsAnnotation val = Inl err))"
  using parse_wf [of val refs]
  by (auto simp: wf_refs_def maxConnectionSecrets_def parseConnectionsAnnotation_def maxConnectionAnnotationLength_def)

theorem connections_annotation_bounds_witness:
  "parseConnectionsAnnotation ''ns/db'' = Inr [\<lparr>sr_Name = ''db'', sr_Namespace = ''ns''\<rparr>]
   \<and> distinct (map secretRefKey [\<lparr>sr_Name = ''db'', sr_Namespace = ''ns''\<rparr>])
   \<and> wf_ref \<lparr>sr_Name = ''db'', sr_Namespace = ''ns''\<rparr>"
  using connections_annotation_bounds [of "''ns/db''" "[\<lparr>sr_Name = ''db'', sr_Namespace = ''ns''\<rparr>]"] example_parse
  by simp

text \<open>
  The annotation round-trips. Printing well-formed references, comma-separated as namespace/name,
  and parsing the text gives the references back, as long as it fits the limit of the annotation.
\<close>

lemma connections_annotation_roundtrip:
  assumes "wf_refs refs" and "length (Join_str '','' (map secretRefKey refs)) \<le> maxConnectionAnnotationLength"
  shows "parseConnectionsAnnotation (Join_str '','' (map secretRefKey refs)) = Inr refs"
proof (cases "refs = []")
  case False
  then obtain b d where e: "Join_str '','' (map secretRefKey refs) = sr_Namespace (hd refs) @ CHR ''/'' # b"
    "Join_str '','' (map secretRefKey refs) = d @ CHR ''/'' # sr_Name (last refs)"
    by (rule joined_ends)
  have "wf_ref (hd refs)" "wf_ref (last refs)" using assms(1) False by (auto simp: wf_refs_def)
  then have "trimmed (Join_str '','' (map secretRefKey refs))"
    using trimmed_slash [OF _ _ e] by (simp add: wf_ref_def)
  moreover have "Join_str '','' (map secretRefKey refs) \<noteq> []" using e by auto
  moreover have "Split (Join_str '','' (map secretRefKey refs)) (CHR '','') = map secretRefKey refs"
    using False assms(1) by (intro Split_Join_str) (auto simp: wf_refs_def wf_ref_def secretRefKey_def)
  ultimately show ?thesis
    using assms parse_parts_keys [of "[]" refs "[]"] by (simp add: parseConnectionsAnnotation_def TrimSpace_trimmed)
qed (simp add: parseConnectionsAnnotation_def)

lemma connections_annotation_example:
  "parseConnectionsAnnotation ''ns/db'' = Inr [\<lparr>sr_Name = ''db'', sr_Namespace = ''ns''\<rparr>]"
  using connections_annotation_roundtrip [OF example_ref_wf]
  by (simp add: secretRefKey_def maxConnectionAnnotationLength_def)

text \<open>
  C18: An update injects the difference. When the old and the new annotation name secrets of one
  namespace, the update adds one entry to the environment of the first container for each secret that
  is new, removes one entry for each secret that is gone, leaves the number of entries of every other
  secret and every entry that is not a secret reference as they were, and changes neither another
  field of that container, nor another container, nor anything else of the Notebook.
\<close>

theorem connection_update_exact:
  assumes U: "unstructured U" and "wf_refs cur" and "wf_refs old"
    and "\<forall>r \<in> set cur \<union> set old. sr_Namespace r = ns"
    and "req_Operation req = op_Update" and "getOldConnectionSecrets w D req = Inr old"
    and "getNotebookSecretRefs w D req cur = Inr nrefs"
    and "performConnectionInjection U nb nrefs = Inr nb'"
  shows "\<exists>container others container'.
      nested_as as_arr nb NotebookContainersPath = Inr (Some (JObj container # others))
    \<and> nested_as as_arr nb' NotebookContainersPath = Inr (Some (JObj container' # others))
    \<and> (\<forall>n. injections n (env_from container') =
         (if n \<in> sr_Name ` set cur - sr_Name ` set old then Suc (injections n (env_from container))
          else if n \<in> sr_Name ` set old - sr_Name ` set cur then injections n (env_from container) - 1
          else injections n (env_from container)))
    \<and> filter (\<lambda>e. \<forall>n. \<not> refers_to n e) (entries (env_from container')) =
        filter (\<lambda>e. \<forall>n. \<not> refers_to n e) (entries (env_from container))
    \<and> (\<forall>k. k \<noteq> ''envFrom'' \<longrightarrow> map_of container' k = map_of container k)
    \<and> (\<forall>gs. apart NotebookContainersPath gs \<longrightarrow> nested_field (JObj nb') gs = nested_field (JObj nb) gs)"
proof -
  have path: "NotebookContainersPath \<noteq> []" by (simp add: NotebookContainersPath_def)
  have nrefs: "nrefs = map (\<lambda>r. \<lparr>nsr_Secret = r,
      nsr_Action = get_str (determineSecretActions old cur) (secretRefKey r)\<rparr>) (cur @ old)"
    using assms(5-7) by (simp add: getNotebookSecretRefs_def Let_def)
  obtain container others where
    found: "nested_as as_arr nb NotebookContainersPath = Inr (Some (JObj container # others))" and
    st: "set_nested nb (JArr (JObj (AList.update ''envFrom''
        (env_json (fold handleConnectionSecret nrefs (env_from container))) container) # others))
      NotebookContainersPath = Inr nb'"
    using assms(8) path
    by (auto simp: performConnectionInjection_def unstructured.api [OF U] Let_def
        split: sum.splits option.splits list.splits)
  let ?c = "AList.update ''envFrom'' (env_json (fold handleConnectionSecret nrefs (env_from container))) container"
  have env: "env_from ?c = fold handleConnectionSecret nrefs (env_from container)"
    by (simp add: env_from_def env_json_def split: option.split)
  have "nested_as as_arr nb' NotebookContainersPath = Inr (Some (JObj ?c # others))"
    using nested_as_set_same [OF st, of as_arr] by simp
  moreover have "injections n (env_from ?c) =
         (if n \<in> sr_Name ` set cur - sr_Name ` set old then Suc (injections n (env_from container))
          else if n \<in> sr_Name ` set old - sr_Name ` set cur then injections n (env_from container) - 1
          else injections n (env_from container))" for n
    using difference_count [OF assms(2-4), folded nrefs] unfolding env .
  moreover have "map_of ?c k = map_of container k" if "k \<noteq> ''envFrom''" for k using that by simp
  moreover have "nested_field (JObj nb') gs = nested_field (JObj nb) gs" if "apart NotebookContainersPath gs" for gs
    by (rule nested_set_apart [OF st that])
  moreover have "filter (\<lambda>e. \<forall>n. \<not> refers_to n e) (entries (env_from ?c)) =
        filter (\<lambda>e. \<forall>n. \<not> refers_to n e) (entries (env_from container))"
    unfolding env by (rule fold_handle_others)
  ultimately show ?thesis using found by blast
qed

theorem connection_update_exact_witness:
  "\<exists>nb' container'. performConnectionInjection documented_unstructured example_notebook
       [\<lparr>nsr_Secret = \<lparr>sr_Name = ''db'', sr_Namespace = ''ns''\<rparr>, nsr_Action = action_Create\<rparr>] = Inr nb'
     \<and> nested_as as_arr nb' NotebookContainersPath = Inr (Some [JObj container'])
     \<and> injections ''db'' (env_from container') = 1"
proof -
  let ?req = "example_request\<lparr>req_Operation := op_Update\<rparr>"
  let ?D = "\<lparr>Decode = (\<lambda>_. Inr example_notebook), DecodeRaw = (\<lambda>_. Inr [])\<rparr>"
  let ?refs = "[\<lparr>sr_Name = ''db'', sr_Namespace = ''ns''\<rparr>]"
  have old: "getOldConnectionSecrets example_webhook ?D ?req = Inr []"
    by (simp add: getOldConnectionSecrets_def getAnnotation_def example_webhook_def doc.api nested_as_def
        found_or_none_def)
  then have nrefs: "getNotebookSecretRefs example_webhook ?D ?req ?refs =
      Inr [\<lparr>nsr_Secret = \<lparr>sr_Name = ''db'', sr_Namespace = ''ns''\<rparr>, nsr_Action = action_Create\<rparr>]"
    by (simp add: getNotebookSecretRefs_def determineSecretActions_def Let_def get_str_def)
  obtain nb' where run: "performConnectionInjection documented_unstructured example_notebook
      [\<lparr>nsr_Secret = \<lparr>sr_Name = ''db'', sr_Namespace = ''ns''\<rparr>, nsr_Action = action_Create\<rparr>] = Inr nb'"
    by (simp add: performConnectionInjection_def doc.api nested_as_def NotebookContainersPath_def
        example_notebook_def Let_def)
  have "wf_refs []" "\<forall>r \<in> set ?refs \<union> set []. sr_Namespace r = ''ns''" "req_Operation ?req = op_Update"
    by (simp_all add: wf_refs_def)
  from connection_update_exact [OF doc.unstructured_axioms example_ref_wf this old nrefs run] obtain container others container'
    where "nested_as as_arr example_notebook NotebookContainersPath = Inr (Some (JObj container # others))"
    "nested_as as_arr nb' NotebookContainersPath = Inr (Some (JObj container' # others))"
    "injections ''db'' (env_from container') = Suc (injections ''db'' (env_from container))"
    by auto
  moreover from this have "container = [(''name'', JStr ''nb'')]" "others = []"
    by (auto simp: nested_as_def NotebookContainersPath_def example_notebook_def)
  ultimately show ?thesis using run by (auto simp: injections_def env_from_def entries_def)
qed

end
