(* ===== verification/HardwareProfile_Webhook.thy ===== *)
theory HardwareProfile_Webhook
  imports Admission
begin

text \<open>
  \<open>internal/webhook/hardwareprofile/mutating.go\<close>: the webhook that applies a HardwareProfile to a
  Notebook. The Go code mutates the object in place; each step here takes the object and returns it as
  the step leaves it.
\<close>

definition kueueQueueNameLabel :: string where "kueueQueueNameLabel = ''kueue.x-k8s.io/queue-name''"
definition draClaimName :: string where "draClaimName = ''hwp-dra''"

definition notebookContainersPath :: "string list" where
  "notebookContainersPath = [''spec'', ''template'', ''spec'', ''containers'']"

definition notebookNodeSelectorPath :: "string list" where
  "notebookNodeSelectorPath = [''spec'', ''template'', ''spec'', ''nodeSelector'']"

definition notebookTolerationsPath :: "string list" where
  "notebookTolerationsPath = [''spec'', ''template'', ''spec'', ''tolerations'']"

definition notebookResourceClaimsPath :: "string list" where
  "notebookResourceClaimsPath = [''spec'', ''template'', ''spec'', ''resourceClaims'']"

lemmas notebook_paths = notebookContainersPath_def notebookNodeSelectorPath_def
  notebookTolerationsPath_def notebookResourceClaimsPath_def

definition HardwareProfile_gvk :: gvk where
  "HardwareProfile_gvk = \<lparr>gvk_Group = ''infrastructure.opendatahub.io'', gvk_Version = ''v1'', gvk_Kind = ''HardwareProfile''\<rparr>"

definition ResourceClaimTemplate_gvk :: gvk where
  "ResourceClaimTemplate_gvk = \<lparr>gvk_Group = ''resource.k8s.io'', gvk_Version = ''v1'', gvk_Kind = ''ResourceClaimTemplate''\<rparr>"

text \<open>\<open>corev1.Event\<close>: the fields the webhook fills in; both timestamps are \<open>ev_Time\<close>.\<close>

record warning_event =
  ev_GenerateName :: string
  ev_Namespace :: string
  ev_ObjectKind :: string
  ev_ObjectNamespace :: string
  ev_ObjectName :: string
  ev_ObjectUID :: string
  ev_ObjectAPIVersion :: string
  ev_Reason :: string
  ev_Message :: string
  ev_Component :: string
  ev_Type :: string
  ev_Time :: string
  ev_Count :: int

text \<open>
  The fields of the injector, with the library functions it calls: \<open>validation.IsDNS1123Subdomain\<close> and
  \<open>IsValidLabelValue\<close> return what is wrong; \<open>resource.ParseQuantity\<close> and \<open>NewQuantity\<close> return the
  canonical text of the quantity (the code only uses \<open>String\<close>); \<open>strconv.FormatFloat\<close> with format
  \<open>f\<close> and \<open>fmt\<close>'s \<open>%v\<close> of a float; the clock.
\<close>

record 's Injector =
  inj_Get :: "gvk \<Rightarrow> string \<Rightarrow> string \<Rightarrow> 's \<Rightarrow> object res \<times> 's"
  inj_EventWriter :: "(warning_event \<Rightarrow> 's \<Rightarrow> unit res \<times> 's) option"
  inj_Decoder :: "decoder option"
  inj_Unstructured :: unstructured_api
  inj_Admission :: admission_api
  inj_IsDNS1123Subdomain :: "string \<Rightarrow> string list"
  inj_IsValidLabelValue :: "string \<Rightarrow> string list"
  inj_ParseQuantity :: "string \<Rightarrow> string res"
  inj_NewQuantity :: "int \<Rightarrow> string"
  inj_FormatFloat :: "64 word \<Rightarrow> string"
  inj_FloatText :: "64 word \<Rightarrow> string"
  inj_Now :: "'s \<Rightarrow> string"

text \<open>\<open>fmt.Sprintf("%v", v)\<close> of a decoded JSON value; maps are printed in key order.\<close>

fun fmt_v :: "(64 word \<Rightarrow> string) \<Rightarrow> json \<Rightarrow> string" where
  "fmt_v F JNull = ''<nil>''"
| "fmt_v F (JBool b) = FormatBool b"
| "fmt_v F (JInt i) = int_str i"
| "fmt_v F (JFloat w) = F w"
| "fmt_v F (JStr s) = s"
| "fmt_v F (JArr xs) = ''['' @ Join_str '' '' (map (fmt_v F) xs) @ '']''"
| "fmt_v F (JObj m) =
     ''map['' @ Join_str '' '' (map (\<lambda>(k, t). k @ '':'' @ t)
        (sort_key fst (map (\<lambda>(k, v). (k, fmt_v F v)) m))) @ '']''"

section \<open>Metadata helpers\<close>

definition setAnnotation :: "unstructured_api \<Rightarrow> object \<Rightarrow> string \<Rightarrow> string \<Rightarrow> object" where
  "setAnnotation U obj key val =
     SetAnnotations U obj (AList.update key val
       (case GetAnnotations U obj of None \<Rightarrow> [] | Some annotations \<Rightarrow> annotations))"

definition removeAnnotation :: "unstructured_api \<Rightarrow> object \<Rightarrow> string \<Rightarrow> object" where
  "removeAnnotation U obj key =
     (case GetAnnotations U obj of
        None \<Rightarrow> obj
      | Some annotations \<Rightarrow> SetAnnotations U obj (AList.delete key annotations))"

definition getLabel :: "unstructured_api \<Rightarrow> object \<Rightarrow> string \<Rightarrow> string" where
  "getLabel U obj key = (case GetLabels U obj of None \<Rightarrow> [] | Some labels \<Rightarrow> get_str labels key)"

definition setLabel :: "unstructured_api \<Rightarrow> object \<Rightarrow> string \<Rightarrow> string \<Rightarrow> object" where
  "setLabel U obj key val =
     SetLabels U obj (AList.update key val
       (case GetLabels U obj of None \<Rightarrow> [] | Some labels \<Rightarrow> labels))"

definition removeLabel :: "unstructured_api \<Rightarrow> object \<Rightarrow> string \<Rightarrow> object" where
  "removeLabel U obj key =
     (case GetLabels U obj of
        None \<Rightarrow> obj
      | Some labels \<Rightarrow> SetLabels U obj (AList.delete key labels))"

definition getOrCreateNestedMap :: "unstructured_api \<Rightarrow> object \<Rightarrow> string \<Rightarrow> object res" where
  "getOrCreateNestedMap U obj field =
     (case NestedMap U obj [field] of
        Inl err \<Rightarrow> Inl (WrapErr (''failed to get nested map for field '' @ field @ '': '') err)
      | Inr None \<Rightarrow> Inr []
      | Inr (Some nested) \<Rightarrow> Inr nested)"

text \<open>\<open>x, found, _ := f(...)\<close> for a list or a map: empty when it is missing or malformed.\<close>

definition found_list :: "'a list option res \<Rightarrow> 'a list" where
  "found_list r = (case found_or_none r of None \<Rightarrow> [] | Some xs \<Rightarrow> xs)"

section \<open>Containers\<close>

definition container_named :: "string \<Rightarrow> json \<Rightarrow> bool" where
  "container_named name c \<longleftrightarrow>
     (case as_obj c of None \<Rightarrow> False | Some m \<Rightarrow> str_field m ''name'' = name)"

fun index_from :: "nat \<Rightarrow> ('a \<Rightarrow> bool) \<Rightarrow> 'a list \<Rightarrow> nat option" where
  "index_from i P [] = None"
| "index_from i P (x # xs) = (if P x then Some i else index_from (Suc i) P xs)"

text \<open>The index, or \<open>None\<close> for -1.\<close>

definition notebookMainContainerIndex :: "json list \<Rightarrow> string \<Rightarrow> nat option" where
  "notebookMainContainerIndex containers notebookName =
     (if length containers = 1 then Some 0
      else index_from 0 (container_named notebookName) containers)"

datatype container_error = ContainersUnreadable goerror | is_NoMatchingContainer: NoMatchingContainer string

fun container_error_text :: "container_error \<Rightarrow> string" where
  "container_error_text (ContainersUnreadable err) = ''failed to access containers: '' @ Error err"
| "container_error_text (NoMatchingContainer msg) = ''no matching main container found'' @ msg"

definition validateContainerNames :: "unstructured_api \<Rightarrow> object \<Rightarrow> container_error option" where
  "validateContainerNames U obj =
     (case NestedSlice U obj notebookContainersPath of
        Inl err \<Rightarrow> Some (ContainersUnreadable err)
      | Inr found \<Rightarrow>
          (let containers = (case found of None \<Rightarrow> [] | Some cs \<Rightarrow> cs); expectedName = GetName U obj
           in if length containers = 0 then None
              else if length containers = 1 then None
              else if list_ex (container_named expectedName) containers then None
              else Some (NoMatchingContainer ('' in Notebook '' @ apos @ GetNamespace U obj @ ''/'' @ GetName U obj @
                     apos @ '': expected container name '' @ apos @ expectedName @ apos))))"

section \<open>Events\<close>

definition webhook_event ::
  "unstructured_api \<Rightarrow> admission_api \<Rightarrow> object \<Rightarrow> string \<Rightarrow> string \<Rightarrow> string \<Rightarrow> warning_event" where
  "webhook_event U A obj reason message now =
     \<lparr>ev_GenerateName = GetName U obj @ ''.hwp-'', ev_Namespace = GetNamespace U obj,
      ev_ObjectKind = GetKind U obj, ev_ObjectNamespace = GetNamespace U obj,
      ev_ObjectName = GetName U obj, ev_ObjectUID = GetUID A obj, ev_ObjectAPIVersion = GetAPIVersion U obj,
      ev_Reason = reason, ev_Message = message, ev_Component = ''hardwareprofile-webhook'',
      ev_Type = ''Warning'', ev_Time = now, ev_Count = 1\<rparr>"

definition emit_event ::
  "'s Injector \<Rightarrow> bool \<Rightarrow> object \<Rightarrow> string \<Rightarrow> string \<Rightarrow> 's \<Rightarrow> 's" where
  "emit_event i isDryRun obj reason message s =
     (if isDryRun then s
      else (case inj_EventWriter i of
          None \<Rightarrow> s
        | Some create \<Rightarrow>
            snd (create (webhook_event (inj_Unstructured i) (inj_Admission i) obj reason message (inj_Now i s)) s)))"

definition maybeEmitContainerNameWarningEvent ::
  "'s Injector \<Rightarrow> bool \<Rightarrow> object \<Rightarrow> container_error \<Rightarrow> string \<Rightarrow> string \<Rightarrow> 's \<Rightarrow> 's" where
  "maybeEmitContainerNameWarningEvent i isDryRun obj validationErr hwpName expectedName s =
     emit_event i isDryRun obj ''ContainerNameMismatch''
       (''Hardware profile '' @ apos @ hwpName @ apos @ '' settings not applied to this workload: '' @
        container_error_text validationErr @ ''. Rename container to '' @ apos @ expectedName @
        apos @ '' to enable hardware profile injection.'') s"

definition maybeEmitValidationErrorEvent ::
  "'s Injector \<Rightarrow> bool \<Rightarrow> object \<Rightarrow> container_error \<Rightarrow> string \<Rightarrow> 's \<Rightarrow> 's" where
  "maybeEmitValidationErrorEvent i isDryRun obj validationErr hwpName s =
     emit_event i isDryRun obj ''ValidationError''
       (''Hardware profile '' @ apos @ hwpName @ apos @ '' was not applied due to validation error: '' @
        container_error_text validationErr @ ''. Check your workload structure.'') s"

section \<open>Resource claims\<close>

definition claim_named :: "string \<Rightarrow> json \<Rightarrow> bool" where
  "claim_named claimName c \<longleftrightarrow>
     (case as_obj c of None \<Rightarrow> False | Some m \<Rightarrow> str_field m ''name'' = claimName)"

definition filterOutClaim :: "json list \<Rightarrow> string \<Rightarrow> json list" where
  "filterOutClaim claims claimName = filter (\<lambda>c. \<not> claim_named claimName c) claims"

definition preserveUserResourceClaims :: "object \<Rightarrow> string \<Rightarrow> json list" where
  "preserveUserResourceClaims container webhookClaimName =
     (case Option.bind (Option.bind (map_of container ''resources'') as_obj)
             (\<lambda>m. Option.bind (map_of m ''claims'') as_arr) of
        None \<Rightarrow> []
      | Some existingClaims \<Rightarrow> filterOutClaim existingClaims webhookClaimName)"

definition removePodResourceClaim :: "unstructured_api \<Rightarrow> object \<Rightarrow> string \<Rightarrow> object" where
  "removePodResourceClaim U obj claimName =
     (let existingClaims = found_list (NestedSlice U obj notebookResourceClaimsPath)
      in if length existingClaims = 0 then obj
         else let remaining = filterOutClaim existingClaims claimName
              in if length remaining = 0 then RemoveNestedField U obj notebookResourceClaimsPath
                 else (case SetNestedSlice U obj remaining notebookResourceClaimsPath of
                     Inl _ \<Rightarrow> obj
                   | Inr obj' \<Rightarrow> obj'))"

definition setContainerResourceClaims :: "unstructured_api \<Rightarrow> object \<Rightarrow> string \<Rightarrow> object res" where
  "setContainerResourceClaims U notebook claimName =
     (case NestedSlice U notebook notebookContainersPath of
        Inl err \<Rightarrow> Inl err
      | Inr found \<Rightarrow>
          (let containers = (case found of None \<Rightarrow> [] | Some cs \<Rightarrow> cs)
           in if length containers = 0 then Inr notebook
              else (case notebookMainContainerIndex containers (GetName U notebook) of
                  None \<Rightarrow> Inr notebook
                | Some mainIdx \<Rightarrow>
                    (case as_obj (containers ! mainIdx) of
                       None \<Rightarrow> Inl (GoErr ''container is not a map[string]any'')
                     | Some container \<Rightarrow>
                         (case getOrCreateNestedMap U container ''resources'' of
                            Inl err \<Rightarrow> Inl err
                          | Inr resourcesMap \<Rightarrow>
                              (let existingClaims =
                                     (case Option.bind (map_of resourcesMap ''claims'') as_arr of
                                        None \<Rightarrow> [] | Some cs \<Rightarrow> cs);
                                   claims = filterOutClaim existingClaims claimName
                                     @ [JObj [(''name'', JStr claimName)]];
                                   resourcesMap = AList.update ''claims'' (JArr claims) resourcesMap;
                                   container = AList.update ''resources'' (JObj resourcesMap) container
                               in SetNestedSlice U notebook (containers[mainIdx := JObj container])
                                    notebookContainersPath))))))"

definition removeContainerResourceClaims :: "unstructured_api \<Rightarrow> object \<Rightarrow> string \<Rightarrow> object" where
  "removeContainerResourceClaims U obj claimName =
     (let containers = found_list (NestedSlice U obj notebookContainersPath)
      in if length containers = 0 then obj
         else (case notebookMainContainerIndex containers (GetName U obj) of
             None \<Rightarrow> obj
           | Some mainIdx \<Rightarrow>
               (case as_obj (containers ! mainIdx) of
                  None \<Rightarrow> obj
                | Some container \<Rightarrow>
                    (case Option.bind (map_of container ''resources'') as_obj of
                       None \<Rightarrow> obj
                     | Some resourcesMap \<Rightarrow>
                         (case Option.bind (map_of resourcesMap ''claims'') as_arr of
                            None \<Rightarrow> obj
                          | Some existingClaims \<Rightarrow>
                              if length existingClaims = 0 then obj
                              else
                                let remaining = filterOutClaim existingClaims claimName;
                                    resourcesMap =
                                      (if length remaining = 0 then AList.delete ''claims'' resourcesMap
                                       else AList.update ''claims'' (JArr remaining) resourcesMap);
                                    container = AList.update ''resources'' (JObj resourcesMap) container
                                in case SetNestedSlice U obj (containers[mainIdx := JObj container])
                                          notebookContainersPath of
                                     Inl _ \<Rightarrow> obj
                                   | Inr obj' \<Rightarrow> obj')))))"

definition removeDRAFromNotebook :: "unstructured_api \<Rightarrow> object \<Rightarrow> object" where
  "removeDRAFromNotebook U obj =
     removeContainerResourceClaims U (removePodResourceClaim U obj draClaimName) draClaimName"

section \<open>Fetching\<close>

definition fetchHardwareProfile :: "'s Injector \<Rightarrow> string \<Rightarrow> string \<Rightarrow> 's \<Rightarrow> object res \<times> 's" where
  "fetchHardwareProfile i namespace name s = inj_Get i HardwareProfile_gvk namespace name s"

definition fetchResourceClaimTemplate :: "'s Injector \<Rightarrow> string \<Rightarrow> string \<Rightarrow> 's \<Rightarrow> object res \<times> 's" where
  "fetchResourceClaimTemplate i namespace name s = inj_Get i ResourceClaimTemplate_gvk namespace name s"

section \<open>Dynamic resource allocation\<close>

definition dra_claim :: "string \<Rightarrow> json" where
  "dra_claim templateName =
     JObj [(''name'', JStr draClaimName), (''resourceClaimTemplateName'', JStr templateName)]"

definition applyDRAToNotebook :: "'s Injector \<Rightarrow> object \<Rightarrow> string \<Rightarrow> 's \<Rightarrow> object res \<times> 's" where
  "applyDRAToNotebook i notebook templateName s =
     (let U = inj_Unstructured i
      in case fetchResourceClaimTemplate i (GetNamespace U notebook) templateName s of
           (Inl err, s1) \<Rightarrow>
             (if IsNotFound err
              then Inl (GoErr (''ResourceClaimTemplate '' @ apos @ templateName @ apos @ '' not found in namespace '' @ apos @
                     GetNamespace U notebook @ apos))
              else Inl (WrapErr (''failed to get ResourceClaimTemplate '' @ apos @ templateName @
                     apos @ '' from namespace '' @ apos @ GetNamespace U notebook @ apos @ '': '') err), s1)
         | (Inr _, s1) \<Rightarrow>
             (let existingClaims = found_list (NestedSlice U notebook notebookResourceClaimsPath);
                  resourceClaims = filterOutClaim existingClaims draClaimName @ [dra_claim templateName]
              in case SetNestedSlice U notebook resourceClaims notebookResourceClaimsPath of
                   Inl err \<Rightarrow> Inl (WrapErr ''failed to set resourceClaims: '' err)
                 | Inr notebook \<Rightarrow>
                     (case setContainerResourceClaims U notebook draClaimName of
                        Inl err \<Rightarrow> Inl (WrapErr ''failed to set container resource claims: '' err)
                      | Inr notebook \<Rightarrow> Inr notebook), s1))"

definition applyDRAIfConfigured :: "'s Injector \<Rightarrow> object \<Rightarrow> object \<Rightarrow> 's \<Rightarrow> object res \<times> 's" where
  "applyDRAIfConfigured i notebook hwp s =
     (let U = inj_Unstructured i
      in case NestedString U hwp [''spec'', ''dra'', ''resourceClaimTemplateName''] of
           Inl draErr \<Rightarrow> (Inl (WrapErr ''failed to read spec.dra.resourceClaimTemplateName: '' draErr), s)
         | Inr None \<Rightarrow> (Inr notebook, s)
         | Inr (Some draTemplateName) \<Rightarrow>
             if draTemplateName = [] then (Inr notebook, s)
             else (case inj_IsDNS1123Subdomain i draTemplateName of
                 e # _ \<Rightarrow>
                   (Inl (GoErr (''invalid resourceClaimTemplateName '' @ Quote draTemplateName @
                      '' in HardwareProfile '' @ apos @ GetName U hwp @ apos @ '': '' @ e)), s)
               | [] \<Rightarrow>
                   (case applyDRAToNotebook i notebook draTemplateName s of
                      (Inl err, s1) \<Rightarrow> (Inl (WrapErr ''failed to apply DRA configuration: '' err), s1)
                    | (Inr notebook, s1) \<Rightarrow> (Inr notebook, s1))))"

section \<open>Resources of the main container\<close>

definition parseQuantityValue :: "'s Injector \<Rightarrow> json \<Rightarrow> string res" where
  "parseQuantityValue i val =
     (case val of
        JStr v \<Rightarrow> inj_ParseQuantity i v
      | JInt v \<Rightarrow> Inr (inj_NewQuantity i v)
      | JFloat v \<Rightarrow> inj_ParseQuantity i (inj_FormatFloat i v)
      | _ \<Rightarrow> inj_ParseQuantity i (fmt_v (inj_FloatText i) val))"

fun apply_identifiers ::
  "'s Injector \<Rightarrow> json list \<Rightarrow> object \<Rightarrow> object \<Rightarrow> (object \<times> object) res" where
  "apply_identifiers i [] requests limits = Inr (requests, limits)"
| "apply_identifiers i (ident # identifiers) requests limits =
     (case as_obj ident of
        None \<Rightarrow> apply_identifiers i identifiers requests limits
      | Some idMap \<Rightarrow>
          (let U = inj_Unstructured i;
               identifier = (case found_or_none (NestedString U idMap [''identifier'']) of
                  None \<Rightarrow> [] | Some x \<Rightarrow> x)
           in if identifier = [] then apply_identifiers i identifiers requests limits
              else (case found_or_none (NestedFieldNoCopy U idMap [''defaultCount'']) of
                  None \<Rightarrow> apply_identifiers i identifiers requests limits
                | Some defaultCount \<Rightarrow>
                    if defaultCount = JNull then apply_identifiers i identifiers requests limits
                    else (case parseQuantityValue i defaultCount of
                        Inl err \<Rightarrow>
                          Inl (WrapErr (''failed to convert resource quantity for '' @ identifier @ '': '') err)
                      | Inr quantity \<Rightarrow>
                          (let requests =
                                 (if map_of requests identifier = None
                                  then AList.update identifier (JStr quantity) requests else requests);
                               limits =
                                 (if map_of limits identifier = None
                                  then (case map_of requests identifier of
                                      None \<Rightarrow> limits
                                    | Some reqVal \<Rightarrow> AList.update identifier reqVal limits)
                                  else limits)
                           in apply_identifiers i identifiers requests limits)))))"

definition applyIdentifiersToContainer :: "'s Injector \<Rightarrow> object \<Rightarrow> json list \<Rightarrow> object res" where
  "applyIdentifiersToContainer i container identifiers =
     (let U = inj_Unstructured i
      in case getOrCreateNestedMap U container ''resources'' of
           Inl err \<Rightarrow> Inl err
         | Inr resourcesMap \<Rightarrow>
             (case getOrCreateNestedMap U resourcesMap ''requests'' of
                Inl err \<Rightarrow> Inl err
              | Inr requests \<Rightarrow>
                  (case getOrCreateNestedMap U resourcesMap ''limits'' of
                     Inl err \<Rightarrow> Inl err
                   | Inr limits \<Rightarrow>
                       (case apply_identifiers i identifiers requests limits of
                          Inl err \<Rightarrow> Inl err
                        | Inr (requests, limits) \<Rightarrow>
                            (let resourcesMap = AList.update ''limits'' (JObj limits)
                                   (AList.update ''requests'' (JObj requests) resourcesMap)
                             in Inr (AList.update ''resources'' (JObj resourcesMap) container))))))"

definition clear_profile_resources :: "object \<Rightarrow> object" where
  "clear_profile_resources container =
     (let preservedClaims = preserveUserResourceClaims container draClaimName;
          container = AList.delete ''resources'' container
      in if length preservedClaims > 0
         then AList.update ''resources'' (JObj [(''claims'', JArr preservedClaims)]) container
         else container)"

definition applyResourcesToNotebookContainer ::
  "'s Injector \<Rightarrow> json list \<Rightarrow> object \<Rightarrow> bool \<Rightarrow> object res" where
  "applyResourcesToNotebookContainer i identifiers notebook profileChanged =
     (let U = inj_Unstructured i
      in case NestedSlice U notebook notebookContainersPath of
           Inl err \<Rightarrow> Inl err
         | Inr found \<Rightarrow>
             (let containers = (case found of None \<Rightarrow> [] | Some cs \<Rightarrow> cs)
              in if length containers = 0 then Inr notebook
                 else (case notebookMainContainerIndex containers (GetName U notebook) of
                     None \<Rightarrow> Inr notebook
                   | Some mainIdx \<Rightarrow>
                       (case as_obj (containers ! mainIdx) of
                          None \<Rightarrow> Inl (GoErr ''container is not a map[string]any'')
                        | Some container \<Rightarrow>
                            (let container = (if profileChanged then clear_profile_resources container else container)
                             in case applyIdentifiersToContainer i container identifiers of
                                  Inl err \<Rightarrow> Inl err
                                | Inr container \<Rightarrow>
                                    SetNestedSlice U notebook (containers[mainIdx := JObj container])
                                      notebookContainersPath)))))"

section \<open>Node selector and tolerations\<close>

definition removeHWPNodeSelector ::
  "unstructured_api \<Rightarrow> object \<Rightarrow> string list \<Rightarrow> string gomap \<Rightarrow> object res" where
  "removeHWPNodeSelector U obj nodeSelectorPath hwpNodeSelector =
     (case NestedStringMap U obj nodeSelectorPath of
        Inl err \<Rightarrow> Inl err
      | Inr found \<Rightarrow>
          (let existingNodeSelector = (case found of None \<Rightarrow> [] | Some m \<Rightarrow> m)
           in if length existingNodeSelector = 0 then Inr obj
              else let remaining = fold (\<lambda>(k, v) m. if map_of m k = Some v then AList.delete k m else m)
                         hwpNodeSelector existingNodeSelector
                   in if length remaining = 0 then Inr (RemoveNestedField U obj nodeSelectorPath)
                      else SetNestedStringMap U obj remaining nodeSelectorPath))"

definition TolerationKey :: "'s Injector \<Rightarrow> object \<Rightarrow> string" where
  "TolerationKey i tol =
     (let ts = (case map_of tol ''tolerationSeconds'' of
          None \<Rightarrow> [] | Some v \<Rightarrow> fmt_v (inj_FloatText i) v)
      in str_field tol ''key'' @ '':'' @ str_field tol ''operator'' @ '':'' @ str_field tol ''value'' @
         '':'' @ str_field tol ''effect'' @ '':'' @ ts)"

definition toleration_keys :: "'s Injector \<Rightarrow> json list \<Rightarrow> string list" where
  "toleration_keys i tols = List.map_filter (\<lambda>tol. map_option (TolerationKey i) (as_obj tol)) tols"

text \<open>The existing tolerations that are maps whose key is none of the given ones.\<close>

definition other_tolerations :: "'s Injector \<Rightarrow> json list \<Rightarrow> json list \<Rightarrow> json list" where
  "other_tolerations i hwpTolerations existingTolerations =
     filter (\<lambda>tol. case as_obj tol of
         None \<Rightarrow> False
       | Some m \<Rightarrow> \<not> List.member (toleration_keys i hwpTolerations) (TolerationKey i m)) existingTolerations"

definition removeHWPTolerations ::
  "'s Injector \<Rightarrow> object \<Rightarrow> string list \<Rightarrow> json list \<Rightarrow> object res" where
  "removeHWPTolerations i obj tolerationsPath hwpTolerations =
     (let U = inj_Unstructured i
      in case NestedSlice U obj tolerationsPath of
           Inl err \<Rightarrow> Inl err
         | Inr found \<Rightarrow>
             (let existingTolerations = (case found of None \<Rightarrow> [] | Some ts \<Rightarrow> ts)
              in if length existingTolerations = 0 then Inr obj
                 else let remaining = other_tolerations i hwpTolerations existingTolerations
                      in if length remaining = 0 then Inr (RemoveNestedField U obj tolerationsPath)
                         else SetNestedSlice U obj remaining tolerationsPath))"

definition overwrite_warning :: "string \<Rightarrow> string \<Rightarrow> string \<Rightarrow> string \<Rightarrow> string \<Rightarrow> string" where
  "overwrite_warning what k existingValue hwpName v =
     what @ '' '' @ apos @ k @ apos @ '' has value '' @ apos @ existingValue @
     apos @ '' which will be overwritten by HardwareProfile '' @ apos @ hwpName @ apos @ '' which has value '' @ apos @ v @ apos"

definition mergeNodeSelector ::
  "unstructured_api \<Rightarrow> object \<Rightarrow> string list \<Rightarrow> string gomap \<Rightarrow> string \<Rightarrow> (string gomap \<times> string list) res" where
  "mergeNodeSelector U obj nodeSelectorPath hwpNodeSelector hwpName =
     (case NestedStringMap U obj nodeSelectorPath of
        Inl err \<Rightarrow> Inl (WrapErr ''failed to get existing nodeSelector: '' err)
      | Inr found \<Rightarrow>
          (let existingNodeSelector = (case found of None \<Rightarrow> [] | Some m \<Rightarrow> m);
               warnings = List.map_filter (\<lambda>(k, v). case map_of existingNodeSelector k of
                   None \<Rightarrow> None
                 | Some existingValue \<Rightarrow>
                     if existingValue \<noteq> v
                     then Some (overwrite_warning ''nodeSelector key'' k existingValue hwpName v)
                     else None) hwpNodeSelector;
               merged = fold (\<lambda>(k, v) m. AList.update k v m) hwpNodeSelector existingNodeSelector
           in Inr (merged, warnings)))"

definition mergeTolerations :: "'s Injector \<Rightarrow> object \<Rightarrow> string list \<Rightarrow> json list \<Rightarrow> json list res" where
  "mergeTolerations i obj tolerationsPath hwpTolerations =
     (case NestedSlice (inj_Unstructured i) obj tolerationsPath of
        Inl err \<Rightarrow> Inl (WrapErr ''failed to get existing tolerations: '' err)
      | Inr found \<Rightarrow>
          Inr (hwpTolerations @ other_tolerations i hwpTolerations
                 (case found of None \<Rightarrow> [] | Some ts \<Rightarrow> ts)))"

definition applyNodeSelector ::
  "unstructured_api \<Rightarrow> object \<Rightarrow> string gomap \<Rightarrow> bool \<Rightarrow> string \<Rightarrow> (object \<times> string list) res" where
  "applyNodeSelector U notebook nodeSelector profileChanged hwpName =
     (if profileChanged
      then (case SetNestedStringMap U notebook nodeSelector notebookNodeSelectorPath of
          Inl err \<Rightarrow> Inl (WrapErr ''failed to set nodeSelector: '' err)
        | Inr notebook \<Rightarrow> Inr (notebook, []))
      else (case mergeNodeSelector U notebook notebookNodeSelectorPath nodeSelector hwpName of
          Inl err \<Rightarrow> Inl (WrapErr ''failed to merge nodeSelector: '' err)
        | Inr (mergedNS, nsWarnings) \<Rightarrow>
            (case SetNestedStringMap U notebook mergedNS notebookNodeSelectorPath of
               Inl err \<Rightarrow> Inl (WrapErr ''failed to set merged nodeSelector: '' err)
             | Inr notebook \<Rightarrow> Inr (notebook, nsWarnings))))"

definition applyTolerations :: "'s Injector \<Rightarrow> object \<Rightarrow> json list \<Rightarrow> bool \<Rightarrow> object res" where
  "applyTolerations i notebook tolerations profileChanged =
     (let U = inj_Unstructured i
      in if profileChanged
         then (case SetNestedSlice U notebook tolerations notebookTolerationsPath of
             Inl err \<Rightarrow> Inl (WrapErr ''failed to set tolerations: '' err)
           | Inr notebook \<Rightarrow> Inr notebook)
         else (case mergeTolerations i notebook notebookTolerationsPath tolerations of
             Inl err \<Rightarrow> Inl (WrapErr ''failed to merge tolerations: '' err)
           | Inr mergedTol \<Rightarrow>
               (case SetNestedSlice U notebook mergedTol notebookTolerationsPath of
                  Inl err \<Rightarrow> Inl (WrapErr ''failed to set merged tolerations: '' err)
                | Inr notebook \<Rightarrow> Inr notebook)))"

section \<open>Applying a profile\<close>

definition hwp_queue :: "string list" where
  "hwp_queue = [''spec'', ''scheduling'', ''kueue'', ''localQueueName'']"

definition hwp_node_selector :: "string list" where
  "hwp_node_selector = [''spec'', ''scheduling'', ''node'', ''nodeSelector'']"

definition hwp_tolerations :: "string list" where
  "hwp_tolerations = [''spec'', ''scheduling'', ''node'', ''tolerations'']"

definition clear_scheduling :: "unstructured_api \<Rightarrow> object \<Rightarrow> object" where
  "clear_scheduling U notebook =
     removeDRAFromNotebook U
       (RemoveNestedField U
          (RemoveNestedField U (removeLabel U notebook kueueQueueNameLabel) notebookNodeSelectorPath)
          notebookTolerationsPath)"

text \<open>The scheduling part: the Kueue label, or else the node selector and the tolerations.\<close>

definition apply_scheduling ::
  "'s Injector \<Rightarrow> object \<Rightarrow> object \<Rightarrow> bool \<Rightarrow> (object \<times> string list) res" where
  "apply_scheduling i notebook hwp profileChanged =
     (let U = inj_Unstructured i
      in case NestedString U hwp hwp_queue of
           Inl kueueErr \<Rightarrow> Inl (WrapErr ''failed to read spec.scheduling.kueue.localQueueName: '' kueueErr)
         | Inr found \<Rightarrow>
             (let kueueQueueName = (case found of None \<Rightarrow> [] | Some q \<Rightarrow> q)
              in if kueueQueueName \<noteq> []
                 then (case inj_IsValidLabelValue i kueueQueueName of
                     e # _ \<Rightarrow>
                       Inl (GoErr (''invalid localQueueName '' @ Quote kueueQueueName @
                          '' in HardwareProfile '' @ apos @ GetName U hwp @ apos @ '': '' @ e))
                   | [] \<Rightarrow>
                       (let existingValue = getLabel U notebook kueueQueueNameLabel;
                            warnings =
                              (if \<not> profileChanged \<and> existingValue \<noteq> [] \<and> existingValue \<noteq> kueueQueueName
                               then [overwrite_warning ''label'' kueueQueueNameLabel existingValue
                                       (GetName U hwp) kueueQueueName]
                               else [])
                        in Inr (setLabel U notebook kueueQueueNameLabel kueueQueueName, warnings)))
                 else
                   (let nodeSelector = found_list (NestedStringMap U hwp hwp_node_selector);
                        tolerations = found_list (NestedSlice U hwp hwp_tolerations)
                    in case (if length nodeSelector > 0
                             then applyNodeSelector U notebook nodeSelector profileChanged (GetName U hwp)
                             else Inr (notebook, [])) of
                         Inl err \<Rightarrow> Inl err
                       | Inr (notebook, warnings) \<Rightarrow>
                           (if length tolerations > 0
                            then (case applyTolerations i notebook tolerations profileChanged of
                                Inl err \<Rightarrow> Inl err
                              | Inr notebook \<Rightarrow> Inr (notebook, warnings))
                            else Inr (notebook, warnings)))))"

definition applyHardwareProfileToNotebook ::
  "'s Injector \<Rightarrow> object \<Rightarrow> object \<Rightarrow> bool \<Rightarrow> bool \<Rightarrow> 's \<Rightarrow> (object \<times> string list) res \<times> 's" where
  "applyHardwareProfileToNotebook i notebook hwp profileChanged isNewProfile s =
     (let U = inj_Unstructured i;
          notebook = (if profileChanged then clear_scheduling U notebook else notebook);
          identifiers = found_list (NestedSlice U hwp [''spec'', ''identifiers''])
      in case (if length identifiers > 0
               then applyResourcesToNotebookContainer i identifiers notebook profileChanged
               else Inr notebook) of
           Inl err \<Rightarrow> (Inl (WrapErr ''failed to apply resource requirements: '' err), s)
         | Inr notebook \<Rightarrow>
             (case (if isNewProfile \<or> profileChanged then applyDRAIfConfigured i notebook hwp s
                    else (Inr notebook, s)) of
                (Inl err, s1) \<Rightarrow> (Inl err, s1)
              | (Inr notebook, s1) \<Rightarrow> (apply_scheduling i notebook hwp profileChanged, s1)))"

section \<open>Old objects\<close>

text \<open>The old object of a request, \<open>None\<close> when it is absent or does not decode.\<close>

definition old_object :: "'s Injector \<Rightarrow> request \<Rightarrow> object option" where
  "old_object i req =
     Option.bind (req_OldObject req)
       (\<lambda>raw. case json_Unmarshal (inj_Admission i) raw of Inl _ \<Rightarrow> None | Inr obj \<Rightarrow> Some obj)"

definition profile_namespace :: "unstructured_api \<Rightarrow> object \<Rightarrow> string" where
  "profile_namespace U obj =
     (let ns = getAnnotation U obj HardwareProfileNamespaceAnnotation
      in if ns = [] then GetNamespace U obj else ns)"

definition isProfileNewlyAdded :: "'s Injector \<Rightarrow> request \<Rightarrow> bool" where
  "isProfileNewlyAdded i req =
     (if req_Operation req = op_Create then False
      else (case old_object i req of
          None \<Rightarrow> False
        | Some oldObj \<Rightarrow> getAnnotation (inj_Unstructured i) oldObj HardwareProfileNameAnnotation = []))"

definition detectProfileChange :: "'s Injector \<Rightarrow> request \<Rightarrow> string \<Rightarrow> string \<Rightarrow> bool" where
  "detectProfileChange i req newProfileName newProfileNamespace =
     (if req_Operation req = op_Create then False
      else (case old_object i req of
          None \<Rightarrow> True
        | Some oldObj \<Rightarrow>
            (let oldProfileName = getAnnotation (inj_Unstructured i) oldObj HardwareProfileNameAnnotation
             in if oldProfileName = [] then False
                else oldProfileName \<noteq> newProfileName
                  \<or> profile_namespace (inj_Unstructured i) oldObj \<noteq> newProfileNamespace)))"

definition isStaleProfileReference :: "'s Injector \<Rightarrow> request \<Rightarrow> string \<Rightarrow> bool" where
  "isStaleProfileReference i req currentProfileName =
     (case old_object i req of
        None \<Rightarrow> False
      | Some oldObj \<Rightarrow>
          getAnnotation (inj_Unstructured i) oldObj HardwareProfileNameAnnotation = currentProfileName)"

section \<open>Removal\<close>

definition removeHWPSettings :: "'s Injector \<Rightarrow> object \<Rightarrow> object \<Rightarrow> object res" where
  "removeHWPSettings i obj hwp =
     (let U = inj_Unstructured i;
          kueueQueueName = found_list (NestedString U hwp hwp_queue);
          obj = (if kueueQueueName \<noteq> [] then removeLabel U obj kueueQueueNameLabel else obj);
          nodeSelector = found_list (NestedStringMap U hwp hwp_node_selector);
          tolerations = found_list (NestedSlice U hwp hwp_tolerations)
      in case (if length nodeSelector > 0
               then removeHWPNodeSelector U obj notebookNodeSelectorPath nodeSelector else Inr obj) of
           Inl err \<Rightarrow> Inl (WrapErr ''failed to remove HWP nodeSelector: '' err)
         | Inr obj \<Rightarrow>
             (case (if length tolerations > 0
                    then removeHWPTolerations i obj notebookTolerationsPath tolerations else Inr obj) of
                Inl err \<Rightarrow> Inl (WrapErr ''failed to remove HWP tolerations: '' err)
              | Inr obj \<Rightarrow> Inr (removeDRAFromNotebook U obj)))"

definition handleHWPRemoval :: "'s Injector \<Rightarrow> request \<Rightarrow> object \<Rightarrow> 's \<Rightarrow> response option \<times> 's" where
  "handleHWPRemoval i req obj s =
     (let U = inj_Unstructured i; A = inj_Admission i
      in case old_object i req of
           None \<Rightarrow> (None, s)
         | Some oldObj \<Rightarrow>
             (let oldProfileName = getAnnotation U oldObj HardwareProfileNameAnnotation
              in if oldProfileName = [] then (None, s)
                 else (case fetchHardwareProfile i (profile_namespace U oldObj) oldProfileName s of
                     (Inl _, s1) \<Rightarrow>
                       (let obj = removeAnnotation U (removeDRAFromNotebook U obj) HardwareProfileNamespaceAnnotation
                        in (case json_Marshal A obj of
                              Inl _ \<Rightarrow> None
                            | Inr marshaledObj \<Rightarrow> Some (PatchResponseFromRaw (req_Object req) marshaledObj []), s1))
                   | (Inr oldHWP, s1) \<Rightarrow>
                       (case removeHWPSettings i obj oldHWP of
                          Inl removeErr \<Rightarrow> Some (Errored StatusInternalServerError removeErr)
                        | Inr obj \<Rightarrow>
                            (case json_Marshal A (removeAnnotation U obj HardwareProfileNamespaceAnnotation) of
                               Inl err \<Rightarrow> Some (Errored StatusInternalServerError err)
                             | Inr marshaledObj \<Rightarrow>
                                 Some (PatchResponseFromRaw (req_Object req) marshaledObj [])), s1))))"

section \<open>The handler\<close>

definition handleFetchError ::
  "'s Injector \<Rightarrow> request \<Rightarrow> goerror \<Rightarrow> string \<Rightarrow> string \<Rightarrow> response" where
  "handleFetchError i req err profileName profileNamespace =
     (let stale = (req_Operation req = op_Update \<and> isStaleProfileReference i req profileName)
      in if IsNotFound err
         then (if stale
               then Allowed (''hardware profile '' @ apos @ profileName @ apos @ '' not found in namespace '' @ apos @
                      profileNamespace @ apos @ ''; allowing update with warning'')
                      [''Referenced hardware profile '' @ apos @ profileName @ apos @ '' in namespace '' @ apos @
                       profileNamespace @ apos @ '' no longer exists. Profile settings were not applied. Remove or update the annotation to clear this warning.'']
               else Errored StatusBadRequest (GoErr (''hardware profile '' @ apos @ profileName @
                      apos @ '' not found in namespace '' @ apos @ profileNamespace @ apos)))
         else if stale
         then Allowed (''failed to fetch hardware profile '' @ apos @ profileName @ apos @ ''; allowing update with warning'')
                [''Failed to fetch hardware profile '' @ apos @ profileName @ apos @ '' from namespace '' @ apos @
                 profileNamespace @ apos @ '': '' @ Error err @ ''. Profile settings were not applied.'']
         else Errored StatusInternalServerError (WrapErr (''failed to get hardware profile '' @ apos @ profileName @
                apos @ '' from namespace '' @ apos @ profileNamespace @ apos @ '': '') err))"

text \<open>The answer when the containers do not fit: the object without the profile, and a warning.\<close>

definition skip_profile ::
  "'s Injector \<Rightarrow> request \<Rightarrow> object \<Rightarrow> string \<Rightarrow> container_error \<Rightarrow> 's \<Rightarrow> response \<times> 's" where
  "skip_profile i req obj profileName validateErr s =
     (let expectedName = GetName (inj_Unstructured i) obj;
          isDryRun = (req_DryRun req = Some True)
      in case (if is_NoMatchingContainer validateErr
               then (''Hardware profile '' @ apos @ profileName @ apos @ '' was not applied: '' @
                       container_error_text validateErr @
                       ''. To use this hardware profile, rename your container to '' @ apos @ expectedName @
                       apos @ ''. All hardware profile settings (identifiers, scheduling, etc.) are skipped.'',
                     maybeEmitContainerNameWarningEvent i isDryRun obj validateErr profileName expectedName s)
               else (''Hardware profile '' @ apos @ profileName @ apos @ '' was not applied due to validation error: '' @
                       container_error_text validateErr @
                       ''. All hardware profile settings are skipped. Please check your workload structure.'',
                     maybeEmitValidationErrorEvent i isDryRun obj validateErr profileName s)) of
           (warningMsg, s1) \<Rightarrow>
             (case json_Marshal (inj_Admission i) obj of
                Inl _ \<Rightarrow> Allowed ''Admitted but marshal failed after validation''
                           [warningMsg, ''Internal error: failed to marshal object'']
              | Inr marshaledObj \<Rightarrow> PatchResponseFromRaw (req_Object req) marshaledObj [warningMsg], s1))"

definition performHardwareProfileInjection ::
  "'s Injector \<Rightarrow> request \<Rightarrow> object \<Rightarrow> 's \<Rightarrow> response \<times> 's" where
  "performHardwareProfileInjection i req obj s =
     (let U = inj_Unstructured i; profileName = getAnnotation U obj HardwareProfileNameAnnotation
      in if profileName = []
         then (case (if req_Operation req = op_Update then handleHWPRemoval i req obj s else (None, s)) of
             (Some resp, s1) \<Rightarrow> (resp, s1)
           | (None, s1) \<Rightarrow> (Allowed ''No hardware profile annotation found'' [], s1))
         else
           let profileNamespace = profile_namespace U obj
           in if profileNamespace = []
              then (Errored StatusBadRequest (GoErr ''unable to determine hardware profile namespace''), s)
              else (case fetchHardwareProfile i profileNamespace profileName s of
                  (Inl err, s1) \<Rightarrow> (handleFetchError i req err profileName profileNamespace, s1)
                | (Inr hwp, s1) \<Rightarrow>
                    (let obj = (if getAnnotation U obj HardwareProfileNamespaceAnnotation = []
                                then setAnnotation U obj HardwareProfileNamespaceAnnotation profileNamespace
                                else obj)
                     in case validateContainerNames U obj of
                          Some validateErr \<Rightarrow> skip_profile i req obj profileName validateErr s1
                        | None \<Rightarrow>
                            (let isCreate = (req_Operation req = op_Create);
                                 profileChanged = detectProfileChange i req profileName profileNamespace;
                                 profileNewlyAdded = isProfileNewlyAdded i req
                             in case applyHardwareProfileToNotebook i obj hwp profileChanged
                                       (isCreate \<or> profileNewlyAdded) s1 of
                                  (Inl err, s2) \<Rightarrow> (Errored StatusInternalServerError err, s2)
                                | (Inr (obj, warnings), s2) \<Rightarrow>
                                    (case json_Marshal (inj_Admission i) obj of
                                       Inl err \<Rightarrow> Errored StatusInternalServerError err
                                     | Inr marshaledObj \<Rightarrow>
                                         PatchResponseFromRaw (req_Object req) marshaledObj warnings, s2)))))"

definition hwp_Handle :: "'s Injector \<Rightarrow> request \<Rightarrow> 's \<Rightarrow> response \<times> 's" where
  "hwp_Handle i req s =
     (case admit_object (inj_Decoder i) (inj_Admission i) req
             ''Object marked for deletion, skipping hardware profile injection'' of
        Inl resp \<Rightarrow> (resp, s)
      | Inr notebook \<Rightarrow> performHardwareProfileInjection i req notebook s)"

end
