(* ===== verification/HardwareProfile_Frame.thy ===== *)
theory HardwareProfile_Frame
  imports HardwareProfile_Webhook
begin

text \<open>
  What the steps of the hardware profile webhook leave alone: the relation \<open>hwp_frame\<close> between a
  Notebook before and after, which every step satisfies and which composes.
\<close>

section \<open>The main container\<close>

lemma index_from_map: "map P xs = map Q ys \<Longrightarrow> index_from i P xs = index_from i Q ys"
  by (induction xs arbitrary: i ys) (auto simp: Cons_eq_map_conv)

lemma index_from_bound: "index_from i P xs = Some k \<Longrightarrow> i \<le> k \<and> k < i + length xs"
  by (induction xs arbitrary: i) (force split: if_splits)+

lemma main_index_bound: "notebookMainContainerIndex cs n = Some k \<Longrightarrow> k < length cs"
  using index_from_bound [of 0 "container_named n" cs k]
  by (auto simp: notebookMainContainerIndex_def split: if_splits)

text \<open>The claims that are not the webhook's, and the claims of a container.\<close>

definition user_claims :: "json list \<Rightarrow> json list" where
  "user_claims cs = filter (\<lambda>c. \<forall>m. c = JObj m \<longrightarrow> map_of m ''name'' \<noteq> Some (JStr ''hwp-dra'')) cs"

definition container_claims :: "object \<Rightarrow> json list" where
  "container_claims m =
     (case map_of m ''resources'' of
        Some (JObj res) \<Rightarrow> (case map_of res ''claims'' of Some (JArr cs) \<Rightarrow> cs | _ \<Rightarrow> [])
      | _ \<Rightarrow> [])"

lemma user_claims_eq [simp]: "user_claims cs = filterOutClaim cs draClaimName"
proof -
  have "claim_named draClaimName c \<longleftrightarrow> (\<exists>m. c = JObj m \<and> map_of m ''name'' = Some (JStr ''hwp-dra''))" for c
    by (cases c) (auto simp: claim_named_def str_field_def draClaimName_def split: option.splits json.splits)
  then show ?thesis by (auto simp: user_claims_def filterOutClaim_def intro!: filter_cong)
qed

lemma container_claims_eq [simp]: "filterOutClaim (container_claims m) n = preserveUserResourceClaims m n"
  by (auto simp: container_claims_def preserveUserResourceClaims_def filterOutClaim_def
      split: option.splits json.splits)

text \<open>
  A container that differs at most in its resources, and there keeps the claims that are not the
  webhook's.
\<close>

definition only_resources :: "json \<Rightarrow> json \<Rightarrow> bool" where
  "only_resources c c' \<longleftrightarrow> c' = c \<or>
     (\<exists>m m'. c = JObj m \<and> c' = JObj m' \<and> (\<forall>k. k \<noteq> ''resources'' \<longrightarrow> map_of m' k = map_of m k)
        \<and> user_claims (container_claims m') = user_claims (container_claims m))"

lemma only_resources_refl [simp]: "only_resources c c"
  by (simp add: only_resources_def)

lemma only_resources_trans: "only_resources a b \<Longrightarrow> only_resources b c \<Longrightarrow> only_resources a c"
  by (auto simp: only_resources_def)

lemma only_resources_name: "only_resources c c' \<Longrightarrow> container_named n c' = container_named n c"
  by (auto simp: only_resources_def container_named_def str_field_def)

definition main_touched :: "string \<Rightarrow> json list \<Rightarrow> json list \<Rightarrow> bool" where
  "main_touched n cs cs' \<longleftrightarrow> length cs' = length cs
     \<and> (\<forall>j < length cs. if notebookMainContainerIndex cs n = Some j
          then only_resources (cs ! j) (cs' ! j) else cs' ! j = cs ! j)"

lemma main_touched_refl [simp]: "main_touched n cs cs"
  by (simp add: main_touched_def)

lemma main_touched_index:
  assumes "main_touched n cs cs'"
  shows "notebookMainContainerIndex cs' n = notebookMainContainerIndex cs n"
proof -
  have "map (container_named n) cs' = map (container_named n) cs"
    using assms only_resources_name
    by (intro nth_equalityI) (auto simp: main_touched_def split: if_splits)
  then show ?thesis
    using assms index_from_map [of "container_named n" cs' "container_named n" cs 0]
    by (simp add: notebookMainContainerIndex_def main_touched_def)
qed

lemma main_touched_trans: "main_touched n a b \<Longrightarrow> main_touched n b c \<Longrightarrow> main_touched n a c"
  using main_touched_index [of n a b]
  by (auto simp: main_touched_def split: if_splits intro: only_resources_trans)

lemma main_touched_update:
  assumes "notebookMainContainerIndex cs n = Some k" and "only_resources (cs ! k) c"
  shows "main_touched n cs (cs[k := c])"
  using assms by (auto simp: main_touched_def nth_list_update)

section \<open>The frame\<close>

definition containers_of :: "object \<Rightarrow> json list" where
  "containers_of obj = found_list (nested_as as_arr obj notebookContainersPath)"

definition pod_claims :: "object \<Rightarrow> json list" where
  "pod_claims obj = found_list (nested_as as_arr obj notebookResourceClaimsPath)"

definition notebook_name :: "object \<Rightarrow> string" where
  "notebook_name obj = meta_str obj [''metadata'', ''name'']"

definition annotations_path :: "string list" where
  "annotations_path = [''metadata'', ''annotations'']"

definition annotation_of :: "object \<Rightarrow> string \<Rightarrow> string" where
  "annotation_of obj k =
     (case found_or_none (nested_as string_map obj annotations_path) of None \<Rightarrow> [] | Some m \<Rightarrow> get_str m k)"

text \<open>The paths that no step of the webhook writes through.\<close>

definition off_path :: "string list \<Rightarrow> bool" where
  "off_path gs \<longleftrightarrow> apart annotations_path gs
     \<and> apart [''metadata'', ''labels''] gs \<and> apart notebookNodeSelectorPath gs
     \<and> apart notebookTolerationsPath gs \<and> apart notebookResourceClaimsPath gs
     \<and> apart notebookContainersPath gs"

lemmas path_defs = notebook_paths off_path_def annotations_path_def

text \<open>
  Outside those paths nothing changes; of the containers only the resources of the main one; of the
  claims and the annotations only the webhook's own.
\<close>

definition hwp_frame :: "object \<Rightarrow> object \<Rightarrow> bool" where
  "hwp_frame obj obj' \<longleftrightarrow>
     (\<forall>gs. off_path gs \<longrightarrow> nested_field (JObj obj') gs = nested_field (JObj obj) gs)
     \<and> main_touched (notebook_name obj) (containers_of obj) (containers_of obj')
     \<and> user_claims (pod_claims obj') = user_claims (pod_claims obj)
     \<and> (\<forall>k. k \<noteq> HardwareProfileNamespaceAnnotation \<longrightarrow> annotation_of obj' k = annotation_of obj k)"

lemma name_off_path: "off_path [''metadata'', ''name'']" "off_path [''metadata'', ''namespace'']"
  by (simp_all add: path_defs)

lemma frame_name: "hwp_frame obj obj' \<Longrightarrow> notebook_name obj' = notebook_name obj"
  using name_off_path(1) by (auto simp: hwp_frame_def notebook_name_def meta_str_def nested_as_def)

lemma frame_refl [simp]: "hwp_frame obj obj"
  by (simp add: hwp_frame_def)

lemma frame_trans:
  assumes "hwp_frame a b" and "hwp_frame b c"
  shows "hwp_frame a c"
proof -
  have "main_touched (notebook_name a) (containers_of a) (containers_of c)"
    using assms main_touched_trans frame_name [OF assms(1)] by (auto simp: hwp_frame_def)
  with assms show ?thesis by (simp add: hwp_frame_def)
qed

text \<open>A step that leaves containers and claims alone.\<close>

lemma frame_elsewhere:
  assumes "\<And>gs. off_path gs \<or> gs = annotations_path \<or> gs = notebookContainersPath
        \<or> gs = notebookResourceClaimsPath \<Longrightarrow> nested_field (JObj obj') gs = nested_field (JObj obj) gs"
  shows "hwp_frame obj obj'"
  using assms by (simp add: hwp_frame_def containers_of_def pod_claims_def annotation_of_def nested_as_def)

lemma frame_set_apart:
  assumes "set_nested obj v fs = Inr obj'"
    and "fs = [''metadata'', ''labels''] \<or> fs = notebookNodeSelectorPath \<or> fs = notebookTolerationsPath"
  shows "hwp_frame obj obj'"
proof (rule frame_elsewhere, rule nested_set_apart [OF assms(1)])
  fix gs
  assume "off_path gs \<or> gs = annotations_path \<or> gs = notebookContainersPath \<or> gs = notebookResourceClaimsPath"
  with assms(2) show "apart fs gs" by (auto simp: path_defs)
qed

lemma frame_set_labels: "hwp_frame obj (set_or_same obj v [''metadata'', ''labels''])"
proof (cases "set_nested obj v [''metadata'', ''labels'']")
  case (Inr obj')
  then have "set_or_same obj v [''metadata'', ''labels''] = obj'"
    by (simp add: set_or_same_def del: set_nested.simps)
  moreover have "hwp_frame obj obj'" using Inr by (rule frame_set_apart) simp
  ultimately show ?thesis by simp
qed (simp add: set_or_same_def del: set_nested.simps)

lemma frame_remove_apart:
  assumes "fs = notebookNodeSelectorPath \<or> fs = notebookTolerationsPath"
  shows "hwp_frame obj (remove_nested obj fs)"
proof (rule frame_elsewhere, rule nested_remove_apart)
  fix gs
  assume "off_path gs \<or> gs = annotations_path \<or> gs = notebookContainersPath \<or> gs = notebookResourceClaimsPath"
  with assms show "apart fs gs" by (auto simp: path_defs)
qed

text \<open>A write of the annotations that changes the webhook's own at most.\<close>

lemma frame_set_annotations:
  assumes "\<And>k. k \<noteq> HardwareProfileNamespaceAnnotation \<Longrightarrow> get_str m k = annotation_of obj k"
  shows "hwp_frame obj (set_or_same obj (JObj (of_strings m)) annotations_path)"
proof (cases "set_nested obj (JObj (of_strings m)) annotations_path")
  case (Inr obj')
  have "nested_field (JObj obj') gs = nested_field (JObj obj) gs"
    if "off_path gs \<or> gs = notebookContainersPath \<or> gs = notebookResourceClaimsPath" for gs
    using that by (intro nested_set_apart [OF Inr]) (auto simp: path_defs)
  moreover have "annotation_of obj' k = get_str m k" for k
    using nested_as_set_same [OF Inr, of string_map] by (simp add: annotation_of_def found_or_none_def)
  ultimately have "hwp_frame obj obj'"
    using assms by (simp add: hwp_frame_def containers_of_def pod_claims_def nested_as_def)
  with Inr show ?thesis by (simp add: set_or_same_def)
qed (simp add: set_or_same_def)

lemma found_list_simps [simp]:
  "found_list (Inr (Some xs)) = xs" "found_list (Inr None) = []" "found_list (Inl e) = []"
  by (simp_all add: found_list_def found_or_none_def)

text \<open>A write of the pod-level claims that keeps those of the user.\<close>

lemma frame_set_claims:
  assumes "set_nested obj (JArr cs) notebookResourceClaimsPath = Inr obj'"
    and "filterOutClaim cs draClaimName = filterOutClaim (pod_claims obj) draClaimName"
  shows "hwp_frame obj obj'"
proof -
  have "nested_field (JObj obj') gs = nested_field (JObj obj) gs" if "off_path gs \<or> gs = annotations_path \<or> gs = notebookContainersPath" for gs
    using that by (intro nested_set_apart [OF assms(1)]) (auto simp: path_defs)
  moreover have "pod_claims obj' = cs"
    using nested_as_set_same [OF assms(1), of as_arr] by (simp add: pod_claims_def)
  ultimately show ?thesis
    using assms(2) by (simp add: hwp_frame_def containers_of_def annotation_of_def nested_as_def)
qed

lemma frame_remove_claims:
  assumes "filterOutClaim (pod_claims obj) draClaimName = []"
  shows "hwp_frame obj (remove_nested obj notebookResourceClaimsPath)"
proof -
  let ?obj' = "remove_nested obj notebookResourceClaimsPath"
  have "nested_field (JObj ?obj') gs = nested_field (JObj obj) gs" if "off_path gs \<or> gs = annotations_path \<or> gs = notebookContainersPath" for gs
    using that by (intro nested_remove_apart) (auto simp: path_defs)
  moreover have "nested_field (JObj ?obj') notebookResourceClaimsPath \<in> {Inr None} \<union> range Inl"
    by (rule nested_remove_same) (simp add: notebook_paths)
  then have "pod_claims ?obj' = []"
    by (auto simp: pod_claims_def nested_as_def)
  ultimately show ?thesis
    using assms by (simp add: hwp_frame_def containers_of_def annotation_of_def nested_as_def filterOutClaim_def)
qed

text \<open>A write of the main container's resources.\<close>

lemma frame_set_main:
  assumes "nested_as as_arr obj notebookContainersPath = Inr (Some cs)"
    and "notebookMainContainerIndex cs (notebook_name obj) = Some k" and "only_resources (cs ! k) c"
    and "set_nested obj (JArr (cs[k := c])) notebookContainersPath = Inr obj'"
  shows "hwp_frame obj obj'"
proof -
  have "nested_field (JObj obj') gs = nested_field (JObj obj) gs"
    if "off_path gs \<or> gs = annotations_path \<or> gs = notebookResourceClaimsPath" for gs
    using that by (intro nested_set_apart [OF assms(4)]) (auto simp: path_defs)
  moreover have "containers_of obj' = cs[k := c]"
    using nested_as_set_same [OF assms(4), of as_arr] by (simp add: containers_of_def)
  moreover have "containers_of obj = cs" using assms(1) by (simp add: containers_of_def)
  ultimately show ?thesis
    using main_touched_update [OF assms(2,3)] by (simp add: hwp_frame_def pod_claims_def annotation_of_def nested_as_def)
qed

section \<open>The steps\<close>

lemma paths_nonempty [simp]:
  "notebookContainersPath \<noteq> []" "notebookNodeSelectorPath \<noteq> []" "notebookTolerationsPath \<noteq> []"
  "notebookResourceClaimsPath \<noteq> []"
  by (simp_all add: notebook_paths)

lemma filter_claims_idem [simp]:
  "filterOutClaim (filterOutClaim cs n) n = filterOutClaim cs n"
  by (simp add: filterOutClaim_def)

lemma filter_claims_append [simp]:
  "filterOutClaim (cs @ ds) n = filterOutClaim cs n @ filterOutClaim ds n"
  by (simp add: filterOutClaim_def)

lemma filter_dra_claim [simp]:
  "filterOutClaim [dra_claim t] draClaimName = []"
  "filterOutClaim [JObj [(''name'', JStr n)]] n = []" "filterOutClaim [] n = []"
  by (simp_all add: filterOutClaim_def claim_named_def dra_claim_def str_field_def)

lemma preserved_update:
  "preserveUserResourceClaims (AList.update ''resources'' (JObj res) m) n =
     (case Option.bind (map_of res ''claims'') as_arr of None \<Rightarrow> [] | Some cs \<Rightarrow> filterOutClaim cs n)"
  by (simp add: preserveUserResourceClaims_def)

lemma only_resources_update:
  assumes "preserveUserResourceClaims (AList.update ''resources'' (JObj res) m) draClaimName =
     preserveUserResourceClaims m draClaimName"
  shows "only_resources (JObj m) (JObj (AList.update ''resources'' (JObj res) m))"
  using assms by (auto simp: only_resources_def)

lemma clear_profile_only: "only_resources (JObj m) (JObj (clear_profile_resources m))"
  by (auto simp: only_resources_def clear_profile_resources_def Let_def preserveUserResourceClaims_def
      split: option.splits)

definition hwp_identifiers :: "object \<Rightarrow> json list" where
  "hwp_identifiers hwp = found_list (nested_as as_arr hwp [''spec'', ''identifiers''])"

context unstructured
begin

lemma removeLabel_frame: "hwp_frame obj (removeLabel U obj key)"
  by (simp add: removeLabel_def set_labels frame_set_labels split: option.split)

lemma setLabel_frame: "hwp_frame obj (setLabel U obj key v)"
  by (simp add: setLabel_def set_labels frame_set_labels)

lemma getAnnotation_eq: "getAnnotation U obj k = annotation_of obj k"
  by (simp add: getAnnotation_def get_annotations annotation_of_def annotations_path_def)

lemma setAnnotation_frame: "hwp_frame obj (setAnnotation U obj HardwareProfileNamespaceAnnotation v)"
  unfolding setAnnotation_def set_annotations annotations_path_def [symmetric]
  by (rule frame_set_annotations)
    (auto simp: get_annotations annotation_of_def annotations_path_def get_str_def split: option.splits)

lemma removeAnnotation_frame: "hwp_frame obj (removeAnnotation U obj HardwareProfileNamespaceAnnotation)"
proof (cases "GetAnnotations U obj")
  case (Some m)
  then have "get_str (AList.delete HardwareProfileNamespaceAnnotation m) k = annotation_of obj k"
    if "k \<noteq> HardwareProfileNamespaceAnnotation" for k
    using that by (simp add: get_annotations annotation_of_def annotations_path_def get_str_def)
  then have "hwp_frame obj (set_or_same obj (JObj (of_strings (AList.delete HardwareProfileNamespaceAnnotation m)))
      annotations_path)"
    by (rule frame_set_annotations)
  with Some show ?thesis by (simp add: removeAnnotation_def set_annotations annotations_path_def)
qed (simp add: removeAnnotation_def)

lemma removePod_frame: "hwp_frame obj (removePodResourceClaim U obj draClaimName)"
proof -
  have "hwp_frame obj obj'"
    if "set_nested obj (JArr (filterOutClaim (pod_claims obj) draClaimName)) notebookResourceClaimsPath = Inr obj'" for obj'
    using that by (rule frame_set_claims) simp
  then show ?thesis
    by (auto simp: removePodResourceClaim_def Let_def api pod_claims_def [symmetric]
        intro: frame_remove_claims split: sum.split)
qed

lemma removeContainer_frame: "hwp_frame obj (removeContainerResourceClaims U obj draClaimName)"
proof (cases "removeContainerResourceClaims U obj draClaimName = obj")
  case False
  then obtain cs k m res cl m' obj' where
    cs: "nested_as as_arr obj notebookContainersPath = Inr (Some cs)"
    and k: "notebookMainContainerIndex cs (notebook_name obj) = Some k" "cs ! k = JObj m"
    and m: "map_of m ''resources'' = Some (JObj res)" "map_of res ''claims'' = Some (JArr cl)"
    and m': "m' = AList.update ''resources'' (JObj
        (if length (filterOutClaim cl draClaimName) = 0 then AList.delete ''claims'' res
         else AList.update ''claims'' (JArr (filterOutClaim cl draClaimName)) res)) m"
    and st: "set_nested obj (JArr (cs[k := JObj m'])) notebookContainersPath = Inr obj'"
    and res: "removeContainerResourceClaims U obj draClaimName = obj'"
    by (auto simp: removeContainerResourceClaims_def Let_def api found_list_def found_or_none_def
        notebook_name_def bind_eq_Some_conv split: option.splits sum.splits if_splits)
  have "only_resources (JObj m) (JObj m')"
    unfolding m' by (rule only_resources_update) (auto simp: preserveUserResourceClaims_def m)
  with frame_set_main [OF cs k(1) _ st] k(2) res show ?thesis by simp
qed simp

lemma removeDRA_frame: "hwp_frame obj (removeDRAFromNotebook U obj)"
  unfolding removeDRAFromNotebook_def
  by (rule frame_trans [OF removePod_frame removeContainer_frame])

lemma setContainer_frame:
  assumes "setContainerResourceClaims U obj draClaimName = Inr obj'"
  shows "hwp_frame obj obj'"
proof (cases "obj' = obj")
  case False
  with assms obtain cs k m res where
    cs: "nested_as as_arr obj notebookContainersPath = Inr (Some cs)"
    and k: "notebookMainContainerIndex cs (notebook_name obj) = Some k" "cs ! k = JObj m"
    and r: "getOrCreateNestedMap U m ''resources'' = Inr res"
    and st: "set_nested obj (JArr (cs[k := JObj (AList.update ''resources'' (JObj (AList.update ''claims''
        (JArr (filterOutClaim (case Option.bind (map_of res ''claims'') as_arr of None \<Rightarrow> [] | Some cs \<Rightarrow> cs) draClaimName
          @ [JObj [(''name'', JStr draClaimName)]])) res)) m)])) notebookContainersPath = Inr obj'"
    by (auto simp: setContainerResourceClaims_def Let_def api notebook_name_def
        split: option.splits sum.splits if_splits)
  have "map_of m ''resources'' = None \<and> res = [] \<or> map_of m ''resources'' = Some (JObj res)"
    using r by (auto simp: getOrCreateNestedMap_def api nested_as_def split: sum.splits option.splits)
  then have "only_resources (JObj m) (JObj (AList.update ''resources'' (JObj (AList.update ''claims''
        (JArr (filterOutClaim (case Option.bind (map_of res ''claims'') as_arr of None \<Rightarrow> [] | Some cs \<Rightarrow> cs) draClaimName
          @ [JObj [(''name'', JStr draClaimName)]])) res)) m))"
    by (intro only_resources_update)
      (auto simp: preserveUserResourceClaims_def split: option.splits)
  with frame_set_main [OF cs k(1) _ st] k(2) show ?thesis by simp
qed simp

lemma clear_scheduling_frame: "hwp_frame obj (clear_scheduling U obj)"
proof -
  let ?a = "removeLabel U obj kueueQueueNameLabel"
  let ?b = "remove_nested ?a notebookNodeSelectorPath"
  let ?c = "remove_nested ?b notebookTolerationsPath"
  have "hwp_frame obj ?b"
    by (rule frame_trans [OF removeLabel_frame frame_remove_apart]) simp
  then have "hwp_frame obj ?c"
    by (rule frame_trans [OF _ frame_remove_apart]) simp
  then have "hwp_frame obj (removeDRAFromNotebook U ?c)"
    by (rule frame_trans [OF _ removeDRA_frame])
  then show ?thesis by (simp add: clear_scheduling_def remove_nested_field)
qed

lemma nodeSelector_removal_frame:
  assumes "removeHWPNodeSelector U obj notebookNodeSelectorPath ns = Inr obj'"
  shows "hwp_frame obj obj'"
  using assms
  by (auto simp: removeHWPNodeSelector_def Let_def remove_nested_field set_nested_string_map
      intro: frame_set_apart frame_remove_apart split: sum.splits if_splits)

lemma nodeSelector_frame:
  assumes "applyNodeSelector U obj ns changed n = Inr (obj', ws)"
  shows "hwp_frame obj obj'"
  using assms
  by (auto simp: applyNodeSelector_def set_nested_string_map intro: frame_set_apart
      split: sum.splits if_splits)

lemma getOrCreate_resources:
  assumes "getOrCreateNestedMap U m f = Inr res"
  shows "map_of m f = None \<and> res = [] \<or> map_of m f = Some (JObj res)"
  using assms by (auto simp: getOrCreateNestedMap_def api nested_as_def split: sum.splits option.splits)

lemma identifiers_frame:
  assumes "applyIdentifiersToContainer i m ids = Inr m'" and "inj_Unstructured i = U"
  shows "only_resources (JObj m) (JObj m')"
proof -
  from assms obtain res requests limits where
    "getOrCreateNestedMap U m ''resources'' = Inr res"
    and m': "m' = AList.update ''resources'' (JObj (AList.update ''limits'' (JObj limits)
        (AList.update ''requests'' (JObj requests) res))) m"
    by (auto simp: applyIdentifiersToContainer_def Let_def split: sum.splits)
  then have "map_of m ''resources'' = None \<and> res = [] \<or> map_of m ''resources'' = Some (JObj res)"
    by (simp add: getOrCreate_resources)
  then show ?thesis
    unfolding m' by (intro only_resources_update) (auto simp: preserveUserResourceClaims_def)
qed

lemma resources_frame:
  assumes "applyResourcesToNotebookContainer i ids obj changed = Inr obj'" and U: "inj_Unstructured i = U"
  shows "hwp_frame obj obj'"
proof (cases "obj' = obj")
  case False
  with assms obtain cs k m m' where
    cs: "nested_as as_arr obj notebookContainersPath = Inr (Some cs)"
    and k: "notebookMainContainerIndex cs (notebook_name obj) = Some k" "cs ! k = JObj m"
    and m': "applyIdentifiersToContainer i (if changed then clear_profile_resources m else m) ids = Inr m'"
    and st: "set_nested obj (JArr (cs[k := JObj m'])) notebookContainersPath = Inr obj'"
    by (auto simp: applyResourcesToNotebookContainer_def Let_def api notebook_name_def
        split: option.splits sum.splits if_splits)
  have "only_resources (JObj m) (JObj m')"
    using identifiers_frame [OF m' U] only_resources_trans [OF clear_profile_only]
    by (cases changed) auto
  with frame_set_main [OF cs k(1) _ st] k(2) show ?thesis by simp
qed simp

lemma dra_frame:
  assumes "applyDRAIfConfigured i obj hwp s = (Inr obj', s')" and U: "inj_Unstructured i = U"
  shows "hwp_frame obj obj'"
proof (cases "obj' = obj")
  case False
  with assms obtain t obj1 where
    st: "set_nested obj (JArr (filterOutClaim (pod_claims obj) draClaimName @ [dra_claim t]))
       notebookResourceClaimsPath = Inr obj1"
    and obj': "setContainerResourceClaims U obj1 draClaimName = Inr obj'"
    by (auto simp: applyDRAIfConfigured_def applyDRAToNotebook_def Let_def api pod_claims_def
        split: sum.splits option.splits list.splits prod.splits if_splits)
  have "hwp_frame obj obj1" using st by (rule frame_set_claims) simp
  with setContainer_frame [OF obj'] show ?thesis by (rule frame_trans [rotated])
qed simp

lemma tolerations_frame:
  assumes "applyTolerations i obj ts changed = Inr obj'" and "inj_Unstructured i = U"
  shows "hwp_frame obj obj'"
  using assms
  by (auto simp: applyTolerations_def Let_def set_nested_slice intro: frame_set_apart
      split: sum.splits if_splits)

lemma tolerations_removal_frame:
  assumes "removeHWPTolerations i obj notebookTolerationsPath ts = Inr obj'" and "inj_Unstructured i = U"
  shows "hwp_frame obj obj'"
  using assms
  by (auto simp: removeHWPTolerations_def Let_def remove_nested_field set_nested_slice
      intro: frame_set_apart frame_remove_apart split: sum.splits if_splits)

lemma scheduling_frame:
  assumes "apply_scheduling i obj hwp changed = Inr (obj', ws)" and U: "inj_Unstructured i = U"
  shows "hwp_frame obj obj'"
  using assms(1) unfolding apply_scheduling_def U Let_def
  by (auto simp: setLabel_frame dest!: tolerations_frame [OF _ U] nodeSelector_frame
      intro: frame_trans split: sum.splits if_splits list.splits option.splits)

text \<open>The steps of a successful application, and of a successful removal.\<close>

lemma apply_steps:
  assumes "applyHardwareProfileToNotebook i obj hwp changed new s = (Inr (obj', ws), s')"
    and U: "inj_Unstructured i = U"
  obtains a b c where "a = (if changed then clear_scheduling U obj else obj)"
    and "(if hwp_identifiers hwp = [] then Inr a
          else applyResourcesToNotebookContainer i (hwp_identifiers hwp) a changed) = Inr b"
    and "(if new \<or> changed then applyDRAIfConfigured i b hwp s else (Inr b, s)) = (Inr c, s')"
    and "apply_scheduling i c hwp changed = Inr (obj', ws)"
  using assms(1) unfolding applyHardwareProfileToNotebook_def Let_def U nested_slice hwp_identifiers_def [symmetric]
  by (auto split: sum.splits prod.splits if_splits)

lemma removal_steps:
  assumes "removeHWPSettings i obj hwp = Inr obj'" and U: "inj_Unstructured i = U"
  obtains a b c where
    "a = (if found_list (NestedString U hwp hwp_queue) = [] then obj else removeLabel U obj kueueQueueNameLabel)"
    and "(if found_list (NestedStringMap U hwp hwp_node_selector) = [] then Inr a
          else removeHWPNodeSelector U a notebookNodeSelectorPath (found_list (NestedStringMap U hwp hwp_node_selector)))
          = Inr b"
    and "(if found_list (NestedSlice U hwp hwp_tolerations) = [] then Inr b
          else removeHWPTolerations i b notebookTolerationsPath (found_list (NestedSlice U hwp hwp_tolerations))) = Inr c"
    and "obj' = removeDRAFromNotebook U c"
  using assms(1) unfolding removeHWPSettings_def Let_def U
  by (auto split: sum.splits if_splits)

lemma apply_frame:
  assumes "applyHardwareProfileToNotebook i obj hwp changed new s = (Inr (obj', ws), s')"
    and U: "inj_Unstructured i = U"
  shows "hwp_frame obj obj'"
  using assms
proof (cases rule: apply_steps)
  case (1 a b c)
  have "hwp_frame obj a" using 1(1) clear_scheduling_frame by simp
  moreover have "hwp_frame a b" using 1(2) resources_frame [OF _ U] by (auto split: if_splits)
  moreover have "hwp_frame b c" using 1(3) dra_frame [OF _ U] by (auto split: if_splits)
  moreover have "hwp_frame c obj'" using 1(4) U by (rule scheduling_frame)
  ultimately show ?thesis by (meson frame_trans)
qed

lemma removal_frame:
  assumes "removeHWPSettings i obj hwp = Inr obj'" and U: "inj_Unstructured i = U"
  shows "hwp_frame obj obj'"
  using assms
proof (cases rule: removal_steps)
  case (1 a b c)
  have "hwp_frame obj a" using 1(1) removeLabel_frame by simp
  moreover have "hwp_frame a b" using 1(2) nodeSelector_removal_frame by (auto split: if_splits)
  moreover have "hwp_frame b c" using 1(3) tolerations_removal_frame [OF _ U] by (auto split: if_splits)
  moreover have "hwp_frame c obj'" using 1(4) removeDRA_frame by simp
  ultimately show ?thesis by (meson frame_trans)
qed

end

end
