(* ===== verification/HardwareProfile_Settled.thy ===== *)
theory HardwareProfile_Settled
  imports HardwareProfile_Frame
begin

text \<open>
  When the steps of the hardware profile webhook have nothing left to do, and that each of them leaves
  the Notebook in that state: the facts behind the idempotence of the webhook.
\<close>

definition tolerations_of :: "object \<Rightarrow> json list" where
  "tolerations_of obj = found_list (nested_as as_arr obj notebookTolerationsPath)"

definition selector_of :: "object \<Rightarrow> string gomap" where
  "selector_of obj = found_list (nested_as string_map obj notebookNodeSelectorPath)"

section \<open>Identifiers\<close>

text \<open>What one identifier of the profile asks for: nothing, an error, or a resource and its quantity.\<close>

definition identifier_of :: "'s Injector \<Rightarrow> json \<Rightarrow> (string \<times> string) option res" where
  "identifier_of i ident =
     (case as_obj ident of
        None \<Rightarrow> Inr None
      | Some idMap \<Rightarrow>
          (case found_or_none (NestedString (inj_Unstructured i) idMap [''identifier'']) of
             None \<Rightarrow> Inr None
           | Some x \<Rightarrow>
               if x = [] then Inr None
               else (case found_or_none (NestedFieldNoCopy (inj_Unstructured i) idMap [''defaultCount'']) of
                   None \<Rightarrow> Inr None
                 | Some d \<Rightarrow>
                     if d = JNull then Inr None
                     else (case parseQuantityValue i d of
                         Inl err \<Rightarrow> Inl (WrapErr (''failed to convert resource quantity for '' @ x @ '': '') err)
                       | Inr q \<Rightarrow> Inr (Some (x, q))))))"

definition add_request :: "string \<Rightarrow> string \<Rightarrow> object \<Rightarrow> object" where
  "add_request k q rq = (if map_of rq k = None then AList.update k (JStr q) rq else rq)"

definition add_limit :: "string \<Rightarrow> object \<Rightarrow> object \<Rightarrow> object" where
  "add_limit k rq lm = (if map_of lm k = None then AList.update k (the (map_of rq k)) lm else lm)"

lemma apply_identifiers_step:
  "apply_identifiers i (ident # ids) rq lm =
     (case identifier_of i ident of
        Inl err \<Rightarrow> Inl err
      | Inr None \<Rightarrow> apply_identifiers i ids rq lm
      | Inr (Some (k, q)) \<Rightarrow> apply_identifiers i ids (add_request k q rq) (add_limit k (add_request k q rq) lm))"
proof (cases "as_obj ident")
  case (Some idMap)
  show ?thesis
  proof (cases "found_or_none (NestedString (inj_Unstructured i) idMap [''identifier''])")
    case (Some x)
    with \<open>as_obj ident = Some idMap\<close> show ?thesis
      by (cases "found_or_none (NestedFieldNoCopy (inj_Unstructured i) idMap [''defaultCount''])")
        (simp_all add: identifier_of_def add_request_def add_limit_def Let_def split: sum.split option.split)
  qed (use Some in \<open>simp add: identifier_of_def\<close>)
qed (simp add: identifier_of_def)

lemma identifiers_keep:
  "apply_identifiers i ids rq lm = Inr (rq', lm') \<Longrightarrow>
     (map_of rq k \<noteq> None \<longrightarrow> map_of rq' k = map_of rq k) \<and> (map_of lm k \<noteq> None \<longrightarrow> map_of lm' k = map_of lm k)"
proof (induction ids arbitrary: rq lm)
  case (Cons ident ids)
  then show ?case
    by (auto simp: apply_identifiers_step add_request_def add_limit_def simp del: apply_identifiers.simps(2)
        split: sum.splits option.splits prod.splits if_splits)
qed simp

lemma identifiers_again:
  assumes "apply_identifiers i ids rq lm = Inr (rq', lm')"
    and "dom (map_of rq') \<subseteq> dom (map_of rq2)" and "dom (map_of lm') \<subseteq> dom (map_of lm2)"
  shows "apply_identifiers i ids rq2 lm2 = Inr (rq2, lm2)"
  using assms(1)
proof (induction ids arbitrary: rq lm)
  case (Cons ident ids)
  show ?case
  proof (cases "identifier_of i ident")
    case (Inr r)
    show ?thesis
    proof (cases r)
      case None
      with Inr Cons show ?thesis by (simp add: apply_identifiers_step del: apply_identifiers.simps(2))
    next
      case (Some kq)
      then obtain k q where r: "identifier_of i ident = Inr (Some (k, q))" using Inr by (cases kq) auto
      let ?rq = "add_request k q rq" and ?lm = "add_limit k (add_request k q rq) lm"
      have rest: "apply_identifiers i ids ?rq ?lm = Inr (rq', lm')"
        using Cons.prems r by (simp add: apply_identifiers_step del: apply_identifiers.simps(2))
      have "map_of ?rq k \<noteq> None" "map_of ?lm k \<noteq> None" by (auto simp: add_request_def add_limit_def)
      then have "map_of rq' k \<noteq> None" "map_of lm' k \<noteq> None"
        using identifiers_keep [OF rest, of k] by auto
      then have "k \<in> dom (map_of rq2)" "k \<in> dom (map_of lm2)" using assms(2,3) by blast+
      then have "add_request k q rq2 = rq2" "add_limit k rq2 lm2 = lm2"
        by (auto simp: add_request_def add_limit_def)
      with Cons.IH [OF rest] r show ?thesis
        by (simp add: apply_identifiers_step del: apply_identifiers.simps(2))
    qed
  qed (use Cons.prems in \<open>simp add: apply_identifiers_step del: apply_identifiers.simps(2)\<close>)
qed simp

section \<open>Settled steps\<close>

text \<open>The main container already carries what the identifiers ask for.\<close>

definition resources_settled :: "'s Injector \<Rightarrow> json list \<Rightarrow> object \<Rightarrow> bool" where
  "resources_settled i ids obj \<longleftrightarrow>
     (\<exists>r. nested_as as_arr obj notebookContainersPath = Inr r)
     \<and> (\<forall>k. notebookMainContainerIndex (containers_of obj) (notebook_name obj) = Some k \<longrightarrow>
         (\<exists>m res rq lm. containers_of obj ! k = JObj m \<and> map_of m ''resources'' = Some (JObj res)
            \<and> map_of res ''requests'' = Some (JObj rq) \<and> map_of res ''limits'' = Some (JObj lm)
            \<and> apply_identifiers i ids rq lm = Inr (rq, lm)))"

definition selector_settled :: "string gomap \<Rightarrow> object \<Rightarrow> bool" where
  "selector_settled ns obj \<longleftrightarrow>
     (\<exists>m. nested_as string_map obj notebookNodeSelectorPath = Inr (Some m) \<and> (\<forall>(k, v) \<in> set ns. map_of m k = Some v))"

definition tolerations_settled :: "'s Injector \<Rightarrow> json list \<Rightarrow> object \<Rightarrow> bool" where
  "tolerations_settled i ts obj \<longleftrightarrow>
     (\<exists>us. nested_as as_arr obj notebookTolerationsPath = Inr (Some (ts @ other_tolerations i ts us)))"

lemma fold_selector_same:
  "\<forall>(k, v) \<in> set ns. map_of m k = Some v \<Longrightarrow> fold (\<lambda>(k, v) m. AList.update k v m) ns m = m"
  by (induction ns) (auto simp: alist_update_same)

lemma fold_update_other:
  "k \<notin> fst ` set ns \<Longrightarrow> map_of (fold (\<lambda>(k, v) m. AList.update k v m) ns m) k = map_of m k"
  by (induction ns arbitrary: m) auto

lemma fold_update_has:
  "distinct (map fst ns) \<Longrightarrow> (k, v) \<in> set ns \<Longrightarrow> map_of (fold (\<lambda>(k, v) m. AList.update k v m) ns m) k = Some v"
  by (induction ns arbitrary: m) (auto simp: fold_update_other)

lemma other_tolerations_simps [simp]:
  "other_tolerations i ts ts = []"
  "other_tolerations i ts (xs @ ys) = other_tolerations i ts xs @ other_tolerations i ts ys"
  "other_tolerations i ts (other_tolerations i ts us) = other_tolerations i ts us"
proof -
  have "TolerationKey i m \<in> set (toleration_keys i ts)" if "JObj m \<in> set ts" for m
    using that by (force simp: toleration_keys_def map_filter_def List.map_filter_def)
  then show "other_tolerations i ts ts = []"
    by (auto simp: other_tolerations_def filter_empty_conv List.member_iff split: option.splits)
qed (simp_all add: other_tolerations_def)

lemma other_tolerations_Nil [simp]: "other_tolerations i ts [] = []"
  by (simp add: other_tolerations_def)

lemma resources_settled_cong:
  assumes "nested_field (JObj obj') notebookContainersPath = nested_field (JObj obj) notebookContainersPath"
    and "notebook_name obj' = notebook_name obj"
  shows "resources_settled i ids obj' = resources_settled i ids obj"
  using assms by (simp add: resources_settled_def containers_of_def nested_as_def)

context unstructured
begin

lemma resources_settled_apply:
  assumes "resources_settled i ids obj" and U: "inj_Unstructured i = U"
  shows "applyResourcesToNotebookContainer i ids obj False = Inr obj"
proof -
  obtain r where r: "nested_as as_arr obj notebookContainersPath = Inr r"
    using assms(1) by (auto simp: resources_settled_def)
  show ?thesis
  proof (cases "notebookMainContainerIndex (containers_of obj) (notebook_name obj)")
    case None
    with r show ?thesis
      by (auto simp: applyResourcesToNotebookContainer_def U api containers_of_def notebook_name_def
          Let_def split: option.splits)
  next
    case (Some k)
    with assms(1) obtain m res rq lm where
      m: "containers_of obj ! k = JObj m" "map_of m ''resources'' = Some (JObj res)"
        "map_of res ''requests'' = Some (JObj rq)" "map_of res ''limits'' = Some (JObj lm)"
        "apply_identifiers i ids rq lm = Inr (rq, lm)"
      by (auto simp: resources_settled_def)
    have k: "k < length (containers_of obj)" using Some by (rule main_index_bound)
    with r obtain cs where cs: "nested_as as_arr obj notebookContainersPath = Inr (Some cs)" "containers_of obj = cs"
      by (cases r) (auto simp: containers_of_def)
    have "applyIdentifiersToContainer i m ids = Inr m"
      using m by (simp add: applyIdentifiersToContainer_def getOrCreateNestedMap_def U api nested_as_def
          alist_update_same)
    moreover have "set_nested obj (JArr cs) notebookContainersPath = Inr obj"
      using cs(1) by (intro set_nested_same) (auto simp: nested_as_found)
    moreover have "cs[k := JObj m] = cs" using m(1) cs(2) by (metis list_update_id)
    ultimately show ?thesis
      using Some k m(1) cs
      by (auto simp: applyResourcesToNotebookContainer_def U api notebook_name_def Let_def)
  qed
qed

lemma resources_settles:
  assumes ap: "applyResourcesToNotebookContainer i ids obj changed = Inr obj'" and U: "inj_Unstructured i = U"
  shows "resources_settled i ids obj'"
proof -
  obtain r where r: "nested_as as_arr obj notebookContainersPath = Inr r"
    using ap by (auto simp: applyResourcesToNotebookContainer_def U api Let_def split: sum.splits)
  show ?thesis
  proof (cases "notebookMainContainerIndex (containers_of obj) (notebook_name obj)")
    case None
    with r ap have "obj' = obj"
      by (auto simp: applyResourcesToNotebookContainer_def U api containers_of_def notebook_name_def
          Let_def split: option.splits if_splits)
    with None r show ?thesis by (simp add: resources_settled_def)
  next
    case (Some k)
    have k: "k < length (containers_of obj)" using Some by (rule main_index_bound)
    with r obtain cs where cs: "nested_as as_arr obj notebookContainersPath = Inr (Some cs)" "containers_of obj = cs"
      by (cases r) (auto simp: containers_of_def)
    obtain m m' where m: "cs ! k = JObj m"
      and m': "applyIdentifiersToContainer i (if changed then clear_profile_resources m else m) ids = Inr m'"
      and st: "set_nested obj (JArr (cs[k := JObj m'])) notebookContainersPath = Inr obj'"
      using ap Some k cs
      by (auto simp: applyResourcesToNotebookContainer_def U api notebook_name_def Let_def
          split: option.splits sum.splits if_splits)
    from m' obtain res rq0 lm0 rq lm where
      "apply_identifiers i ids rq0 lm0 = Inr (rq, lm)"
      and m'2: "map_of m' ''resources'' = Some (JObj (AList.update ''limits'' (JObj lm) (AList.update ''requests'' (JObj rq) res)))"
      by (auto simp: applyIdentifiersToContainer_def U Let_def split: sum.splits)
    then have again: "apply_identifiers i ids rq lm = Inr (rq, lm)" by (auto intro: identifiers_again)
    have frame: "hwp_frame obj obj'" using ap U by (rule resources_frame)
    have now: "nested_as as_arr obj' notebookContainersPath = Inr (Some (cs[k := JObj m']))"
      using nested_as_set_same [OF st, of as_arr] by simp
    then have "containers_of obj' = cs[k := JObj m']" by (simp add: containers_of_def)
    moreover have "notebookMainContainerIndex (containers_of obj') (notebook_name obj') = Some k"
      using frame Some main_touched_index frame_name [OF frame] by (auto simp: hwp_frame_def)
    ultimately show ?thesis using now k cs(2) m'2 again by (auto simp: resources_settled_def)
  qed
qed

lemma claims_keep_settled:
  assumes "resources_settled i ids obj" and st: "setContainerResourceClaims U obj c = Inr obj'" and "c = draClaimName"
  shows "resources_settled i ids obj'"
proof (cases "obj' = obj")
  case False
  with st obtain cs k m res cl where
    cs: "nested_as as_arr obj notebookContainersPath = Inr (Some cs)"
    and k: "notebookMainContainerIndex cs (notebook_name obj) = Some k" "cs ! k = JObj m"
    and r: "getOrCreateNestedMap U m ''resources'' = Inr res"
    and set: "set_nested obj (JArr (cs[k := JObj (AList.update ''resources'' (JObj (AList.update ''claims''
        (JArr cl) res)) m)])) notebookContainersPath = Inr obj'"
    by (auto simp: setContainerResourceClaims_def Let_def api notebook_name_def
        split: option.splits sum.splits if_splits)
  have frame: "hwp_frame obj obj'" using st assms(3) setContainer_frame by simp
  have "containers_of obj = cs" using cs by (simp add: containers_of_def)
  with assms(1) k r obtain rq lm where
    res: "map_of res ''requests'' = Some (JObj rq)" "map_of res ''limits'' = Some (JObj lm)"
      "apply_identifiers i ids rq lm = Inr (rq, lm)"
    using getOrCreate_resources [OF r] by (auto simp: resources_settled_def)
  have now: "nested_as as_arr obj' notebookContainersPath = Inr (Some (cs[k := JObj (AList.update ''resources''
      (JObj (AList.update ''claims'' (JArr cl) res)) m)]))"
    using nested_as_set_same [OF set, of as_arr] by simp
  moreover have "notebookMainContainerIndex (containers_of obj') (notebook_name obj') = Some k"
    using frame k main_touched_index frame_name [OF frame] \<open>containers_of obj = cs\<close> by (auto simp: hwp_frame_def)
  ultimately show ?thesis
    using main_index_bound [OF k(1)] res by (auto simp: resources_settled_def containers_of_def)
qed (use assms in simp)

lemma selector_settled_apply:
  "selector_settled ns obj \<Longrightarrow> applyNodeSelector U obj ns False n = Inr (obj, [])"
proof (unfold selector_settled_def, elim exE conjE)
  fix m
  assume m: "nested_as string_map obj notebookNodeSelectorPath = Inr (Some m)" "\<forall>(k, v) \<in> set ns. map_of m k = Some v"
  have "mergeNodeSelector U obj notebookNodeSelectorPath ns n = Inr (m, [])"
    using m by (auto simp: mergeNodeSelector_def api fold_selector_same List.map_filter_def filter_empty_conv
        split: option.splits)
  moreover have "set_nested obj (JObj (of_strings m)) notebookNodeSelectorPath = Inr obj"
    using m(1) by (intro set_nested_same) (auto simp: nested_as_found string_map_Some)
  ultimately show ?thesis by (simp add: applyNodeSelector_def set_nested_string_map)
qed

lemma selector_applied:
  assumes "applyNodeSelector U obj ns changed n = Inr (obj', ws)"
  shows "nested_as string_map obj' notebookNodeSelectorPath =
      Inr (Some (if changed then ns else fold (\<lambda>(k, v) m. AList.update k v m) ns (selector_of obj)))"
  using assms nested_as_set_same [of _ _ notebookNodeSelectorPath obj' string_map]
  by (auto simp: applyNodeSelector_def mergeNodeSelector_def api selector_of_def Let_def
      split: sum.splits option.splits if_splits)

lemma selector_settles:
  assumes "applyNodeSelector U obj ns changed n = Inr (obj', ws)" and "distinct (map fst ns)"
  shows "selector_settled ns obj'"
  using selector_applied [OF assms(1)] assms(2) fold_update_has [OF assms(2)]
  by (auto simp: selector_settled_def)

lemma tolerations_settled_apply:
  assumes "tolerations_settled i ts obj" and "inj_Unstructured i = U"
  shows "applyTolerations i obj ts False = Inr obj"
proof -
  from assms(1) obtain us where
    us: "nested_as as_arr obj notebookTolerationsPath = Inr (Some (ts @ other_tolerations i ts us))"
    by (auto simp: tolerations_settled_def)
  then have "set_nested obj (JArr (ts @ other_tolerations i ts us)) notebookTolerationsPath = Inr obj"
    by (intro set_nested_same) (auto simp: nested_as_found)
  with us assms(2) show ?thesis by (simp add: applyTolerations_def mergeTolerations_def api)
qed

lemma tolerations_applied:
  assumes "applyTolerations i obj ts changed = Inr obj'" and "inj_Unstructured i = U"
  shows "nested_as as_arr obj' notebookTolerationsPath =
      Inr (Some (ts @ (if changed then [] else other_tolerations i ts (tolerations_of obj))))"
  using assms nested_as_set_same [of _ _ notebookTolerationsPath obj' as_arr]
  by (auto simp: applyTolerations_def mergeTolerations_def api tolerations_of_def Let_def
      split: sum.splits option.splits if_splits)

lemma tolerations_settles:
  assumes "applyTolerations i obj ts changed = Inr obj'" and "inj_Unstructured i = U"
  shows "tolerations_settled i ts obj'"
proof -
  have "\<exists>us. (if changed then [] else other_tolerations i ts (tolerations_of obj)) = other_tolerations i ts us"
    using other_tolerations_Nil by metis
  then show ?thesis using tolerations_applied [OF assms] by (auto simp: tolerations_settled_def)
qed

lemma getLabel_found:
  assumes "getLabel U obj k \<noteq> []"
  obtains m where "nested_as string_map obj [''metadata'', ''labels''] = Inr (Some m)"
  using assms by (auto simp: getLabel_def get_labels found_or_none_def split: option.splits sum.splits)

lemma setLabel_result:
  shows "setLabel U (setLabel U obj k v) k v = setLabel U obj k v"
    and "getLabel U (setLabel U obj k v) k \<noteq> [] \<Longrightarrow> getLabel U (setLabel U obj k v) k = v"
proof -
  let ?P = "[''metadata'', ''labels'']"
  let ?m = "AList.update k v (case GetLabels U obj of None \<Rightarrow> [] | Some labels \<Rightarrow> labels)"
  let ?st = "set_nested obj (JObj (of_strings ?m)) ?P"
  have "setLabel U (setLabel U obj k v) k v = setLabel U obj k v
      \<and> (getLabel U (setLabel U obj k v) k \<noteq> [] \<longrightarrow> getLabel U (setLabel U obj k v) k = v)"
  proof (cases ?st)
    case (Inl e)
    then have same: "setLabel U obj k v = obj"
      by (simp add: setLabel_def set_labels set_or_same_def del: set_nested.simps)
    have "getLabel U obj k = []"
    proof (rule ccontr)
      assume "getLabel U obj k \<noteq> []"
      then obtain w where "nested_field (JObj obj) ?P = Inr (Some w)"
        by (rule getLabel_found) (auto simp: nested_as_found simp del: nested_field.simps)
      from set_nested_existing [OF _ this, of "JObj (of_strings ?m)"] Inl show False
        by (auto simp del: set_nested.simps nested_field.simps)
    qed
    with same show ?thesis by simp
  next
    case (Inr obj')
    then have obj': "setLabel U obj k v = obj'"
      by (simp add: setLabel_def set_labels set_or_same_def del: set_nested.simps)
    have at: "nested_as string_map obj' ?P = Inr (Some ?m)"
      using nested_as_set_same [OF Inr, of string_map] by simp
    then have labels: "GetLabels U obj' = Some ?m" by (simp add: get_labels found_or_none_def)
    have "set_nested obj' (JObj (of_strings ?m)) ?P = Inr obj'"
      using at by (intro set_nested_same) (auto simp: nested_as_found string_map_Some simp del: nested_field.simps)
    with labels have "setLabel U obj' k v = obj'"
      by (simp add: setLabel_def set_labels set_or_same_def alist_update_same del: set_nested.simps)
    with obj' labels show ?thesis by (simp add: getLabel_def)
  qed
  then show "setLabel U (setLabel U obj k v) k v = setLabel U obj k v"
    and "getLabel U (setLabel U obj k v) k \<noteq> [] \<Longrightarrow> getLabel U (setLabel U obj k v) k = v"
    by simp_all
qed

end

end
