(* ===== verification/HardwareProfile_Steps.thy ===== *)
theory HardwareProfile_Steps
  imports HardwareProfile_Settled
begin

text \<open>
  What each step of the hardware profile webhook does to the part of the Notebook it is about, when
  it applies a profile and when it withdraws one.
\<close>

section \<open>Scheduling\<close>

definition off_scheduling :: "string list \<Rightarrow> bool" where
  "off_scheduling gs \<longleftrightarrow>
     apart [''metadata'', ''labels''] gs \<and> apart notebookNodeSelectorPath gs \<and> apart notebookTolerationsPath gs"

lemma off_scheduling_paths [simp]:
  "off_scheduling notebookContainersPath" "off_scheduling notebookResourceClaimsPath"
  "off_scheduling [''metadata'', ''name'']" "off_scheduling [''metadata'', ''namespace'']"
  by (simp_all add: off_scheduling_def notebook_paths)

lemma fold_remove:
  "distinct (map fst ns) \<Longrightarrow>
   map_of (fold (\<lambda>(k, v) m. if map_of m k = Some v then AList.delete k m else m) ns m) k =
     (if map_of ns k = map_of m k then None else map_of m k)"
proof (induction ns arbitrary: m)
  case (Cons kv ns)
  obtain k1 v1 where kv: "kv = (k1, v1)" by (cases kv)
  with Cons.prems have "map_of ns k1 = None" by (simp add: map_of_eq_None_iff)
  with Cons kv show ?case by auto
qed simp

text \<open>The claim template that a profile names, empty when it names none.\<close>

definition hwp_template :: "object \<Rightarrow> string" where
  "hwp_template hwp = found_list (nested_as as_str hwp [''spec'', ''dra'', ''resourceClaimTemplateName''])"

context unstructured
begin

lemma setLabel_apart:
  "apart [''metadata'', ''labels''] gs \<Longrightarrow> nested_field (JObj (setLabel U obj k v)) gs = nested_field (JObj obj) gs"
  unfolding setLabel_def set_labels by (rule set_or_same_apart)

lemma removeLabel_apart:
  "apart [''metadata'', ''labels''] gs \<Longrightarrow> nested_field (JObj (removeLabel U obj k)) gs = nested_field (JObj obj) gs"
  by (auto simp: removeLabel_def set_labels set_or_same_apart split: option.split simp del: nested_field.simps)

lemma selector_apart:
  assumes "applyNodeSelector U obj ns changed n = Inr (obj', ws)" and "apart notebookNodeSelectorPath gs"
  shows "nested_field (JObj obj') gs = nested_field (JObj obj) gs"
  using assms
  by (auto simp: applyNodeSelector_def set_nested_string_map simp del: nested_field.simps dest: nested_set_apart
      split: sum.splits if_splits)

lemma tolerations_apart:
  assumes "applyTolerations i obj ts changed = Inr obj'" and "apart notebookTolerationsPath gs"
    and "inj_Unstructured i = U"
  shows "nested_field (JObj obj') gs = nested_field (JObj obj) gs"
  using assms
  by (auto simp: applyTolerations_def set_nested_slice Let_def simp del: nested_field.simps dest: nested_set_apart
      split: sum.splits if_splits)

text \<open>How a successful scheduling step went.\<close>

lemma scheduling_cases:
  assumes "apply_scheduling i obj hwp changed = Inr (obj', ws)" and U: "inj_Unstructured i = U"
  obtains (queue) q where "found_list (NestedString U hwp hwp_queue) = q" "q \<noteq> []"
      "inj_IsValidLabelValue i q = []" "NestedString U hwp hwp_queue = Inr (Some q)"
      "obj' = setLabel U obj kueueQueueNameLabel q"
  | (node) e obj1 where "found_list (NestedString U hwp hwp_queue) = []" "NestedString U hwp hwp_queue = Inr e"
      "(if found_list (NestedStringMap U hwp hwp_node_selector) = [] then Inr (obj, [])
        else applyNodeSelector U obj (found_list (NestedStringMap U hwp hwp_node_selector)) changed (GetName U hwp))
        = Inr (obj1, ws)"
      "(if found_list (NestedSlice U hwp hwp_tolerations) = [] then Inr obj1
        else applyTolerations i obj1 (found_list (NestedSlice U hwp hwp_tolerations)) changed) = Inr obj'"
proof (cases "NestedString U hwp hwp_queue")
  case (Inr r)
  show thesis
  proof (cases "found_list (NestedString U hwp hwp_queue) = []")
    case True
    with Inr have "(case r of None \<Rightarrow> [] | Some q \<Rightarrow> q) = []" by (cases r) auto
    with assms(1) Inr obtain obj1 where
      "(if found_list (NestedStringMap U hwp hwp_node_selector) = [] then Inr (obj, [])
        else applyNodeSelector U obj (found_list (NestedStringMap U hwp hwp_node_selector)) changed (GetName U hwp))
        = Inr (obj1, ws)"
      "(if found_list (NestedSlice U hwp hwp_tolerations) = [] then Inr obj1
        else applyTolerations i obj1 (found_list (NestedSlice U hwp hwp_tolerations)) changed) = Inr obj'"
      unfolding apply_scheduling_def U Let_def by (simp split: sum.splits if_splits prod.splits)
    with True Inr show thesis by (rule node)
  next
    case False
    with Inr obtain q where "r = Some q" "q \<noteq> []" by (cases r) auto
    with assms(1) Inr show thesis
      unfolding apply_scheduling_def U Let_def by (auto split: list.splits if_splits intro!: queue)
  qed
qed (use assms in \<open>simp add: apply_scheduling_def\<close>)

lemma scheduling_apart:
  assumes ap: "apply_scheduling i obj hwp changed = Inr (obj', ws)" and U: "inj_Unstructured i = U"
    and off: "off_scheduling gs"
  shows "nested_field (JObj obj') gs = nested_field (JObj obj) gs"
  using ap U
proof (cases rule: scheduling_cases)
  case (node e obj1)
  then have "nested_field (JObj obj1) gs = nested_field (JObj obj) gs"
    using selector_apart off by (auto simp: off_scheduling_def split: if_splits simp del: nested_field.simps)
  moreover have "nested_field (JObj obj') gs = nested_field (JObj obj1) gs"
    using node tolerations_apart [OF _ _ U] off
    by (auto simp: off_scheduling_def split: if_splits simp del: nested_field.simps)
  ultimately show ?thesis by simp
qed (use off setLabel_apart in \<open>simp add: off_scheduling_def del: nested_field.simps\<close>)

lemma scheduling_again:
  assumes ap: "apply_scheduling i obj hwp changed = Inr (obj', ws)" and U: "inj_Unstructured i = U"
    and dist: "distinct (map fst (found_list (NestedStringMap U hwp hwp_node_selector)))"
  shows "apply_scheduling i obj' hwp False = Inr (obj', [])"
  using ap U
proof (cases rule: scheduling_cases)
  case (queue q)
  moreover have "getLabel U obj' kueueQueueNameLabel = [] \<or> getLabel U obj' kueueQueueNameLabel = q"
    using setLabel_result(2) queue by auto
  ultimately show ?thesis
    unfolding apply_scheduling_def U Let_def using setLabel_result(1) by auto
next
  case (node e obj1)
  let ?ns = "found_list (NestedStringMap U hwp hwp_node_selector)"
  let ?ts = "found_list (NestedSlice U hwp hwp_tolerations)"
  have e: "(case e of None \<Rightarrow> [] | Some q \<Rightarrow> q) = []" using node(1,2) by (cases e) auto
  have "selector_settled ?ns obj1" if "?ns \<noteq> []"
    using node(3) that selector_settles [OF _ dist] by auto
  moreover have "nested_field (JObj obj') notebookNodeSelectorPath = nested_field (JObj obj1) notebookNodeSelectorPath"
    using node(4) tolerations_apart [OF _ _ U, of obj1 _ changed obj' notebookNodeSelectorPath]
    by (auto simp: notebook_paths split: if_splits simp del: nested_field.simps)
  ultimately have "?ns \<noteq> [] \<Longrightarrow> applyNodeSelector U obj' ?ns False (GetName U hwp) = Inr (obj', [])"
    by (intro selector_settled_apply) (simp add: selector_settled_def nested_as_def)
  moreover have "?ts \<noteq> [] \<Longrightarrow> applyTolerations i obj' ?ts False = Inr obj'"
    using node(4) tolerations_settles [OF _ U] by (intro tolerations_settled_apply [OF _ U]) auto
  ultimately show ?thesis
    using node(2) e unfolding apply_scheduling_def U Let_def by simp
qed

section \<open>Applying\<close>

lemma resources_apart:
  assumes "applyResourcesToNotebookContainer i ids obj changed = Inr obj'" and "inj_Unstructured i = U"
    and "apart notebookContainersPath gs"
  shows "nested_field (JObj obj') gs = nested_field (JObj obj) gs"
  using assms
  by (auto simp: applyResourcesToNotebookContainer_def api Let_def simp del: nested_field.simps dest: nested_set_apart
      split: sum.splits option.splits if_splits)

lemma setContainer_apart:
  assumes "setContainerResourceClaims U obj c = Inr obj'" and "apart notebookContainersPath gs"
  shows "nested_field (JObj obj') gs = nested_field (JObj obj) gs"
  using assms
  by (auto simp: setContainerResourceClaims_def api Let_def simp del: nested_field.simps dest: nested_set_apart
      split: sum.splits option.splits if_splits)

lemma removeContainer_apart:
  assumes "apart notebookContainersPath gs"
  shows "nested_field (JObj (removeContainerResourceClaims U obj c)) gs = nested_field (JObj obj) gs"
  using assms
  by (auto simp: removeContainerResourceClaims_def api Let_def simp del: nested_field.simps dest: nested_set_apart
      split: sum.splits option.splits if_splits)

lemma dra_cases:
  assumes "applyDRAIfConfigured i obj hwp s = (Inr obj', s')" and U: "inj_Unstructured i = U"
  obtains (none) "hwp_template hwp = []" "obj' = obj"
  | (claim) x obj1 where "hwp_template hwp \<noteq> []" "inj_IsDNS1123Subdomain i (hwp_template hwp) = []"
      "inj_Get i ResourceClaimTemplate_gvk (meta_str obj [''metadata'', ''namespace'']) (hwp_template hwp) s = (Inr x, s')"
      "set_nested obj (JArr (filterOutClaim (pod_claims obj) draClaimName @ [dra_claim (hwp_template hwp)]))
         notebookResourceClaimsPath = Inr obj1"
      "setContainerResourceClaims U obj1 draClaimName = Inr obj'"
  using assms
  by (auto simp: applyDRAIfConfigured_def applyDRAToNotebook_def fetchResourceClaimTemplate_def Let_def api
      hwp_template_def pod_claims_def split: sum.splits option.splits list.splits prod.splits if_splits)

lemma dra_apart:
  assumes "applyDRAIfConfigured i obj hwp s = (Inr obj', s')" and "inj_Unstructured i = U"
    and "apart notebookContainersPath gs" and "apart notebookResourceClaimsPath gs"
  shows "nested_field (JObj obj') gs = nested_field (JObj obj) gs"
  using assms(1,2)
proof (cases rule: dra_cases)
  case (claim x obj1)
  with assms(3,4) setContainer_apart nested_set_apart show ?thesis by metis
qed simp

lemma dra_settled:
  assumes "applyDRAIfConfigured i obj hwp s = (Inr obj', s')" and "inj_Unstructured i = U"
    and "resources_settled i ids obj"
  shows "resources_settled i ids obj'"
  using assms(1,2)
proof (cases rule: dra_cases)
  case (claim x obj1)
  have "resources_settled i ids obj1 = resources_settled i ids obj"
    using nested_set_apart [OF claim(4)]
    by (intro resources_settled_cong) (auto simp: notebook_name_def meta_str_def nested_as_def notebook_paths
        simp del: nested_field.simps)
  with assms(3) claims_keep_settled [OF _ claim(5)] show ?thesis by simp
qed (use assms in simp)

lemma apply_again:
  assumes ap: "applyHardwareProfileToNotebook i obj hwp changed new s = (Inr (obj', ws), s')"
    and U: "inj_Unstructured i = U"
    and dist: "distinct (map fst (found_list (NestedStringMap U hwp hwp_node_selector)))"
  shows "applyHardwareProfileToNotebook i obj' hwp False False s2 = (Inr (obj', []), s2)"
  using ap U
proof (cases rule: apply_steps)
  case (1 a b c)
  have again: "apply_scheduling i obj' hwp False = Inr (obj', [])" using 1(4) U dist by (rule scheduling_again)
  have "applyResourcesToNotebookContainer i (hwp_identifiers hwp) obj' False = Inr obj'" if ids: "hwp_identifiers hwp \<noteq> []"
  proof -
    have "resources_settled i (hwp_identifiers hwp) b" using 1(2) ids resources_settles [OF _ U] by auto
    then have "resources_settled i (hwp_identifiers hwp) c"
      using 1(3) dra_settled [OF _ U] by (auto split: if_splits)
    then have "resources_settled i (hwp_identifiers hwp) obj'"
      using scheduling_apart [OF 1(4) U] 
      by (subst resources_settled_cong [of obj' c]) (auto simp: notebook_name_def meta_str_def nested_as_def
          simp del: nested_field.simps)
    then show ?thesis using U by (rule resources_settled_apply)
  qed
  with again show ?thesis
    by (simp add: applyHardwareProfileToNotebook_def U nested_slice Let_def hwp_identifiers_def [symmetric])
qed

lemma pod_claims_cong:
  "nested_field (JObj obj') notebookResourceClaimsPath = nested_field (JObj obj) notebookResourceClaimsPath \<Longrightarrow>
   pod_claims obj' = pod_claims obj"
  by (simp add: pod_claims_def nested_as_def)

lemma removePod_claims: "pod_claims (removePodResourceClaim U obj n) = filterOutClaim (pod_claims obj) n"
proof -
  have "pod_claims (remove_nested obj notebookResourceClaimsPath) = []"
    using nested_remove_same [of notebookResourceClaimsPath obj] by (auto simp: pod_claims_def nested_as_def)
  moreover have "pod_claims obj' = cs" if "set_nested obj (JArr cs) notebookResourceClaimsPath = Inr obj'" for cs obj'
    using nested_as_set_same [OF that, of as_arr] by (simp add: pod_claims_def)
  moreover have "set_nested obj v notebookResourceClaimsPath \<noteq> Inl e" if "pod_claims obj \<noteq> []" for v e
  proof -
    from that obtain w where "nested_field (JObj obj) notebookResourceClaimsPath = Inr (Some w)"
      by (auto simp: pod_claims_def nested_as_def split: sum.splits option.splits)
    from set_nested_existing [OF _ this, of v] show ?thesis by auto
  qed
  moreover have "filterOutClaim [] n = []" by simp
  ultimately show ?thesis
    by (cases "pod_claims obj = []"; cases "filterOutClaim (pod_claims obj) n = []";
        cases "set_nested obj (JArr (filterOutClaim (pod_claims obj) n)) notebookResourceClaimsPath")
      (auto simp: removePodResourceClaim_def Let_def api pod_claims_def [symmetric])
qed

lemma removeDRA_claims: "pod_claims (removeDRAFromNotebook U obj) = filterOutClaim (pod_claims obj) draClaimName"
proof -
  have "pod_claims (removeContainerResourceClaims U a n) = pod_claims a" for a n
    by (intro pod_claims_cong removeContainer_apart) (simp add: notebook_paths)
  then show ?thesis by (simp add: removeDRAFromNotebook_def removePod_claims)
qed

lemma clear_scheduling_claims:
  "pod_claims (clear_scheduling U obj) = filterOutClaim (pod_claims obj) draClaimName"
proof -
  have "pod_claims (remove_nested a notebookNodeSelectorPath) = pod_claims a"
    "pod_claims (remove_nested a notebookTolerationsPath) = pod_claims a"
    "pod_claims (removeLabel U a k) = pod_claims a" for a k
    by (intro pod_claims_cong nested_remove_apart removeLabel_apart; simp add: notebook_paths)+
  then show ?thesis by (simp add: clear_scheduling_def removeDRA_claims remove_nested_field)
qed

lemma dra_claims:
  assumes ap: "applyDRAIfConfigured i obj hwp s = (Inr obj', s')" and U: "inj_Unstructured i = U"
  shows "pod_claims obj' = (if hwp_template hwp \<noteq> []
       then filterOutClaim (pod_claims obj) draClaimName @ [dra_claim (hwp_template hwp)] else pod_claims obj)"
    and "hwp_template hwp \<noteq> [] \<Longrightarrow> inj_IsDNS1123Subdomain i (hwp_template hwp) = []
      \<and> (\<exists>x. inj_Get i ResourceClaimTemplate_gvk (meta_str obj [''metadata'', ''namespace'']) (hwp_template hwp) s = (Inr x, s'))"
proof -
  show "pod_claims obj' = (if hwp_template hwp \<noteq> []
       then filterOutClaim (pod_claims obj) draClaimName @ [dra_claim (hwp_template hwp)] else pod_claims obj)"
    using ap U
  proof (cases rule: dra_cases)
    case (claim x obj1)
    have "pod_claims obj' = pod_claims obj1"
      by (intro pod_claims_cong setContainer_apart [OF claim(5)]) (simp add: notebook_paths)
    moreover have "pod_claims obj1 = filterOutClaim (pod_claims obj) draClaimName @ [dra_claim (hwp_template hwp)]"
      using nested_as_set_same [OF claim(4), of as_arr] by (simp add: pod_claims_def)
    ultimately show ?thesis using claim(1) by simp
  qed simp
  show "inj_IsDNS1123Subdomain i (hwp_template hwp) = []
      \<and> (\<exists>x. inj_Get i ResourceClaimTemplate_gvk (meta_str obj [''metadata'', ''namespace'']) (hwp_template hwp) s = (Inr x, s'))"
    if "hwp_template hwp \<noteq> []"
    using ap U by (cases rule: dra_cases) (use that in auto)
qed

lemma apply_claims:
  assumes ap: "applyHardwareProfileToNotebook i obj hwp changed new s = (Inr (obj', ws), s')"
    and U: "inj_Unstructured i = U"
  shows "pod_claims obj' =
      (if (new \<or> changed) \<and> hwp_template hwp \<noteq> []
       then filterOutClaim (pod_claims obj) draClaimName @ [dra_claim (hwp_template hwp)]
       else if changed then filterOutClaim (pod_claims obj) draClaimName else pod_claims obj)"
    and "(new \<or> changed) \<and> hwp_template hwp \<noteq> [] \<Longrightarrow>
      inj_IsDNS1123Subdomain i (hwp_template hwp) = []
      \<and> (\<exists>x. inj_Get i ResourceClaimTemplate_gvk (meta_str obj [''metadata'', ''namespace'']) (hwp_template hwp) s = (Inr x, s'))"
proof -
  obtain a b c where 1: "a = (if changed then clear_scheduling U obj else obj)"
    "(if hwp_identifiers hwp = [] then Inr a
      else applyResourcesToNotebookContainer i (hwp_identifiers hwp) a changed) = Inr b"
    "(if new \<or> changed then applyDRAIfConfigured i b hwp s else (Inr b, s)) = (Inr c, s')"
    "apply_scheduling i c hwp changed = Inr (obj', ws)"
    using ap U by (rule apply_steps)
  have ab: "nested_field (JObj b) gs = nested_field (JObj a) gs" if "apart notebookContainersPath gs" for gs
    using 1(2) resources_apart [OF _ U that] by (auto split: if_splits simp del: nested_field.simps)
  have b: "pod_claims b = (if changed then filterOutClaim (pod_claims obj) draClaimName else pod_claims obj)"
    using ab [THEN pod_claims_cong] clear_scheduling_claims 1(1) by (simp add: notebook_paths)
  have d: "pod_claims obj' = pod_claims c"
    using scheduling_apart [OF 1(4) U] by (intro pod_claims_cong) simp
  have ns: "meta_str b [''metadata'', ''namespace''] = meta_str obj [''metadata'', ''namespace'']"
  proof -
    have "hwp_frame obj a" using 1(1) clear_scheduling_frame by simp
    then have "meta_str a [''metadata'', ''namespace''] = meta_str obj [''metadata'', ''namespace'']"
      using name_off_path(2) by (auto simp: hwp_frame_def meta_str_def nested_as_def simp del: nested_field.simps)
    moreover have "meta_str b [''metadata'', ''namespace''] = meta_str a [''metadata'', ''namespace'']"
      using ab [of "[''metadata'', ''namespace'']"]
      by (simp add: meta_str_def nested_as_def notebook_paths del: nested_field.simps)
    ultimately show ?thesis by simp
  qed
  have c: "pod_claims c = (if (new \<or> changed) \<and> hwp_template hwp \<noteq> []
       then filterOutClaim (pod_claims b) draClaimName @ [dra_claim (hwp_template hwp)] else pod_claims b)"
    using 1(3) dra_claims(1) [OF _ U] by (auto split: if_splits)
  show "pod_claims obj' =
      (if (new \<or> changed) \<and> hwp_template hwp \<noteq> []
       then filterOutClaim (pod_claims obj) draClaimName @ [dra_claim (hwp_template hwp)]
       else if changed then filterOutClaim (pod_claims obj) draClaimName else pod_claims obj)"
    using b c d by auto
  show "inj_IsDNS1123Subdomain i (hwp_template hwp) = []
      \<and> (\<exists>x. inj_Get i ResourceClaimTemplate_gvk (meta_str obj [''metadata'', ''namespace'']) (hwp_template hwp) s = (Inr x, s'))"
    if "(new \<or> changed) \<and> hwp_template hwp \<noteq> []"
    using dra_claims(2) [OF _ U, of b hwp s c s'] 1(3) that ns by simp
qed

section \<open>Removing\<close>

lemma removeDRA_apart:
  assumes "apart notebookContainersPath gs" and "apart notebookResourceClaimsPath gs"
  shows "nested_field (JObj (removeDRAFromNotebook U obj)) gs = nested_field (JObj obj) gs"
proof -
  have "nested_field (JObj (removePodResourceClaim U obj draClaimName)) gs = nested_field (JObj obj) gs"
    using assms(2)
    by (auto simp: removePodResourceClaim_def api Let_def nested_remove_apart simp del: nested_field.simps
        dest: nested_set_apart split: sum.splits)
  with removeContainer_apart [OF assms(1)] show ?thesis by (simp add: removeDRAFromNotebook_def)
qed

lemma selector_removal_apart:
  assumes "removeHWPNodeSelector U obj notebookNodeSelectorPath ns = Inr obj'" and "apart notebookNodeSelectorPath gs"
  shows "nested_field (JObj obj') gs = nested_field (JObj obj) gs"
  using assms
  by (auto simp: removeHWPNodeSelector_def Let_def api nested_remove_apart simp del: nested_field.simps
      dest: nested_set_apart split: sum.splits if_splits)

lemma tolerations_removal_apart:
  assumes "removeHWPTolerations i obj notebookTolerationsPath ts = Inr obj'" and "inj_Unstructured i = U"
    and "apart notebookTolerationsPath gs"
  shows "nested_field (JObj obj') gs = nested_field (JObj obj) gs"
  using assms
  by (auto simp: removeHWPTolerations_def Let_def api nested_remove_apart simp del: nested_field.simps
      dest: nested_set_apart split: sum.splits if_splits)

lemma tolerations_removed:
  assumes "removeHWPTolerations i obj notebookTolerationsPath ts = Inr obj'" and "inj_Unstructured i = U"
  shows "tolerations_of obj' = other_tolerations i ts (tolerations_of obj)"
proof -
  have "tolerations_of (remove_nested obj notebookTolerationsPath) = []"
    using nested_remove_same [of notebookTolerationsPath obj] by (auto simp: tolerations_of_def nested_as_def)
  moreover have "tolerations_of obj' = cs" if "set_nested obj (JArr cs) notebookTolerationsPath = Inr obj'" for cs
    using nested_as_set_same [OF that, of as_arr] by (simp add: tolerations_of_def)
  ultimately show ?thesis
    using assms
    by (auto simp: removeHWPTolerations_def Let_def api tolerations_of_def split: sum.splits if_splits option.splits)
qed

lemma selector_removed:
  assumes "removeHWPNodeSelector U obj notebookNodeSelectorPath ns = Inr obj'" and "distinct (map fst ns)"
  shows "map_of (selector_of obj') k =
      (if map_of ns k = map_of (selector_of obj) k then None else map_of (selector_of obj) k)"
proof -
  let ?rest = "fold (\<lambda>(k, v) m. if map_of m k = Some v then AList.delete k m else m) ns (selector_of obj)"
  have rest: "map_of ?rest k = (if map_of ns k = map_of (selector_of obj) k then None else map_of (selector_of obj) k)"
    using assms(2) by (rule fold_remove)
  have "selector_of (remove_nested obj notebookNodeSelectorPath) = []"
    using nested_remove_same [of notebookNodeSelectorPath obj] by (auto simp: selector_of_def nested_as_def)
  moreover have "selector_of obj' = m" if "set_nested obj (JObj (of_strings m)) notebookNodeSelectorPath = Inr obj'" for m
    using nested_as_set_same [OF that, of string_map] by (simp add: selector_of_def)
  ultimately have "selector_of obj' = ?rest \<or> selector_of obj' = [] \<and> selector_of obj = []"
    using assms(1)
    by (auto simp: removeHWPNodeSelector_def Let_def api selector_of_def split: sum.splits if_splits option.splits)
  with rest show ?thesis by auto
qed

lemma removeLabel_gone: "getLabel U (removeLabel U obj k) k = []"
proof (cases "GetLabels U obj")
  case (Some m)
  then have "nested_as string_map obj [''metadata'', ''labels''] = Inr (Some m)"
    by (simp add: get_labels found_or_none_def split: sum.splits)
  then obtain obj' where obj': "set_nested obj (JObj (of_strings (AList.delete k m))) [''metadata'', ''labels''] = Inr obj'"
    using set_nested_existing [of "[''metadata'', ''labels'']" obj]
    by (auto simp: nested_as_found simp del: set_nested.simps nested_field.simps)
  then have "nested_as string_map obj' [''metadata'', ''labels''] = Inr (Some (AList.delete k m))"
    by (rule nested_as_set_same) simp
  then have "GetLabels U obj' = Some (AList.delete k m)" by (simp add: get_labels found_or_none_def)
  moreover have "removeLabel U obj k = obj'"
    using Some obj' by (simp add: removeLabel_def set_labels set_or_same_def del: set_nested.simps)
  ultimately show ?thesis by (simp add: getLabel_def)
qed (simp add: removeLabel_def getLabel_def)

end

end
