(* ===== verification/HardwareProfile_Injection.thy ===== *)
theory HardwareProfile_Injection
  imports HardwareProfile_Steps
begin

text \<open>
  The properties of the hardware profile webhook: what it may change, that applying a profile again
  changes nothing, what remains when the profile is withdrawn, the resource claims it makes, and its
  answer when the profile cannot be read.
\<close>

definition profile_queue :: "object \<Rightarrow> string" where
  "profile_queue hwp = found_list (nested_as as_str hwp hwp_queue)"

definition profile_selector :: "object \<Rightarrow> string gomap" where
  "profile_selector hwp = found_list (nested_as string_map hwp hwp_node_selector)"

definition profile_tolerations :: "object \<Rightarrow> json list" where
  "profile_tolerations hwp = found_list (nested_as as_arr hwp hwp_tolerations)"

text \<open>The Go type of a node selector is a map: each key once.\<close>

definition wf_profile :: "object \<Rightarrow> bool" where
  "wf_profile hwp \<longleftrightarrow> distinct (map fst (profile_selector hwp))"

context unstructured
begin

lemma profile_api:
  "found_list (NestedString U hwp hwp_queue) = profile_queue hwp"
  "found_list (NestedStringMap U hwp hwp_node_selector) = profile_selector hwp"
  "found_list (NestedSlice U hwp hwp_tolerations) = profile_tolerations hwp"
  by (simp_all add: api profile_queue_def profile_selector_def profile_tolerations_def)

text \<open>The object that a patch carries differs from the decoded one within the frame.\<close>

lemma removal_patch:
  assumes "handleHWPRemoval i req obj s = (Some (PatchResponseFromRaw raw out ws), s')"
    and U: "inj_Unstructured i = U"
  shows "raw = req_Object req \<and> (\<exists>obj'. json_Marshal (inj_Admission i) obj' = Inr out \<and> hwp_frame obj obj')"
proof -
  have "hwp_frame obj (removeAnnotation U (removeDRAFromNotebook U obj) HardwareProfileNamespaceAnnotation)"
    by (rule frame_trans [OF removeDRA_frame removeAnnotation_frame])
  moreover have "hwp_frame obj (removeAnnotation U obj1 HardwareProfileNamespaceAnnotation)"
    if "removeHWPSettings i obj hwp = Inr obj1" for hwp obj1
    by (rule frame_trans [OF removal_frame [OF that U] removeAnnotation_frame])
  ultimately show ?thesis
    using assms(1)
    by (auto simp: handleHWPRemoval_def Let_def U split: option.splits sum.splits prod.splits if_splits)
qed

lemma skip_patch:
  assumes "skip_profile i req obj n e s = (PatchResponseFromRaw raw out ws, s')"
  shows "raw = req_Object req \<and> json_Marshal (inj_Admission i) obj = Inr out"
  using assms by (auto simp: skip_profile_def Let_def split: prod.splits sum.splits if_splits)

lemma injection_patch:
  assumes "performHardwareProfileInjection i req obj s = (PatchResponseFromRaw raw out ws, s')"
    and U: "inj_Unstructured i = U"
  shows "raw = req_Object req \<and> (\<exists>obj'. json_Marshal (inj_Admission i) obj' = Inr out \<and> hwp_frame obj obj')"
proof (cases "getAnnotation U obj HardwareProfileNameAnnotation = []")
  case True
  with assms show ?thesis
    using removal_patch [OF _ U]
    by (auto simp: performHardwareProfileInjection_def Let_def split: prod.splits option.splits if_splits)
next
  case False
  let ?ns = "profile_namespace U obj"
  let ?obj = "if getAnnotation U obj HardwareProfileNamespaceAnnotation = []
    then setAnnotation U obj HardwareProfileNamespaceAnnotation ?ns else obj"
  have start: "hwp_frame obj ?obj" using setAnnotation_frame by simp
  have ?thesis if "skip_profile i req ?obj n e s1 = (PatchResponseFromRaw raw out ws, s')" for n e s1
    using skip_patch [OF that] start by (intro conjI exI [of _ ?obj]) simp_all
  moreover have "hwp_frame obj obj'"
    if "applyHardwareProfileToNotebook i ?obj hwp changed new s1 = (Inr (obj', ws), s2)" for hwp changed new s1 obj' s2
    by (rule frame_trans [OF start apply_frame [OF that U]])
  moreover have "handleFetchError i req err n ns \<noteq> PatchResponseFromRaw raw out ws" for err n ns
    by (simp add: handleFetchError_def Let_def)
  ultimately show ?thesis
    using assms(1) False unfolding performHardwareProfileInjection_def Let_def U
    by (auto split: prod.splits option.splits sum.splits if_splits)
qed

lemma handle_patch:
  assumes "hwp_Handle i req s = (PatchResponseFromRaw raw out ws, s')" and "inj_Unstructured i = U"
  obtains D nb nb' where "inj_Decoder i = Some D" and "Decode D req = Inr nb" and "raw = req_Object req"
    and "json_Marshal (inj_Admission i) nb' = Inr out" and "hwp_frame nb nb'"
proof -
  obtain D nb where "inj_Decoder i = Some D" "Decode D req = Inr nb"
    "performHardwareProfileInjection i req nb s = (PatchResponseFromRaw raw out ws, s')"
    using assms(1) by (auto simp: hwp_Handle_def admit_object_def split: sum.splits option.splits if_splits)
  with injection_patch [OF _ assms(2)] that show ?thesis by blast
qed

end

section \<open>Properties\<close>

text \<open>
  C6: The webhook stays inside its frame. Whatever patch the hardware profile webhook returns, it is
  computed from the request's object, and the object it writes differs from the decoded Notebook only
  in the labels, the node selector, the tolerations, the claim named \<open>hwp-dra\<close> of the pod, the
  resources of the main container (whose claims by the user stay) and the annotation with the
  profile's namespace; every other container, claim, annotation and field is as it was.
\<close>

theorem hwp_patch_frame:
  assumes "unstructured (inj_Unstructured i)" and "hwp_Handle i req s = (PatchResponseFromRaw raw out ws, s')"
  shows "\<exists>D nb nb'. inj_Decoder i = Some D \<and> Decode D req = Inr nb \<and> raw = req_Object req
    \<and> json_Marshal (inj_Admission i) nb' = Inr out \<and> hwp_frame nb nb'"
  using unstructured.handle_patch [OF assms refl] by blast

text \<open>
  C16: Applying a profile again changes nothing. After a profile has been applied, whether at creation,
  on an update or in place of another profile, admitting the Notebook with the same profile again
  returns it unchanged, without warnings and without a call to the API server.
\<close>

theorem hwp_reapply_idempotent:
  assumes "unstructured (inj_Unstructured i)" and "wf_profile hwp"
    and "applyHardwareProfileToNotebook i nb hwp changed new s = (Inr (nb', ws), s')"
  shows "applyHardwareProfileToNotebook i nb' hwp False False s2 = (Inr (nb', []), s2)"
  using unstructured.apply_again [OF assms(1,3) refl] assms(2)
  by (simp add: wf_profile_def unstructured.profile_api [OF assms(1)])

text \<open>
  C20: The claims of the pod after a profile is applied are exact. A profile that names a resource claim
  template, when it is applied for the first time or replaces another, leaves the user's claims in
  order followed by one claim \<open>hwp-dra\<close> of that template, whose name is valid and which the API server
  returned from the Notebook's own namespace; a replacement without a template drops the old claim;
  otherwise the claims are untouched.
\<close>

theorem hwp_claims_exact:
  assumes "unstructured (inj_Unstructured i)"
    and "applyHardwareProfileToNotebook i nb hwp changed new s = (Inr (nb', ws), s')"
  shows "pod_claims nb' =
      (if (new \<or> changed) \<and> hwp_template hwp \<noteq> []
       then user_claims (pod_claims nb)
         @ [JObj [(''name'', JStr ''hwp-dra''), (''resourceClaimTemplateName'', JStr (hwp_template hwp))]]
       else if changed then user_claims (pod_claims nb) else pod_claims nb)
    \<and> ((new \<or> changed) \<and> hwp_template hwp \<noteq> [] \<longrightarrow>
        inj_IsDNS1123Subdomain i (hwp_template hwp) = []
        \<and> (\<exists>x. inj_Get i ResourceClaimTemplate_gvk (meta_str nb [''metadata'', ''namespace'']) (hwp_template hwp) s
              = (Inr x, s')))"
  using unstructured.apply_claims [OF assms refl] by (simp add: dra_claim_def draClaimName_def)

section \<open>Withdrawing a profile\<close>

text \<open>The parts of the Notebook that scheduling writes, after an application and after a removal.\<close>

context unstructured
begin

lemma applied_node:
  assumes ap: "applyHardwareProfileToNotebook i nb hwp False new s = (Inr (nb1, ws), s1)"
    and U: "inj_Unstructured i = U" and "profile_queue hwp = []"
  shows "profile_tolerations hwp \<noteq> [] \<Longrightarrow> tolerations_of nb1 =
        profile_tolerations hwp @ other_tolerations i (profile_tolerations hwp) (tolerations_of nb)"
    and "profile_tolerations hwp = [] \<Longrightarrow> tolerations_of nb1 = tolerations_of nb"
    and "selector_of nb1 = fold (\<lambda>(k, v) m. AList.update k v m) (profile_selector hwp) (selector_of nb)"
proof -
  obtain a b c where "a = nb" and 1: "(if hwp_identifiers hwp = [] then Inr a
      else applyResourcesToNotebookContainer i (hwp_identifiers hwp) a False) = Inr b"
    "(if new \<or> False then applyDRAIfConfigured i b hwp s else (Inr b, s)) = (Inr c, s1)"
    "apply_scheduling i c hwp False = Inr (nb1, ws)"
    using ap U by (rule apply_steps [where changed = False, unfolded if_False])
  have nc: "nested_field (JObj c) gs = nested_field (JObj nb) gs"
    if "apart notebookContainersPath gs" "apart notebookResourceClaimsPath gs" for gs
    using 1(1,2) \<open>a = nb\<close> resources_apart [OF _ U that(1)] dra_apart [OF _ U that]
    by (auto split: if_splits simp del: nested_field.simps)
  have c: "tolerations_of c = tolerations_of nb" "selector_of c = selector_of nb"
    using nc [of notebookTolerationsPath] nc [of notebookNodeSelectorPath]
    by (simp_all add: tolerations_of_def selector_of_def nested_as_def notebook_paths del: nested_field.simps)
  from 1(3) U obtain e d where
    d: "(if profile_selector hwp = [] then Inr (c, [])
        else applyNodeSelector U c (profile_selector hwp) False (GetName U hwp)) = Inr (d, ws)"
      "(if profile_tolerations hwp = [] then Inr d else applyTolerations i d (profile_tolerations hwp) False) = Inr nb1"
    by (rule scheduling_cases [unfolded profile_api]) (use assms(3) in auto)
  have "tolerations_of d = tolerations_of c"
    using d(1) selector_apart [of c _ False _ d ws notebookTolerationsPath]
    by (auto simp: tolerations_of_def nested_as_def notebook_paths split: if_splits simp del: nested_field.simps)
  then show "profile_tolerations hwp \<noteq> [] \<Longrightarrow> tolerations_of nb1 =
        profile_tolerations hwp @ other_tolerations i (profile_tolerations hwp) (tolerations_of nb)"
    and "profile_tolerations hwp = [] \<Longrightarrow> tolerations_of nb1 = tolerations_of nb"
    using d(2) c tolerations_applied [OF _ U, of d _ False nb1] by (auto simp: tolerations_of_def)
  have "selector_of nb1 = selector_of d"
    using d(2) tolerations_apart [OF _ _ U, of d _ False nb1 notebookNodeSelectorPath]
    by (auto simp: selector_of_def nested_as_def notebook_paths split: if_splits simp del: nested_field.simps)
  moreover have "selector_of d = fold (\<lambda>(k, v) m. AList.update k v m) (profile_selector hwp) (selector_of c)"
    using d(1) selector_applied [of c _ False _ d ws] by (auto simp: selector_of_def split: if_splits)
  ultimately show "selector_of nb1 = fold (\<lambda>(k, v) m. AList.update k v m) (profile_selector hwp) (selector_of nb)"
    using c by simp
qed

lemma removed_node:
  assumes rm: "removeHWPSettings i nb hwp = Inr nb'" and U: "inj_Unstructured i = U" and "wf_profile hwp"
  shows "tolerations_of nb' = (if profile_tolerations hwp = [] then tolerations_of nb
        else other_tolerations i (profile_tolerations hwp) (tolerations_of nb))"
    and "map_of (selector_of nb') k =
      (if map_of (profile_selector hwp) k = map_of (selector_of nb) k then None else map_of (selector_of nb) k)"
    and "pod_claims nb' = filterOutClaim (pod_claims nb) draClaimName"
    and "profile_queue hwp \<noteq> [] \<Longrightarrow> getLabel U nb' kueueQueueNameLabel = []"
proof -
  obtain a b c where 1: "a = (if profile_queue hwp = [] then nb else removeLabel U nb kueueQueueNameLabel)"
    "(if profile_selector hwp = [] then Inr a
      else removeHWPNodeSelector U a notebookNodeSelectorPath (profile_selector hwp)) = Inr b"
    "(if profile_tolerations hwp = [] then Inr b
      else removeHWPTolerations i b notebookTolerationsPath (profile_tolerations hwp)) = Inr c"
    "nb' = removeDRAFromNotebook U c"
    using rm U by (rule removal_steps [unfolded profile_api])
  have a: "apart [''metadata'', ''labels''] gs \<Longrightarrow> nested_field (JObj a) gs = nested_field (JObj nb) gs" for gs
    using 1(1) removeLabel_apart by simp
  have b: "apart notebookNodeSelectorPath gs \<Longrightarrow> nested_field (JObj b) gs = nested_field (JObj a) gs" for gs
    using 1(2) selector_removal_apart by (auto split: if_splits simp del: nested_field.simps)
  have c: "apart notebookTolerationsPath gs \<Longrightarrow> nested_field (JObj c) gs = nested_field (JObj b) gs" for gs
    using 1(3) tolerations_removal_apart [OF _ U] by (auto split: if_splits simp del: nested_field.simps)
  show "tolerations_of nb' = (if profile_tolerations hwp = [] then tolerations_of nb
        else other_tolerations i (profile_tolerations hwp) (tolerations_of nb))"
  proof -
    have "tolerations_of b = tolerations_of nb"
      using a [of notebookTolerationsPath] b [of notebookTolerationsPath]
      by (simp add: tolerations_of_def nested_as_def notebook_paths del: nested_field.simps)
    moreover have "tolerations_of nb' = tolerations_of c"
      using removeDRA_apart [of notebookTolerationsPath c] 1(4)
      by (simp add: tolerations_of_def nested_as_def notebook_paths del: nested_field.simps)
    ultimately show ?thesis using 1(3) tolerations_removed [OF _ U, of b _ c] by (auto split: if_splits)
  qed
  show "map_of (selector_of nb') k =
      (if map_of (profile_selector hwp) k = map_of (selector_of nb) k then None else map_of (selector_of nb) k)"
  proof -
    have "selector_of a = selector_of nb"
      using a [of notebookNodeSelectorPath]
      by (simp add: selector_of_def nested_as_def notebook_paths del: nested_field.simps)
    moreover have "selector_of nb' = selector_of b"
      using removeDRA_apart [of notebookNodeSelectorPath c] c [of notebookNodeSelectorPath] 1(4)
      by (simp add: selector_of_def nested_as_def notebook_paths del: nested_field.simps)
    ultimately show ?thesis
      using 1(2) selector_removed [of a "profile_selector hwp" b k] assms(3) by (auto simp: wf_profile_def split: if_splits)
  qed
  show "pod_claims nb' = filterOutClaim (pod_claims nb) draClaimName"
    using a [THEN pod_claims_cong] b [THEN pod_claims_cong] c [THEN pod_claims_cong] 1(4)
    by (simp add: removeDRA_claims notebook_paths)
  show "getLabel U nb' kueueQueueNameLabel = []" if "profile_queue hwp \<noteq> []"
  proof -
    have "GetLabels U nb' = GetLabels U a"
      using b [of "[''metadata'', ''labels'']"] c [of "[''metadata'', ''labels'']"]
        removeDRA_apart [of "[''metadata'', ''labels'']" c] 1(4)
      by (simp add: get_labels nested_as_def notebook_paths del: nested_field.simps)
    with that 1(1) removeLabel_gone show ?thesis by (simp add: getLabel_def)
  qed
qed

end

text \<open>
  C17: A profile can be withdrawn. Removing a profile that was applied takes back what it added: no
  claim of the webhook remains and the user's claims do, the Kueue label is gone, and with node
  scheduling the tolerations are the user's other ones and the node selector is the user's without
  the keys of the profile.
\<close>

theorem hwp_apply_remove_roundtrip:
  assumes U: "unstructured (inj_Unstructured i)" and "wf_profile hwp"
    and ap: "applyHardwareProfileToNotebook i nb hwp False new s = (Inr (nb1, ws), s1)"
    and rm: "removeHWPSettings i nb1 hwp = Inr nb2"
  shows "pod_claims nb2 = user_claims (pod_claims nb)
    \<and> (profile_queue hwp \<noteq> [] \<longrightarrow> getLabel (inj_Unstructured i) nb2 kueueQueueNameLabel = [])
    \<and> (profile_queue hwp = [] \<longrightarrow>
         tolerations_of nb2 = (if profile_tolerations hwp = [] then tolerations_of nb
           else other_tolerations i (profile_tolerations hwp) (tolerations_of nb))
         \<and> map_of (selector_of nb2) = map_of (selector_of nb) |` (- fst ` set (profile_selector hwp)))"
proof -
  note removed = unstructured.removed_node [OF U rm refl assms(2)]
  have "pod_claims nb2 = user_claims (pod_claims nb)"
    using removed(3) unstructured.apply_claims(1) [OF U ap refl] by simp
  moreover have "tolerations_of nb2 = (if profile_tolerations hwp = [] then tolerations_of nb
           else other_tolerations i (profile_tolerations hwp) (tolerations_of nb))"
    and "map_of (selector_of nb2) = map_of (selector_of nb) |` (- fst ` set (profile_selector hwp))"
    if "profile_queue hwp = []"
  proof -
    note applied = unstructured.applied_node [OF U ap refl that]
    show "tolerations_of nb2 = (if profile_tolerations hwp = [] then tolerations_of nb
           else other_tolerations i (profile_tolerations hwp) (tolerations_of nb))"
      using applied(1,2) removed(1) by auto
    show "map_of (selector_of nb2) = map_of (selector_of nb) |` (- fst ` set (profile_selector hwp))"
    proof
      fix k
      show "map_of (selector_of nb2) k = (map_of (selector_of nb) |` (- fst ` set (profile_selector hwp))) k"
      proof (cases "k \<in> fst ` set (profile_selector hwp)")
        case True
        then obtain v where "(k, v) \<in> set (profile_selector hwp)" by auto
        with assms(2) fold_update_has [of "profile_selector hwp" k v "selector_of nb"] show ?thesis
          using removed(2) [of k] applied(3) True by (simp add: wf_profile_def)
      next
        case False
        with fold_update_other [of k "profile_selector hwp" "selector_of nb"] show ?thesis
          using removed(2) [of k] applied(3) by (simp add: map_of_eq_None_iff [symmetric] restrict_map_def)
      qed
    qed
  qed
  ultimately show ?thesis using removed(4) by blast
qed

section \<open>Unreadable profiles\<close>

text \<open>
  The verdict on a Notebook whose profile the API server does not return. It depends on the name that the
  old object has, and not on the namespace.
\<close>

lemma unreadable_verdict:
  assumes "req_Operation req = op_Create \<or> req_Operation req = op_Update"
    and "inj_Decoder i = Some D" and "Decode D req = Inr nb" and "DeletionTimestampIsZero (inj_Admission i) nb"
    and "getAnnotation (inj_Unstructured i) nb HardwareProfileNameAnnotation = n" and "n \<noteq> []"
    and "profile_namespace (inj_Unstructured i) nb = ns" and "ns \<noteq> []"
    and "inj_Get i HardwareProfile_gvk ns n s = (Inl err, s1)"
  shows "\<exists>resp. hwp_Handle i req s = (resp, s1)
    \<and> (if req_Operation req = op_Update \<and> (\<exists>old. old_object i req = Some old
            \<and> getAnnotation (inj_Unstructured i) old HardwareProfileNameAnnotation = n)
        then \<exists>msg warning. resp = Allowed msg [warning]
        else \<exists>e. resp = Errored (if IsNotFound err then 400 else 500) e)"
proof -
  have "hwp_Handle i req s = (handleFetchError i req err n ns, s1)"
    using assms by (auto simp: hwp_Handle_def admit_object_def performHardwareProfileInjection_def
        fetchHardwareProfile_def Let_def)
  moreover have "isStaleProfileReference i req n \<longleftrightarrow> (\<exists>old. old_object i req = Some old
            \<and> getAnnotation (inj_Unstructured i) old HardwareProfileNameAnnotation = n)"
    by (simp add: isStaleProfileReference_def split: option.split)
  ultimately show ?thesis
    by (cases "IsNotFound err"; cases "req_Operation req = op_Update \<and> isStaleProfileReference i req n")
      (simp_all add: handleFetchError_def Let_def StatusBadRequest_def StatusInternalServerError_def)
qed

text \<open>
  C21: A Notebook cannot be given a profile that cannot be read, and keeps being editable when the profile
  it has becomes unreadable. Let the API server not return the profile that the Notebook names. On a
  creation, and on an update whose old object names no profile or one of another name, the request is
  refused, as a bad request when the profile does not exist and as an internal error when it could not
  be fetched. On an update whose old object names the same profile, by name and namespace, it is allowed,
  with one warning and without a patch.
\<close>

theorem hwp_unreadable_profile:
  assumes "req_Operation req = op_Create \<or> req_Operation req = op_Update"
    and "inj_Decoder i = Some D" and "Decode D req = Inr nb" and "DeletionTimestampIsZero (inj_Admission i) nb"
    and "getAnnotation (inj_Unstructured i) nb HardwareProfileNameAnnotation = n" and "n \<noteq> []"
    and "profile_namespace (inj_Unstructured i) nb = ns" and "ns \<noteq> []"
    and "inj_Get i HardwareProfile_gvk ns n s = (Inl err, s1)"
  shows "(req_Operation req = op_Create \<or> old_object i req = None
        \<or> (\<exists>old. old_object i req = Some old
             \<and> getAnnotation (inj_Unstructured i) old HardwareProfileNameAnnotation \<noteq> n) \<longrightarrow>
      (\<exists>e. hwp_Handle i req s = (Errored (if IsNotFound err then 400 else 500) e, s1)))
    \<and> (\<forall>old. req_Operation req = op_Update \<and> old_object i req = Some old
        \<and> getAnnotation (inj_Unstructured i) old HardwareProfileNameAnnotation = n
        \<and> profile_namespace (inj_Unstructured i) old = ns \<longrightarrow>
      (\<exists>msg warning. hwp_Handle i req s = (Allowed msg [warning], s1)))"
proof -
  obtain resp where "hwp_Handle i req s = (resp, s1)"
    "if req_Operation req = op_Update \<and> (\<exists>old. old_object i req = Some old
          \<and> getAnnotation (inj_Unstructured i) old HardwareProfileNameAnnotation = n)
      then \<exists>msg warning. resp = Allowed msg [warning]
      else \<exists>e. resp = Errored (if IsNotFound err then 400 else 500) e"
    using unreadable_verdict [OF assms] by blast
  then show ?thesis by (auto split: if_splits)
qed

text \<open>
  The namespace of the old object does not count: an update that moves the reference to a namespace that
  has no profile of this name is allowed, although it counts as a change of the profile.
\<close>

lemma hwp_moved_profile_allowed:
  assumes "req_Operation req = op_Update"
    and "inj_Decoder i = Some D" and "Decode D req = Inr nb" and "DeletionTimestampIsZero (inj_Admission i) nb"
    and "getAnnotation (inj_Unstructured i) nb HardwareProfileNameAnnotation = n" and "n \<noteq> []"
    and "profile_namespace (inj_Unstructured i) nb = ns" and "ns \<noteq> []"
    and "inj_Get i HardwareProfile_gvk ns n s = (Inl err, s1)"
    and "old_object i req = Some old" and "getAnnotation (inj_Unstructured i) old HardwareProfileNameAnnotation = n"
  shows "\<exists>msg warning. hwp_Handle i req s = (Allowed msg [warning], s1)"
  using unreadable_verdict [OF disjI2 [OF assms(1)] assms(2-9)] assms(1,10,11) by auto

section \<open>A run\<close>

definition example_profile :: object where
  "example_profile =
     [(''metadata'', JObj [(''name'', JStr ''gpu'')]),
      (''spec'', JObj
        [(''identifiers'', JArr [JObj [(''identifier'', JStr ''cpu''), (''defaultCount'', JStr ''2'')]]),
         (''dra'', JObj [(''resourceClaimTemplateName'', JStr ''tmpl'')]),
         (''scheduling'', JObj [(''node'', JObj
            [(''nodeSelector'', JObj [(''zone'', JStr ''a'')]),
             (''tolerations'', JArr [JObj [(''key'', JStr ''gpu'')]])])])])]"

definition example_gpu_notebook :: object where
  "example_gpu_notebook =
     [(''metadata'', JObj [(''name'', JStr ''nb''), (''namespace'', JStr ''ns''),
         (''annotations'', JObj [(HardwareProfileNameAnnotation, JStr ''gpu'')])]),
      (''spec'', JObj [(''template'', JObj [(''spec'', JObj
         [(''containers'', JArr [JObj [(''name'', JStr ''nb'')]])])])])]"

definition example_injector :: "unit Injector" where
  "example_injector =
     \<lparr>inj_Get = (\<lambda>_ _ _ s. (Inr example_profile, s)), inj_EventWriter = None,
      inj_Decoder = Some \<lparr>Decode = (\<lambda>_. Inr example_gpu_notebook), DecodeRaw = (\<lambda>_. Inr [])\<rparr>,
      inj_Unstructured = documented_unstructured,
      inj_Admission = \<lparr>json_Marshal = (\<lambda>_. Inr ''patched''), json_Unmarshal = (\<lambda>_. Inr []),
        DeletionTimestampIsZero = (\<lambda>_. True), GetUID = (\<lambda>_. [])\<rparr>,
      inj_IsDNS1123Subdomain = (\<lambda>_. []), inj_IsValidLabelValue = (\<lambda>_. []),
      inj_ParseQuantity = Inr, inj_NewQuantity = int_str, inj_FormatFloat = (\<lambda>_. []),
      inj_FloatText = (\<lambda>_. []), inj_Now = (\<lambda>_. [])\<rparr>"

definition example_applied :: object where
  "example_applied = fst (projr (fst (applyHardwareProfileToNotebook example_injector example_gpu_notebook
     example_profile False True ())))"

lemma example_apply:
  "applyHardwareProfileToNotebook example_injector example_gpu_notebook example_profile False True () =
     (Inr (example_applied, []), ())"
  by code_simp

lemma example_remove: "isl (removeHWPSettings example_injector example_applied example_profile) = False"
  by code_simp

lemma example_wf: "wf_profile example_profile"
  by code_simp

lemma example_handle:
  "hwp_Handle example_injector example_request () = (PatchResponseFromRaw ''{}'' ''patched'' [], ())"
  by code_simp

text \<open>The same, with an encoder that accepts only a Notebook with a claim.\<close>

definition claiming_injector :: "unit Injector" where
  "claiming_injector = example_injector\<lparr>inj_Admission := (inj_Admission example_injector)
     \<lparr>json_Marshal := (\<lambda>obj. if pod_claims obj = [] then Inl (GoErr ''no claim'') else Inr ''patched'')\<rparr>\<rparr>"

lemma claiming_handle:
  "hwp_Handle claiming_injector example_request () = (PatchResponseFromRaw ''{}'' ''patched'' [], ())"
  by code_simp

theorem hwp_patch_frame_witness:
  "\<exists>nb'. pod_claims example_gpu_notebook = [] \<and> pod_claims nb' \<noteq> [] \<and> hwp_frame example_gpu_notebook nb'"
proof -
  have "pod_claims example_gpu_notebook = []" by code_simp
  moreover have "unstructured (inj_Unstructured claiming_injector)"
    using doc.unstructured_axioms by (simp add: claiming_injector_def example_injector_def)
  ultimately show ?thesis
    using hwp_patch_frame [OF _ claiming_handle]
    by (auto simp: claiming_injector_def example_injector_def split: if_splits)
qed

theorem hwp_reapply_idempotent_witness:
  "applyHardwareProfileToNotebook example_injector example_applied example_profile False False () =
     (Inr (example_applied, []), ())"
  using hwp_reapply_idempotent [OF _ example_wf example_apply] doc.unstructured_axioms
  by (simp add: example_injector_def)

theorem hwp_claims_exact_witness: "pod_claims example_applied =
     [JObj [(''name'', JStr ''hwp-dra''), (''resourceClaimTemplateName'', JStr ''tmpl'')]]"
proof -
  have "pod_claims example_gpu_notebook = []" "hwp_template example_profile = ''tmpl''" by code_simp+
  with hwp_claims_exact [OF _ example_apply] doc.unstructured_axioms show ?thesis
    by (simp add: example_injector_def filterOutClaim_def)
qed

theorem hwp_apply_remove_roundtrip_witness:
  "\<exists>nb2. removeHWPSettings example_injector example_applied example_profile = Inr nb2
     \<and> pod_claims nb2 = [] \<and> tolerations_of nb2 = [] \<and> map_of (selector_of nb2) ''zone'' = None"
proof -
  obtain nb2 where rm: "removeHWPSettings example_injector example_applied example_profile = Inr nb2"
    using example_remove by (cases "removeHWPSettings example_injector example_applied example_profile") auto
  have "pod_claims example_gpu_notebook = []" "profile_queue example_profile = []"
    "tolerations_of example_gpu_notebook = []" "''zone'' \<in> fst ` set (profile_selector example_profile)"
    by code_simp+
  with hwp_apply_remove_roundtrip [OF _ example_wf example_apply rm] doc.unstructured_axioms rm show ?thesis
    by (auto simp: example_injector_def filterOutClaim_def)
qed

theorem hwp_unreadable_profile_witness:
  "\<exists>e. hwp_Handle (example_injector\<lparr>inj_Get := \<lambda>_ _ _ s. (Inl (ApiErr NotFound ''gpu''), s)\<rparr>) example_request ()
     = (Errored 400 e, ())"
proof -
  let ?i = "example_injector\<lparr>inj_Get := \<lambda>_ _ _ s. (Inl (ApiErr NotFound ''gpu''), s)\<rparr>"
  have "getAnnotation documented_unstructured example_gpu_notebook HardwareProfileNameAnnotation = ''gpu''"
    "profile_namespace documented_unstructured example_gpu_notebook = ''ns''"
    by code_simp+
  then show ?thesis
    using hwp_unreadable_profile [of example_request ?i "the (inj_Decoder example_injector)" example_gpu_notebook
        "''gpu''" "''ns''" "()" "ApiErr NotFound ''gpu''" "()"]
    by (auto simp: example_injector_def example_request_def)
qed

end
