(* ===== verification/Webhook_TLS.thy ===== *)
theory Webhook_TLS
  imports Unstructured
begin

text \<open>
  \<open>internal/webhook/tls\<close>: which provider issues the serving certificate of the webhooks, and the
  resources and annotations each provider needs. \<open>client-go\<close> provides discovery and the client; they
  are the records \<open>tls_env\<close> and \<open>tls_client\<close>.
\<close>

section \<open>Detection\<close>

datatype Provider = ProviderOpenShift | ProviderCertManager | ProviderNone

definition DefaultWebhookServiceName :: string where
  "DefaultWebhookServiceName = ''workbenches-operator-webhook-service''"
definition DefaultWebhookCertSecret :: string where
  "DefaultWebhookCertSecret = ''workbenches-operator-controller-webhook-cert''"
definition DefaultWebhookCertificate :: string where
  "DefaultWebhookCertificate = ''workbenches-operator-webhook-cert''"
definition DefaultWebhookIssuer :: string where
  "DefaultWebhookIssuer = ''workbenches-operator-selfsigned-issuer''"
definition DefaultMutatingWebhookName :: string where
  "DefaultMutatingWebhookName = ''workbenches-operator-mutating-webhook-configuration''"
definition inClusterNamespacePath :: string where
  "inClusterNamespacePath = ''/var/run/secrets/kubernetes.io/serviceaccount/namespace''"
definition openShiftRouteGroup :: string where "openShiftRouteGroup = ''route.openshift.io''"
definition openShiftSecurityGroup :: string where "openShiftSecurityGroup = ''security.openshift.io''"
definition certManagerGroup :: string where "certManagerGroup = ''cert-manager.io''"

record Names =
  n_Namespace :: string
  n_ServiceName :: string
  n_CertSecret :: string
  n_CertificateName :: string
  n_IssuerName :: string
  n_MutatingWebhookName :: string

text \<open>
  The process: \<open>os.ReadFile\<close>, \<open>os.Getenv\<close>, the creation of a discovery client and its \<open>ServerGroups\<close>,
  whose group list (\<open>None\<close> for nil) may come together with an error.
\<close>

record tls_env =
  env_ReadFile :: "string \<Rightarrow> string res"
  env_Getenv :: "string \<Rightarrow> string"
  env_NewDiscovery :: "goerror option"
  env_ServerGroups :: "string list option \<times> goerror option"

definition resolveNamespace :: "tls_env \<Rightarrow> string res" where
  "resolveNamespace env =
     (let file = (case env_ReadFile env inClusterNamespacePath of Inl _ \<Rightarrow> [] | Inr content \<Rightarrow> TrimSpace content);
          operator = env_Getenv env ''OPERATOR_NAMESPACE'';
          pod = env_Getenv env ''POD_NAMESPACE''
      in if file \<noteq> [] then Inr file
         else if operator \<noteq> [] then Inr operator
         else if pod \<noteq> [] then Inr pod
         else Inl (GoErr ''unable to resolve operator namespace: set OPERATOR_NAMESPACE or POD_NAMESPACE, or run in-cluster with a service account namespace file''))"

definition DefaultNames :: "tls_env \<Rightarrow> Names res" where
  "DefaultNames env =
     (case resolveNamespace env of
        Inl err \<Rightarrow> Inl err
      | Inr ns \<Rightarrow>
          Inr \<lparr>n_Namespace = ns, n_ServiceName = DefaultWebhookServiceName,
               n_CertSecret = DefaultWebhookCertSecret, n_CertificateName = DefaultWebhookCertificate,
               n_IssuerName = DefaultWebhookIssuer, n_MutatingWebhookName = DefaultMutatingWebhookName\<rparr>)"

text \<open>\<open>fmt.Errorf\<close> with \<open>%w\<close>, of an error that may be nil.\<close>

definition wrap_or_nil :: "string \<Rightarrow> goerror option \<Rightarrow> goerror" where
  "wrap_or_nil msg err = (case err of None \<Rightarrow> GoErr (msg @ ''%!w(<nil>)'') | Some e \<Rightarrow> WrapErr msg e)"

definition Detect :: "tls_env \<Rightarrow> Provider \<times> goerror option" where
  "Detect env =
     (case env_ServerGroups env of
        (None, err) \<Rightarrow> (ProviderNone, Some (wrap_or_nil ''discover API groups: '' err))
      | (Some groups, err) \<Rightarrow>
          (let hasOpenShift = list_ex (\<lambda>name. name = openShiftRouteGroup \<or> name = openShiftSecurityGroup) groups;
               hasCertManager = list_ex (\<lambda>name. name = certManagerGroup) groups
           in if hasOpenShift then (ProviderOpenShift, None)
              else if hasCertManager then (ProviderCertManager, None)
              else (case err of
                  Some e \<Rightarrow> (ProviderNone, Some (WrapErr ''discover API groups (partial): '' e))
                | None \<Rightarrow> (ProviderNone, None))))"

section \<open>The client\<close>

definition openShiftServingCertAnnotation :: string where
  "openShiftServingCertAnnotation = ''service.beta.openshift.io/serving-cert-secret-name''"
definition openShiftInjectCABundle :: string where
  "openShiftInjectCABundle = ''service.beta.openshift.io/inject-cabundle''"
definition certManagerInjectCAFrom :: string where
  "certManagerInjectCAFrom = ''cert-manager.io/inject-ca-from''"

definition clusterIssuerGVK :: gvk where
  "clusterIssuerGVK = \<lparr>gvk_Group = ''cert-manager.io'', gvk_Version = ''v1'', gvk_Kind = ''ClusterIssuer''\<rparr>"
definition certificateGVK :: gvk where
  "certificateGVK = \<lparr>gvk_Group = ''cert-manager.io'', gvk_Version = ''v1'', gvk_Kind = ''Certificate''\<rparr>"

text \<open>
  The fields the code reads of a Service, of a MutatingWebhookConfiguration and of an owner reference
  (\<open>None\<close> for a nil map; \<open>Some True\<close> for a pointer to true).
\<close>

record service =
  svc_Namespace :: string
  svc_Name :: string
  svc_Annotations :: "string gomap option"

record webhook_config =
  mwc_Name :: string
  mwc_UID :: string
  mwc_Annotations :: "string gomap option"

record owner_ref =
  or_APIVersion :: string
  or_Kind :: string
  or_Name :: string
  or_UID :: string
  or_Controller :: "bool option"
  or_BlockOwnerDeletion :: "bool option"

text \<open>
  The calls of the client, and the accessors of owner references and UIDs of unstructured objects.
  \<open>Patch\<close> sends the merge patch from its second argument to its first.
\<close>

record 's tls_client =
  tc_GetService :: "string \<Rightarrow> string \<Rightarrow> 's \<Rightarrow> service res \<times> 's"
  tc_PatchService :: "service \<Rightarrow> service \<Rightarrow> 's \<Rightarrow> goerror option \<times> 's"
  tc_GetMWC :: "string \<Rightarrow> 's \<Rightarrow> webhook_config res \<times> 's"
  tc_PatchMWC :: "webhook_config \<Rightarrow> webhook_config \<Rightarrow> 's \<Rightarrow> goerror option \<times> 's"
  tc_DeleteMWC :: "webhook_config \<Rightarrow> 's \<Rightarrow> goerror option \<times> 's"
  tc_Get :: "gvk \<Rightarrow> string \<Rightarrow> string \<Rightarrow> 's \<Rightarrow> object res \<times> 's"
  tc_Create :: "object \<Rightarrow> 's \<Rightarrow> goerror option \<times> 's"
  tc_Patch :: "object \<Rightarrow> object \<Rightarrow> 's \<Rightarrow> goerror option \<times> 's"
  tc_Unstructured :: unstructured_api
  tc_GetUID :: "object \<Rightarrow> string"
  tc_GetOwnerReferences :: "object \<Rightarrow> owner_ref list"
  tc_SetOwnerReferences :: "object \<Rightarrow> owner_ref list \<Rightarrow> object"

section \<open>Annotations\<close>

definition set_key :: "string gomap option \<Rightarrow> string \<Rightarrow> string \<Rightarrow> string gomap option" where
  "set_key annotations key val =
     Some (AList.update key val (case annotations of None \<Rightarrow> [] | Some m \<Rightarrow> m))"

definition has_key_value :: "string gomap option \<Rightarrow> string \<Rightarrow> string \<Rightarrow> bool" where
  "has_key_value annotations key val \<longleftrightarrow>
     (case annotations of None \<Rightarrow> False | Some m \<Rightarrow> get_str m key = val)"

definition patchServiceAnnotation ::
  "'s tls_client \<Rightarrow> string \<Rightarrow> string \<Rightarrow> string \<Rightarrow> string \<Rightarrow> 's \<Rightarrow> goerror option \<times> 's" where
  "patchServiceAnnotation cli namespace name key val s =
     (case tc_GetService cli namespace name s of
        (Inl err, s1) \<Rightarrow>
          (if IsNotFound err then None
           else Some (WrapErr (''get Service '' @ namespace @ ''/'' @ name @ '': '') err), s1)
      | (Inr svc, s1) \<Rightarrow>
          if has_key_value (svc_Annotations svc) key val then (None, s1)
          else (case tc_PatchService cli (svc\<lparr>svc_Annotations := set_key (svc_Annotations svc) key val\<rparr>) svc s1 of
              (Some err, s2) \<Rightarrow>
                (Some (WrapErr (''patch Service '' @ namespace @ ''/'' @ name @ '' annotations: '') err), s2)
            | (None, s2) \<Rightarrow> (None, s2)))"

definition patchMWCAnnotation ::
  "'s tls_client \<Rightarrow> string \<Rightarrow> string \<Rightarrow> string \<Rightarrow> 's \<Rightarrow> goerror option \<times> 's" where
  "patchMWCAnnotation cli name key val s =
     (case tc_GetMWC cli name s of
        (Inl err, s1) \<Rightarrow>
          (if IsNotFound err then None
           else Some (WrapErr (''get MutatingWebhookConfiguration '' @ name @ '': '') err), s1)
      | (Inr mwc, s1) \<Rightarrow>
          if has_key_value (mwc_Annotations mwc) key val then (None, s1)
          else (case tc_PatchMWC cli (mwc\<lparr>mwc_Annotations := set_key (mwc_Annotations mwc) key val\<rparr>) mwc s1 of
              (Some err, s2) \<Rightarrow>
                (Some (WrapErr (''patch MutatingWebhookConfiguration '' @ name @ '' annotations: '') err), s2)
            | (None, s2) \<Rightarrow> (None, s2)))"

section \<open>Owner references\<close>

definition same_owner :: "owner_ref \<Rightarrow> owner_ref \<Rightarrow> bool" where
  "same_owner ref owner \<longleftrightarrow>
     or_Kind ref = or_Kind owner \<and> or_Name ref = or_Name owner \<and> or_APIVersion ref = or_APIVersion owner"

definition upsertOwnerReference :: "owner_ref list \<Rightarrow> owner_ref \<Rightarrow> owner_ref list" where
  "upsertOwnerReference refs owner =
     (let out = map (\<lambda>ref. if same_owner ref owner then owner else ref) refs;
          replaced = list_ex (\<lambda>ref. same_owner ref owner) refs
      in if replaced then out else out @ [owner])"

definition ownerRefMatches :: "owner_ref list \<Rightarrow> owner_ref \<Rightarrow> bool" where
  "ownerRefMatches refs want = list_ex (\<lambda>ref. or_UID ref = or_UID want \<and> same_owner ref want) refs"

definition mutatingWebhookOwnerRef :: "'s tls_client \<Rightarrow> string \<Rightarrow> 's \<Rightarrow> owner_ref option res \<times> 's" where
  "mutatingWebhookOwnerRef cli name s =
     (case tc_GetMWC cli name s of
        (Inl err, s1) \<Rightarrow>
          (if IsNotFound err then Inr None
           else Inl (WrapErr (''get MutatingWebhookConfiguration '' @ name @ '' for owner ref: '') err), s1)
      | (Inr mwc, s1) \<Rightarrow>
          (Inr (Some \<lparr>or_APIVersion = ''admissionregistration.k8s.io/v1'', or_Kind = ''MutatingWebhookConfiguration'',
             or_Name = mwc_Name mwc, or_UID = mwc_UID mwc, or_Controller = Some True,
             or_BlockOwnerDeletion = Some True\<rparr>), s1))"

definition clusterIssuerOwnerRef :: "'s tls_client \<Rightarrow> string \<Rightarrow> 's \<Rightarrow> owner_ref option res \<times> 's" where
  "clusterIssuerOwnerRef cli name s =
     (case tc_Get cli clusterIssuerGVK [] name s of
        (Inl err, s1) \<Rightarrow>
          (if IsNotFound err then Inr None
           else Inl (WrapErr (''get ClusterIssuer '' @ name @ '' for owner ref: '') err), s1)
      | (Inr issuer, s1) \<Rightarrow>
          (Inr (Some \<lparr>or_APIVersion = gvk_Group clusterIssuerGVK @ ''/'' @ gvk_Version clusterIssuerGVK,
             or_Kind = gvk_Kind clusterIssuerGVK, or_Name = GetName (tc_Unstructured cli) issuer,
             or_UID = tc_GetUID cli issuer, or_Controller = Some True, or_BlockOwnerDeletion = Some True\<rparr>), s1))"

definition reconcileOwnerReference ::
  "'s tls_client \<Rightarrow> object \<Rightarrow> string \<Rightarrow> ('s tls_client \<Rightarrow> string \<Rightarrow> 's \<Rightarrow> owner_ref option res \<times> 's) \<Rightarrow> 's
     \<Rightarrow> goerror option \<times> 's" where
  "reconcileOwnerReference cli obj ownerName resolve s =
     (case resolve cli ownerName s of
        (Inl err, s1) \<Rightarrow> (Some err, s1)
      | (Inr None, s1) \<Rightarrow> (None, s1)
      | (Inr (Some owner), s1) \<Rightarrow>
          if ownerRefMatches (tc_GetOwnerReferences cli obj) owner then (None, s1)
          else (case tc_Patch cli (tc_SetOwnerReferences cli obj
                        (upsertOwnerReference (tc_GetOwnerReferences cli obj) owner)) obj s1 of
              (Some err, s2) \<Rightarrow>
                (Some (WrapErr (''patch '' @ GetKind (tc_Unstructured cli) obj @ ''/'' @
                   GetName (tc_Unstructured cli) obj @ '' owner references: '') err), s2)
            | (None, s2) \<Rightarrow> (None, s2)))"

section \<open>Resources of cert-manager\<close>

definition new_issuer :: "Names \<Rightarrow> object" where
  "new_issuer names =
     [(''apiVersion'', JStr ''cert-manager.io/v1''), (''kind'', JStr ''ClusterIssuer''),
      (''metadata'', JObj [(''name'', JStr (n_IssuerName names))]),
      (''spec'', JObj [(''selfSigned'', JObj [])])]"

definition new_certificate :: "Names \<Rightarrow> object" where
  "new_certificate names =
     [(''apiVersion'', JStr ''cert-manager.io/v1''), (''kind'', JStr ''Certificate''),
      (''metadata'', JObj [(''name'', JStr (n_CertificateName names)), (''namespace'', JStr (n_Namespace names))]),
      (''spec'', JObj
        [(''dnsNames'', JArr [JStr (n_ServiceName names @ ''.'' @ n_Namespace names @ ''.svc''),
                            JStr (n_ServiceName names @ ''.'' @ n_Namespace names @ ''.svc.cluster.local'')]),
         (''secretName'', JStr (n_CertSecret names)),
         (''issuerRef'', JObj [(''group'', JStr ''cert-manager.io''), (''kind'', JStr ''ClusterIssuer''),
                             (''name'', JStr (n_IssuerName names))])])]"

text \<open>
  The body that \<open>ensureClusterIssuer\<close> and \<open>ensureCertificate\<close> share: keep an existing object but repair
  its owner, or create it, owned when the owner exists. \<open>what\<close> is the object in error messages.
\<close>

definition ensure_owned ::
  "'s tls_client \<Rightarrow> string \<Rightarrow> gvk \<Rightarrow> string \<Rightarrow> string \<Rightarrow> object \<Rightarrow> string
     \<Rightarrow> ('s tls_client \<Rightarrow> string \<Rightarrow> 's \<Rightarrow> owner_ref option res \<times> 's) \<Rightarrow> 's \<Rightarrow> goerror option \<times> 's" where
  "ensure_owned cli what k namespace name fresh ownerName resolve s =
     (case tc_Get cli k namespace name s of
        (Inr obj, s1) \<Rightarrow> reconcileOwnerReference cli obj ownerName resolve s1
      | (Inl err, s1) \<Rightarrow>
          if \<not> IsNotFound err then (Some (WrapErr (''get '' @ what @ '': '') err), s1)
          else (case resolve cli ownerName s1 of
              (Inl ownerErr, s2) \<Rightarrow> (Some ownerErr, s2)
            | (Inr owner, s2) \<Rightarrow>
                (case tc_Create cli (case owner of None \<Rightarrow> fresh
                          | Some ref \<Rightarrow> tc_SetOwnerReferences cli fresh [ref]) s2 of
                   (None, s3) \<Rightarrow> (None, s3)
                 | (Some err, s3) \<Rightarrow>
                     if IsAlreadyExists err
                     then (case tc_Get cli k namespace name s3 of
                         (Inl getErr, s4) \<Rightarrow>
                           (Some (WrapErr (''get '' @ what @ '' after AlreadyExists: '') getErr), s4)
                       | (Inr existing, s4) \<Rightarrow> reconcileOwnerReference cli existing ownerName resolve s4)
                     else (Some (WrapErr (''create '' @ what @ '': '') err), s3))))"

definition ensureClusterIssuer :: "'s tls_client \<Rightarrow> Names \<Rightarrow> 's \<Rightarrow> goerror option \<times> 's" where
  "ensureClusterIssuer cli names s =
     ensure_owned cli (''ClusterIssuer '' @ n_IssuerName names) clusterIssuerGVK [] (n_IssuerName names)
       (new_issuer names) (n_MutatingWebhookName names) mutatingWebhookOwnerRef s"

definition ensureCertificate :: "'s tls_client \<Rightarrow> Names \<Rightarrow> 's \<Rightarrow> goerror option \<times> 's" where
  "ensureCertificate cli names s =
     ensure_owned cli (''Certificate '' @ n_Namespace names @ ''/'' @ n_CertificateName names) certificateGVK
       (n_Namespace names) (n_CertificateName names) (new_certificate names) (n_IssuerName names)
       clusterIssuerOwnerRef s"

section \<open>Providers\<close>

definition ensureOpenShift :: "'s tls_client \<Rightarrow> Names \<Rightarrow> 's \<Rightarrow> goerror option \<times> 's" where
  "ensureOpenShift cli names s =
     (case patchServiceAnnotation cli (n_Namespace names) (n_ServiceName names)
             openShiftServingCertAnnotation (n_CertSecret names) s of
        (Some err, s1) \<Rightarrow> (Some err, s1)
      | (None, s1) \<Rightarrow>
          patchMWCAnnotation cli (n_MutatingWebhookName names) openShiftInjectCABundle ''true'' s1)"

definition ensureCertManager :: "'s tls_client \<Rightarrow> Names \<Rightarrow> 's \<Rightarrow> goerror option \<times> 's" where
  "ensureCertManager cli names s =
     (case ensureClusterIssuer cli names s of
        (Some err, s1) \<Rightarrow> (Some err, s1)
      | (None, s1) \<Rightarrow>
          (case ensureCertificate cli names s1 of
             (Some err, s2) \<Rightarrow> (Some err, s2)
           | (None, s2) \<Rightarrow>
               patchMWCAnnotation cli (n_MutatingWebhookName names) certManagerInjectCAFrom
                 (n_Namespace names @ ''/'' @ n_CertificateName names) s2))"

definition ensureNone :: "'s tls_client \<Rightarrow> Names \<Rightarrow> 's \<Rightarrow> goerror option \<times> 's" where
  "ensureNone cli names s =
     (case tc_GetMWC cli (n_MutatingWebhookName names) s of
        (Inl err, s1) \<Rightarrow>
          (if IsNotFound err then None
           else Some (WrapErr (''get MutatingWebhookConfiguration '' @ n_MutatingWebhookName names @ '': '') err), s1)
      | (Inr mwc, s1) \<Rightarrow>
          (case tc_DeleteMWC cli mwc s1 of
             (Some err, s2) \<Rightarrow>
               (if IsNotFound err then None
                else Some (WrapErr (''delete MutatingWebhookConfiguration '' @ n_MutatingWebhookName names @ '': '') err), s2)
           | (None, s2) \<Rightarrow> (None, s2)))"

definition Ensure :: "'s tls_client \<Rightarrow> Provider \<Rightarrow> Names \<Rightarrow> 's \<Rightarrow> goerror option \<times> 's" where
  "Ensure cli provider names s =
     (case provider of
        ProviderOpenShift \<Rightarrow> ensureOpenShift cli names s
      | ProviderCertManager \<Rightarrow> ensureCertManager cli names s
      | ProviderNone \<Rightarrow> ensureNone cli names s)"

definition Configure :: "tls_env \<Rightarrow> 's tls_client \<Rightarrow> 's \<Rightarrow> bool res \<times> 's" where
  "Configure env cli s =
     (case env_NewDiscovery env of
        Some err \<Rightarrow> (Inl (WrapErr ''create discovery client: '' err), s)
      | None \<Rightarrow>
          (case DefaultNames env of
             Inl err \<Rightarrow> (Inl err, s)
           | Inr names \<Rightarrow>
               (case Detect env of
                  (_, Some err) \<Rightarrow> (Inl err, s)
                | (provider, None) \<Rightarrow>
                    (case Ensure cli provider names s of
                       (Some err, s1) \<Rightarrow> (Inl err, s1)
                     | (None, s1) \<Rightarrow> (Inr (provider \<noteq> ProviderNone), s1)))))"

text \<open>\<open>cmd/main.go\<close>: the caller at start-up.\<close>

definition configureWebhookServingCerts :: "tls_env \<Rightarrow> 's tls_client \<Rightarrow> bool \<Rightarrow> 's \<Rightarrow> bool res \<times> 's" where
  "configureWebhookServingCerts env cli enableWebhooks s =
     (if \<not> enableWebhooks then (Inr False, s)
      else (case Configure env cli s of
          (Inl err, s1) \<Rightarrow> (Inl err, s1)
        | (Inr enabled, s1) \<Rightarrow> if \<not> enabled then (Inr False, s1) else (Inr True, s1)))"

section \<open>The periodic ensurer\<close>

record 's ensurer =
  en_cli :: "'s tls_client"
  en_names :: Names
  en_provider :: Provider

definition NewEnsurer :: "tls_env \<Rightarrow> 's tls_client \<Rightarrow> 's ensurer res" where
  "NewEnsurer env cli =
     (case DefaultNames env of
        Inl err \<Rightarrow> Inl err
      | Inr names \<Rightarrow>
          (case env_NewDiscovery env of
             Some err \<Rightarrow> Inl (WrapErr ''create discovery client: '' err)
           | None \<Rightarrow>
               (case Detect env of
                  (_, Some err) \<Rightarrow> Inl err
                | (provider, None) \<Rightarrow>
                    Inr \<lparr>en_cli = cli, en_names = names, en_provider = provider\<rparr>)))"

text \<open>
  \<open>Start\<close>: one run of \<open>Ensure\<close>, and one more per tick until the context is cancelled. An element of
  \<open>ticks\<close> is what the rest of the world does to the cluster until a tick, and \<open>quit\<close> what it does until
  the cancellation. The errors that are logged and the last state are returned.
\<close>

fun ensurer_Start :: "'s ensurer \<Rightarrow> ('s \<Rightarrow> 's) list \<Rightarrow> ('s \<Rightarrow> 's) \<Rightarrow> 's \<Rightarrow> goerror list \<times> 's" where
  "ensurer_Start e [] quit s =
     (case Ensure (en_cli e) (en_provider e) (en_names e) s of
        (err, s1) \<Rightarrow> (case err of None \<Rightarrow> [] | Some x \<Rightarrow> [x], quit s1))"
| "ensurer_Start e (world # ticks) quit s =
     (case Ensure (en_cli e) (en_provider e) (en_names e) s of
        (err, s1) \<Rightarrow>
          (case ensurer_Start e ticks quit (world s1) of
             (logged, s2) \<Rightarrow> ((case err of None \<Rightarrow> [] | Some x \<Rightarrow> [x]) @ logged, s2)))"

end
