(* ===== verification/Webhook_Certificates.thy ===== *)
theory Webhook_Certificates
  imports Webhook_TLS
begin

text \<open>
  What the certificate set-up establishes: the locale \<open>tls_cluster\<close> states what the API server promises
  in the states in which it is up, \<open>tls_configured\<close> is the specification of a provider, and a run of
  \<open>Ensure\<close> from such a state reaches it and leaves it alone. The periodic ensurer outlives every outage.
\<close>

section \<open>The cluster\<close>

definition obj_key :: "object \<Rightarrow> gvk \<times> string \<times> string" where
  "obj_key m = (gvk_of m, meta_str m [''metadata'', ''namespace''], meta_str m [''metadata'', ''name''])"

text \<open>The API server refuses an object with two owners that are its controller.\<close>

definition one_controller :: "owner_ref list \<Rightarrow> bool" where
  "one_controller refs \<longleftrightarrow> length (filter (\<lambda>r. or_Controller r = Some True) refs) \<le> 1"

text \<open>
  \<open>svc\<close>, \<open>mwc\<close> and \<open>obj\<close> show the objects in a state, and \<open>up\<close> tells the states in which the server answers;
  nothing is said about the calls in other states, which may fail at any point. A merge patch against the
  object just read stores the new one; the server may add fields to what it stores of an unstructured
  object, but keeps its identity, owner references and spec.
\<close>

locale tls_cluster =
  fixes c :: "'s tls_client"
    and up :: "'s \<Rightarrow> bool"
    and svc :: "'s \<Rightarrow> string \<times> string \<Rightarrow> service option"
    and mwc :: "'s \<Rightarrow> string \<Rightarrow> webhook_config option"
    and obj :: "'s \<Rightarrow> gvk \<times> string \<times> string \<Rightarrow> object option"
  assumes accessors: "unstructured (tc_Unstructured c)"
    and get_service: "up s \<Longrightarrow> svc s (ns, n) = Some x \<Longrightarrow> tc_GetService c ns n s = (Inr x, s)"
    and no_service: "up s \<Longrightarrow> svc s (ns, n) = None \<Longrightarrow> \<exists>e. tc_GetService c ns n s = (Inl e, s) \<and> IsNotFound e"
    and patch_service: "up s \<Longrightarrow> svc s (ns, n) = Some x \<Longrightarrow>
      \<exists>s'. tc_PatchService c (x\<lparr>svc_Annotations := a\<rparr>) x s = (None, s') \<and> up s'
        \<and> svc s' = (svc s)((ns, n) \<mapsto> x\<lparr>svc_Annotations := a\<rparr>) \<and> mwc s' = mwc s \<and> obj s' = obj s"
    and get_mwc: "up s \<Longrightarrow> mwc s n = Some w \<Longrightarrow> tc_GetMWC c n s = (Inr w, s)"
    and no_mwc: "up s \<Longrightarrow> mwc s n = None \<Longrightarrow> \<exists>e. tc_GetMWC c n s = (Inl e, s) \<and> IsNotFound e"
    and mwc_keyed: "mwc s n = Some w \<Longrightarrow> mwc_Name w = n"
    and patch_mwc: "up s \<Longrightarrow> mwc s n = Some w \<Longrightarrow>
      \<exists>s'. tc_PatchMWC c (w\<lparr>mwc_Annotations := a\<rparr>) w s = (None, s') \<and> up s'
        \<and> mwc s' = (mwc s)(n \<mapsto> w\<lparr>mwc_Annotations := a\<rparr>) \<and> svc s' = svc s \<and> obj s' = obj s"
    and delete_mwc: "up s \<Longrightarrow> mwc s n = Some w \<Longrightarrow>
      \<exists>s'. tc_DeleteMWC c w s = (None, s') \<and> up s' \<and> mwc s' = (mwc s)(n := None) \<and> svc s' = svc s \<and> obj s' = obj s"
    and get_obj: "up s \<Longrightarrow> obj s (g, ns, n) = Some m \<Longrightarrow> tc_Get c g ns n s = (Inr m, s)"
    and no_obj: "up s \<Longrightarrow> obj s (g, ns, n) = None \<Longrightarrow> \<exists>e. tc_Get c g ns n s = (Inl e, s) \<and> IsNotFound e"
    and obj_keyed: "obj s k = Some m \<Longrightarrow> obj_key m = k"
    and create_obj: "up s \<Longrightarrow> obj s (obj_key m) = None \<Longrightarrow> one_controller (tc_GetOwnerReferences c m) \<Longrightarrow>
      \<exists>s' m'. tc_Create c m s = (None, s') \<and> up s' \<and> obj s' = (obj s)(obj_key m \<mapsto> m') \<and> svc s' = svc s \<and> mwc s' = mwc s
        \<and> tc_GetOwnerReferences c m' = tc_GetOwnerReferences c m \<and> map_of m' ''spec'' = map_of m ''spec''"
    and patch_obj: "up s \<Longrightarrow> obj s k = Some m \<Longrightarrow> obj_key m1 = k \<Longrightarrow> one_controller (tc_GetOwnerReferences c m1) \<Longrightarrow>
      \<exists>s' m'. tc_Patch c m1 m s = (None, s') \<and> up s' \<and> obj s' = (obj s)(k \<mapsto> m') \<and> svc s' = svc s \<and> mwc s' = mwc s
        \<and> tc_GetOwnerReferences c m' = tc_GetOwnerReferences c m1 \<and> map_of m' ''spec'' = map_of m1 ''spec''"
    and no_owners: "nested_field (JObj m) [''metadata'', ''ownerReferences''] = Inr None \<Longrightarrow> tc_GetOwnerReferences c m = []"
    and set_owners: "snd (snd (obj_key m)) \<noteq> [] \<Longrightarrow> tc_GetOwnerReferences c (tc_SetOwnerReferences c m refs) = refs
        \<and> obj_key (tc_SetOwnerReferences c m refs) = obj_key m
        \<and> map_of (tc_SetOwnerReferences c m refs) ''spec'' = map_of m ''spec''"

section \<open>The specification\<close>

definition mwc_ref :: "webhook_config \<Rightarrow> owner_ref" where
  "mwc_ref m = \<lparr>or_APIVersion = ''admissionregistration.k8s.io/v1'', or_Kind = ''MutatingWebhookConfiguration'',
     or_Name = mwc_Name m, or_UID = mwc_UID m, or_Controller = Some True, or_BlockOwnerDeletion = Some True\<rparr>"

definition issuer_ref :: "'s tls_client \<Rightarrow> object \<Rightarrow> owner_ref" where
  "issuer_ref c m = \<lparr>or_APIVersion = ''cert-manager.io/v1'', or_Kind = ''ClusterIssuer'',
     or_Name = meta_str m [''metadata'', ''name''], or_UID = tc_GetUID c m, or_Controller = Some True,
     or_BlockOwnerDeletion = Some True\<rparr>"

definition issuer_key :: "Names \<Rightarrow> gvk \<times> string \<times> string" where
  "issuer_key names = (clusterIssuerGVK, [], n_IssuerName names)"

definition certificate_key :: "Names \<Rightarrow> gvk \<times> string \<times> string" where
  "certificate_key names = (certificateGVK, n_Namespace names, n_CertificateName names)"

definition wf_names :: "Names \<Rightarrow> bool" where
  "wf_names names \<longleftrightarrow> n_IssuerName names \<noteq> [] \<and> n_CertificateName names \<noteq> [] \<and> n_Namespace names \<noteq> []"

text \<open>
  What a provider asks of the cluster. Service and webhook configuration come from elsewhere and may be
  missing; issuer and certificate must exist, the one owned by the webhook configuration if there is
  one and the other by the issuer.
\<close>

definition owned_by :: "owner_ref list \<Rightarrow> owner_ref \<Rightarrow> bool" where
  "owned_by refs owner \<longleftrightarrow>
     (\<exists>ref \<in> set refs. or_APIVersion ref = or_APIVersion owner \<and> or_Kind ref = or_Kind owner
        \<and> or_Name ref = or_Name owner \<and> or_UID ref = or_UID owner)"

definition annotated :: "string gomap option \<Rightarrow> string \<Rightarrow> string \<Rightarrow> bool" where
  "annotated annotations key val \<longleftrightarrow> (\<exists>m. annotations = Some m \<and> get_str m key = val)"

definition mwc_annotated :: "webhook_config option \<Rightarrow> string \<Rightarrow> string \<Rightarrow> bool" where
  "mwc_annotated m key val \<longleftrightarrow> (\<forall>x. m = Some x \<longrightarrow> annotated (mwc_Annotations x) key val)"

text \<open>All annotations but one.\<close>

definition kept_but :: "string \<Rightarrow> string gomap option \<Rightarrow> string gomap option \<Rightarrow> bool" where
  "kept_but key a a' \<longleftrightarrow> (\<forall>k. k \<noteq> key \<longrightarrow> Option.bind a' (\<lambda>m. map_of m k) = Option.bind a (\<lambda>m. map_of m k))"

text \<open>
  No other object controls the issuer and the certificate, so that the API server lets the operator make
  its own the controller.
\<close>

definition uncontested :: "owner_ref list \<Rightarrow> owner_ref \<Rightarrow> bool" where
  "uncontested refs owner \<longleftrightarrow>
     (\<forall>r \<in> set refs. or_Controller r = Some True \<longrightarrow> same_owner r owner)
     \<and> length (filter (\<lambda>r. same_owner r owner) refs) \<le> 1"

definition adoptable ::
  "'s tls_client \<Rightarrow> Names \<Rightarrow> (string \<Rightarrow> webhook_config option) \<Rightarrow> (gvk \<times> string \<times> string \<Rightarrow> object option) \<Rightarrow> bool" where
  "adoptable c names mwc obj \<longleftrightarrow>
     (\<forall>m w. obj (issuer_key names) = Some m \<and> mwc (n_MutatingWebhookName names) = Some w \<longrightarrow>
        uncontested (tc_GetOwnerReferences c m) (mwc_ref w))
     \<and> (\<forall>m owner. obj (certificate_key names) = Some m \<and> or_APIVersion owner = ''cert-manager.io/v1''
          \<and> or_Kind owner = ''ClusterIssuer'' \<and> or_Name owner = n_IssuerName names \<longrightarrow>
        uncontested (tc_GetOwnerReferences c m) owner)"

definition tls_configured ::
  "'s tls_client \<Rightarrow> Provider \<Rightarrow> Names \<Rightarrow> (string \<times> string \<Rightarrow> service option) \<Rightarrow> (string \<Rightarrow> webhook_config option)
     \<Rightarrow> (gvk \<times> string \<times> string \<Rightarrow> object option) \<Rightarrow> bool" where
  "tls_configured c p names svc mwc obj \<longleftrightarrow>
     (case p of
        ProviderOpenShift \<Rightarrow>
          (\<forall>x. svc (n_Namespace names, n_ServiceName names) = Some x \<longrightarrow>
             annotated (svc_Annotations x) openShiftServingCertAnnotation (n_CertSecret names))
          \<and> mwc_annotated (mwc (n_MutatingWebhookName names)) openShiftInjectCABundle ''true''
      | ProviderCertManager \<Rightarrow>
          (\<exists>issuer cert. obj (issuer_key names) = Some issuer \<and> obj (certificate_key names) = Some cert
             \<and> (\<forall>m. mwc (n_MutatingWebhookName names) = Some m \<longrightarrow>
                  owned_by (tc_GetOwnerReferences c issuer) (mwc_ref m))
             \<and> owned_by (tc_GetOwnerReferences c cert) (issuer_ref c issuer))
          \<and> mwc_annotated (mwc (n_MutatingWebhookName names)) certManagerInjectCAFrom
              (n_Namespace names @ ''/'' @ n_CertificateName names)
      | ProviderNone \<Rightarrow> mwc (n_MutatingWebhookName names) = None)"

section \<open>Owner references\<close>

lemma matches_iff: "ownerRefMatches refs owner \<longleftrightarrow> owned_by refs owner"
  by (auto simp: ownerRefMatches_def owned_by_def list_ex_iff same_owner_def)

lemma has_key_iff: "has_key_value a k v \<longleftrightarrow> annotated a k v"
  by (simp add: has_key_value_def annotated_def split: option.split)

lemma upsert_matches: "owned_by (upsertOwnerReference refs owner) owner"
proof -
  have "owner \<in> set (upsertOwnerReference refs owner)"
    by (force simp: upsertOwnerReference_def Let_def list_ex_iff)
  then show ?thesis by (auto simp: owned_by_def)
qed

lemma upsert_one_controller:
  assumes "uncontested refs owner"
  shows "one_controller (upsertOwnerReference refs owner)"
proof -
  let ?own = "\<lambda>r. same_owner r owner" and ?con = "\<lambda>r. or_Controller r = Some True"
  have le: "length (filter ?con (map (\<lambda>r. if ?own r then owner else r) rs)) \<le> length (filter ?own rs)"
    if "\<forall>r \<in> set rs. ?con r \<longrightarrow> ?own r" for rs
    using that by (induction rs) (auto simp del: filter_map)
  have "\<forall>r \<in> set refs. ?con r \<longrightarrow> ?own r" using assms by (simp add: uncontested_def)
  note le = le [OF this]
  show ?thesis
  proof (cases "list_ex ?own refs")
    case True
    with le assms show ?thesis
      by (simp add: one_controller_def uncontested_def upsertOwnerReference_def Let_def del: filter_map)
  next
    case False
    then have "filter ?own refs = []" by (auto simp: list_ex_iff filter_empty_conv)
    with False le show ?thesis
      by (simp add: one_controller_def upsertOwnerReference_def Let_def del: filter_map)
  qed
qed

lemma kept_but_refl [simp]: "kept_but key a a"
  by (simp add: kept_but_def)

lemma annotations_same [simp]:
  "\<exists>a. x = x\<lparr>svc_Annotations := a\<rparr> \<and> kept_but key (svc_Annotations x) a"
  "\<exists>a. w = w\<lparr>mwc_Annotations := a\<rparr> \<and> kept_but key (mwc_Annotations w) a"
  by (rule exI [of _ "svc_Annotations x"], simp) (rule exI [of _ "mwc_Annotations w"], simp)

lemma kept_but_set_key: "kept_but key a (set_key a key v)"
  by (simp add: kept_but_def set_key_def split: option.split)

lemma annotations_set [simp]:
  "\<exists>a. x\<lparr>svc_Annotations := set_key (svc_Annotations x) key v\<rparr> = x\<lparr>svc_Annotations := a\<rparr> \<and> kept_but key (svc_Annotations x) a"
  "\<exists>a. w\<lparr>mwc_Annotations := set_key (mwc_Annotations w) key v\<rparr> = w\<lparr>mwc_Annotations := a\<rparr> \<and> kept_but key (mwc_Annotations w) a"
  using kept_but_set_key by blast+

lemma single_matches: "owned_by [owner] owner"
  by (simp add: owned_by_def)

lemma set_key_has: "annotated (set_key a k v) k v"
  by (simp add: annotated_def set_key_def)

lemma fresh_keys:
  "obj_key (new_issuer names) = issuer_key names" "obj_key (new_certificate names) = certificate_key names"
  by (simp_all add: obj_key_def new_issuer_def new_certificate_def gvk_of_def meta_str_def nested_as_def
      found_or_none_def parse_gv_def issuer_key_def certificate_key_def clusterIssuerGVK_def certificateGVK_def)

lemma fresh_unowned:
  "nested_field (JObj (new_issuer names)) [''metadata'', ''ownerReferences''] = Inr None"
  "nested_field (JObj (new_certificate names)) [''metadata'', ''ownerReferences''] = Inr None"
  by (simp_all add: new_issuer_def new_certificate_def)

section \<open>Steps on the cluster\<close>

context tls_cluster
begin

lemma mutating_owner: "up s \<Longrightarrow> mutatingWebhookOwnerRef c n s = (Inr (map_option mwc_ref (mwc s n)), s)"
proof (cases "mwc s n")
  case None
  moreover assume "up s"
  ultimately show ?thesis using no_mwc [of s n] by (auto simp: mutatingWebhookOwnerRef_def)
qed (simp add: mutatingWebhookOwnerRef_def get_mwc mwc_ref_def)

lemma issuer_owner:
  assumes "up s"
  shows "clusterIssuerOwnerRef c n s = (Inr (map_option (issuer_ref c) (obj s (clusterIssuerGVK, [], n))), s)"
proof (cases "obj s (clusterIssuerGVK, [], n)")
  case None
  with no_obj [OF assms None] show ?thesis by (auto simp: clusterIssuerOwnerRef_def)
next
  case (Some m)
  with assms show ?thesis
    by (simp add: clusterIssuerOwnerRef_def get_obj issuer_ref_def unstructured.get_name [OF accessors] clusterIssuerGVK_def)
qed

lemma service_annotation:
  assumes "up s"
  shows "\<exists>s'. patchServiceAnnotation c ns n key v s = (None, s') \<and> up s' \<and> mwc s' = mwc s \<and> obj s' = obj s
     \<and> (\<forall>x. svc s' (ns, n) = Some x \<longrightarrow> annotated (svc_Annotations x) key v)
     \<and> (\<forall>x. svc s (ns, n) = Some x \<longrightarrow>
          (\<exists>a. svc s' (ns, n) = Some (x\<lparr>svc_Annotations := a\<rparr>) \<and> kept_but key (svc_Annotations x) a))
     \<and> (\<forall>k. k \<noteq> (ns, n) \<longrightarrow> svc s' k = svc s k)"
proof (cases "svc s (ns, n)")
  case None
  with no_service [OF assms None] assms show ?thesis by (auto simp: patchServiceAnnotation_def has_key_iff)
next
  case (Some x)
  show ?thesis
  proof (cases "annotated (svc_Annotations x) key v")
    case True
    with get_service [OF assms Some] assms Some show ?thesis
      by (intro exI [of _ s]) (simp add: patchServiceAnnotation_def has_key_iff)
  next
    case False
    with patch_service [OF assms Some, of "set_key (svc_Annotations x) key v"] get_service [OF assms Some] show ?thesis
      by (auto simp: patchServiceAnnotation_def has_key_iff Some set_key_has kept_but_set_key)
  qed
qed

lemma mwc_annotation:
  assumes "up s"
  shows "\<exists>s'. patchMWCAnnotation c n key v s = (None, s') \<and> up s' \<and> svc s' = svc s \<and> obj s' = obj s
     \<and> mwc_annotated (mwc s' n) key v \<and> map_option mwc_ref (mwc s' n) = map_option mwc_ref (mwc s n)
     \<and> (\<forall>w. mwc s n = Some w \<longrightarrow>
          (\<exists>a. mwc s' n = Some (w\<lparr>mwc_Annotations := a\<rparr>) \<and> kept_but key (mwc_Annotations w) a))
     \<and> (\<forall>k. k \<noteq> n \<longrightarrow> mwc s' k = mwc s k)"
proof (cases "mwc s n")
  case None
  with no_mwc [OF assms None] assms show ?thesis by (auto simp: patchMWCAnnotation_def has_key_iff mwc_annotated_def)
next
  case (Some w)
  show ?thesis
  proof (cases "annotated (mwc_Annotations w) key v")
    case True
    with get_mwc [OF assms Some] assms Some show ?thesis
      by (intro exI [of _ s]) (simp add: patchMWCAnnotation_def has_key_iff mwc_annotated_def)
  next
    case False
    with patch_mwc [OF assms Some, of "set_key (mwc_Annotations w) key v"] get_mwc [OF assms Some] show ?thesis
      by (auto simp: patchMWCAnnotation_def has_key_iff Some set_key_has kept_but_set_key mwc_annotated_def mwc_ref_def)
  qed
qed

lemma mwc_annotation_idle:
  assumes "up s" and "mwc_annotated (mwc s n) key v"
  shows "patchMWCAnnotation c n key v s = (None, s)"
proof (cases "mwc s n")
  case None
  with no_mwc [OF assms(1) None] show ?thesis by (auto simp: patchMWCAnnotation_def has_key_iff)
qed (use assms in \<open>simp add: patchMWCAnnotation_def has_key_iff get_mwc mwc_annotated_def\<close>)

lemma ensure_owned_idle:
  assumes "up s" and "obj s (g, ns, n) = Some m" and "\<And>ref. own = Some ref \<Longrightarrow> owned_by (tc_GetOwnerReferences c m) ref"
    and "resolve c on s = (Inr own, s)"
  shows "ensure_owned c what g ns n fresh on resolve s = (None, s)"
  using assms(3,4) get_obj [OF assms(1,2)]
  by (cases own) (simp_all add: ensure_owned_def reconcileOwnerReference_def matches_iff)

lemma ensure_owned_result:
  assumes up: "up s" and key: "obj_key fresh = (g, ns, n)" "n \<noteq> []"
    and fresh: "nested_field (JObj fresh) [''metadata'', ''ownerReferences''] = Inr None"
    and resolve: "resolve c on s = (Inr own, s)"
    and sole: "\<And>m ref. obj s (g, ns, n) = Some m \<Longrightarrow> own = Some ref \<Longrightarrow> uncontested (tc_GetOwnerReferences c m) ref"
  shows "\<exists>s' m. ensure_owned c what g ns n fresh on resolve s = (None, s') \<and> up s' \<and> svc s' = svc s \<and> mwc s' = mwc s
     \<and> obj s' = (obj s)((g, ns, n) \<mapsto> m)
     \<and> (\<forall>ref. own = Some ref \<longrightarrow> owned_by (tc_GetOwnerReferences c m) ref)
     \<and> map_of m ''spec'' = map_of (case obj s (g, ns, n) of None \<Rightarrow> fresh | Some m0 \<Rightarrow> m0) ''spec''"
proof (cases "obj s (g, ns, n)")
  case (Some m)
  show ?thesis
  proof (cases "\<forall>ref. own = Some ref \<longrightarrow> owned_by (tc_GetOwnerReferences c m) ref")
    case True
    then have "ensure_owned c what g ns n fresh on resolve s = (None, s)"
      using Some resolve up by (intro ensure_owned_idle) auto
    with True Some up show ?thesis by (intro exI [of _ s] exI [of _ m]) auto
  next
    case False
    then obtain ref where ref: "own = Some ref" "\<not> owned_by (tc_GetOwnerReferences c m) ref" by auto
    have "obj_key m = (g, ns, n)" using Some by (rule obj_keyed)
    with key(2) have named: "snd (snd (obj_key m)) \<noteq> []" by simp
    let ?m = "tc_SetOwnerReferences c m (upsertOwnerReference (tc_GetOwnerReferences c m) ref)"
    have "obj_key ?m = (g, ns, n)" "one_controller (tc_GetOwnerReferences c ?m)"
      using set_owners [OF named] \<open>obj_key m = (g, ns, n)\<close> upsert_one_controller [OF sole [OF Some ref(1)]] by simp_all
    from patch_obj [OF up Some this] obtain s' m' where
      s': "tc_Patch c ?m m s = (None, s')" "up s'" "obj s' = (obj s)((g, ns, n) \<mapsto> m')" "svc s' = svc s" "mwc s' = mwc s"
        "tc_GetOwnerReferences c m' = tc_GetOwnerReferences c ?m" "map_of m' ''spec'' = map_of ?m ''spec''"
      by blast
    then have "ensure_owned c what g ns n fresh on resolve s = (None, s')"
      using get_obj [OF up Some] ref resolve by (simp add: ensure_owned_def reconcileOwnerReference_def matches_iff)
    with s' ref(1) Some set_owners [OF named] show ?thesis
      by (intro exI [of _ s'] exI [of _ m']) (auto simp: upsert_matches)
  qed
next
  case None
  let ?m = "case own of None \<Rightarrow> fresh | Some ref \<Rightarrow> tc_SetOwnerReferences c fresh [ref]"
  have named: "snd (snd (obj_key fresh)) \<noteq> []" using key by simp
  have "obj s (obj_key ?m) = None" "obj_key ?m = (g, ns, n)" "one_controller (tc_GetOwnerReferences c ?m)"
    using None key set_owners [OF named] no_owners [OF fresh] by (auto simp: one_controller_def split: option.split)
  with create_obj [OF up, of ?m] obtain s' m' where
    s': "tc_Create c ?m s = (None, s')" "up s'" "obj s' = (obj s)((g, ns, n) \<mapsto> m')" "svc s' = svc s" "mwc s' = mwc s"
      "tc_GetOwnerReferences c m' = tc_GetOwnerReferences c ?m" "map_of m' ''spec'' = map_of ?m ''spec''"
    by auto
  obtain e where "tc_Get c g ns n s = (Inl e, s)" "IsNotFound e" using no_obj [OF up None] by blast
  then have "ensure_owned c what g ns n fresh on resolve s = (None, s')"
    using s'(1) resolve by (simp add: ensure_owned_def)
  with s' None set_owners [OF named] show ?thesis
    by (intro exI [of _ s'] exI [of _ m']) (auto simp: single_matches split: option.splits)
qed

lemma service_annotation_idle:
  assumes "up s" and "\<And>x. svc s (ns, n) = Some x \<Longrightarrow> annotated (svc_Annotations x) key v"
  shows "patchServiceAnnotation c ns n key v s = (None, s)"
proof (cases "svc s (ns, n)")
  case None
  with no_service [OF assms(1) None] show ?thesis by (auto simp: patchServiceAnnotation_def has_key_iff)
qed (use assms in \<open>simp add: patchServiceAnnotation_def has_key_iff get_service\<close>)

lemma ensure_idle:
  assumes up: "up s" and "tls_configured c p names (svc s) (mwc s) (obj s)"
  shows "Ensure c p names s = (None, s)"
proof (cases p)
  case ProviderOpenShift
  with assms show ?thesis
    by (simp add: Ensure_def ensureOpenShift_def tls_configured_def service_annotation_idle mwc_annotation_idle)
next
  case ProviderCertManager
  with assms obtain issuer cert where
    o: "obj s (clusterIssuerGVK, [], n_IssuerName names) = Some issuer"
      "obj s (certificateGVK, n_Namespace names, n_CertificateName names) = Some cert"
      "\<And>m. mwc s (n_MutatingWebhookName names) = Some m \<Longrightarrow>
         owned_by (tc_GetOwnerReferences c issuer) (mwc_ref m)"
      "owned_by (tc_GetOwnerReferences c cert) (issuer_ref c issuer)"
      "mwc_annotated (mwc s (n_MutatingWebhookName names)) certManagerInjectCAFrom
         (n_Namespace names @ ''/'' @ n_CertificateName names)"
    by (auto simp: tls_configured_def issuer_key_def certificate_key_def)
  have "ensureClusterIssuer c names s = (None, s)"
    unfolding ensureClusterIssuer_def
    by (rule ensure_owned_idle [OF up o(1), where own = "map_option mwc_ref (mwc s (n_MutatingWebhookName names))"])
      (use o(3) mutating_owner [OF up] in auto)
  moreover have "ensureCertificate c names s = (None, s)"
    unfolding ensureCertificate_def
    by (rule ensure_owned_idle [OF up o(2), where own = "Some (issuer_ref c issuer)"])
      (use o(1,4) issuer_owner [OF up] in auto)
  ultimately show ?thesis
    using ProviderCertManager mwc_annotation_idle [OF up o(5)] by (simp add: Ensure_def ensureCertManager_def)
next
  case ProviderNone
  with assms no_mwc [OF up, of "n_MutatingWebhookName names"] show ?thesis
    by (auto simp: Ensure_def ensureNone_def tls_configured_def)
qed

lemma issuer_result:
  assumes "up s" and "wf_names names" and "adoptable c names (mwc s) (obj s)"
  shows "\<exists>s' issuer. ensureClusterIssuer c names s = (None, s') \<and> up s' \<and> svc s' = svc s \<and> mwc s' = mwc s
     \<and> obj s' = (obj s)(issuer_key names \<mapsto> issuer)
     \<and> (\<forall>w. mwc s (n_MutatingWebhookName names) = Some w \<longrightarrow>
          owned_by (tc_GetOwnerReferences c issuer) (mwc_ref w))
     \<and> (\<forall>m. obj s (issuer_key names) = Some m \<longrightarrow> map_of issuer ''spec'' = map_of m ''spec'')"
proof -
  have key: "obj_key (new_issuer names) = (clusterIssuerGVK, [], n_IssuerName names)" "n_IssuerName names \<noteq> []"
    using assms by (simp_all add: fresh_keys issuer_key_def wf_names_def)
  have sole: "uncontested (tc_GetOwnerReferences c m) ref"
    if "obj s (clusterIssuerGVK, [], n_IssuerName names) = Some m"
      "map_option mwc_ref (mwc s (n_MutatingWebhookName names)) = Some ref" for m ref
    using assms(3) that by (auto simp: adoptable_def issuer_key_def)
  from ensure_owned_result [where resolve = mutatingWebhookOwnerRef and on = "n_MutatingWebhookName names"
      and own = "map_option mwc_ref (mwc s (n_MutatingWebhookName names))" and fresh = "new_issuer names",
      OF assms(1) key fresh_unowned(1) mutating_owner [OF assms(1)] sole]
  obtain s' m where "ensureClusterIssuer c names s = (None, s')" "up s'" "svc s' = svc s" "mwc s' = mwc s"
    "obj s' = (obj s)(issuer_key names \<mapsto> m)"
    "\<forall>ref. map_option mwc_ref (mwc s (n_MutatingWebhookName names)) = Some ref \<longrightarrow>
       owned_by (tc_GetOwnerReferences c m) ref"
    "map_of m ''spec'' = map_of (case obj s (issuer_key names) of None \<Rightarrow> new_issuer names | Some m0 \<Rightarrow> m0) ''spec''"
    unfolding ensureClusterIssuer_def issuer_key_def by blast
  then show ?thesis by (intro exI [of _ s'] exI [of _ m]) simp
qed

lemma certificate_result:
  assumes "up s" and "wf_names names" and "obj s (issuer_key names) = Some issuer"
    and free: "\<forall>m owner. obj s (certificate_key names) = Some m \<and> or_APIVersion owner = ''cert-manager.io/v1''
        \<and> or_Kind owner = ''ClusterIssuer'' \<and> or_Name owner = n_IssuerName names \<longrightarrow>
      uncontested (tc_GetOwnerReferences c m) owner"
  shows "\<exists>s' cert. ensureCertificate c names s = (None, s') \<and> up s' \<and> svc s' = svc s \<and> mwc s' = mwc s
     \<and> obj s' = (obj s)(certificate_key names \<mapsto> cert)
     \<and> owned_by (tc_GetOwnerReferences c cert) (issuer_ref c issuer)
     \<and> map_of cert ''spec'' =
         map_of (case obj s (certificate_key names) of None \<Rightarrow> new_certificate names | Some m \<Rightarrow> m) ''spec''"
proof -
  have key: "obj_key (new_certificate names) = (certificateGVK, n_Namespace names, n_CertificateName names)"
    "n_CertificateName names \<noteq> []"
    using assms by (simp_all add: fresh_keys certificate_key_def wf_names_def)
  have name: "meta_str issuer [''metadata'', ''name''] = n_IssuerName names"
    using obj_keyed [OF assms(3)] by (simp add: obj_key_def issuer_key_def)
  have sole: "uncontested (tc_GetOwnerReferences c m) ref"
    if "obj s (certificateGVK, n_Namespace names, n_CertificateName names) = Some m"
      "map_option (issuer_ref c) (obj s (clusterIssuerGVK, [], n_IssuerName names)) = Some ref" for m ref
    using free assms(3) that name by (auto simp: certificate_key_def issuer_key_def issuer_ref_def)
  from ensure_owned_result [where resolve = clusterIssuerOwnerRef and on = "n_IssuerName names"
      and own = "map_option (issuer_ref c) (obj s (clusterIssuerGVK, [], n_IssuerName names))"
      and fresh = "new_certificate names", OF assms(1) key fresh_unowned(2) issuer_owner [OF assms(1)] sole]
  obtain s' m where "ensureCertificate c names s = (None, s')" "up s'" "svc s' = svc s" "mwc s' = mwc s"
    "obj s' = (obj s)(certificate_key names \<mapsto> m)"
    "\<forall>ref. map_option (issuer_ref c) (obj s (issuer_key names)) = Some ref \<longrightarrow>
       owned_by (tc_GetOwnerReferences c m) ref"
    "map_of m ''spec'' = map_of (case obj s (certificate_key names) of None \<Rightarrow> new_certificate names | Some m0 \<Rightarrow> m0) ''spec''"
    unfolding ensureCertificate_def certificate_key_def issuer_key_def by blast
  with assms(3) show ?thesis by (intro exI [of _ s'] exI [of _ m]) simp
qed

lemma cert_manager_configures:
  assumes "up s" and "wf_names names" and "adoptable c names (mwc s) (obj s)"
  shows "\<exists>s'. ensureCertManager c names s = (None, s') \<and> up s'
     \<and> tls_configured c ProviderCertManager names (svc s') (mwc s') (obj s') \<and> svc s' = svc s
     \<and> (\<forall>n. n \<noteq> n_MutatingWebhookName names \<longrightarrow> mwc s' n = mwc s n)
     \<and> (\<forall>w. mwc s (n_MutatingWebhookName names) = Some w \<longrightarrow>
          (\<exists>a. mwc s' (n_MutatingWebhookName names) = Some (w\<lparr>mwc_Annotations := a\<rparr>)
             \<and> kept_but certManagerInjectCAFrom (mwc_Annotations w) a))
     \<and> (\<forall>k. k \<noteq> issuer_key names \<and> k \<noteq> certificate_key names \<longrightarrow> obj s' k = obj s k)
     \<and> (\<forall>k m. obj s k = Some m \<longrightarrow> map_option (\<lambda>m. map_of m ''spec'') (obj s' k) = Some (map_of m ''spec''))
     \<and> (obj s (certificate_key names) = None \<longrightarrow>
          map_option (\<lambda>m. map_of m ''spec'') (obj s' (certificate_key names)) = Some (map_of (new_certificate names) ''spec''))"
proof -
  have diff: "issuer_key names \<noteq> certificate_key names"
    by (simp add: issuer_key_def certificate_key_def clusterIssuerGVK_def certificateGVK_def)
  obtain s1 issuer where
    s1: "ensureClusterIssuer c names s = (None, s1)" "up s1" "svc s1 = svc s" "mwc s1 = mwc s"
      "obj s1 = (obj s)(issuer_key names \<mapsto> issuer)"
      "\<forall>w. mwc s (n_MutatingWebhookName names) = Some w \<longrightarrow>
         owned_by (tc_GetOwnerReferences c issuer) (mwc_ref w)"
      "\<forall>m. obj s (issuer_key names) = Some m \<longrightarrow> map_of issuer ''spec'' = map_of m ''spec''"
    using issuer_result [OF assms] by (elim exE conjE)
  have free: "\<forall>m owner. obj s1 (certificate_key names) = Some m \<and> or_APIVersion owner = ''cert-manager.io/v1''
        \<and> or_Kind owner = ''ClusterIssuer'' \<and> or_Name owner = n_IssuerName names \<longrightarrow>
      uncontested (tc_GetOwnerReferences c m) owner"
    using assms(3) s1(5) diff by (simp add: adoptable_def)
  have iss: "obj s1 (issuer_key names) = Some issuer" using s1(5) by simp
  obtain s2 cert where
    s2: "ensureCertificate c names s1 = (None, s2)" "up s2" "svc s2 = svc s1" "mwc s2 = mwc s1"
      "obj s2 = (obj s1)(certificate_key names \<mapsto> cert)"
      "owned_by (tc_GetOwnerReferences c cert) (issuer_ref c issuer)"
      "map_of cert ''spec'' = map_of (case obj s1 (certificate_key names) of None \<Rightarrow> new_certificate names | Some m \<Rightarrow> m) ''spec''"
    using certificate_result [OF s1(2) assms(2) iss free] by (elim exE conjE)
  obtain s3 where
    s3: "patchMWCAnnotation c (n_MutatingWebhookName names) certManagerInjectCAFrom
        (n_Namespace names @ ''/'' @ n_CertificateName names) s2 = (None, s3)" "up s3" "svc s3 = svc s2" "obj s3 = obj s2"
      "mwc_annotated (mwc s3 (n_MutatingWebhookName names)) certManagerInjectCAFrom
        (n_Namespace names @ ''/'' @ n_CertificateName names)"
      "map_option mwc_ref (mwc s3 (n_MutatingWebhookName names)) = map_option mwc_ref (mwc s2 (n_MutatingWebhookName names))"
      "\<And>w. mwc s2 (n_MutatingWebhookName names) = Some w \<Longrightarrow>
         (\<exists>a. mwc s3 (n_MutatingWebhookName names) = Some (w\<lparr>mwc_Annotations := a\<rparr>)
            \<and> kept_but certManagerInjectCAFrom (mwc_Annotations w) a)"
      "\<And>k. k \<noteq> n_MutatingWebhookName names \<Longrightarrow> mwc s3 k = mwc s2 k"
    using mwc_annotation [OF s2(2)] by blast
  have "owned_by (tc_GetOwnerReferences c issuer) (mwc_ref w)"
    if "mwc s3 (n_MutatingWebhookName names) = Some w" for w
    using s1(6) s3(6) s2(4) s1(4) that by (cases "mwc s (n_MutatingWebhookName names)") auto
  then have conf: "tls_configured c ProviderCertManager names (svc s3) (mwc s3) (obj s3)"
    using s1(5) s2(5,6) s3(4,5) diff by (simp add: tls_configured_def)
  have run: "ensureCertManager c names s = (None, s3)"
    using s1(1) s2(1) s3(1) by (simp add: ensureCertManager_def)
  have spec: "map_option (\<lambda>m. map_of m ''spec'') (obj s3 k) = Some (map_of m ''spec'')" if "obj s k = Some m" for k m
    using that s1(5,7) s2(5,7) s3(4) diff by auto
  have new: "map_option (\<lambda>m. map_of m ''spec'') (obj s3 (certificate_key names)) = Some (map_of (new_certificate names) ''spec'')"
    if "obj s (certificate_key names) = None"
    using that s1(5) s2(5,7) s3(4) diff by auto
  have other: "obj s3 k = obj s k" if "k \<noteq> issuer_key names" "k \<noteq> certificate_key names" for k
    using that s1(5) s2(5) s3(4) by simp
  show ?thesis
    using conf run spec new other s3(2) s1(3,4) s2(3,4) s3(3,7,8) by (intro exI [of _ s3] conjI) simp_all
qed

lemma ensure_configures:
  assumes "up s" and "wf_names names" and "p = ProviderCertManager \<longrightarrow> adoptable c names (mwc s) (obj s)"
  shows "\<exists>s'. Ensure c p names s = (None, s') \<and> up s' \<and> tls_configured c p names (svc s') (mwc s') (obj s')
     \<and> (\<forall>k. k \<noteq> (n_Namespace names, n_ServiceName names) \<longrightarrow> svc s' k = svc s k)
     \<and> (\<forall>x. svc s (n_Namespace names, n_ServiceName names) = Some x \<longrightarrow>
          (\<exists>a. svc s' (n_Namespace names, n_ServiceName names) = Some (x\<lparr>svc_Annotations := a\<rparr>)
             \<and> kept_but openShiftServingCertAnnotation (svc_Annotations x) a))
     \<and> (\<forall>n. n \<noteq> n_MutatingWebhookName names \<longrightarrow> mwc s' n = mwc s n)
     \<and> (\<forall>w. p \<noteq> ProviderNone \<and> mwc s (n_MutatingWebhookName names) = Some w \<longrightarrow>
          (\<exists>a. mwc s' (n_MutatingWebhookName names) = Some (w\<lparr>mwc_Annotations := a\<rparr>)
             \<and> kept_but (if p = ProviderOpenShift then openShiftInjectCABundle else certManagerInjectCAFrom)
                 (mwc_Annotations w) a))
     \<and> (\<forall>k. k \<noteq> issuer_key names \<and> k \<noteq> certificate_key names \<longrightarrow> obj s' k = obj s k)
     \<and> (\<forall>k m. obj s k = Some m \<longrightarrow> map_option (\<lambda>m. map_of m ''spec'') (obj s' k) = Some (map_of m ''spec''))"
proof (cases p)
  case ProviderOpenShift
  let ?k = "(n_Namespace names, n_ServiceName names)" and ?n = "n_MutatingWebhookName names"
  obtain s1 where s1: "patchServiceAnnotation c (n_Namespace names) (n_ServiceName names) openShiftServingCertAnnotation
      (n_CertSecret names) s = (None, s1)" "up s1" "mwc s1 = mwc s" "obj s1 = obj s"
    "\<forall>x. svc s1 ?k = Some x \<longrightarrow> annotated (svc_Annotations x) openShiftServingCertAnnotation (n_CertSecret names)"
    "\<forall>x. svc s ?k = Some x \<longrightarrow>
       (\<exists>a. svc s1 ?k = Some (x\<lparr>svc_Annotations := a\<rparr>) \<and> kept_but openShiftServingCertAnnotation (svc_Annotations x) a)"
    "\<forall>k. k \<noteq> ?k \<longrightarrow> svc s1 k = svc s k"
    using service_annotation [OF assms(1)] by blast
  obtain s2 where s2: "patchMWCAnnotation c ?n openShiftInjectCABundle ''true'' s1 = (None, s2)" "up s2"
    "svc s2 = svc s1" "obj s2 = obj s1" "mwc_annotated (mwc s2 ?n) openShiftInjectCABundle ''true''"
    "\<forall>w. mwc s1 ?n = Some w \<longrightarrow>
       (\<exists>a. mwc s2 ?n = Some (w\<lparr>mwc_Annotations := a\<rparr>) \<and> kept_but openShiftInjectCABundle (mwc_Annotations w) a)"
    "\<forall>k. k \<noteq> ?n \<longrightarrow> mwc s2 k = mwc s1 k"
    using mwc_annotation [OF s1(2)] by blast
  show ?thesis
    using s1 s2 ProviderOpenShift
    by (intro exI [of _ s2]) (simp add: Ensure_def ensureOpenShift_def tls_configured_def)
next
  case ProviderCertManager
  then obtain s' where s': "Ensure c p names s = (None, s')" "up s'" "tls_configured c p names (svc s') (mwc s') (obj s')"
    "svc s' = svc s" "\<forall>n. n \<noteq> n_MutatingWebhookName names \<longrightarrow> mwc s' n = mwc s n"
    "\<forall>w. mwc s (n_MutatingWebhookName names) = Some w \<longrightarrow>
       (\<exists>a. mwc s' (n_MutatingWebhookName names) = Some (w\<lparr>mwc_Annotations := a\<rparr>)
          \<and> kept_but certManagerInjectCAFrom (mwc_Annotations w) a)"
    "\<forall>k. k \<noteq> issuer_key names \<and> k \<noteq> certificate_key names \<longrightarrow> obj s' k = obj s k"
    "\<forall>k m. obj s k = Some m \<longrightarrow> map_option (\<lambda>m. map_of m ''spec'') (obj s' k) = Some (map_of m ''spec'')"
    using cert_manager_configures [OF assms(1,2)] assms(3) by (auto simp: Ensure_def)
  show ?thesis using s' ProviderCertManager by (intro exI [of _ s']) simp
next
  case ProviderNone
  show ?thesis
  proof (cases "mwc s (n_MutatingWebhookName names)")
    case None
    with no_mwc [OF assms(1) None] assms(1) ProviderNone show ?thesis
      by (intro exI [of _ s]) (auto simp: Ensure_def ensureNone_def tls_configured_def)
  next
    case (Some w)
    then obtain s' where "tc_DeleteMWC c w s = (None, s')" "up s'" "mwc s' = (mwc s)(n_MutatingWebhookName names := None)"
      "svc s' = svc s" "obj s' = obj s"
      using delete_mwc [OF assms(1)] by blast
    with get_mwc [OF assms(1) Some] ProviderNone show ?thesis
      by (intro exI [of _ s']) (simp add: Ensure_def ensureNone_def tls_configured_def)
  qed
qed

end

section \<open>An API server\<close>

text \<open>
  A store of objects that behaves as the interface says, with owner references kept in the metadata the
  way \<open>unstructured\<close> does.
\<close>

record tls_store =
  ts_services :: "service list"
  ts_configs :: "webhook_config list"
  ts_objects :: "object list"

definition owners_path :: "string list" where
  "owners_path = [''metadata'', ''ownerReferences'']"

definition ref_json :: "owner_ref \<Rightarrow> json" where
  "ref_json r = JObj ([(''apiVersion'', JStr (or_APIVersion r)), (''kind'', JStr (or_Kind r)),
     (''name'', JStr (or_Name r)), (''uid'', JStr (or_UID r))]
     @ (case or_Controller r of None \<Rightarrow> [] | Some b \<Rightarrow> [(''controller'', JBool b)])
     @ (case or_BlockOwnerDeletion r of None \<Rightarrow> [] | Some b \<Rightarrow> [(''blockOwnerDeletion'', JBool b)]))"

fun as_bool :: "json \<Rightarrow> bool option" where
  "as_bool (JBool b) = Some b"
| "as_bool _ = None"

definition ref_of :: "json \<Rightarrow> owner_ref" where
  "ref_of j =
     (let m = (case as_obj j of None \<Rightarrow> [] | Some m \<Rightarrow> m)
      in \<lparr>or_APIVersion = str_field m ''apiVersion'', or_Kind = str_field m ''kind'',
          or_Name = str_field m ''name'', or_UID = str_field m ''uid'',
          or_Controller = Option.bind (map_of m ''controller'') as_bool,
          or_BlockOwnerDeletion = Option.bind (map_of m ''blockOwnerDeletion'') as_bool\<rparr>)"

lemma ref_roundtrip: "ref_of (ref_json r) = r"
  by (cases r) (simp add: ref_of_def ref_json_def str_field_def split: option.split)

definition refs_of :: "object \<Rightarrow> owner_ref list" where
  "refs_of m = (case found_or_none (nested_as as_arr m owners_path) of None \<Rightarrow> [] | Some js \<Rightarrow> map ref_of js)"

definition with_refs :: "object \<Rightarrow> owner_ref list \<Rightarrow> object" where
  "with_refs m refs = set_or_same m (JArr (map ref_json refs)) owners_path"

definition svc_key :: "service \<Rightarrow> string \<times> string" where
  "svc_key x = (svc_Namespace x, svc_Name x)"

definition find_service :: "tls_store \<Rightarrow> string \<times> string \<Rightarrow> service option" where
  "find_service st k = find (\<lambda>x. svc_key x = k) (ts_services st)"

definition find_config :: "tls_store \<Rightarrow> string \<Rightarrow> webhook_config option" where
  "find_config st n = find (\<lambda>x. mwc_Name x = n) (ts_configs st)"

definition find_object :: "tls_store \<Rightarrow> gvk \<times> string \<times> string \<Rightarrow> object option" where
  "find_object st k = find (\<lambda>m. obj_key m = k) (ts_objects st)"

definition or_missing :: "'a option \<Rightarrow> 'a res" where
  "or_missing x = (case x of None \<Rightarrow> Inl (ApiErr NotFound ''not found'') | Some y \<Rightarrow> Inr y)"

definition put :: "('a \<Rightarrow> 'k) \<Rightarrow> 'a \<Rightarrow> 'a list \<Rightarrow> 'a list" where
  "put key x xs = x # filter (\<lambda>y. key y \<noteq> key x) xs"

definition store_tls :: "tls_store tls_client" where
  "store_tls =
     \<lparr>tc_GetService = (\<lambda>ns n s. (or_missing (find_service s (ns, n)), s)),
      tc_PatchService = (\<lambda>x _ s. (None, s\<lparr>ts_services := put svc_key x (ts_services s)\<rparr>)),
      tc_GetMWC = (\<lambda>n s. (or_missing (find_config s n), s)),
      tc_PatchMWC = (\<lambda>x _ s. (None, s\<lparr>ts_configs := put mwc_Name x (ts_configs s)\<rparr>)),
      tc_DeleteMWC = (\<lambda>x s. (None, s\<lparr>ts_configs := filter (\<lambda>y. mwc_Name y \<noteq> mwc_Name x) (ts_configs s)\<rparr>)),
      tc_Get = (\<lambda>g ns n s. (or_missing (find_object s (g, ns, n)), s)),
      tc_Create = (\<lambda>m s. case find_object s (obj_key m) of
          Some _ \<Rightarrow> (Some (ApiErr AlreadyExists ''already exists''), s)
        | None \<Rightarrow> if one_controller (refs_of m) then (None, s\<lparr>ts_objects := put obj_key m (ts_objects s)\<rparr>)
            else (Some (ApiErr OtherReason ''only one reference can have controller set to true''), s)),
      tc_Patch = (\<lambda>m _ s. if one_controller (refs_of m) then (None, s\<lparr>ts_objects := put obj_key m (ts_objects s)\<rparr>)
          else (Some (ApiErr OtherReason ''only one reference can have controller set to true''), s)),
      tc_Unstructured = documented_unstructured,
      tc_GetUID = (\<lambda>m. meta_str m [''metadata'', ''uid'']),
      tc_GetOwnerReferences = refs_of,
      tc_SetOwnerReferences = with_refs\<rparr>"

lemma find_put: "find (\<lambda>y. key y = k) (put key x xs) = ((\<lambda>k. find (\<lambda>y. key y = k) xs)(key x \<mapsto> x)) k"
proof -
  have "find (\<lambda>y. key y = k) (filter (\<lambda>y. key y \<noteq> key x) xs) = find (\<lambda>y. key y = k) xs" if "k \<noteq> key x"
    using that by (induction xs) auto
  then show ?thesis by (simp add: put_def)
qed

lemma find_removed:
  "find (\<lambda>y. key y = k) (filter (\<lambda>y. key y \<noteq> k1) xs) = ((\<lambda>k. find (\<lambda>y. key y = k) xs)(k1 := None)) k"
  by (induction xs) auto

lemma find_keyed: "find (\<lambda>y. key y = k) xs = Some x \<Longrightarrow> key x = k"
  by (induction xs) (auto split: if_splits)

lemmas store_find = find_service_def find_config_def find_object_def

lemma store_updates:
  "find_service (s\<lparr>ts_services := put svc_key x (ts_services s)\<rparr>) = (find_service s)(svc_key x \<mapsto> x)"
  "find_config (s\<lparr>ts_configs := put mwc_Name w (ts_configs s)\<rparr>) = (find_config s)(mwc_Name w \<mapsto> w)"
  "find_config (s\<lparr>ts_configs := filter (\<lambda>y. mwc_Name y \<noteq> n) (ts_configs s)\<rparr>) = (find_config s)(n := None)"
  "find_object (s\<lparr>ts_objects := put obj_key m (ts_objects s)\<rparr>) = (find_object s)(obj_key m \<mapsto> m)"
  by (auto simp: store_find find_put find_removed fun_eq_iff)

lemma store_others:
  "find_service (s\<lparr>ts_configs := ws\<rparr>) = find_service s" "find_service (s\<lparr>ts_objects := ms\<rparr>) = find_service s"
  "find_config (s\<lparr>ts_services := xs\<rparr>) = find_config s" "find_config (s\<lparr>ts_objects := ms\<rparr>) = find_config s"
  "find_object (s\<lparr>ts_services := xs\<rparr>) = find_object s" "find_object (s\<lparr>ts_configs := ws\<rparr>) = find_object s"
  by (simp_all add: store_find fun_eq_iff)

lemma store_keyed:
  "find_service s k = Some x \<Longrightarrow> svc_key x = k" "find_config s n = Some w \<Longrightarrow> mwc_Name w = n"
  "find_object s k' = Some m \<Longrightarrow> obj_key m = k'"
  by (auto simp: store_find dest: find_keyed)

lemma with_refs_facts:
  assumes "snd (snd (obj_key m)) \<noteq> []"
  shows "refs_of (with_refs m refs) = refs \<and> obj_key (with_refs m refs) = obj_key m
    \<and> map_of (with_refs m refs) ''spec'' = map_of m ''spec''"
proof -
  from assms obtain v where v: "nested_field (JObj m) [''metadata'', ''name''] = Inr (Some v)"
    by (auto simp: obj_key_def meta_str_def nested_as_def found_or_none_def split: sum.splits option.splits
        simp del: nested_field.simps)
  then obtain m1 where m1: "map_of m ''metadata'' = Some (JObj m1)"
    by (auto simp: nested_field_Cons_found simp del: nested_field.simps)
  let ?m = "AList.update ''metadata'' (JObj (AList.update ''ownerReferences'' (JArr (map ref_json refs)) m1)) m"
  have "with_refs m refs = ?m" using m1 by (simp add: with_refs_def set_or_same_def owners_path_def)
  moreover have "refs_of ?m = refs"
    by (simp add: refs_of_def owners_path_def nested_as_def found_or_none_def ref_roundtrip comp_def)
  moreover have "obj_key ?m = obj_key m"
    using m1 by (simp add: obj_key_def gvk_of_def meta_str_def nested_as_def)
  ultimately show ?thesis by simp
qed

interpretation store: tls_cluster store_tls "\<lambda>_. True" find_service find_config find_object
proof unfold_locales
  show "nested_field (JObj m) [''metadata'', ''ownerReferences''] = Inr None \<Longrightarrow> tc_GetOwnerReferences store_tls m = []" for m
    by (simp add: store_tls_def refs_of_def owners_path_def nested_as_def found_or_none_def del: nested_field.simps)
  show "snd (snd (obj_key m)) \<noteq> [] \<Longrightarrow>
      tc_GetOwnerReferences store_tls (tc_SetOwnerReferences store_tls m refs) = refs
      \<and> obj_key (tc_SetOwnerReferences store_tls m refs) = obj_key m
      \<and> map_of (tc_SetOwnerReferences store_tls m refs) ''spec'' = map_of m ''spec''" for m refs
    using with_refs_facts by (simp add: store_tls_def)
qed (auto simp: store_tls_def or_missing_def store_updates store_others svc_key_def doc.api
    dest: store_keyed split: option.splits)

section \<open>Properties\<close>

text \<open>
  C8: \<open>Ensure\<close> implements the specification of its provider. From every state in which the API server is
  up, and no other object controls the issuer and the certificate of cert-manager, it succeeds and reaches
  a configured state, where it is idempotent. It changes no Service, webhook configuration or other
  object than the ones it names; of these it keeps every other annotation, and the spec of every object
  that was there; a certificate it creates asks for the two DNS names of the webhook service.
\<close>

theorem ensure_meets_spec:
  assumes "tls_cluster c up svc mwc obj" and "up s" and "wf_names names"
    and "p = ProviderCertManager \<longrightarrow> adoptable c names (mwc s) (obj s)"
  shows "\<exists>s'. Ensure c p names s = (None, s') \<and> tls_configured c p names (svc s') (mwc s') (obj s')
     \<and> Ensure c p names s' = (None, s')
     \<and> (\<forall>k. k \<noteq> (n_Namespace names, n_ServiceName names) \<longrightarrow> svc s' k = svc s k)
     \<and> (\<forall>x. svc s (n_Namespace names, n_ServiceName names) = Some x \<longrightarrow>
          (\<exists>a. svc s' (n_Namespace names, n_ServiceName names) = Some (x\<lparr>svc_Annotations := a\<rparr>)
             \<and> kept_but openShiftServingCertAnnotation (svc_Annotations x) a))
     \<and> (\<forall>n. n \<noteq> n_MutatingWebhookName names \<longrightarrow> mwc s' n = mwc s n)
     \<and> (\<forall>w. p \<noteq> ProviderNone \<and> mwc s (n_MutatingWebhookName names) = Some w \<longrightarrow>
          (\<exists>a. mwc s' (n_MutatingWebhookName names) = Some (w\<lparr>mwc_Annotations := a\<rparr>)
             \<and> kept_but (if p = ProviderOpenShift then openShiftInjectCABundle else certManagerInjectCAFrom)
                 (mwc_Annotations w) a))
     \<and> (\<forall>k. k \<noteq> issuer_key names \<and> k \<noteq> certificate_key names \<longrightarrow> obj s' k = obj s k)
     \<and> (\<forall>k m. obj s k = Some m \<longrightarrow> map_option (\<lambda>m. map_of m ''spec'') (obj s' k) = Some (map_of m ''spec''))
     \<and> (p = ProviderCertManager \<and> obj s (certificate_key names) = None \<longrightarrow>
          map_option (\<lambda>m. map_of m ''spec'') (obj s' (certificate_key names)) = Some (map_of (new_certificate names) ''spec''))"
proof -
  have new: "map_option (\<lambda>m. map_of m ''spec'') (obj s' (certificate_key names)) =
      Some (map_of (new_certificate names) ''spec'')"
    if "p = ProviderCertManager" "obj s (certificate_key names) = None" "Ensure c p names s = (None, s')" for s'
    using that tls_cluster.cert_manager_configures [OF assms(1-3)] assms(4) by (auto simp: Ensure_def)
  have idle: "Ensure c p names s' = (None, s')" if "up s'" "tls_configured c p names (svc s') (mwc s') (obj s')" for s'
    using tls_cluster.ensure_idle [OF assms(1) that] .
  show ?thesis
    using tls_cluster.ensure_configures [OF assms]
    by (elim exE conjE, intro exI conjI) (assumption | (rule idle, assumption+) | (rule impI, elim conjE, rule new, assumption+))+
qed

definition example_tls_names :: Names where
  "example_tls_names = \<lparr>n_Namespace = ''ns'', n_ServiceName = ''svc'', n_CertSecret = ''tls'',
     n_CertificateName = ''cert'', n_IssuerName = ''issuer'', n_MutatingWebhookName = ''hook''\<rparr>"

definition example_tls_store :: tls_store where
  "example_tls_store = \<lparr>ts_services = [],
     ts_configs = [\<lparr>mwc_Name = ''hook'', mwc_UID = ''u1'', mwc_Annotations = None\<rparr>], ts_objects = []\<rparr>"

lemma example_tls_names_wf: "wf_names example_tls_names"
  by (simp add: wf_names_def example_tls_names_def)

theorem ensure_meets_spec_witness:
  "\<exists>s' cert. Ensure store_tls ProviderCertManager example_tls_names example_tls_store = (None, s')
     \<and> find_object s' (certificate_key example_tls_names) = Some cert
     \<and> map_of cert ''spec'' = map_of (new_certificate example_tls_names) ''spec''"
proof -
  have "find_object example_tls_store (certificate_key example_tls_names) = None"
    by (simp add: find_object_def example_tls_store_def)
  moreover have "adoptable store_tls example_tls_names (find_config example_tls_store) (find_object example_tls_store)"
    by (simp add: adoptable_def find_object_def example_tls_store_def)
  ultimately show ?thesis
    using ensure_meets_spec [OF store.tls_cluster_axioms _ example_tls_names_wf, of ProviderCertManager example_tls_store]
    by auto
qed

section \<open>The periodic ensurer\<close>

lemma start_append:
  "ensurer_Start e (before @ world # later) quit s =
     (case ensurer_Start e before id s of
        (logged1, s1) \<Rightarrow> (case ensurer_Start e later quit (world s1) of (logged2, s2) \<Rightarrow> (logged1 @ logged2, s2)))"
  by (induction before arbitrary: s) (auto split: prod.split)

lemma start_logged: "fst (ensurer_Start e ticks quit s) = fst (ensurer_Start e ticks quit' s)"
  by (induction ticks arbitrary: s) (auto split: prod.split, metis fst_conv)

text \<open>What a provider needs of a state.\<close>

definition serviceable ::
  "'s ensurer \<Rightarrow> ('s \<Rightarrow> bool) \<Rightarrow> ('s \<Rightarrow> string \<Rightarrow> webhook_config option)
     \<Rightarrow> ('s \<Rightarrow> gvk \<times> string \<times> string \<Rightarrow> object option) \<Rightarrow> 's \<Rightarrow> bool" where
  "serviceable e up mwc obj s \<longleftrightarrow>
     up s \<and> (en_provider e = ProviderCertManager \<longrightarrow> adoptable (en_cli e) (en_names e) (mwc s) (obj s))"

lemma runs_configure:
  assumes "tls_cluster (en_cli e) up svc mwc obj" and "wf_names (en_names e)"
    and "\<forall>w \<in> set later. \<forall>t. up t \<longrightarrow> serviceable e up mwc obj (w t)"
  shows "serviceable e up mwc obj s \<Longrightarrow>
    \<exists>t. ensurer_Start e later quit s = ([], quit t)
      \<and> tls_configured (en_cli e) (en_provider e) (en_names e) (svc t) (mwc t) (obj t)"
  using assms(3)
proof (induction later arbitrary: s)
  case Nil
  then obtain t where "Ensure (en_cli e) (en_provider e) (en_names e) s = (None, t)"
    "tls_configured (en_cli e) (en_provider e) (en_names e) (svc t) (mwc t) (obj t)"
    using tls_cluster.ensure_configures [OF assms(1) _ assms(2), of s "en_provider e"] by (auto simp: serviceable_def)
  then show ?case by auto
next
  case (Cons w later)
  then obtain s1 where s1: "Ensure (en_cli e) (en_provider e) (en_names e) s = (None, s1)" "up s1"
    using tls_cluster.ensure_configures [OF assms(1) _ assms(2), of s "en_provider e"] by (auto simp: serviceable_def)
  with Cons.prems(2) have "serviceable e up mwc obj (w s1)" by simp
  with Cons.IH [of "w s1"] Cons.prems(2) s1(1) show ?case by auto
qed

text \<open>
  C37: The ensurer outlives outages. Whatever happened before, runs of \<open>Ensure\<close> that failed at any call
  included, from the first tick at which the API server is up again, and as long as it stays up, every
  run succeeds and logs nothing more, and leaves the cluster configured for the provider, however the rest
  of the world changed the objects in between: what was missing during the outage, what appears late
  and what was undone is set at the next tick, until the context is cancelled.
\<close>

theorem ensurer_outlives_outages:
  assumes "tls_cluster (en_cli e) up svc mwc obj" and "wf_names (en_names e)"
    and "\<forall>t. serviceable e up mwc obj (world t)"
    and "\<forall>w \<in> set later. \<forall>t. up t \<longrightarrow> serviceable e up mwc obj (w t)"
  shows "\<exists>t. ensurer_Start e (before @ world # later) quit s = (fst (ensurer_Start e before quit s), quit t)
     \<and> tls_configured (en_cli e) (en_provider e) (en_names e) (svc t) (mwc t) (obj t)"
proof -
  obtain logged s1 where one: "ensurer_Start e before id s = (logged, s1)" by (metis prod.exhaust)
  obtain t where "ensurer_Start e later quit (world s1) = ([], quit t)"
    "tls_configured (en_cli e) (en_provider e) (en_names e) (svc t) (mwc t) (obj t)"
    using runs_configure [OF assms(1,2,4), of "world s1" quit] assms(3) by blast
  with one start_logged [of e before quit s id] show ?thesis by (auto simp: start_append)
qed

text \<open>The store behind a server that answers only when it is up.\<close>

definition when_up :: "'r \<Rightarrow> ('t \<Rightarrow> 'r \<times> 't) \<Rightarrow> bool \<times> 't \<Rightarrow> 'r \<times> bool \<times> 't" where
  "when_up failed f s = (if fst s then (case f (snd s) of (r, t) \<Rightarrow> (r, True, t)) else (failed, s))"

definition outage :: goerror where
  "outage = ApiErr ServiceUnavailable ''the server is currently unable to handle the request''"

definition outage_tls :: "(bool \<times> tls_store) tls_client" where
  "outage_tls =
     \<lparr>tc_GetService = (\<lambda>ns n. when_up (Inl outage) (tc_GetService store_tls ns n)),
      tc_PatchService = (\<lambda>x y. when_up (Some outage) (tc_PatchService store_tls x y)),
      tc_GetMWC = (\<lambda>n. when_up (Inl outage) (tc_GetMWC store_tls n)),
      tc_PatchMWC = (\<lambda>x y. when_up (Some outage) (tc_PatchMWC store_tls x y)),
      tc_DeleteMWC = (\<lambda>x. when_up (Some outage) (tc_DeleteMWC store_tls x)),
      tc_Get = (\<lambda>g ns n. when_up (Inl outage) (tc_Get store_tls g ns n)),
      tc_Create = (\<lambda>m. when_up (Some outage) (tc_Create store_tls m)),
      tc_Patch = (\<lambda>m y. when_up (Some outage) (tc_Patch store_tls m y)),
      tc_Unstructured = tc_Unstructured store_tls,
      tc_GetUID = tc_GetUID store_tls,
      tc_GetOwnerReferences = tc_GetOwnerReferences store_tls,
      tc_SetOwnerReferences = tc_SetOwnerReferences store_tls\<rparr>"

interpretation outages: tls_cluster outage_tls fst "\<lambda>s. find_service (snd s)" "\<lambda>s. find_config (snd s)"
  "\<lambda>s. find_object (snd s)"
proof (rule tls_cluster.intro)
  fix s :: "bool \<times> tls_store" and ns n x a w g k m m1 refs
  note defs = outage_tls_def when_up_def
  show "unstructured (tc_Unstructured outage_tls)" using store.accessors by (simp add: defs)
  show "fst s \<Longrightarrow> find_service (snd s) (ns, n) = Some x \<Longrightarrow> tc_GetService outage_tls ns n s = (Inr x, s)"
    using store.get_service [of "snd s" ns n x] by (cases s) (simp add: defs)
  show "fst s \<Longrightarrow> find_service (snd s) (ns, n) = None \<Longrightarrow>
      \<exists>e. tc_GetService outage_tls ns n s = (Inl e, s) \<and> IsNotFound e"
    using store.no_service [of "snd s" ns n] by (cases s) (auto simp: defs)
  show "fst s \<Longrightarrow> find_service (snd s) (ns, n) = Some x \<Longrightarrow>
      \<exists>s'. tc_PatchService outage_tls (x\<lparr>svc_Annotations := a\<rparr>) x s = (None, s') \<and> fst s'
        \<and> find_service (snd s') = (find_service (snd s))((ns, n) \<mapsto> x\<lparr>svc_Annotations := a\<rparr>)
        \<and> find_config (snd s') = find_config (snd s) \<and> find_object (snd s') = find_object (snd s)"
    using store.patch_service [of "snd s" ns n x a] by (auto simp: defs)
  show "fst s \<Longrightarrow> find_config (snd s) n = Some w \<Longrightarrow> tc_GetMWC outage_tls n s = (Inr w, s)"
    using store.get_mwc [of "snd s" n w] by (cases s) (simp add: defs)
  show "fst s \<Longrightarrow> find_config (snd s) n = None \<Longrightarrow> \<exists>e. tc_GetMWC outage_tls n s = (Inl e, s) \<and> IsNotFound e"
    using store.no_mwc [of "snd s" n] by (cases s) (auto simp: defs)
  show "find_config (snd s) n = Some w \<Longrightarrow> mwc_Name w = n" by (rule store.mwc_keyed)
  show "fst s \<Longrightarrow> find_config (snd s) n = Some w \<Longrightarrow>
      \<exists>s'. tc_PatchMWC outage_tls (w\<lparr>mwc_Annotations := a\<rparr>) w s = (None, s') \<and> fst s'
        \<and> find_config (snd s') = (find_config (snd s))(n \<mapsto> w\<lparr>mwc_Annotations := a\<rparr>)
        \<and> find_service (snd s') = find_service (snd s) \<and> find_object (snd s') = find_object (snd s)"
    using store.patch_mwc [of "snd s" n w a] by (auto simp: defs)
  show "fst s \<Longrightarrow> find_config (snd s) n = Some w \<Longrightarrow>
      \<exists>s'. tc_DeleteMWC outage_tls w s = (None, s') \<and> fst s' \<and> find_config (snd s') = (find_config (snd s))(n := None)
        \<and> find_service (snd s') = find_service (snd s) \<and> find_object (snd s') = find_object (snd s)"
    using store.delete_mwc [of "snd s" n w] by (auto simp: defs)
  show "fst s \<Longrightarrow> find_object (snd s) (g, ns, n) = Some m \<Longrightarrow> tc_Get outage_tls g ns n s = (Inr m, s)"
    using store.get_obj [of "snd s" g ns n m] by (cases s) (simp add: defs)
  show "fst s \<Longrightarrow> find_object (snd s) (g, ns, n) = None \<Longrightarrow>
      \<exists>e. tc_Get outage_tls g ns n s = (Inl e, s) \<and> IsNotFound e"
    using store.no_obj [of "snd s" g ns n] by (cases s) (auto simp: defs)
  show "find_object (snd s) k = Some m \<Longrightarrow> obj_key m = k" by (rule store.obj_keyed)
  show "fst s \<Longrightarrow> find_object (snd s) (obj_key m) = None \<Longrightarrow> one_controller (tc_GetOwnerReferences outage_tls m) \<Longrightarrow>
      \<exists>s' m'. tc_Create outage_tls m s = (None, s') \<and> fst s' \<and> find_object (snd s') = (find_object (snd s))(obj_key m \<mapsto> m')
        \<and> find_service (snd s') = find_service (snd s) \<and> find_config (snd s') = find_config (snd s)
        \<and> tc_GetOwnerReferences outage_tls m' = tc_GetOwnerReferences outage_tls m \<and> map_of m' ''spec'' = map_of m ''spec''"
    using store.create_obj [of "snd s" m] by (auto simp: defs)
  show "fst s \<Longrightarrow> find_object (snd s) k = Some m \<Longrightarrow> obj_key m1 = k \<Longrightarrow> one_controller (tc_GetOwnerReferences outage_tls m1) \<Longrightarrow>
      \<exists>s' m'. tc_Patch outage_tls m1 m s = (None, s') \<and> fst s' \<and> find_object (snd s') = (find_object (snd s))(k \<mapsto> m')
        \<and> find_service (snd s') = find_service (snd s) \<and> find_config (snd s') = find_config (snd s)
        \<and> tc_GetOwnerReferences outage_tls m' = tc_GetOwnerReferences outage_tls m1 \<and> map_of m' ''spec'' = map_of m1 ''spec''"
    using store.patch_obj [of "snd s" k m m1] by (auto simp: defs)
  show "nested_field (JObj m) [''metadata'', ''ownerReferences''] = Inr None \<Longrightarrow> tc_GetOwnerReferences outage_tls m = []"
    using store.no_owners [of m] by (simp add: defs del: nested_field.simps)
  show "snd (snd (obj_key m)) \<noteq> [] \<Longrightarrow>
      tc_GetOwnerReferences outage_tls (tc_SetOwnerReferences outage_tls m refs) = refs
      \<and> obj_key (tc_SetOwnerReferences outage_tls m refs) = obj_key m
      \<and> map_of (tc_SetOwnerReferences outage_tls m refs) ''spec'' = map_of m ''spec''"
    using store.set_owners [of m refs] by (simp add: defs)
qed

text \<open>A run during an outage, and one after it.\<close>

theorem ensurer_outlives_outages_witness:
  "\<exists>err t. ensurer_Start \<lparr>en_cli = outage_tls, en_names = example_tls_names, en_provider = ProviderOpenShift\<rparr>
       [\<lambda>_. (True, example_tls_store)] id (False, example_tls_store) = ([err], t)
     \<and> find_config (snd t) ''hook'' \<noteq> None \<and> mwc_annotated (find_config (snd t) ''hook'') openShiftInjectCABundle ''true''"
proof -
  let ?e = "\<lparr>en_cli = outage_tls, en_names = example_tls_names, en_provider = ProviderOpenShift\<rparr>"
  have "tls_cluster (en_cli ?e) fst (\<lambda>s. find_service (snd s)) (\<lambda>s. find_config (snd s)) (\<lambda>s. find_object (snd s))"
    "wf_names (en_names ?e)"
    using outages.tls_cluster_axioms example_tls_names_wf by simp_all
  from ensurer_outlives_outages [OF this, of "\<lambda>_. (True, example_tls_store)" "[]" "[]" id "(False, example_tls_store)"]
  obtain t where t: "ensurer_Start ?e [\<lambda>_. (True, example_tls_store)] id (False, example_tls_store) =
      (fst (ensurer_Start ?e [] id (False, example_tls_store)), t)"
    "mwc_annotated (find_config (snd t) ''hook'') openShiftInjectCABundle ''true''"
    by (auto simp: serviceable_def tls_configured_def example_tls_names_def simp del: ensurer_Start.simps)
  have "\<exists>err. fst (ensurer_Start ?e [] id (False, example_tls_store)) = [err]"
    "find_config (snd (snd (ensurer_Start ?e [\<lambda>_. (True, example_tls_store)] id (False, example_tls_store)))) ''hook'' \<noteq> None"
    by (simp_all add: Ensure_def ensureOpenShift_def patchServiceAnnotation_def patchMWCAnnotation_def outage_tls_def when_up_def
        outage_def store_tls_def find_service_def find_config_def or_missing_def example_tls_store_def example_tls_names_def
        put_def has_key_value_def)
  with t show ?thesis by (auto simp del: ensurer_Start.simps)
qed

text \<open>What the verdict at start-up says about the groups that were discovered.\<close>

lemma serving_certs_verdict:
  "(configureWebhookServingCerts env cli True s = (Inr False, s') \<longrightarrow>
      (\<exists>groups. env_ServerGroups env = (Some groups, None)
         \<and> set groups \<inter> {openShiftRouteGroup, openShiftSecurityGroup, certManagerGroup} = {}))
   \<and> (configureWebhookServingCerts env cli True s = (Inr True, s') \<longrightarrow>
      (\<exists>groups err names p. env_ServerGroups env = (Some groups, err) \<and> DefaultNames env = Inr names
         \<and> set groups \<inter> {openShiftRouteGroup, openShiftSecurityGroup, certManagerGroup} \<noteq> {}
         \<and> p = (if set groups \<inter> {openShiftRouteGroup, openShiftSecurityGroup} \<noteq> {}
                then ProviderOpenShift else ProviderCertManager)
         \<and> Ensure cli p names s = (None, s')))"
  by (auto simp: configureWebhookServingCerts_def Configure_def Detect_def Let_def list_ex_iff
      split: if_splits option.splits sum.splits prod.splits)

definition example_tls_env :: tls_env where
  "example_tls_env =
     \<lparr>env_ReadFile = (\<lambda>_. Inr ''ns''), env_Getenv = (\<lambda>_. []), env_NewDiscovery = None,
      env_ServerGroups = (Some [certManagerGroup], Some (GoErr ''partial''))\<rparr>"

lemma example_configure:
  "fst (configureWebhookServingCerts example_tls_env store_tls True example_tls_store) = Inr True"
  by code_simp

end
