(* ===== verification/TLS_Config.thy ===== *)
theory TLS_Config
  imports Prelude "HOL-Library.Word"
begin

text \<open>
  \<open>internal/tlsconfig/tlsconfig.go\<close>: the TLS settings of the servers, from the profile of the cluster or
  hardened defaults. Versions and cipher suites are the 16-bit numbers of \<open>crypto/tls\<close>.
\<close>

type_synonym u16 = "16 word"

definition protoH2 :: string where "protoH2 = ''h2''"
definition protoHTTP1 :: string where "protoHTTP1 = ''http/1.1''"

definition tls13CipherSuiteFirst :: u16 where "tls13CipherSuiteFirst = 0x1300"
definition tls13CipherSuiteLast :: u16 where "tls13CipherSuiteLast = 0x13ff"

definition VersionTLS12 :: u16 where "VersionTLS12 = 0x0303"
definition VersionTLS13 :: u16 where "VersionTLS13 = 0x0304"

text \<open>The ECDHE suites with AES-GCM and ChaCha20, by their IANA numbers.\<close>

definition IntermediateCiphers :: "u16 list" where
  "IntermediateCiphers = [0xc02b, 0xc02f, 0xc02c, 0xc030, 0xcca9, 0xcca8]"

text \<open>\<open>tls.Config\<close>: the fields that are set; a nil list of suites (\<open>None\<close>) means Go's defaults.\<close>

record tls_config =
  MinVersion :: u16
  CipherSuites :: "u16 list option"
  NextProtos :: "string list"

record TLSProfileSpec =
  tp_Ciphers :: "string list"
  tp_MinTLSVersion :: string

definition zero_profile :: TLSProfileSpec where
  "zero_profile = \<lparr>tp_Ciphers = [], tp_MinTLSVersion = []\<rparr>"

record BootstrapResult =
  TLSOpts :: "(tls_config \<Rightarrow> tls_config) list"
  br_Profile :: TLSProfileSpec
  HasOpenShiftConfigAPI :: bool
  TLSAdherence :: string
  TLSAdherenceFetched :: bool
  UnsupportedCiphers :: "string list"

text \<open>
  \<open>ProfileFetcher\<close>, an interface of the package, and what it calls of other packages: the version and
  suite tables of \<open>library-go\<close>, and the suites of the running Go build with their names.
\<close>

record 's ProfileFetcher =
  FetchTLSProfile :: "'s \<Rightarrow> TLSProfileSpec res \<times> 's"
  FetchTLSAdherencePolicy :: "'s \<Rightarrow> string res \<times> 's"
  NewTLSConfigFromProfile :: "TLSProfileSpec \<Rightarrow> (tls_config \<Rightarrow> tls_config) \<times> string list"

record crypto_api =
  TLSVersion :: "string \<Rightarrow> u16 res"
  CipherSuite :: "string \<Rightarrow> u16 res"
  OpenSSLToIANACipherSuites :: "string list \<Rightarrow> string list"
  go_CipherSuites :: "(u16 \<times> string) list"
  go_InsecureCipherSuites :: "(u16 \<times> string) list"

definition isTransientAPIError :: "goerror \<Rightarrow> bool" where
  "isTransientAPIError err \<longleftrightarrow>
     has_reason ServiceUnavailable err \<or> has_reason Timeout err \<or> has_reason ServerTimeout err
     \<or> has_reason TooManyRequests err \<or> has_reason DeadlineExceeded err"

definition implementedCipherSuites :: "crypto_api \<Rightarrow> u16 list" where
  "implementedCipherSuites K =
     map fst (go_CipherSuites K) @
     map fst (filter (\<lambda>(ident, name). \<not> Contains name ''RC4'') (go_InsecureCipherSuites K))"

definition resolveCipherSuite :: "crypto_api \<Rightarrow> string \<Rightarrow> u16 option" where
  "resolveCipherSuite K name =
     (case CipherSuite K name of
        Inr ident \<Rightarrow> Some ident
      | Inl _ \<Rightarrow>
          (case OpenSSLToIANACipherSuites K [name] of
             [iana] \<Rightarrow> (case CipherSuite K iana of Inr ident \<Rightarrow> Some ident | Inl _ \<Rightarrow> None)
           | _ \<Rightarrow> None))"

definition usable_suite :: "crypto_api \<Rightarrow> string \<Rightarrow> u16 option" where
  "usable_suite K cipher =
     (case resolveCipherSuite K cipher of
        None \<Rightarrow> None
      | Some ident \<Rightarrow>
          if (tls13CipherSuiteFirst \<le> ident \<and> ident \<le> tls13CipherSuiteLast)
            \<or> \<not> List.member (implementedCipherSuites K) ident then None
          else Some ident)"

definition validateProfile :: "crypto_api \<Rightarrow> TLSProfileSpec \<Rightarrow> (u16 \<times> u16 list option) res" where
  "validateProfile K profile =
     (case TLSVersion K (tp_MinTLSVersion profile) of
        Inl err \<Rightarrow> Inl (WrapErr (''invalid minimum TLS version '' @ Quote (tp_MinTLSVersion profile) @ '': '') err)
      | Inr minVersion \<Rightarrow>
          if VersionTLS13 \<le> minVersion then Inr (minVersion, None)
          else if length (tp_Ciphers profile) = 0 then Inr (minVersion, None)
          else
            let usableSuites = List.map_filter (usable_suite K) (tp_Ciphers profile)
            in if length usableSuites = 0
               then Inl (GoErr (''no cipher suite in the profile is negotiable by this Go build for minimum TLS version '' @
                      Quote (tp_MinTLSVersion profile) @ '': ['' @ Join_str '' '' (tp_Ciphers profile) @ '']''))
               else Inr (minVersion, Some usableSuites))"

text \<open>The adherence policy, read only where the configuration API exists.\<close>

definition fetch_adherence ::
  "'s ProfileFetcher \<Rightarrow> BootstrapResult \<Rightarrow> 's \<Rightarrow> BootstrapResult res \<times> 's" where
  "fetch_adherence fetcher result s =
     (if \<not> HasOpenShiftConfigAPI result then (Inr result, s)
      else (case FetchTLSAdherencePolicy fetcher s of
          (Inr adherence, s1) \<Rightarrow> (Inr (result\<lparr>TLSAdherence := adherence, TLSAdherenceFetched := True\<rparr>), s1)
        | (Inl adherenceErr, s1) \<Rightarrow>
            (if IsNoMatchError adherenceErr \<or> IsNotFound adherenceErr \<or> isTransientAPIError adherenceErr
             then Inr result
             else Inl (WrapErr ''unable to fetch TLS adherence policy: '' adherenceErr), s1)))"

definition default_opts :: "string list \<Rightarrow> (tls_config \<Rightarrow> tls_config) list" where
  "default_opts nextProtos =
     [\<lambda>c. c\<lparr>MinVersion := VersionTLS12, CipherSuites := Some IntermediateCiphers, NextProtos := nextProtos\<rparr>]"

definition Bootstrap ::
  "crypto_api \<Rightarrow> bool \<Rightarrow> 's ProfileFetcher \<Rightarrow> 's \<Rightarrow> BootstrapResult res \<times> 's" where
  "Bootstrap K enableHTTP2 fetcher s =
     (let nextProtos = (if \<not> enableHTTP2 then [protoHTTP1] else [protoH2, protoHTTP1]);
          result = \<lparr>TLSOpts = [], br_Profile = zero_profile, HasOpenShiftConfigAPI = False, TLSAdherence = [],
                    TLSAdherenceFetched = False, UnsupportedCiphers = []\<rparr>
      in case FetchTLSProfile fetcher s of
           (Inl err, s1) \<Rightarrow>
             if IsNoMatchError err \<or> IsNotFound err
             then fetch_adherence fetcher (result\<lparr>TLSOpts := default_opts nextProtos\<rparr>) s1
             else if isTransientAPIError err
             then fetch_adherence fetcher
                    (result\<lparr>HasOpenShiftConfigAPI := True, TLSOpts := default_opts nextProtos\<rparr>) s1
             else (Inl err, s1)
         | (Inr profile, s1) \<Rightarrow>
             (case validateProfile K profile of
                Inl verr \<Rightarrow> (Inl (WrapErr ''unusable APIServer TLS profile: '' verr), s1)
              | Inr (minVersion, usableSuites) \<Rightarrow>
                  (case NewTLSConfigFromProfile fetcher profile of
                     (tlsConfigFn, unsupported) \<Rightarrow>
                       (let suites = (case usableSuites of None \<Rightarrow> [] | Some xs \<Rightarrow> xs);
                            opts = [tlsConfigFn] @
                              (if minVersion < VersionTLS13 \<and> length suites > 0
                               then [\<lambda>c. c\<lparr>CipherSuites := Some suites\<rparr>] else []) @
                              [\<lambda>c. c\<lparr>NextProtos := nextProtos\<rparr>]
                        in fetch_adherence fetcher
                             (result\<lparr>HasOpenShiftConfigAPI := True, br_Profile := profile,
                                UnsupportedCiphers := unsupported, TLSOpts := opts\<rparr>) s1))))"

section \<open>Properties\<close>

text \<open>The configuration a server ends up with: the options run in order on what it starts from.\<close>

definition configured :: "BootstrapResult \<Rightarrow> tls_config \<Rightarrow> tls_config" where
  "configured r c = fold (\<lambda>opt. opt) (TLSOpts r) c"

definition recoverable :: "goerror \<Rightarrow> bool" where
  "recoverable err \<longleftrightarrow> IsNoMatchError err \<or> IsNotFound err \<or> isTransientAPIError err"

lemma adherence_opts:
  "fetch_adherence fetcher r s = (Inr r', s') \<Longrightarrow> TLSOpts r' = TLSOpts r"
  by (auto simp: fetch_adherence_def split: if_splits sum.splits prod.splits)

lemma usable_suites:
  assumes "ident \<in> set (List.map_filter (usable_suite K) ciphers)"
  shows "\<exists>name \<in> set ciphers. resolveCipherSuite K name = Some ident"
    and "ident \<in> set (implementedCipherSuites K)" and "ident < tls13CipherSuiteFirst \<or> tls13CipherSuiteLast < ident"
proof -
  obtain name where "name \<in> set ciphers" "usable_suite K name = Some ident"
    using assms by (force simp: List.map_filter_def)
  then show "\<exists>name \<in> set ciphers. resolveCipherSuite K name = Some ident"
    and "ident \<in> set (implementedCipherSuites K)" and "ident < tls13CipherSuiteFirst \<or> tls13CipherSuiteLast < ident"
    by (auto simp: usable_suite_def not_le split: option.splits if_splits)
qed

text \<open>
  What the library documents of the option that it makes of a profile: it sets the minimum version to the
  one that the profile names.
\<close>

locale profile_options =
  fixes K :: crypto_api and fetcher :: "'s ProfileFetcher"
  assumes min_version: "TLSVersion K (tp_MinTLSVersion profile) = Inr v \<Longrightarrow>
    MinVersion (fst (NewTLSConfigFromProfile fetcher profile) c) = v"
begin

lemma profile_minimum:
  assumes "TLSVersion K (tp_MinTLSVersion profile) = Inr v" and "NewTLSConfigFromProfile fetcher profile = (opt, unsupported)"
  shows "MinVersion (opt c) = v"
  using min_version [OF assms(1), of c] assms(2) by simp

end

text \<open>
  C7: The TLS settings are never wider than the profile or the hardened defaults. When bootstrap succeeds,
  the servers offer exactly the protocols that were asked for. Without a readable profile they get TLS 1.2
  and the intermediate suites. Under a profile the minimum version is exactly the one that the profile
  names; if that is below TLS 1.3 and the profile lists ciphers, the suites are a non-empty list of suites
  that the profile names and this Go build implements, none of them of TLS 1.3, never Go's defaults; and
  otherwise, where the profile asks for no suites or Go does not let them be chosen, they are those that
  the library's option for the profile sets.
\<close>

theorem bootstrap_never_widens:
  assumes "profile_options K fetcher" and "Bootstrap K enableHTTP2 fetcher s = (Inr r, s')"
  shows "NextProtos (configured r c) = (if enableHTTP2 then [''h2'', ''http/1.1''] else [''http/1.1''])
    \<and> (case fst (FetchTLSProfile fetcher s) of
         Inl err \<Rightarrow> MinVersion (configured r c) = 0x0303 \<and> CipherSuites (configured r c) = Some IntermediateCiphers
       | Inr profile \<Rightarrow>
           \<exists>minVersion. TLSVersion K (tp_MinTLSVersion profile) = Inr minVersion
             \<and> MinVersion (configured r c) = minVersion
             \<and> (if minVersion < 0x0304 \<and> tp_Ciphers profile \<noteq> []
                then \<exists>suites. CipherSuites (configured r c) = Some suites \<and> suites \<noteq> []
                    \<and> (\<forall>ident \<in> set suites. ident \<in> set (implementedCipherSuites K) \<and> (ident < 0x1300 \<or> 0x13ff < ident)
                        \<and> (\<exists>name \<in> set (tp_Ciphers profile). resolveCipherSuite K name = Some ident))
                else CipherSuites (configured r c) = CipherSuites (fst (NewTLSConfigFromProfile fetcher profile) c)))"
proof (cases "fst (FetchTLSProfile fetcher s)")
  case (Inl err)
  then have "TLSOpts r = default_opts (if enableHTTP2 then [''h2'', ''http/1.1''] else [''http/1.1''])"
    using assms(2) by (auto simp: Bootstrap_def Let_def protoH2_def protoHTTP1_def dest!: adherence_opts
        split: prod.splits if_splits)
  with Inl show ?thesis by (simp add: configured_def default_opts_def VersionTLS12_def)
next
  case (Inr profile)
  then obtain minv suites tlsConfigFn unsupported where
    v: "validateProfile K profile = Inr (minv, suites)"
    and new: "NewTLSConfigFromProfile fetcher profile = (tlsConfigFn, unsupported)"
    and opts: "TLSOpts r = [tlsConfigFn] @
        (if minv < VersionTLS13 \<and> (case suites of None \<Rightarrow> [] | Some xs \<Rightarrow> xs) \<noteq> []
         then [\<lambda>c. c\<lparr>CipherSuites := Some (case suites of None \<Rightarrow> [] | Some xs \<Rightarrow> xs)\<rparr>] else []) @
        [\<lambda>c. c\<lparr>NextProtos := (if enableHTTP2 then [''h2'', ''http/1.1''] else [''http/1.1''])\<rparr>]"
    using assms(2) by (auto simp: Bootstrap_def Let_def protoH2_def protoHTTP1_def dest!: adherence_opts
        split: prod.splits sum.splits)
  have minv: "TLSVersion K (tp_MinTLSVersion profile) = Inr minv"
    using v by (auto simp: validateProfile_def Let_def split: sum.splits if_splits)
  have least: "MinVersion (configured r c) = minv"
    using profile_options.profile_minimum [OF assms(1) minv new, of c] opts by (simp add: configured_def)
  show ?thesis
  proof (cases "minv < 0x0304 \<and> tp_Ciphers profile \<noteq> []")
    case True
    then have "suites = Some (List.map_filter (usable_suite K) (tp_Ciphers profile))"
      "List.map_filter (usable_suite K) (tp_Ciphers profile) \<noteq> []"
      using v minv by (auto simp: validateProfile_def Let_def VersionTLS13_def split: if_splits)
    with Inr minv opts least True show ?thesis
      using usable_suites [of _ K "tp_Ciphers profile"]
      by (auto simp: configured_def VersionTLS13_def tls13CipherSuiteFirst_def tls13CipherSuiteLast_def)
  next
    case False
    then have "suites = None"
      using v minv by (auto simp: validateProfile_def Let_def VersionTLS13_def split: if_splits)
    with Inr minv opts least new False show ?thesis by (simp add: configured_def if_not_P)
  qed
qed

text \<open>
  C24: Bootstrap refuses to start exactly when the TLS posture is unknown. It fails when the profile cannot
  be read for a reason that is neither a missing API nor transient, when the profile read is unusable, or
  when the API exists and the adherence policy cannot be read for such a reason; otherwise it succeeds,
  watches the profile unless the API or its object is missing, and records the policy as fetched exactly
  when it was read.
\<close>

theorem bootstrap_error_classes:
  assumes "FetchTLSProfile fetcher s = (got, s1)" and "FetchTLSAdherencePolicy fetcher s1 = (policy, s2)"
  shows "let hasApi = (case got of Inl err \<Rightarrow> \<not> IsNoMatchError err \<and> \<not> IsNotFound err | Inr _ \<Rightarrow> True);
      profileOk = (case got of Inl err \<Rightarrow> recoverable err | Inr profile \<Rightarrow> \<exists>x. validateProfile K profile = Inr x);
      policyOk = (case policy of Inl err \<Rightarrow> recoverable err | Inr _ \<Rightarrow> True)
    in (if profileOk \<and> (hasApi \<longrightarrow> policyOk)
        then \<exists>r. fst (Bootstrap K enableHTTP2 fetcher s) = Inr r \<and> HasOpenShiftConfigAPI r = hasApi
          \<and> TLSAdherenceFetched r = (hasApi \<and> (\<exists>a. policy = Inr a))
          \<and> TLSAdherence r = (if hasApi then case policy of Inl _ \<Rightarrow> [] | Inr a \<Rightarrow> a else [])
        else \<exists>err. fst (Bootstrap K enableHTTP2 fetcher s) = Inl err)"
proof (cases got)
  case (Inl err)
  with assms show ?thesis
    by (cases policy; cases "IsNoMatchError err \<or> IsNotFound err"; cases "isTransientAPIError err")
      (auto simp: Bootstrap_def fetch_adherence_def recoverable_def Let_def)
next
  case (Inr profile)
  with assms show ?thesis
    by (cases policy; cases "validateProfile K profile"; cases "NewTLSConfigFromProfile fetcher profile")
      (auto simp: Bootstrap_def fetch_adherence_def recoverable_def Let_def)
qed

section \<open>A run\<close>

definition example_crypto :: crypto_api where
  "example_crypto =
     \<lparr>TLSVersion = (\<lambda>v. if v = ''VersionTLS12'' then Inr 0x0303 else Inl (GoErr ''unknown'')),
      CipherSuite = (\<lambda>n. if n = ''AES'' then Inr 0xc02b else Inl (GoErr ''unknown'')),
      OpenSSLToIANACipherSuites = (\<lambda>_. []), go_CipherSuites = [(0xc02b, ''AES'')], go_InsecureCipherSuites = []\<rparr>"

definition example_fetcher :: "unit ProfileFetcher" where
  "example_fetcher =
     \<lparr>FetchTLSProfile = (\<lambda>s. (Inr \<lparr>tp_Ciphers = [''AES'', ''other''], tp_MinTLSVersion = ''VersionTLS12''\<rparr>, s)),
      FetchTLSAdherencePolicy = (\<lambda>s. (Inl (ApiErr NotFound ''none''), s)),
      NewTLSConfigFromProfile = (\<lambda>_. (\<lambda>c. c\<lparr>MinVersion := 0x0303\<rparr>, [''other'']))\<rparr>"

lemma example_valid:
  "validateProfile example_crypto \<lparr>tp_Ciphers = [''AES'', ''other''], tp_MinTLSVersion = ''VersionTLS12''\<rparr>
     = Inr (0x0303, Some [0xc02b])"
  by (simp add: validateProfile_def example_crypto_def usable_suite_def resolveCipherSuite_def VersionTLS13_def
      map_filter_simps implementedCipherSuites_def tls13CipherSuiteFirst_def tls13CipherSuiteLast_def Let_def)

theorem bootstrap_error_classes_witness:
  "\<exists>r. fst (Bootstrap example_crypto False example_fetcher ()) = Inr r \<and> HasOpenShiftConfigAPI r
     \<and> \<not> TLSAdherenceFetched r"
proof -
  have "FetchTLSProfile example_fetcher () =
      (Inr \<lparr>tp_Ciphers = [''AES'', ''other''], tp_MinTLSVersion = ''VersionTLS12''\<rparr>, ())"
    "FetchTLSAdherencePolicy example_fetcher () = (Inl (ApiErr NotFound ''none''), ())"
    by (simp_all add: example_fetcher_def)
  from bootstrap_error_classes [OF this, of example_crypto False] example_valid show ?thesis
    by (auto simp: recoverable_def Let_def)
qed

interpretation example_options: profile_options example_crypto example_fetcher
  by unfold_locales (auto simp: example_crypto_def example_fetcher_def split: if_splits)

theorem bootstrap_never_widens_witness:
  "\<exists>r s'. Bootstrap example_crypto False example_fetcher () = (Inr r, s')
     \<and> MinVersion (configured r \<lparr>MinVersion = 0, CipherSuites = None, NextProtos = []\<rparr>) = 0x0303
     \<and> NextProtos (configured r \<lparr>MinVersion = 0, CipherSuites = None, NextProtos = []\<rparr>) = [''http/1.1'']
     \<and> CipherSuites (configured r \<lparr>MinVersion = 0, CipherSuites = None, NextProtos = []\<rparr>) \<noteq> None"
proof -
  obtain r s' where run: "Bootstrap example_crypto False example_fetcher () = (Inr r, s')"
    by (simp add: Bootstrap_def example_fetcher_def example_valid fetch_adherence_def Let_def)
  have "TLSVersion example_crypto ''VersionTLS12'' = Inr 0x0303" by (simp add: example_crypto_def)
  with run bootstrap_never_widens [OF example_options.profile_options_axioms run, of "\<lparr>MinVersion = 0, CipherSuites = None, NextProtos = []\<rparr>"]
  show ?thesis by (intro exI [of _ r] exI [of _ s']) (auto simp: example_fetcher_def)
qed

end
