(* ===== verification/Watches.thy ===== *)
theory Watches
  imports Reconciler
begin

text \<open>
  \<open>SetupWithManager\<close> of \<open>workbenches_controller.go\<close>: which events start a reconcile. The controller
  builder, the ready-made predicates and handlers, the REST mapper and the work queue are
  \<open>controller-runtime\<close>; the model of \<open>SetupWithManager\<close> is the specification it hands to the builder, and
  what the library documents about such a specification is the locale \<open>controller_runtime\<close>.
\<close>

section \<open>Watched objects\<close>

text \<open>
  An object as a watch delivers it: the metadata the predicates and handlers read, with the typed
  content of ConfigMaps and Deployments. \<open>w_Controller\<close> is the owner reference marked as controller: API
  group, kind and name.
\<close>

record watched =
  w_GVK :: gvk
  w_Namespace :: string
  w_Name :: string
  w_Generation :: int
  w_Labels :: "string gomap"
  w_Controller :: "(string \<times> string \<times> string) option"
  w_ConfigMap :: "configmap option"
  w_Deployment :: "deployment option"

definition as_configmap :: "watched \<Rightarrow> cm_object" where
  "as_configmap obj = (case w_ConfigMap obj of Some cm \<Rightarrow> ConfigMapObj cm | None \<Rightarrow> OtherKind)"

definition as_deployment :: "watched \<Rightarrow> event_object" where
  "as_deployment obj = (case w_Deployment obj of Some d \<Rightarrow> DeploymentObj d | None \<Rightarrow> OtherObj (w_Labels obj))"

fun event_objects :: "'o watch_event \<Rightarrow> 'o list" where
  "event_objects (CreateEvent obj) = [obj]"
| "event_objects (UpdateEvent oldObj newObj) = [oldObj, newObj]"
| "event_objects (DeleteEvent obj) = [obj]"
| "event_objects (GenericEvent obj) = [obj]"

section \<open>The specification of a controller\<close>

datatype 's event_handler =
    EnqueueRequestForObject
  | EnqueueRequestForOwner string string
  | EnqueueRequestsFromMapFunc "watched \<Rightarrow> 's \<Rightarrow> string list \<times> 's"

record 's watch =
  wt_GVK :: gvk
  wt_Predicates :: "(watched watch_event \<Rightarrow> bool) list"
  wt_Handler :: "'s event_handler"

record 's controller_spec =
  ct_Name :: string
  ct_Watches :: "'s watch list"
  ct_BaseDelay :: int
  ct_MaxDelay :: int

text \<open>
  The library: \<open>predicate.GenerationChangedPredicate\<close>, \<open>predicate.NewPredicateFuncs\<close>, the lookup of the
  REST mapper, the names of the requests a controller enqueues for an event, and the delay before the
  retry after a number of failures.
\<close>

record 's runtime =
  rt_GenerationChangedPredicate :: "watched watch_event \<Rightarrow> bool"
  rt_NewPredicateFuncs :: "(watched \<Rightarrow> bool) \<Rightarrow> watched watch_event \<Rightarrow> bool"
  rt_RESTMapping :: "gvk \<Rightarrow> unit res"
  rt_Requests :: "'s controller_spec \<Rightarrow> watched watch_event \<Rightarrow> 's \<Rightarrow> string list"
  rt_RetryDelay :: "'s controller_spec \<Rightarrow> nat \<Rightarrow> int"

section \<open>SetupWithManager\<close>

definition rateLimiterBaseDelay :: int where "rateLimiterBaseDelay = 5 * second"
definition rateLimiterMaxDelay :: int where "rateLimiterMaxDelay = 5 * 60 * second"

definition GroupVersion :: "string \<times> string" where
  "GroupVersion = (''components.platform.opendatahub.io'', ''v1alpha1'')"

definition Workbenches_gvk :: gvk where
  "Workbenches_gvk = mk_gvk (fst GroupVersion) (snd GroupVersion) ''Workbenches''"

definition Deployment_gvk :: gvk where "Deployment_gvk = mk_gvk ''apps'' ''v1'' ''Deployment''"
definition ConfigMap_gvk :: gvk where "ConfigMap_gvk = mk_gvk [] ''v1'' ''ConfigMap''"

text \<open>The kinds given to \<open>Owns\<close> without a predicate, in order.\<close>

definition owned_kinds :: "gvk list" where
  "owned_kinds =
     [ConfigMap_gvk,
      mk_gvk [] ''v1'' ''Secret'',
      mk_gvk [] ''v1'' ''Service'',
      mk_gvk [] ''v1'' ''ServiceAccount'',
      mk_gvk ''rbac.authorization.k8s.io'' ''v1'' ''Role'',
      mk_gvk ''rbac.authorization.k8s.io'' ''v1'' ''RoleBinding'',
      mk_gvk ''rbac.authorization.k8s.io'' ''v1'' ''ClusterRole'',
      mk_gvk ''rbac.authorization.k8s.io'' ''v1'' ''ClusterRoleBinding'',
      mk_gvk ''networking.k8s.io'' ''v1'' ''NetworkPolicy'',
      mk_gvk ''admissionregistration.k8s.io'' ''v1'' ''MutatingWebhookConfiguration'',
      mk_gvk ''admissionregistration.k8s.io'' ''v1'' ''ValidatingWebhookConfiguration'']"

definition Owns :: "gvk \<Rightarrow> (watched watch_event \<Rightarrow> bool) list \<Rightarrow> 's watch" where
  "Owns g predicates =
     \<lparr>wt_GVK = g, wt_Predicates = predicates,
      wt_Handler = EnqueueRequestForOwner (gvk_Group Workbenches_gvk) (gvk_Kind Workbenches_gvk)\<rparr>"

definition platform_config_watch :: "'s reconciler \<Rightarrow> 's watch" where
  "platform_config_watch r =
     \<lparr>wt_GVK = ConfigMap_gvk,
      wt_Predicates = [\<lambda>ev. platformConfigChangedPredicate
        (platformConfigWatchNamespaces (r_IsDNS1123Label r) (r_ApplicationsNamespace r))
        (map_watch_event as_configmap ev)],
      wt_Handler = EnqueueRequestsFromMapFunc (\<lambda>obj. mapPlatformConfigToWorkbenches r (as_configmap obj))\<rparr>"

definition image_stream_watch :: "'s runtime \<Rightarrow> 's watch" where
  "image_stream_watch R =
     \<lparr>wt_GVK = ImageStream_gvk,
      wt_Predicates = [rt_NewPredicateFuncs R (\<lambda>obj. isManagedPartOfLabel (Some (w_Labels obj)))],
      wt_Handler = EnqueueRequestsFromMapFunc (\<lambda>obj s. (mapImageStreamToWorkbenches, s))\<rparr>"

definition SetupWithManager :: "'s runtime \<Rightarrow> 's reconciler \<Rightarrow> 's controller_spec res" where
  "SetupWithManager R r =
     (let ctrlBuilder =
        \<lparr>ct_Name = ''workbenches'',
         ct_Watches =
           \<lparr>wt_GVK = Workbenches_gvk, wt_Predicates = [rt_GenerationChangedPredicate R],
            wt_Handler = EnqueueRequestForObject\<rparr>
           # map (\<lambda>g. Owns g []) owned_kinds
           @ [Owns Deployment_gvk
                [\<lambda>ev. deploymentAvailabilityChangedPredicate (map_watch_event as_deployment ev)],
              platform_config_watch r],
         ct_BaseDelay = rateLimiterBaseDelay, ct_MaxDelay = rateLimiterMaxDelay\<rparr>
      in case shouldWatchImageStreams (rt_RESTMapping R) of
           Inl err \<Rightarrow> Inl (WrapErr ''failed to check ImageStream API availability: '' err)
         | Inr watchIS \<Rightarrow>
             Inr (if watchIS
                  then ctrlBuilder\<lparr>ct_Watches := ct_Watches ctrlBuilder @ [image_stream_watch R]\<rparr>
                  else ctrlBuilder))"

section \<open>What the library documents\<close>

text \<open>A watch sees the events of its kind that all its predicates admit.\<close>

definition admits :: "'s watch \<Rightarrow> watched watch_event \<Rightarrow> bool" where
  "admits w ev \<longleftrightarrow>
     wt_GVK w = w_GVK (last (event_objects ev)) \<and> list_all (\<lambda>p. p ev) (wt_Predicates w)"

definition owner_requests :: "string \<Rightarrow> string \<Rightarrow> watched \<Rightarrow> string list" where
  "owner_requests g k obj =
     (case w_Controller obj of
        Some (g', k', n) \<Rightarrow> if g' = g \<and> k' = k then [n] else []
      | None \<Rightarrow> [])"

text \<open>The names a handler enqueues: an update counts for the old and for the new object.\<close>

fun handler_requests :: "'s event_handler \<Rightarrow> watched watch_event \<Rightarrow> 's \<Rightarrow> string list" where
  "handler_requests EnqueueRequestForObject ev s = [w_Name (last (event_objects ev))]"
| "handler_requests (EnqueueRequestForOwner g k) ev s = concat (map (owner_requests g k) (event_objects ev))"
| "handler_requests (EnqueueRequestsFromMapFunc f) ev s = concat (map (\<lambda>obj. fst (f obj s)) (event_objects ev))"

locale controller_runtime =
  fixes R :: "'s runtime"
  assumes generation_update:
      "rt_GenerationChangedPredicate R (UpdateEvent a b) \<longleftrightarrow> w_Generation a \<noteq> w_Generation b"
    and generation_others:
      "rt_GenerationChangedPredicate R (CreateEvent a)" "rt_GenerationChangedPredicate R (DeleteEvent a)"
    and predicate_funcs:
      "rt_NewPredicateFuncs R p ev = p (last (event_objects ev))"
    and requests:
      "set (rt_Requests R spec ev s) =
         (\<Union>w \<in> {w \<in> set (ct_Watches spec). admits w ev}. set (handler_requests (wt_Handler w) ev s))"
    and retry_delay: "rt_RetryDelay R spec n = min (ct_BaseDelay spec * 2 ^ n) (ct_MaxDelay spec)"

definition documented_runtime :: "(gvk \<Rightarrow> unit res) \<Rightarrow> 's runtime" where
  "documented_runtime mapping =
     \<lparr>rt_GenerationChangedPredicate = (\<lambda>ev. case ev of
        UpdateEvent a b \<Rightarrow> w_Generation a \<noteq> w_Generation b | _ \<Rightarrow> True),
      rt_NewPredicateFuncs = (\<lambda>p ev. p (last (event_objects ev))),
      rt_RESTMapping = mapping,
      rt_Requests = (\<lambda>spec ev s. remdups (concat (map (\<lambda>w. handler_requests (wt_Handler w) ev s)
        (filter (\<lambda>w. admits w ev) (ct_Watches spec))))),
      rt_RetryDelay = (\<lambda>spec n. min (ct_BaseDelay spec * 2 ^ n) (ct_MaxDelay spec))\<rparr>"

interpretation documented_rt: controller_runtime "documented_runtime mapping"
  by unfold_locales (auto simp: documented_runtime_def)

section \<open>The requests of the operator\<close>

lemma mk_gvk_eq [simp]: "mk_gvk g v k = mk_gvk g' v' k' \<longleftrightarrow> g = g' \<and> v = v' \<and> k = k'"
  by (simp add: mk_gvk_def)

lemmas watched_kinds = Workbenches_gvk_def Deployment_gvk_def ConfigMap_gvk_def ImageStream_gvk_def GroupVersion_def

text \<open>What is owned is what is collected, but for the Deployments and for WorkspaceKinds.\<close>

definition WorkspaceKind_gvk :: gvk where
  "WorkspaceKind_gvk = mk_gvk ''kubeflow.org'' ''v1beta1'' ''WorkspaceKind''"

lemma owned_is_collected:
  "set owned_kinds = set cleanupGVKs \<union> set cleanupClusterGVKs - {Deployment_gvk, WorkspaceKind_gvk}"
  by (auto simp: owned_kinds_def cleanupGVKs_def cleanupClusterGVKs_def watched_kinds
      WorkspaceKind_gvk_def kind_defs)

text \<open>The owners of the objects of an event among the Workbenches resources.\<close>

definition owners :: "watched watch_event \<Rightarrow> string set" where
  "owners ev = {n. \<exists>obj \<in> set (event_objects ev). w_Controller obj = Some (fst GroupVersion, ''Workbenches'', n)}"

lemma owner_handler:
  "set (handler_requests (EnqueueRequestForOwner (gvk_Group Workbenches_gvk) (gvk_Kind Workbenches_gvk)) ev s) = owners ev"
  by (auto simp: owners_def owner_requests_def Workbenches_gvk_def mk_gvk_def split: option.splits if_splits)

lemma event_objects_not_empty [simp]: "event_objects ev \<noteq> []"
  by (cases ev) simp_all

context controller_runtime
begin

lemma requests_of_setup:
  fixes ev defines "g \<equiv> w_GVK (last (event_objects ev))"
  assumes "SetupWithManager R r = Inr spec"
  shows "set (rt_Requests R spec ev s) =
     (if g = Workbenches_gvk \<and> rt_GenerationChangedPredicate R ev then {w_Name (last (event_objects ev))} else {})
   \<union> (if g \<in> set owned_kinds
        \<or> g = Deployment_gvk \<and> deploymentAvailabilityChangedPredicate (map_watch_event as_deployment ev)
      then owners ev else {})
   \<union> (if admits (platform_config_watch r) ev
      then set (handler_requests (wt_Handler (platform_config_watch r)) ev s) else {})
   \<union> (if g = ImageStream_gvk \<and> (\<exists>u. rt_RESTMapping R ImageStream_gvk = Inr u)
        \<and> isManagedPartOfLabel (Some (w_Labels (last (event_objects ev))))
      then {WorkbenchesInstanceName} else {})"
proof -
  let ?ws = "\<lambda>ws. \<Union>w \<in> {w \<in> set ws. admits w ev}. set (handler_requests (wt_Handler w) ev s)"
  have split: "?ws (xs @ ys) = ?ws xs \<union> ?ws ys" for xs ys by auto
  have one: "?ws [w] = (if admits w ev then set (handler_requests (wt_Handler w) ev s) else {})" for w by auto
  have owns: "?ws (map (\<lambda>g. Owns g []) gs) = (if g \<in> set gs then owners ev else {})" for gs
    by (induction gs) (auto simp: admits_def Owns_def owner_handler g_def simp del: handler_requests.simps)
  have images: "set (handler_requests (wt_Handler (image_stream_watch R)) ev s) = {WorkbenchesInstanceName}"
    by (cases ev) (simp_all add: image_stream_watch_def mapImageStreamToWorkbenches_def)
  obtain watchIS where mapped: "shouldWatchImageStreams (rt_RESTMapping R) = Inr watchIS"
    using assms(2) by (auto simp: SetupWithManager_def Let_def split: sum.splits)
  have api: "watchIS \<longleftrightarrow> (\<exists>u. rt_RESTMapping R ImageStream_gvk = Inr u)"
    using mapped by (auto simp: shouldWatchImageStreams_def split: sum.splits if_splits)
  have ws: "ct_Watches spec =
      [\<lparr>wt_GVK = Workbenches_gvk, wt_Predicates = [rt_GenerationChangedPredicate R], wt_Handler = EnqueueRequestForObject\<rparr>]
      @ map (\<lambda>g. Owns g []) owned_kinds
      @ [Owns Deployment_gvk [\<lambda>ev. deploymentAvailabilityChangedPredicate (map_watch_event as_deployment ev)]]
      @ [platform_config_watch r] @ (if watchIS then [image_stream_watch R] else [])"
    using assms(2) mapped by (auto simp: SetupWithManager_def Let_def)
  have dep: "Deployment_gvk \<notin> set owned_kinds"
    by (auto simp: owned_is_collected)
  have for_kind: "?ws [\<lparr>wt_GVK = Workbenches_gvk, wt_Predicates = [rt_GenerationChangedPredicate R], wt_Handler = EnqueueRequestForObject\<rparr>]
      = (if g = Workbenches_gvk \<and> rt_GenerationChangedPredicate R ev then {w_Name (last (event_objects ev))} else {})"
    unfolding one by (auto simp: admits_def g_def)
  have deployments: "?ws [Owns Deployment_gvk [\<lambda>ev. deploymentAvailabilityChangedPredicate (map_watch_event as_deployment ev)]]
      = (if g = Deployment_gvk \<and> deploymentAvailabilityChangedPredicate (map_watch_event as_deployment ev) then owners ev else {})"
    unfolding one admits_def Owns_def g_def by (auto simp: owner_handler simp del: handler_requests.simps)
  have streams: "?ws (if watchIS then [image_stream_watch R] else []) =
      (if g = ImageStream_gvk \<and> watchIS \<and> isManagedPartOfLabel (Some (w_Labels (last (event_objects ev))))
       then {WorkbenchesInstanceName} else {})"
  proof (cases watchIS)
    case True
    then show ?thesis
      unfolding if_P [OF True] one images
      by (auto simp: admits_def image_stream_watch_def predicate_funcs g_def)
  qed simp
  show ?thesis
    unfolding requests ws split for_kind owns deployments streams one [of "platform_config_watch r"]
    unfolding api using dep
    by (cases "g \<in> set owned_kinds"; cases "g = Deployment_gvk") (simp_all only: Un_assoc Un_empty_left if_True if_False simp_thms)
qed

end

text \<open>A Deployment is owned by nothing but the two watches on its kind.\<close>

lemma deployment_requests:
  assumes "controller_runtime R" and "SetupWithManager R r = Inr spec"
    and "w_GVK (last (event_objects ev)) = Deployment_gvk"
  shows "set (rt_Requests R spec ev s) =
     (if deploymentAvailabilityChangedPredicate (map_watch_event as_deployment ev) then owners ev else {})"
proof -
  have "Deployment_gvk \<notin> set owned_kinds" by (auto simp: owned_is_collected)
  then show ?thesis
    unfolding controller_runtime.requests_of_setup [OF assms(1,2)] assms(3) admits_def
    by (simp add: platform_config_watch_def) (simp add: watched_kinds)
qed

text \<open>The delay before a retry stays between the base and the maximum.\<close>

lemma retry_delay_bounds:
  assumes "controller_runtime R" and "SetupWithManager R r = Inr spec"
  shows "5 * second \<le> rt_RetryDelay R spec n" and "rt_RetryDelay R spec n \<le> 300 * second"
proof -
  have "ct_BaseDelay spec = 5 * second" "ct_MaxDelay spec = 300 * second"
    using assms(2) by (auto simp: SetupWithManager_def Let_def rateLimiterBaseDelay_def rateLimiterMaxDelay_def
        split: sum.splits if_splits)
  moreover have "(1::int) \<le> 2 ^ n" by simp
  ultimately show "5 * second \<le> rt_RetryDelay R spec n" "rt_RetryDelay R spec n \<le> 300 * second"
    by (simp_all add: controller_runtime.retry_delay [OF assms(1)] second_def)
qed

section \<open>Rollouts\<close>

text \<open>
  What the API server keeps of one deployment over an update: generations grow, a change of the
  pod template starts a new one, and the deployment controller observes no generation before it exists.
\<close>

definition generations_kept :: "deployment \<Rightarrow> deployment \<Rightarrow> bool" where
  "generations_kept d e \<longleftrightarrow>
     d_Generation d \<le> d_Generation e \<and> d_ObservedGeneration d \<le> d_Generation d
     \<and> (d_TemplateAnnotations d \<noteq> d_TemplateAnnotations e \<longrightarrow> d_Generation d < d_Generation e)"

lemma rolled_out_unchanged:
  assumes "\<not> deploymentStatusChanged d e" and "generations_kept d e" and "rolled_out stamp e"
  shows "rolled_out stamp d"
proof -
  have "d_ObservedGeneration d = d_ObservedGeneration e"
    using assms(1) by (simp add: deploymentStatusChanged_def Let_def)
  then have "d_Generation d = d_Generation e" "d_TemplateAnnotations d = d_TemplateAnnotations e"
    using assms(2,3) by (auto simp: generations_kept_def rolled_out_def)
  with assms(1,3) show ?thesis
    by (simp add: deploymentStatusChanged_def Let_def rolled_out_def)
qed

lemma rollout_complete_unchanged:
  assumes "\<not> deploymentStatusChanged d e" and "generations_kept d e" and "d_Labels d = d_Labels e"
    and "rollout_complete k (xs @ e # ys)"
  shows "rollout_complete k (xs @ d # ys)"
  using assms rolled_out_unchanged [OF assms(1,2)]
  by (auto simp: rollout_complete_def controllers_def split: if_splits)

section \<open>Properties\<close>

abbreviation component_deployments :: "deployment list \<Rightarrow> deployment list" where
  "component_deployments ds \<equiv> filter (\<lambda>d. hasComponentLabel (d_Labels d)) ds"

text \<open>
  C28: A change of a deployment's verdict starts a reconcile. Take an update of a Deployment that the
  singleton owns for which the controller enqueues no request for it. Then the labelled deployments
  evaluate to the same availability verdict and message before and after, also those of the
  workspaces-controller alone; and if its labels are kept, and its generations are kept the way the API
  server does, the rollout of an ingress contract that is complete after it was complete before it. So
  no deployment becomes available, unavailable or rolled out unnoticed.
\<close>

theorem unnoticed_deployment_update:
  assumes "controller_runtime R" and "SetupWithManager R r = Inr spec"
    and "WorkbenchesInstanceName \<notin> set (rt_Requests R spec (UpdateEvent a b) s)"
    and "w_GVK b = Deployment_gvk" and "w_Deployment a = Some d" and "w_Deployment b = Some e"
    and "w_Controller b = Some (fst GroupVersion, ''Workbenches'', WorkbenchesInstanceName)"
    and "d_Namespace d = d_Namespace e" and "d_Name d = d_Name e"
  shows "deploymentsAvailability (component_deployments (xs @ d # ys)) = deploymentsAvailability (component_deployments (xs @ e # ys))
    \<and> deploymentsAvailability (filter (\<lambda>x. d_Name x = workspacesControllerDeploymentName) (component_deployments (xs @ d # ys)))
      = deploymentsAvailability (filter (\<lambda>x. d_Name x = workspacesControllerDeploymentName) (component_deployments (xs @ e # ys)))
    \<and> (d_Labels d = d_Labels e \<and> generations_kept d e \<and> rollout_complete k (component_deployments (xs @ e # ys))
       \<longrightarrow> rollout_complete k (component_deployments (xs @ d # ys)))"
proof -
  have "WorkbenchesInstanceName \<in> owners (UpdateEvent a b)"
    using assms(7) by (simp add: owners_def)
  with assms(3-6) have quiet:
      "\<not> deploymentAvailabilityChangedPredicate (UpdateEvent (DeploymentObj d) (DeploymentObj e))"
    by (simp add: deployment_requests [OF assms(1,2)] as_deployment_def
        del: deploymentAvailabilityChangedPredicate.simps split: if_splits)
  have rollout: "rollout_complete k (component_deployments (xs @ d # ys))"
    if "d_Labels d = d_Labels e" "generations_kept d e" "rollout_complete k (component_deployments (xs @ e # ys))"
  proof (cases "hasComponentLabel (d_Labels e)")
    case True
    with predicate_quiet [OF quiet] that show ?thesis
      using rollout_complete_unchanged [of d e k "component_deployments xs" "component_deployments ys"] by simp
  qed (use that in simp)
  show ?thesis
    using filtered_update_keeps_verdict [OF quiet assms(8,9), of "\<lambda>_. True"]
      filtered_update_keeps_verdict [OF quiet assms(8,9), of "\<lambda>n. n = workspacesControllerDeploymentName"] rollout
    by (simp add: conj_commute del: filter_append filter.simps)
qed

text \<open>
  C29: Drift of what the operator collects is noticed, but for WorkspaceKinds, which it does not watch, and
  for changes of Deployments that do not bear on their availability. For every kind that garbage collection and
  clean-up sweep, but Deployments and WorkspaceKinds, each event on an object that a Workbenches resource
  controls, before or after the event, enqueues a request for that resource; for Deployments it does so
  when the availability predicate admits the event, which it does for every creation and deletion of a
  labelled one. A change of the resource itself enqueues it exactly when its generation changed, so the
  operator's own status updates start no run. Events of kinds the operator does not collect, other than
  Workbenches and ImageStreams, enqueue nothing, and neither do those of WorkspaceKinds.
\<close>

theorem collected_drift_noticed:
  assumes "controller_runtime R" and "SetupWithManager R r = Inr spec"
  defines "kind \<equiv> \<lambda>ev. w_GVK (last (event_objects ev))"
    and "collected \<equiv> set cleanupGVKs \<union> set cleanupClusterGVKs - {WorkspaceKind_gvk}"
  shows "(kind ev \<in> collected - {Deployment_gvk} \<longrightarrow> owners ev \<subseteq> set (rt_Requests R spec ev s))
    \<and> (kind ev = Deployment_gvk \<and> deploymentAvailabilityChangedPredicate (map_watch_event as_deployment ev)
       \<longrightarrow> owners ev \<subseteq> set (rt_Requests R spec ev s))
    \<and> (ev \<in> {CreateEvent b, DeleteEvent b} \<and> kind ev = Deployment_gvk
       \<and> (\<exists>d. w_Deployment b = Some d \<and> hasComponentLabel (d_Labels d)) \<longrightarrow> owners ev \<subseteq> set (rt_Requests R spec ev s))
    \<and> (kind (UpdateEvent a b) = Workbenches_gvk \<longrightarrow>
         set (rt_Requests R spec (UpdateEvent a b) s) = (if w_Generation a \<noteq> w_Generation b then {w_Name b} else {}))
    \<and> (kind ev \<notin> collected \<union> {Workbenches_gvk, ImageStream_gvk} \<longrightarrow> rt_Requests R spec ev s = [])"
proof -
  note req = controller_runtime.requests_of_setup [OF assms(1,2)]
  have owned: "collected - {Deployment_gvk} = set owned_kinds"
    unfolding collected_def owned_is_collected by blast
  have config: "ConfigMap_gvk \<in> set owned_kinds" by (simp add: owned_kinds_def)
  have "Deployment_gvk \<in> set cleanupGVKs" "Deployment_gvk \<noteq> WorkspaceKind_gvk"
    by (simp_all add: cleanupGVKs_def Deployment_gvk_def WorkspaceKind_gvk_def kindDeployment_def)
  then have dep: "Deployment_gvk \<in> collected" by (simp add: collected_def)
  have 1: "kind ev \<in> collected - {Deployment_gvk} \<longrightarrow> owners ev \<subseteq> set (rt_Requests R spec ev s)"
    unfolding owned req kind_def by auto
  have 2: "kind ev = Deployment_gvk \<and> deploymentAvailabilityChangedPredicate (map_watch_event as_deployment ev)
       \<longrightarrow> owners ev \<subseteq> set (rt_Requests R spec ev s)"
    unfolding req kind_def by auto
  have created: "ev \<in> {CreateEvent b, DeleteEvent b} \<and> kind ev = Deployment_gvk
       \<and> (\<exists>d. w_Deployment b = Some d \<and> hasComponentLabel (d_Labels d)) \<longrightarrow> owners ev \<subseteq> set (rt_Requests R spec ev s)"
    using 2 by (auto simp: as_deployment_def)
  have wb: "Workbenches_gvk \<notin> set owned_kinds" "Workbenches_gvk \<noteq> Deployment_gvk"
    "Workbenches_gvk \<noteq> ConfigMap_gvk" "Workbenches_gvk \<noteq> ImageStream_gvk"
    by (simp_all add: owned_kinds_def watched_kinds)
  have 3: "kind (UpdateEvent a b) = Workbenches_gvk \<longrightarrow>
      set (rt_Requests R spec (UpdateEvent a b) s) = (if w_Generation a \<noteq> w_Generation b then {w_Name b} else {})"
    unfolding req kind_def using wb
    by (auto simp: admits_def platform_config_watch_def controller_runtime.generation_update [OF assms(1)])
  have "set (rt_Requests R spec ev s) = {}" if "kind ev \<notin> collected \<union> {Workbenches_gvk, ImageStream_gvk}"
  proof -
    from that have k: "kind ev \<notin> collected" "kind ev \<noteq> Workbenches_gvk" "kind ev \<noteq> ImageStream_gvk" by simp_all
    have o: "kind ev \<notin> set owned_kinds" using k(1) unfolding owned [symmetric] by simp
    have "kind ev \<noteq> ConfigMap_gvk" "kind ev \<noteq> Deployment_gvk" using o config k(1) dep by metis+
    with k o show ?thesis
      unfolding req kind_def by (simp add: admits_def platform_config_watch_def)
  qed
  with 1 2 created 3 show ?thesis by simp
qed

text \<open>
  ImageStreams are filtered by the new object alone: the update that takes the label off a managed
  stream enqueues nothing, although the stream leaves the list that the condition is computed from.
\<close>

lemma image_stream_updates:
  assumes "controller_runtime R" and "SetupWithManager R r = Inr spec" and "w_GVK b = ImageStream_gvk"
  shows "set (rt_Requests R spec (UpdateEvent a b) s) =
    (if (\<exists>u. rt_RESTMapping R ImageStream_gvk = Inr u) \<and> isManagedPartOfLabel (Some (w_Labels b))
     then {WorkbenchesInstanceName} else {})"
proof -
  have "ImageStream_gvk \<notin> set owned_kinds" "ImageStream_gvk \<noteq> Deployment_gvk"
    "ImageStream_gvk \<noteq> ConfigMap_gvk" "ImageStream_gvk \<noteq> Workbenches_gvk"
    by (simp_all add: owned_kinds_def watched_kinds)
  then show ?thesis
    unfolding controller_runtime.requests_of_setup [OF assms(1,2)] admits_def
    using assms(3) by (simp add: platform_config_watch_def)
qed

section \<open>A controller\<close>

definition example_runtime :: "unit runtime" where
  "example_runtime = documented_runtime (\<lambda>_. Inr ())"

lemma example_rt: "controller_runtime example_runtime"
  unfolding example_runtime_def by (rule documented_rt.controller_runtime_axioms)

lemma example_setup: "\<exists>spec. SetupWithManager example_runtime example_watch_reconciler = Inr spec"
  by (simp add: SetupWithManager_def shouldWatchImageStreams_def example_runtime_def documented_runtime_def)

definition example_watched :: "deployment \<Rightarrow> watched" where
  "example_watched d =
     \<lparr>w_GVK = Deployment_gvk, w_Namespace = d_Namespace d, w_Name = d_Name d, w_Generation = d_Generation d,
      w_Labels = d_Labels d, w_Controller = Some (fst GroupVersion, ''Workbenches'', WorkbenchesInstanceName),
      w_ConfigMap = None, w_Deployment = Some d\<rparr>"

theorem unnoticed_deployment_update_witness:
  "deploymentsAvailability (component_deployments [example_typed_deployment 1]) =
   deploymentsAvailability (component_deployments [example_typed_deployment 2])"
proof -
  obtain spec where spec: "SetupWithManager example_runtime example_watch_reconciler = Inr spec"
    using example_setup by blast
  let ?ev = "UpdateEvent (example_watched (example_typed_deployment 1)) (example_watched (example_typed_deployment 2))"
  have "\<not> deploymentAvailabilityChangedPredicate (map_watch_event as_deployment ?ev)"
    by (simp add: example_watched_def example_typed_deployment_def as_deployment_def hasComponentLabel_def
        deploymentStatusChanged_def deploymentDesiredReplicas_def get_str_def)
  then have "set (rt_Requests example_runtime spec ?ev ()) = {}"
    by (subst deployment_requests [OF example_rt spec]) (simp_all add: example_watched_def)
  then have "WorkbenchesInstanceName \<notin> set (rt_Requests example_runtime spec ?ev ())" by simp
  from unnoticed_deployment_update [OF example_rt spec this,
      of "example_typed_deployment 1" "example_typed_deployment 2" "[]" "[]"]
  show ?thesis by (simp add: example_watched_def example_typed_deployment_def)
qed

text \<open>A service account that someone edited or deleted.\<close>

definition example_account :: "int \<Rightarrow> watched" where
  "example_account gen =
     \<lparr>w_GVK = mk_gvk [] ''v1'' ''ServiceAccount'', w_Namespace = ''opendatahub'', w_Name = ''odh-notebook-controller'',
      w_Generation = gen, w_Labels = [],
      w_Controller = Some (fst GroupVersion, ''Workbenches'', WorkbenchesInstanceName),
      w_ConfigMap = None, w_Deployment = None\<rparr>"

theorem collected_drift_noticed_witness:
  "\<exists>spec. SetupWithManager example_runtime example_watch_reconciler = Inr spec
     \<and> WorkbenchesInstanceName \<in> set (rt_Requests example_runtime spec (DeleteEvent (example_account 1)) ())"
proof -
  obtain spec where spec: "SetupWithManager example_runtime example_watch_reconciler = Inr spec"
    using example_setup by blast
  have "w_GVK (last (event_objects (DeleteEvent (example_account 1)))) \<in>
      set cleanupGVKs \<union> set cleanupClusterGVKs - {WorkspaceKind_gvk} - {Deployment_gvk}"
    by (simp add: example_account_def cleanupGVKs_def WorkspaceKind_gvk_def Deployment_gvk_def)
  with collected_drift_noticed [OF example_rt spec, of "DeleteEvent (example_account 1)" "()"]
  have "owners (DeleteEvent (example_account 1)) \<subseteq>
      set (rt_Requests example_runtime spec (DeleteEvent (example_account 1)) ())" by blast
  then show ?thesis using spec by (auto simp: owners_def example_account_def)
qed

end
