(* ===== verification/Startup.thy ===== *)
theory Startup
  imports Webhook_Certificates TLS_Config Watches Notebook_Webhook HardwareProfile_Webhook
begin

text \<open>
  \<open>cmd/main.go\<close>, \<open>internal/webhook/webhook.go\<close> and the \<open>register.go\<close> of both webhooks: what the process does
  before it serves. The calls to \<open>controller-runtime\<close>'s manager are values of \<open>mgr_call\<close>; the library
  performs them through \<open>pr_call\<close>.
\<close>

record flags =
  metricsAddr :: string
  enableLeaderElection :: bool
  probeAddr :: string
  secureMetrics :: bool
  enableHTTP2 :: bool
  enableWebhooks :: bool
  manifestsBasePath :: string

text \<open>\<open>ctrl.Options\<close>: the fields that are set. A webhook server is its port and its TLS options.\<close>

record mgr_options =
  mo_MetricsBindAddress :: string
  mo_MetricsSecureServing :: bool
  mo_MetricsTLSOpts :: "(tls_config \<Rightarrow> tls_config) list"
  mo_MetricsAuthenticated :: bool
  mo_HealthProbeBindAddress :: string
  mo_LeaderElection :: bool
  mo_LeaderElectionID :: string
  mo_WebhookServer :: "(nat \<times> (tls_config \<Rightarrow> tls_config) list) option"
  mo_ConfigMapNamespaces :: "string list"

text \<open>
  The calls: a controller is completed with its specification, a handler registered under a path, a
  watcher set up with the initial profile and adherence policy.
\<close>

datatype 's mgr_call =
    is_NewManager: NewManager mgr_options
  | is_CompleteController: CompleteController "'s controller_spec"
  | is_RegisterHandler: RegisterHandler string "request \<Rightarrow> 's \<Rightarrow> response \<times> 's"
  | is_AddRunnable: AddRunnable "'s ensurer"
  | AddHealthzCheck string
  | AddReadyzCheck string
  | is_SetupWatcher: SetupWatcher TLSProfileSpec string
  | is_StartManager: StartManager

text \<open>
  The process. \<open>pr_Stat\<close> tells whether a path is a directory; \<open>pr_GetConfig\<close> and \<open>pr_NewClient\<close> are the
  errors of the REST configuration and of the bootstrap client; the environment of the certificate
  set-up is read from the state, for discovery may answer differently later. \<open>pr_Reconciler\<close>,
  \<open>pr_Notebook\<close> and \<open>pr_Injector\<close> hold the library functions of the reconciler and of the handlers; their
  other fields are set where they are constructed. The remaining fields are what the manager provides:
  reads through \<open>GetAPIReader\<close>, writes through \<open>GetClient\<close> and the decoder for its scheme.
\<close>

record 's startup =
  pr_Stat :: "string \<Rightarrow> bool res"
  pr_GetConfig :: "goerror option"
  pr_NewClient :: "goerror option"
  pr_Getenv :: "string \<Rightarrow> string"
  pr_IsDNS1123Label :: "string \<Rightarrow> string list"
  pr_Crypto :: crypto_api
  pr_Fetcher :: "'s ProfileFetcher"
  pr_TLSEnv :: "'s \<Rightarrow> tls_env"
  pr_TLSClient :: "'s tls_client"
  pr_Runtime :: "'s runtime"
  pr_Reconciler :: "'s reconciler"
  pr_Notebook :: "'s NotebookWebhook"
  pr_Injector :: "'s Injector"
  pr_MgrClient :: "'s client"
  pr_ReadSecret :: "string \<Rightarrow> string \<Rightarrow> 's \<Rightarrow> unit res \<times> 's"
  pr_ReadObject :: "gvk \<Rightarrow> string \<Rightarrow> string \<Rightarrow> 's \<Rightarrow> object res \<times> 's"
  pr_CreateReview :: "access_review \<Rightarrow> 's \<Rightarrow> bool res \<times> 's"
  pr_CreateEvent :: "warning_event \<Rightarrow> 's \<Rightarrow> unit res \<times> 's"
  pr_NewDecoder :: decoder
  pr_call :: "'s mgr_call \<Rightarrow> 's \<Rightarrow> goerror option \<times> 's"

text \<open>A sequence of calls, up to the first that fails; with the calls made.\<close>

fun do_calls :: "'s startup \<Rightarrow> 's mgr_call list \<Rightarrow> 's \<Rightarrow> ('s mgr_call list \<times> goerror option) \<times> 's" where
  "do_calls p [] s = (([], None), s)"
| "do_calls p (c # cs) s =
     (case pr_call p c s of
        (Some err, s1) \<Rightarrow> (([c], Some err), s1)
      | (None, s1) \<Rightarrow> (case do_calls p cs s1 of ((made, err), s2) \<Rightarrow> ((c # made, err), s2)))"

text \<open>The handlers, as \<open>RegisterWebhooks\<close> of either package builds them.\<close>

definition notebook_webhook :: "'s startup \<Rightarrow> 's NotebookWebhook" where
  "notebook_webhook p = (pr_Notebook p)
     \<lparr>nw_GetSecret := pr_ReadSecret p, nw_CreateReview := pr_CreateReview p, nw_Decoder := Some (pr_NewDecoder p)\<rparr>"

definition hardwareprofile_injector :: "'s startup \<Rightarrow> 's Injector" where
  "hardwareprofile_injector p = (pr_Injector p)
     \<lparr>inj_Get := pr_ReadObject p, inj_EventWriter := Some (pr_CreateEvent p), inj_Decoder := Some (pr_NewDecoder p)\<rparr>"

definition notebook_SetupWithManager :: "'s NotebookWebhook \<Rightarrow> 's mgr_call" where
  "notebook_SetupWithManager w = RegisterHandler ''/workbenches-connection-notebook'' (notebook_Handle w)"

definition hwp_SetupWithManager :: "'s Injector \<Rightarrow> 's mgr_call" where
  "hwp_SetupWithManager i = RegisterHandler ''/workbenches-hardware-profile'' (hwp_Handle i)"

text \<open>The calls of the loop over the entries; each entry registers one handler.\<close>

definition RegisterAllWebhooks :: "'s startup \<Rightarrow> 's mgr_call list" where
  "RegisterAllWebhooks p =
     [notebook_SetupWithManager (notebook_webhook p), hwp_SetupWithManager (hardwareprofile_injector p)]"

text \<open>The reconciler that \<open>main\<close> constructs.\<close>

definition main_reconciler :: "'s startup \<Rightarrow> flags \<Rightarrow> string \<Rightarrow> 's reconciler" where
  "main_reconciler p f applicationsNamespace = (pr_Reconciler p)
     \<lparr>r_Client := pr_MgrClient p, r_IsDNS1123Label := pr_IsDNS1123Label p,
      ManifestsBasePath := manifestsBasePath f, r_ApplicationsNamespace := applicationsNamespace\<rparr>"

definition registerTLSProfileWatcher :: "BootstrapResult \<Rightarrow> 's mgr_call list" where
  "registerTLSProfileWatcher tlsResult =
     (if \<not> HasOpenShiftConfigAPI tlsResult then []
      else [SetupWatcher (br_Profile tlsResult) (TLSAdherence tlsResult)])"

definition mgrOptions :: "flags \<Rightarrow> BootstrapResult \<Rightarrow> bool \<Rightarrow> string \<Rightarrow> mgr_options" where
  "mgrOptions f tlsResult webhooks applicationsNamespace =
     \<lparr>mo_MetricsBindAddress = metricsAddr f, mo_MetricsSecureServing = secureMetrics f,
      mo_MetricsTLSOpts = TLSOpts tlsResult, mo_MetricsAuthenticated = secureMetrics f,
      mo_HealthProbeBindAddress = probeAddr f, mo_LeaderElection = enableLeaderElection f,
      mo_LeaderElectionID = ''workbenches-operator.platform.opendatahub.io'',
      mo_WebhookServer = (if webhooks then Some (9443, TLSOpts tlsResult) else None),
      mo_ConfigMapNamespaces = cmNamespaces applicationsNamespace\<rparr>"

text \<open>The call that adds the ensurer to the manager.\<close>

definition addWebhookTLSEnsurer :: "tls_env \<Rightarrow> 's tls_client \<Rightarrow> 's mgr_call list res" where
  "addWebhookTLSEnsurer cfg cli =
     (case NewEnsurer cfg cli of
        Inl err \<Rightarrow> Inl err
      | Inr ensurer \<Rightarrow> Inr [AddRunnable ensurer])"

text \<open>The part of \<open>main\<close> that builds and runs the manager; the result is the exit code and the calls made.\<close>

definition run_manager ::
  "'s startup \<Rightarrow> flags \<Rightarrow> BootstrapResult \<Rightarrow> bool \<Rightarrow> 's \<Rightarrow> (nat \<times> 's mgr_call list) \<times> 's" where
  "run_manager p f tlsResult webhooks s =
     (let applicationsNamespace = resolveApplicationsNamespace (pr_IsDNS1123Label p) (pr_Getenv p)
      in case do_calls p [NewManager (mgrOptions f tlsResult webhooks applicationsNamespace)] s of
           ((made, Some err), s1) \<Rightarrow> ((1, made), s1)
         | ((made, None), s1) \<Rightarrow>
             (case SetupWithManager (pr_Runtime p) (main_reconciler p f applicationsNamespace) of
                Inl err \<Rightarrow> ((1, made), s1)
              | Inr spec \<Rightarrow>
                  (case do_calls p (CompleteController spec # (if webhooks then RegisterAllWebhooks p else [])) s1 of
                     ((made2, Some err), s2) \<Rightarrow> ((1, made @ made2), s2)
                   | ((made2, None), s2) \<Rightarrow>
                       (case (if webhooks
                              then addWebhookTLSEnsurer (pr_TLSEnv p s2) (pr_TLSClient p)
                              else Inr []) of
                          Inl err \<Rightarrow> ((1, made @ made2), s2)
                        | Inr ensurer \<Rightarrow>
                            (case do_calls p (ensurer @ [AddHealthzCheck ''healthz'', AddReadyzCheck ''readyz'']
                                    @ registerTLSProfileWatcher tlsResult @ [StartManager]) s2 of
                               ((made3, err), s3) \<Rightarrow>
                                 ((if err = None then 0 else 1, made @ made2 @ made3), s3))))))"

definition main :: "'s startup \<Rightarrow> flags \<Rightarrow> 's \<Rightarrow> (nat \<times> 's mgr_call list) \<times> 's" where
  "main p f s =
     (case pr_Stat p (manifestsBasePath f) of
        Inl err \<Rightarrow> ((1, []), s)
      | Inr isDir \<Rightarrow>
          if \<not> isDir then ((1, []), s)
          else if pr_GetConfig p \<noteq> None then ((1, []), s)
          else if pr_NewClient p \<noteq> None then ((1, []), s)
          else (case Bootstrap (pr_Crypto p) (enableHTTP2 f) (pr_Fetcher p) s of
              (Inl err, s1) \<Rightarrow> ((1, []), s1)
            | (Inr tlsResult, s1) \<Rightarrow>
                (case configureWebhookServingCerts (pr_TLSEnv p s1) (pr_TLSClient p) (enableWebhooks f) s1 of
                   (Inl err, s2) \<Rightarrow> ((1, []), s2)
                 | (Inr webhooks, s2) \<Rightarrow> run_manager p f tlsResult webhooks s2)))"

section \<open>Properties\<close>

lemma do_calls_made:
  assumes "do_calls p cs s = ((made, err), s')"
  shows "set made \<subseteq> set cs" and "err = None \<Longrightarrow> made = cs"
    and "cs = xs @ [c] \<Longrightarrow> c \<notin> set xs \<Longrightarrow> c \<in> set made \<Longrightarrow> made = cs"
proof -
  have "set made \<subseteq> set cs \<and> (err = None \<longrightarrow> made = cs)
      \<and> (\<forall>xs c. cs = xs @ [c] \<and> c \<notin> set xs \<and> c \<in> set made \<longrightarrow> made = cs)"
    using assms
  proof (induction cs arbitrary: s made)
    case (Cons d cs)
    show ?case
    proof (cases "pr_call p d s")
      case (Pair e s1)
      show ?thesis
      proof (cases e)
        case (Some err')
        with Cons.prems Pair show ?thesis by (auto simp: append_eq_Cons_conv Cons_eq_append_conv)
      next
        case None
        with Cons.prems Pair obtain made' where "do_calls p cs s1 = ((made', err), s')" "made = d # made'"
          by (auto split: prod.splits)
        with Cons.IH show ?thesis by (fastforce simp: Cons_eq_append_conv)
      qed
    qed
  qed simp
  then show "set made \<subseteq> set cs" and "err = None \<Longrightarrow> made = cs"
    and "cs = xs @ [c] \<Longrightarrow> c \<notin> set xs \<Longrightarrow> c \<in> set made \<Longrightarrow> made = cs"
    by blast+
qed

text \<open>A started manager went through every step: the calls are known.\<close>

definition first_calls :: "'s startup \<Rightarrow> flags \<Rightarrow> BootstrapResult \<Rightarrow> bool \<Rightarrow> string \<Rightarrow> 's controller_spec \<Rightarrow> 's mgr_call list" where
  "first_calls p f r webhooks apps spec =
     [NewManager (mgrOptions f r webhooks apps), CompleteController spec]
     @ (if webhooks then RegisterAllWebhooks p else [])"

definition last_calls :: "BootstrapResult \<Rightarrow> 's mgr_call list \<Rightarrow> 's mgr_call list" where
  "last_calls r ensurer = ensurer @ [AddHealthzCheck ''healthz'', AddReadyzCheck ''readyz''] @ registerTLSProfileWatcher r"

lemma not_started:
  "StartManager \<notin> set (first_calls p f r webhooks apps spec)"
  "if webhooks then \<exists>e. ensurer = [AddRunnable e] else ensurer = [] \<Longrightarrow> StartManager \<notin> set (last_calls r ensurer)"
  by (auto simp: first_calls_def last_calls_def RegisterAllWebhooks_def notebook_SetupWithManager_def
      hwp_SetupWithManager_def registerTLSProfileWatcher_def split: if_splits)

lemma run_manager_started:
  assumes "run_manager p f r webhooks s = ((code, calls), s')" and "StartManager \<in> set calls"
  defines "apps \<equiv> resolveApplicationsNamespace (pr_IsDNS1123Label p) (pr_Getenv p)"
  obtains spec ensurer where "SetupWithManager (pr_Runtime p) (main_reconciler p f apps) = Inr spec"
    and "calls = first_calls p f r webhooks apps spec @ last_calls r ensurer @ [StartManager]"
    and "if webhooks then \<exists>e. ensurer = [AddRunnable e] else ensurer = []"
proof -
  let ?new = "NewManager (mgrOptions f r webhooks apps)"
  obtain made err s1 where c1: "do_calls p [?new] s = ((made, err), s1)" by (metis prod.collapse)
  have "set made \<subseteq> {?new}" using do_calls_made(1) [OF c1] by simp
  then have n1: "StartManager \<notin> set made" by auto
  with assms(1,2) c1 have "err = None"
    by (cases err) (auto simp: run_manager_def apps_def [symmetric] Let_def simp del: do_calls.simps)
  then have made: "made = [?new]" using do_calls_made(2) [OF c1] by simp
  obtain spec where spec: "SetupWithManager (pr_Runtime p) (main_reconciler p f apps) = Inr spec"
    using assms(1,2) c1 \<open>err = None\<close> n1
    by (cases "SetupWithManager (pr_Runtime p) (main_reconciler p f apps)")
      (auto simp: run_manager_def apps_def [symmetric] Let_def simp del: do_calls.simps)
  let ?reg = "CompleteController spec # (if webhooks then RegisterAllWebhooks p else [])"
  obtain made2 err2 s2 where c2: "do_calls p ?reg s1 = ((made2, err2), s2)" by (metis prod.collapse)
  have "StartManager \<notin> set ?reg" using not_started(1) [of p f r webhooks apps spec] by (simp add: first_calls_def)
  then have n2: "StartManager \<notin> set made2" using do_calls_made(1) [OF c2] by blast
  have "err2 = None"
    using assms(1,2) c1 c2 \<open>err = None\<close> spec n1 n2
    by (cases err2) (auto simp: run_manager_def apps_def [symmetric] Let_def simp del: do_calls.simps)
  then have made2: "made2 = ?reg" using do_calls_made(2) [OF c2] by simp
  from assms(1,2) c1 c2 \<open>err = None\<close> \<open>err2 = None\<close> spec n1 n2 obtain ensurer made3 err3 s3 where
    ens: "(if webhooks then addWebhookTLSEnsurer (pr_TLSEnv p s2) (pr_TLSClient p) else Inr [])
      = Inr ensurer"
    and c3: "do_calls p (ensurer @ [AddHealthzCheck ''healthz'', AddReadyzCheck ''readyz'']
        @ registerTLSProfileWatcher r @ [StartManager]) s2 = ((made3, err3), s3)"
    and calls: "calls = made @ made2 @ made3"
    by (auto simp: run_manager_def apps_def [symmetric] Let_def simp del: do_calls.simps split: sum.splits prod.splits)
  have shape: "if webhooks then \<exists>e. ensurer = [AddRunnable e] else ensurer = []"
    using ens by (auto simp: addWebhookTLSEnsurer_def split: if_splits sum.splits)
  have c3': "do_calls p (last_calls r ensurer @ [StartManager]) s2 = ((made3, err3), s3)"
    using c3 by (simp add: last_calls_def)
  have "made3 = last_calls r ensurer @ [StartManager]"
    using do_calls_made(3) [OF c3' refl not_started(2) [OF shape]] calls n1 n2 assms(2) by simp
  with made made2 calls shape spec that show thesis by (simp add: first_calls_def)
qed

text \<open>What the calls of a started process register.\<close>

lemma started_calls:
  assumes "calls = first_calls p f r webhooks apps spec @ last_calls r ensurer @ [StartManager]"
    and "if webhooks then \<exists>e. ensurer = [AddRunnable e] else ensurer = []"
  shows "CompleteController spec' \<in> set calls \<longleftrightarrow> spec' = spec"
    and "RegisterHandler path h \<in> set calls \<longleftrightarrow>
      webhooks \<and> (path = ''/workbenches-connection-notebook'' \<and> h = notebook_Handle (notebook_webhook p)
                \<or> path = ''/workbenches-hardware-profile'' \<and> h = hwp_Handle (hardwareprofile_injector p))"
    and "(\<exists>e. AddRunnable e \<in> set calls) \<longleftrightarrow> webhooks"
    and "(\<exists>profile policy. SetupWatcher profile policy \<in> set calls) \<longleftrightarrow> HasOpenShiftConfigAPI r"
  using assms
  by (auto simp: first_calls_def last_calls_def RegisterAllWebhooks_def notebook_SetupWithManager_def
      hwp_SetupWithManager_def registerTLSProfileWatcher_def split: if_splits)

lemma configured_webhooks:
  assumes "configureWebhookServingCerts env c enabled s1 = (Inr webhooks, s2)"
  shows "enabled \<and> \<not> webhooks \<longrightarrow> (\<exists>groups. env_ServerGroups env = (Some groups, None)
      \<and> set groups \<inter> {openShiftRouteGroup, openShiftSecurityGroup, certManagerGroup} = {})"
    and "webhooks \<longrightarrow> enabled \<and> (\<exists>groups err names. env_ServerGroups env = (Some groups, err)
      \<and> DefaultNames env = Inr names
      \<and> set groups \<inter> {openShiftRouteGroup, openShiftSecurityGroup, certManagerGroup} \<noteq> {}
      \<and> Ensure c (if set groups \<inter> {openShiftRouteGroup, openShiftSecurityGroup} \<noteq> {}
           then ProviderOpenShift else ProviderCertManager) names s1 = (None, s2))"
proof -
  have asked: "enabled" if webhooks
    using assms that by (auto simp: configureWebhookServingCerts_def split: if_splits)
  note verdict = serving_certs_verdict [of env c s1 s2]
  show "enabled \<and> \<not> webhooks \<longrightarrow> (\<exists>groups. env_ServerGroups env = (Some groups, None)
      \<and> set groups \<inter> {openShiftRouteGroup, openShiftSecurityGroup, certManagerGroup} = {})"
    using assms verdict by (cases enabled; cases webhooks) simp_all
  show "webhooks \<longrightarrow> enabled \<and> (\<exists>groups err names. env_ServerGroups env = (Some groups, err)
      \<and> DefaultNames env = Inr names
      \<and> set groups \<inter> {openShiftRouteGroup, openShiftSecurityGroup, certManagerGroup} \<noteq> {}
      \<and> Ensure c (if set groups \<inter> {openShiftRouteGroup, openShiftSecurityGroup} \<noteq> {}
           then ProviderOpenShift else ProviderCertManager) names s1 = (None, s2))"
    using assms verdict asked by (cases webhooks) simp_all
qed

text \<open>
  C22: The process serves only in a known posture. When \<open>main\<close> starts the manager, the manifests are a
  directory, the TLS bootstrap succeeded and its options are those of the metrics and of the webhook
  server, and secure metrics are authenticated; the controller was completed with the watches of the
  reconciler, and the cache holds the ConfigMaps of exactly the namespaces that these watches accept, among
  them the operand namespace of every platform; the webhook server, both handlers, each complete with its
  decoder, and the certificate ensurer are there together or not at all, exactly when the certificate
  set-up enabled webhooks; it did so only if they were requested and set up the preferred provider among
  the discovered groups, and switched them off only after a complete discovery without a provider; the
  TLS profile is watched exactly where its API exists.
\<close>

theorem startup_known_posture:
  assumes "main p f s = ((code, calls), s')" and "StartManager \<in> set calls"
  shows "\<exists>r s1 webhooks s2 opts apps spec. pr_Stat p (manifestsBasePath f) = Inr True
    \<and> Bootstrap (pr_Crypto p) (enableHTTP2 f) (pr_Fetcher p) s = (Inr r, s1)
    \<and> configureWebhookServingCerts (pr_TLSEnv p s1) (pr_TLSClient p) (enableWebhooks f) s1 = (Inr webhooks, s2)
    \<and> hd calls = NewManager opts \<and> mo_MetricsTLSOpts opts = TLSOpts r
    \<and> mo_WebhookServer opts = (if webhooks then Some (9443, TLSOpts r) else None)
    \<and> (mo_MetricsSecureServing opts \<longrightarrow> mo_MetricsAuthenticated opts)
    \<and> SetupWithManager (pr_Runtime p) (main_reconciler p f apps) = Inr spec
    \<and> (\<forall>spec'. CompleteController spec' \<in> set calls \<longleftrightarrow> spec' = spec)
    \<and> set (mo_ConfigMapNamespaces opts) = set (platformConfigWatchNamespaces (pr_IsDNS1123Label p) apps)
    \<and> (\<forall>platform. r_resolveOperandNamespace (main_reconciler p f apps) platform \<in> set (mo_ConfigMapNamespaces opts))
    \<and> (\<forall>path h. RegisterHandler path h \<in> set calls \<longleftrightarrow>
         webhooks \<and> (path = ''/workbenches-connection-notebook'' \<and> h = notebook_Handle (notebook_webhook p)
                   \<or> path = ''/workbenches-hardware-profile'' \<and> h = hwp_Handle (hardwareprofile_injector p)))
    \<and> nw_Decoder (notebook_webhook p) \<noteq> None \<and> inj_Decoder (hardwareprofile_injector p) \<noteq> None
    \<and> ((\<exists>e. AddRunnable e \<in> set calls) \<longleftrightarrow> webhooks)
    \<and> ((\<exists>profile policy. SetupWatcher profile policy \<in> set calls) \<longleftrightarrow> HasOpenShiftConfigAPI r)
    \<and> (enableWebhooks f \<and> \<not> webhooks \<longrightarrow> (\<exists>groups. env_ServerGroups (pr_TLSEnv p s1) = (Some groups, None)
         \<and> set groups \<inter> {openShiftRouteGroup, openShiftSecurityGroup, certManagerGroup} = {}))
    \<and> (webhooks \<longrightarrow> enableWebhooks f
         \<and> (\<exists>groups err names. env_ServerGroups (pr_TLSEnv p s1) = (Some groups, err)
              \<and> DefaultNames (pr_TLSEnv p s1) = Inr names
              \<and> set groups \<inter> {openShiftRouteGroup, openShiftSecurityGroup, certManagerGroup} \<noteq> {}
              \<and> Ensure (pr_TLSClient p) (if set groups \<inter> {openShiftRouteGroup, openShiftSecurityGroup} \<noteq> {}
                   then ProviderOpenShift else ProviderCertManager) names s1 = (None, s2)))"
proof -
  let ?apps = "resolveApplicationsNamespace (pr_IsDNS1123Label p) (pr_Getenv p)"
  obtain r s1 webhooks s2 where
    st: "pr_Stat p (manifestsBasePath f) = Inr True"
    and boot: "Bootstrap (pr_Crypto p) (enableHTTP2 f) (pr_Fetcher p) s = (Inr r, s1)"
    and certs: "configureWebhookServingCerts (pr_TLSEnv p s1) (pr_TLSClient p) (enableWebhooks f) s1 = (Inr webhooks, s2)"
    and run: "run_manager p f r webhooks s2 = ((code, calls), s')"
    using assms by (auto simp: main_def split: sum.splits prod.splits if_splits)
  obtain spec ensurer where watches: "SetupWithManager (pr_Runtime p) (main_reconciler p f ?apps) = Inr spec"
    and calls: "calls = first_calls p f r webhooks ?apps spec @ last_calls r ensurer @ [StartManager]"
    and ens: "if webhooks then \<exists>e. ensurer = [AddRunnable e] else ensurer = []"
    using run assms(2) by (rule run_manager_started)
  have first: "hd calls = NewManager (mgrOptions f r webhooks ?apps)" by (simp add: calls first_calls_def)
  have opts: "mo_MetricsTLSOpts (mgrOptions f r webhooks ?apps) = TLSOpts r"
    "mo_WebhookServer (mgrOptions f r webhooks ?apps) = (if webhooks then Some (9443, TLSOpts r) else None)"
    "mo_MetricsSecureServing (mgrOptions f r webhooks ?apps) \<longrightarrow> mo_MetricsAuthenticated (mgrOptions f r webhooks ?apps)"
    by (simp_all add: mgrOptions_def)
  have cache: "set (mo_ConfigMapNamespaces (mgrOptions f r webhooks ?apps))
      = set (platformConfigWatchNamespaces (pr_IsDNS1123Label p) ?apps)"
    "r_resolveOperandNamespace (main_reconciler p f ?apps) platform
      \<in> set (mo_ConfigMapNamespaces (mgrOptions f r webhooks ?apps))" for platform
    using operand_namespace_coherent [of "pr_IsDNS1123Label p" "pr_Getenv p" platform]
    by (simp_all add: mgrOptions_def main_reconciler_def)
  have decoders: "nw_Decoder (notebook_webhook p) \<noteq> None" "inj_Decoder (hardwareprofile_injector p) \<noteq> None"
    by (simp_all add: notebook_webhook_def hardwareprofile_injector_def)
  show ?thesis
    by (intro exI conjI allI)
      (rule st boot certs first opts watches cache decoders started_calls [OF calls ens] configured_webhooks [OF certs])+
qed

section \<open>A run\<close>

definition example_admission :: admission_api where
  "example_admission = \<lparr>json_Marshal = (\<lambda>_. Inr ''patched''), json_Unmarshal = (\<lambda>_. Inr []),
     DeletionTimestampIsZero = (\<lambda>_. True), GetUID = (\<lambda>_. [])\<rparr>"

definition example_handlers :: "tls_store NotebookWebhook \<times> tls_store Injector" where
  "example_handlers =
     (\<lparr>nw_GetSecret = (\<lambda>_ _ s. (Inl missing, s)), nw_CreateReview = (\<lambda>_ s. (Inr False, s)), nw_Decoder = None,
       nw_Unstructured = documented_unstructured, nw_Admission = example_admission\<rparr>,
      \<lparr>inj_Get = (\<lambda>_ _ _ s. (Inl missing, s)), inj_EventWriter = None, inj_Decoder = None,
       inj_Unstructured = documented_unstructured, inj_Admission = example_admission,
       inj_IsDNS1123Subdomain = (\<lambda>_. []), inj_IsValidLabelValue = (\<lambda>_. []),
       inj_ParseQuantity = Inr, inj_NewQuantity = int_str, inj_FormatFloat = (\<lambda>_. []),
       inj_FloatText = (\<lambda>_. []), inj_Now = (\<lambda>_. [])\<rparr>)"

definition example_process :: "tls_store startup" where
  "example_process =
     \<lparr>pr_Stat = (\<lambda>_. Inr True), pr_GetConfig = None, pr_NewClient = None, pr_Getenv = (\<lambda>_. []),
      pr_IsDNS1123Label = (\<lambda>_. []), pr_Crypto = example_crypto,
      pr_Fetcher = \<lparr>FetchTLSProfile = (\<lambda>s. (Inl (ApiErr NoMatch ''no API''), s)),
        FetchTLSAdherencePolicy = (\<lambda>s. (Inr [], s)), NewTLSConfigFromProfile = (\<lambda>_. (\<lambda>c. c, []))\<rparr>,
      pr_TLSEnv = (\<lambda>_. example_tls_env), pr_TLSClient = store_tls,
      pr_Runtime = documented_runtime (\<lambda>_. Inl (ApiErr NoMatch ''no API'')),
      pr_Reconciler = empty_reconciler, pr_Notebook = fst example_handlers, pr_Injector = snd example_handlers,
      pr_MgrClient = empty_client, pr_ReadSecret = (\<lambda>_ _ s. (Inr (), s)), pr_ReadObject = (\<lambda>_ _ _ s. (Inl missing, s)),
      pr_CreateReview = (\<lambda>_ s. (Inr True, s)), pr_CreateEvent = (\<lambda>_ s. (Inr (), s)),
      pr_NewDecoder = \<lparr>Decode = (\<lambda>_. Inr []), DecodeRaw = (\<lambda>_. Inr [])\<rparr>, pr_call = (\<lambda>_ s. (None, s))\<rparr>"

definition example_flags :: flags where
  "example_flags =
     \<lparr>metricsAddr = ''0'', enableLeaderElection = False, probeAddr = '':8081'', secureMetrics = True,
      enableHTTP2 = False, enableWebhooks = True, manifestsBasePath = ''/opt/manifests''\<rparr>"

lemma example_start:
  "fst (fst (main example_process example_flags example_tls_store)) = 0
   \<and> list_ex is_StartManager (snd (fst (main example_process example_flags example_tls_store)))"
  by code_simp

theorem startup_known_posture_witness:
  "\<exists>calls. snd (fst (main example_process example_flags example_tls_store)) = calls
     \<and> RegisterHandler ''/workbenches-hardware-profile'' (hwp_Handle (hardwareprofile_injector example_process)) \<in> set calls
     \<and> (\<exists>spec. CompleteController spec \<in> set calls) \<and> (\<exists>e. AddRunnable e \<in> set calls)"
proof -
  obtain code calls s' where run: "main example_process example_flags example_tls_store = ((code, calls), s')"
    by (metis prod.collapse)
  with example_start have "StartManager \<in> set calls" by (auto simp: list_ex_iff is_StartManager_def)
  from startup_known_posture [OF run this] obtain r s1 webhooks s2 spec where
    b: "Bootstrap (pr_Crypto example_process) (enableHTTP2 example_flags) (pr_Fetcher example_process) example_tls_store
      = (Inr r, s1)"
    and certs: "configureWebhookServingCerts (pr_TLSEnv example_process s1) (pr_TLSClient example_process)
      (enableWebhooks example_flags) s1 = (Inr webhooks, s2)"
    and controller: "\<forall>spec'. CompleteController spec' \<in> set calls \<longleftrightarrow> spec' = spec"
    and handlers: "\<forall>path h. RegisterHandler path h \<in> set calls \<longleftrightarrow>
         webhooks \<and> (path = ''/workbenches-connection-notebook'' \<and> h = notebook_Handle (notebook_webhook example_process)
                   \<or> path = ''/workbenches-hardware-profile'' \<and> h = hwp_Handle (hardwareprofile_injector example_process))"
      "(\<exists>e. AddRunnable e \<in> set calls) \<longleftrightarrow> webhooks"
    by (elim exE conjE) (rule that)
  have "s1 = example_tls_store"
    using b by (auto simp: Bootstrap_def fetch_adherence_def example_process_def Let_def)
  with certs example_configure have webhooks by (simp add: example_process_def example_flags_def)
  with handlers controller run show ?thesis by simp
qed

end
