(* ===== verification/Webhook_Chain.thy ===== *)
theory Webhook_Chain
  imports Notebook_Injection HardwareProfile_Injection Startup
begin

text \<open>
  The two webhooks one after the other. Both are entries of one webhook configuration, hardware profiles
  first, so that the API server hands the Notebook with the first patch to the connection webhook. The
  locale \<open>notebook_admission\<close> says what the two handlers share; the handlers that \<open>RegisterAllWebhooks\<close>
  builds from one manager satisfy it.
\<close>

section \<open>Connection injection as a step on containers\<close>

text \<open>
  The step changes \<open>envFrom\<close> of the first container at most; \<open>first_env\<close> is the environment it leaves
  there.
\<close>

definition first_env :: "object \<Rightarrow> json list option" where
  "first_env nb = (case containers_of nb of JObj c # cs \<Rightarrow> env_from c | _ \<Rightarrow> None)"

definition connection_frame :: "object \<Rightarrow> object \<Rightarrow> bool" where
  "connection_frame nb nb' \<longleftrightarrow>
     (\<exists>c c' cs. containers_of nb = JObj c # cs \<and> containers_of nb' = JObj c' # cs
        \<and> (\<forall>k. k \<noteq> ''envFrom'' \<longrightarrow> map_of c' k = map_of c k))
     \<and> (\<forall>gs. apart notebookContainersPath gs \<longrightarrow> nested_field (JObj nb') gs = nested_field (JObj nb) gs)"

lemma paths_agree: "NotebookContainersPath = notebookContainersPath"
  by (simp add: NotebookContainersPath_def notebook_paths)

lemma containers_found:
  "containers_of nb = c # cs \<longleftrightarrow> nested_as as_arr nb notebookContainersPath = Inr (Some (c # cs))"
  by (auto simp: containers_of_def found_list_def found_or_none_def split: sum.splits option.splits)

lemma env_from_update: "env_from (AList.update ''envFrom'' (env_json es) c) = es"
  by (simp add: env_from_def env_json_def split: option.split)

context unstructured
begin

lemma injection_done:
  assumes "containers_of nb = JObj c # cs"
  obtains nb' where "performConnectionInjection U nb refs = Inr nb'" and "connection_frame nb nb'"
    and "first_env nb' = fold handleConnectionSecret refs (env_from c)"
proof -
  let ?es = "fold handleConnectionSecret refs (env_from c)"
  let ?c = "AList.update ''envFrom'' (env_json ?es) c"
  have found: "nested_as as_arr nb notebookContainersPath = Inr (Some (JObj c # cs))"
    using assms by (simp add: containers_found)
  then obtain nb' where st: "set_nested nb (JArr (JObj ?c # cs)) notebookContainersPath = Inr nb'"
    using set_nested_existing [of notebookContainersPath nb] by (auto simp: nested_as_found)
  then have at: "containers_of nb' = JObj ?c # cs"
    using nested_as_set_same [OF st, of as_arr] by (simp add: containers_found)
  have "performConnectionInjection U nb refs = Inr nb'"
    using found st by (simp add: performConnectionInjection_def paths_agree api Let_def)
  moreover have "connection_frame nb nb'"
    using assms at nested_set_apart [OF st] by (simp add: connection_frame_def)
  moreover have "first_env nb' = ?es" by (simp add: first_env_def at env_from_update)
  ultimately show ?thesis by (rule that)
qed

lemma injection_refused:
  assumes "\<nexists>c cs. containers_of nb = JObj c # cs"
  obtains err where "performConnectionInjection U nb refs = Inl err"
proof -
  have "nested_as as_arr nb notebookContainersPath = Inr (Some (x # xs)) \<Longrightarrow> as_obj x = None" for x xs
    using assms by (cases x) (auto simp: containers_found)
  then have "\<exists>err. performConnectionInjection U nb refs = Inl err"
    by (auto simp: performConnectionInjection_def paths_agree api split: sum.split option.split list.split)
  with that show ?thesis by blast
qed

end

text \<open>A profile changes nothing that connection injection reads.\<close>

lemma only_resources_env:
  "only_resources (JObj c) x \<Longrightarrow> \<exists>c'. x = JObj c' \<and> env_from c' = env_from c"
  by (auto simp: only_resources_def env_from_def)

lemma only_resources_other: "only_resources x (JObj c') \<Longrightarrow> \<exists>c. x = JObj c"
  by (auto simp: only_resources_def)

lemma main_touched_head:
  assumes "main_touched n (x # xs) ys"
  obtains y zs where "ys = y # zs" and "only_resources x y"
  using assms by (cases ys) (force simp: main_touched_def split: if_splits)+

lemma frame_containers:
  assumes "hwp_frame nb nb'"
  shows "(\<exists>c cs. containers_of nb' = JObj c # cs) \<longleftrightarrow> (\<exists>c cs. containers_of nb = JObj c # cs)"
    and "containers_of nb = JObj c # cs \<Longrightarrow> containers_of nb' = JObj c' # cs' \<Longrightarrow> env_from c' = env_from c"
proof -
  have touched: "main_touched (notebook_name nb) (containers_of nb) (containers_of nb')"
    using assms by (simp add: hwp_frame_def)
  show "(\<exists>c cs. containers_of nb' = JObj c # cs) \<longleftrightarrow> (\<exists>c cs. containers_of nb = JObj c # cs)"
  proof (cases "containers_of nb")
    case Nil
    with touched show ?thesis by (simp add: main_touched_def)
  next
    case (Cons x xs)
    with touched obtain y ys where "containers_of nb' = y # ys" "only_resources x y"
      by (metis main_touched_head)
    with Cons show ?thesis using only_resources_env only_resources_other by (metis list.inject)
  qed
  show "env_from c' = env_from c" if "containers_of nb = JObj c # cs" "containers_of nb' = JObj c' # cs'"
    using that touched only_resources_env by (metis main_touched_head list.inject json.inject(6))
qed

section \<open>The two handlers of one manager\<close>

locale notebook_admission = unstructured U for U +
  fixes A :: admission_api and D :: decoder and i :: "'s Injector" and w :: "'t NotebookWebhook"
  assumes injector: "inj_Unstructured i = U" "inj_Admission i = A" "inj_Decoder i = Some D"
    and webhook: "nw_Unstructured w = U" "nw_Admission w = A" "nw_Decoder w = Some D"
    and deletion: "nested_field (JObj nb) [''metadata'', ''deletionTimestamp''] =
        nested_field (JObj nb') [''metadata'', ''deletionTimestamp''] \<Longrightarrow>
      DeletionTimestampIsZero A nb = DeletionTimestampIsZero A nb'"

text \<open>The response with a changed Notebook.\<close>

definition marshalled :: "admission_api \<Rightarrow> string \<Rightarrow> object \<Rightarrow> response" where
  "marshalled A raw nb =
     (case json_Marshal A nb of
        Inl err \<Rightarrow> Errored StatusInternalServerError err
      | Inr out \<Rightarrow> PatchResponseFromRaw raw out [])"

text \<open>
  Two responses of the connection webhook, to a Notebook and to the one with a profile: the same one, an
  error in both cases, or the same environment.
\<close>

definition same_verdict :: "admission_api \<Rightarrow> string \<Rightarrow> string \<Rightarrow> object \<Rightarrow> object \<Rightarrow> response \<Rightarrow> response \<Rightarrow> bool" where
  "same_verdict A raw raw' nb nb' resp resp' \<longleftrightarrow>
     resp' = resp \<and> \<not> is_Patch resp
     \<or> (\<exists>e e'. resp = Errored StatusInternalServerError e \<and> resp' = Errored StatusInternalServerError e')
     \<or> (\<exists>obj obj'. resp = marshalled A raw obj \<and> resp' = marshalled A raw' obj' \<and> first_env obj' = first_env obj
          \<and> connection_frame nb obj \<and> connection_frame nb' obj')"

context notebook_admission
begin

lemma decode_only:
  "checkSecretsExistsAndUserHasPermissions w (req\<lparr>req_Object := raw\<rparr>) = checkSecretsExistsAndUserHasPermissions w req"
proof -
  have "checkSecretExists w (req\<lparr>req_Object := raw\<rparr>) rs s = checkSecretExists w req rs s" for rs s
    by (induction rs arbitrary: s) (simp_all split: prod.split sum.split)
  moreover have "checkUserHasPermission w (req\<lparr>req_Object := raw\<rparr>) rs s = checkUserHasPermission w req rs s" for rs s
    by (induction rs arbitrary: s) (simp_all add: review_for_def split: prod.split sum.split)
  ultimately show ?thesis
    by (simp add: fun_eq_iff checkSecretsExistsAndUserHasPermissions_def split: prod.split sum.split)
qed

lemma framed_validation:
  assumes "hwp_frame nb nb'"
  shows "validateNotebookConnectionAnnotation w D nb' (req\<lparr>req_Object := raw\<rparr>) s =
    validateNotebookConnectionAnnotation w D nb req s"
proof -
  have "getAnnotation U nb' ConnectionAnnotation = getAnnotation U nb ConnectionAnnotation"
    using assms unfolding getAnnotation_eq
    by (simp add: hwp_frame_def ConnectionAnnotation_def HardwareProfileNamespaceAnnotation_def)
  moreover have refs: "getNotebookSecretRefs w D (req\<lparr>req_Object := raw\<rparr>) = getNotebookSecretRefs w D req"
    by (simp add: fun_eq_iff getNotebookSecretRefs_def getOldConnectionSecrets_def)
  ultimately show ?thesis
    unfolding validateNotebookConnectionAnnotation_def webhook decode_only refs by simp
qed

lemma framed_injection:
  assumes "hwp_frame nb nb'"
  shows "(\<exists>e e'. performConnectionInjection U nb refs = Inl e \<and> performConnectionInjection U nb' refs = Inl e')
    \<or> (\<exists>obj obj'. performConnectionInjection U nb refs = Inr obj \<and> performConnectionInjection U nb' refs = Inr obj'
        \<and> first_env obj' = first_env obj \<and> connection_frame nb obj \<and> connection_frame nb' obj')"
proof (cases "\<exists>c cs. containers_of nb = JObj c # cs")
  case True
  then obtain c cs c' cs' where c: "containers_of nb = JObj c # cs" "containers_of nb' = JObj c' # cs'"
    using frame_containers(1) [OF assms] by blast
  obtain obj where "performConnectionInjection U nb refs = Inr obj" "connection_frame nb obj"
    "first_env obj = fold handleConnectionSecret refs (env_from c)"
    using injection_done [OF c(1)] .
  moreover obtain obj' where "performConnectionInjection U nb' refs = Inr obj'" "connection_frame nb' obj'"
    "first_env obj' = fold handleConnectionSecret refs (env_from c')"
    using injection_done [OF c(2)] .
  ultimately show ?thesis using frame_containers(2) [OF assms c] by auto
next
  case False
  then show ?thesis using frame_containers(1) [OF assms] injection_refused by metis
qed

lemma handle_decoded:
  assumes "Decode D req = Inr nb"
    and "validateNotebookConnectionAnnotation w D nb req t = ((resp, inject, refs), t')"
  shows "notebook_Handle w req t =
    (if req_Operation req \<noteq> op_Create \<and> req_Operation req \<noteq> op_Update
     then (Allowed (''Operation '' @ req_Operation req @ '' on '' @ req_Kind req @ '' allowed'') [], t)
     else if \<not> DeletionTimestampIsZero A nb
     then (Allowed ''Object marked for deletion, skipping connection logic'' [], t)
     else (if \<not> is_Allowed resp then resp
       else if \<not> inject \<or> refs = []
       then Allowed (''Connection annotation validation passed in namespace '' @
              req_Namespace req @ '' for '' @ req_Kind req @ '', no injection needed'') []
       else case_sum (Errored StatusInternalServerError) (marshalled A (req_Object req))
              (performConnectionInjection U nb refs), t'))"
  using assms by (simp add: notebook_Handle_def admit_object_def webhook marshalled_def split: sum.split)

lemma chained_verdict:
  assumes "hwp_frame nb nb'" and "Decode D req = Inr nb" and "Decode D (req\<lparr>req_Object := raw\<rparr>) = Inr nb'"
  shows "snd (notebook_Handle w (req\<lparr>req_Object := raw\<rparr>) t) = snd (notebook_Handle w req t)"
    and "same_verdict A (req_Object req) raw nb nb'
      (fst (notebook_Handle w req t)) (fst (notebook_Handle w (req\<lparr>req_Object := raw\<rparr>) t))"
proof -
  have "off_path [''metadata'', ''deletionTimestamp'']" by (simp add: path_defs)
  with assms(1) have zero: "DeletionTimestampIsZero A nb' = DeletionTimestampIsZero A nb"
    by (intro deletion) (simp add: hwp_frame_def del: nested_field.simps)
  obtain resp inject refs t' where
    v: "validateNotebookConnectionAnnotation w D nb req t = ((resp, inject, refs), t')" by (metis prod.exhaust)
  note alone = handle_decoded [OF assms(2) v]
  note chained = handle_decoded [OF assms(3) v [folded framed_validation [OF assms(1), where raw = raw]], unfolded zero]
  show "snd (notebook_Handle w (req\<lparr>req_Object := raw\<rparr>) t) = snd (notebook_Handle w req t)"
    by (simp add: alone chained)
  have "\<not> is_Patch resp"
    using v by (auto simp: validateNotebookConnectionAnnotation_def Let_def split: if_splits sum.splits prod.splits)
  then show "same_verdict A (req_Object req) raw nb nb'
      (fst (notebook_Handle w req t)) (fst (notebook_Handle w (req\<lparr>req_Object := raw\<rparr>) t))"
    using framed_injection [OF assms(1), of refs]
    unfolding alone chained same_verdict_def by (elim disjE exE conjE) auto
qed

end

section \<open>The handlers of a process\<close>

text \<open>
  A Notebook with a profile and a connection, and a process whose manager reads both. The codec tells
  the Notebook with the profile from every other object.
\<close>

definition chain_notebook :: object where
  "chain_notebook =
     [(''metadata'', JObj [(''name'', JStr ''nb''), (''namespace'', JStr ''ns''),
         (''annotations'', JObj [(HardwareProfileNameAnnotation, JStr ''gpu''),
            (HardwareProfileNamespaceAnnotation, JStr ''ns''), (ConnectionAnnotation, JStr ''ns/db'')])]),
      (''spec'', JObj [(''template'', JObj [(''spec'', JObj
         [(''containers'', JArr [JObj [(''name'', JStr ''nb'')]])])])])]"

definition chain_profiled :: object where
  "chain_profiled = fst (projr (fst (applyHardwareProfileToNotebook example_injector chain_notebook
     example_profile False True ())))"

definition chain_admission :: admission_api where
  "chain_admission = example_admission
     \<lparr>json_Marshal := (\<lambda>obj. Inr (if obj = chain_profiled then ''profiled'' else ''connected''))\<rparr>"

definition chain_decoder :: decoder where
  "chain_decoder =
     \<lparr>Decode = (\<lambda>req. Inr (if req_Object req = ''profiled'' then chain_profiled else chain_notebook)),
      DecodeRaw = (\<lambda>_. Inr [])\<rparr>"

definition chain_process :: "tls_store startup" where
  "chain_process = example_process
     \<lparr>pr_Notebook := (fst example_handlers)\<lparr>nw_Admission := chain_admission\<rparr>,
      pr_Injector := (snd example_handlers)\<lparr>inj_Admission := chain_admission\<rparr>,
      pr_ReadObject := (\<lambda>_ _ _ s. (Inr example_profile, s)), pr_NewDecoder := chain_decoder\<rparr>"

lemmas chain_defs = chain_process_def example_process_def example_handlers_def chain_admission_def
  example_admission_def

interpretation chain: notebook_admission documented_unstructured chain_admission chain_decoder
  "hardwareprofile_injector chain_process" "notebook_webhook chain_process"
  by unfold_locales (simp_all add: hardwareprofile_injector_def notebook_webhook_def chain_defs)

section \<open>Properties\<close>

text \<open>
  C19: The webhooks do not interfere. When the hardware profile webhook patches a Notebook and the API
  server passes the patched Notebook to the connection webhook, which decodes what the first one
  marshalled, then the connection webhook makes the same calls with the same verdict as for the
  Notebook of the user: it allows, denies or fails alike, and where it injects, the environment of the
  first container is the one it would have had without a profile, while every other field of that
  container, every other container and everything else stays as the profile left it.
\<close>

theorem webhooks_compose:
  assumes "notebook_admission U A D i w" and "hwp_Handle i req s = (PatchResponseFromRaw raw out ws, s')"
    and "\<And>nb. json_Marshal A nb = Inr out \<Longrightarrow> Decode D (req\<lparr>req_Object := out\<rparr>) = Inr nb"
  shows "\<exists>nb nb'. Decode D req = Inr nb \<and> Decode D (req\<lparr>req_Object := out\<rparr>) = Inr nb' \<and> hwp_frame nb nb'
    \<and> same_verdict A (req_Object req) out nb nb'
        (fst (notebook_Handle w req t)) (fst (notebook_Handle w (req\<lparr>req_Object := out\<rparr>) t))
    \<and> snd (notebook_Handle w (req\<lparr>req_Object := out\<rparr>) t) = snd (notebook_Handle w req t)"
proof -
  note adm = assms(1)
  then have "unstructured U" by (rule notebook_admission.axioms)
  then obtain D' nb nb' where "inj_Decoder i = Some D'" "Decode D' req = Inr nb"
    "json_Marshal (inj_Admission i) nb' = Inr out" and frame: "hwp_frame nb nb'"
    using notebook_admission.injector(1) [OF adm] unstructured.handle_patch [OF _ assms(2)] by metis
  then have "Decode D req = Inr nb" "Decode D (req\<lparr>req_Object := out\<rparr>) = Inr nb'"
    using assms(3) notebook_admission.injector(2,3) [OF adm] by auto
  with frame notebook_admission.chained_verdict [OF adm frame] show ?thesis by blast
qed

lemma chain_profile_step:
  "hwp_Handle (hardwareprofile_injector chain_process) example_request example_tls_store =
     (PatchResponseFromRaw ''{}'' ''profiled'' [], example_tls_store)"
  by code_simp

lemma chain_connection_step:
  "is_Patch (fst (notebook_Handle (notebook_webhook chain_process) example_request example_tls_store))"
  by code_simp

theorem webhooks_compose_witness:
  "\<exists>obj. fst (notebook_Handle (notebook_webhook chain_process) (example_request\<lparr>req_Object := ''profiled''\<rparr>)
       example_tls_store) = marshalled chain_admission ''profiled'' obj \<and> connection_frame chain_profiled obj"
proof -
  let ?req = "example_request\<lparr>req_Object := ''profiled''\<rparr>"
  have dec: "Decode chain_decoder ?req = Inr chain_profiled" by (simp add: chain_decoder_def)
  have codec: "Decode chain_decoder ?req = Inr nb" if "json_Marshal chain_admission nb = Inr ''profiled''" for nb
    using that dec by (simp add: chain_admission_def split: if_splits)
  from webhooks_compose [OF chain.notebook_admission_axioms chain_profile_step codec, of example_tls_store] dec
  show ?thesis
    using chain_connection_step by (auto simp: same_verdict_def)
qed

end
