(* ===== verification/Log_Text.thy ===== *)
theory Log_Text
  imports Platform_Config
begin

text \<open>
  \<open>truncateForLog\<close> of \<open>internal/platformconfig/config.go\<close>, which shortens text of a user for the
  log, over Go's conversions between strings and runes. Decoding what was encoded gives the runes back, so
  the text is cut between runes and never inside one.
\<close>

section \<open>Encoding\<close>

definition ValidRune :: "nat \<Rightarrow> bool" where
  "ValidRune r \<longleftrightarrow> r < 0xD800 \<or> 0xDFFF < r \<and> r \<le> 0x10FFFF"

text \<open>\<open>utf8.AppendRune\<close>: an invalid rune is written as U+FFFD.\<close>

definition EncodeRune :: "nat \<Rightarrow> string" where
  "EncodeRune r0 =
     (let r = (if ValidRune r0 then r0 else RuneError)
      in if r < 0x80 then [char_of r]
         else if r < 0x800 then [char_of (0xC0 + r div 64), char_of (0x80 + r mod 64)]
         else if r < 0x10000
         then [char_of (0xE0 + r div 4096), char_of (0x80 + r div 64 mod 64), char_of (0x80 + r mod 64)]
         else [char_of (0xF0 + r div 262144), char_of (0x80 + r div 4096 mod 64), char_of (0x80 + r div 64 mod 64),
               char_of (0x80 + r mod 64)])"

definition string_of_runes :: "nat list \<Rightarrow> string" where
  "string_of_runes rs = concat (map EncodeRune rs)"

section \<open>Truncation\<close>

definition maxLoggedPlatformLength :: int where
  "maxLoggedPlatformLength = 128"

definition truncateForLog :: "string \<Rightarrow> int \<Rightarrow> string" where
  "truncateForLog val maxRunes =
     (if maxRunes \<le> 0 \<or> int (RuneCountInString val) \<le> maxRunes then val
      else string_of_runes (take (nat maxRunes) (runes val)) @ ''...'')"

section \<open>Round trip\<close>

lemma byte_of_char_of [simp]: "byte_of (char_of n) = n mod 256"
  by (simp add: byte_of_def)

text \<open>A lead byte and a continuation byte are an offset, a multiple of the payload's range, and the payload.\<close>

lemma mod_offset: "k < m \<Longrightarrow> (c * m + k) mod m = k" for k m c :: nat
  by simp

lemma low6_encoded:
  assumes "k < 64"
  shows "low6 (char_of (0x80 + k)) = k" and "byte_of (char_of (0x80 + k)) = 0x80 + k"
  using assms mod_offset [OF assms, of 2] by (simp_all add: low6_def)

lemma continuation_encoded: "k < 64 \<Longrightarrow> continuation (char_of (0x80 + k))" for k :: nat
  by (simp only: in_range_def low6_encoded) simp

lemma DecodeRune_2:
  assumes "a < 32" and "2 \<le> a" and "b < 64"
  shows "DecodeRune (char_of (0xC0 + a) # char_of (0x80 + b) # s) = (a * 64 + b, 2)"
proof -
  have "byte_of (char_of (0xC0 + a)) = 0xC0 + a" using assms by simp
  moreover have "(0xC0 + a) mod 32 = a" using mod_offset [OF assms(1), of 6] by simp
  ultimately show ?thesis
    using assms low6_encoded(1) [OF assms(3)] continuation_encoded [OF assms(3)]
    by (simp del: byte_of_char_of add: DecodeRune_def in_range_def [of 194])
qed

lemma DecodeRune_3:
  assumes "a < 16" and "b < 64" and "c < 64" and "a = 0 \<Longrightarrow> 32 \<le> b" and "a = 13 \<Longrightarrow> b < 32"
  shows "DecodeRune (char_of (0xE0 + a) # char_of (0x80 + b) # char_of (0x80 + c) # s) = (a * 4096 + b * 64 + c, 3)"
proof -
  have byte: "byte_of (char_of (0xE0 + a)) = 0xE0 + a" using assms by simp
  moreover have "(0xE0 + a) mod 16 = a" using mod_offset [OF assms(1), of 14] by simp
  moreover have "second3 (char_of (0xE0 + a)) (char_of (0x80 + b))"
    using assms by (simp only: second3_def in_range_def byte low6_encoded) auto
  ultimately show ?thesis
    using assms(1) low6_encoded(1) [OF assms(2)] low6_encoded(1) [OF assms(3)] continuation_encoded [OF assms(3)]
    by (simp del: byte_of_char_of add: DecodeRune_def in_range_def [of 194] in_range_def [of 224])
qed

lemma DecodeRune_4:
  assumes "a < 5" and "b < 64" and "c < 64" and "d < 64" and "a = 0 \<Longrightarrow> 16 \<le> b" and "a = 4 \<Longrightarrow> b < 16"
  shows "DecodeRune (char_of (0xF0 + a) # char_of (0x80 + b) # char_of (0x80 + c) # char_of (0x80 + d) # s) =
    (a * 262144 + b * 4096 + c * 64 + d, 4)"
proof -
  have byte: "byte_of (char_of (0xF0 + a)) = 0xF0 + a" using assms by simp
  moreover have "(0xF0 + a) mod 8 = a" using mod_offset [of a 8 30] assms(1) by simp
  moreover have "second4 (char_of (0xF0 + a)) (char_of (0x80 + b))"
    using assms by (simp only: second4_def in_range_def byte low6_encoded) auto
  ultimately show ?thesis
    using assms(1) low6_encoded(1) [OF assms(2)] low6_encoded(1) [OF assms(3)] low6_encoded(1) [OF assms(4)]
      continuation_encoded [OF assms(3)] continuation_encoded [OF assms(4)]
    by (simp del: byte_of_char_of
        add: DecodeRune_def in_range_def [of 194] in_range_def [of 224] in_range_def [of 240])
qed

lemma digits64:
  "(r div 4096) * 4096 + (r div 64 mod 64) * 64 + r mod 64 = r"
  "(r div 262144) * 262144 + (r div 4096 mod 64) * 4096 + (r div 64 mod 64) * 64 + r mod 64 = r" for r :: nat
proof -
  have q: "r div 4096 = r div 64 div 64" "r div 262144 = r div 64 div 64 div 64" by (simp_all add: div_mult2_eq [symmetric])
  have "r = r div 64 * 64 + r mod 64" "r div 64 = r div 64 div 64 * 64 + r div 64 mod 64"
    "r div 64 div 64 = r div 64 div 64 div 64 * 64 + r div 64 div 64 mod 64"
    by simp_all
  then show "(r div 4096) * 4096 + (r div 64 mod 64) * 64 + r mod 64 = r"
    and "(r div 262144) * 262144 + (r div 4096 mod 64) * 4096 + (r div 64 mod 64) * 64 + r mod 64 = r"
    unfolding q by linarith+
qed

lemma DecodeRune_EncodeRune:
  assumes "ValidRune r"
  shows "DecodeRune (EncodeRune r @ s) = (r, length (EncodeRune r))"
proof -
  consider "r < 0x80" | "0x80 \<le> r" "r < 0x800" | "0x800 \<le> r" "r < 0x10000" | "0x10000 \<le> r" by linarith
  then show ?thesis
  proof cases
    case 1
    with assms show ?thesis by (simp add: EncodeRune_def DecodeRune_def)
  next
    case 2
    then have "r div 64 < 32" "2 \<le> r div 64" by auto
    with 2 assms DecodeRune_2 [of "r div 64" "r mod 64" s] show ?thesis by (simp add: EncodeRune_def)
  next
    case 3
    have "r div 64 mod 64 < 64" "r mod 64 < 64" by simp_all
    then have "r div 4096 < 16" "r div 4096 = 0 \<Longrightarrow> 32 \<le> r div 64 mod 64" "r div 4096 = 13 \<Longrightarrow> r div 64 mod 64 < 32"
      using 3 assms digits64(1) [of r] unfolding ValidRune_def by linarith+
    with 3 assms DecodeRune_3 [of "r div 4096" "r div 64 mod 64" "r mod 64" s] digits64(1) [of r]
    show ?thesis by (simp add: EncodeRune_def)
  next
    case 4
    have "r div 4096 mod 64 < 64" "r div 64 mod 64 < 64" "r mod 64 < 64" by simp_all
    then have "r div 262144 < 5" "r div 262144 = 0 \<Longrightarrow> 16 \<le> r div 4096 mod 64"
      "r div 262144 = 4 \<Longrightarrow> r div 4096 mod 64 < 16"
      using 4 assms digits64(2) [of r] unfolding ValidRune_def by linarith+
    with 4 assms DecodeRune_4 [of "r div 262144" "r div 4096 mod 64" "r div 64 mod 64" "r mod 64" s] digits64(2) [of r]
    show ?thesis by (simp add: EncodeRune_def)
  qed
qed

lemma runes_EncodeRune: "ValidRune r \<Longrightarrow> runes (EncodeRune r @ s) = r # runes s"
  by (subst runes.simps) (simp add: DecodeRune_EncodeRune, simp add: EncodeRune_def Let_def)

lemma runes_string_of_runes: "list_all ValidRune rs \<Longrightarrow> runes (string_of_runes rs @ s) = rs @ runes s"
  by (induction rs) (simp_all add: string_of_runes_def runes_EncodeRune)

text \<open>Whatever the bytes, decoding gives valid runes.\<close>

lemma ValidRune_RuneError [simp]: "ValidRune RuneError"
  by (simp add: ValidRune_def RuneError_def)

lemma byte_bound: "byte_of c < 256"
  by (simp add: byte_of_def)

lemma low6_bound: "low6 c < 64"
  by (simp add: low6_def)

lemma low6_continuation: "in_range lo hi c \<Longrightarrow> 0x80 \<le> lo \<Longrightarrow> hi \<le> 0xBF \<Longrightarrow> low6 c = byte_of c - 0x80"
  using mod_offset [of "byte_of c - 0x80" 64 2] by (auto simp: low6_def in_range_def)

lemma valid_3:
  assumes "in_range 0xE0 0xEF a" and "second3 a b"
  shows "ValidRune ((byte_of a mod 16) * 4096 + low6 b * 64 + low6 c)"
proof -
  have range: "0xE0 \<le> byte_of a" "byte_of a \<le> 0xEF" using assms(1) by (auto simp: in_range_def)
  then have eq: "byte_of a mod 16 = byte_of a - 0xE0" using mod_offset [of "byte_of a - 0xE0" 16 14] by auto
  have low: "low6 b < 32" if "byte_of a = 0xED"
    using that assms(2) low6_continuation [of "0x80" "0x9F" b] by (auto simp: second3_def in_range_def)
  consider "byte_of a < 0xED" | "byte_of a = 0xED" | "0xED < byte_of a" by linarith
  then show ?thesis
    unfolding eq ValidRune_def using range low low6_bound [of b] low6_bound [of c] by cases linarith+
qed

lemma valid_4:
  assumes "in_range 0xF0 0xF4 a" and "second4 a b"
  shows "ValidRune ((byte_of a mod 8) * 262144 + low6 b * 4096 + low6 c * 64 + low6 d)"
proof -
  have range: "0xF0 \<le> byte_of a" "byte_of a \<le> 0xF4" using assms(1) by (auto simp: in_range_def)
  then have eq: "byte_of a mod 8 = byte_of a - 0xF0" using mod_offset [of "byte_of a - 0xF0" 8 30] by auto
  have "byte_of a = 0xF0 \<Longrightarrow> 16 \<le> low6 b" "byte_of a = 0xF4 \<Longrightarrow> low6 b < 16"
    using assms(2) low6_continuation [of "0x90" "0xBF" b] low6_continuation [of "0x80" "0x8F" b]
    by (auto simp: second4_def in_range_def)
  then show ?thesis
    unfolding eq ValidRune_def using range low6_bound [of b] low6_bound [of c] low6_bound [of d] by linarith
qed

lemma DecodeRune_valid: "ValidRune (fst (DecodeRune s))"
proof -
  have two: "ValidRune ((byte_of a mod 32) * 64 + low6 b)" for a b
    using low6_bound [of b] mod_less_divisor [of 32 "byte_of a"] unfolding ValidRune_def by linarith
  show ?thesis
    using two valid_3 valid_4 by (auto simp: DecodeRune_def ValidRune_def [of "byte_of _"] split: list.splits)
qed

lemma runes_valid: "list_all ValidRune (runes s)"
proof (induction s rule: runes.induct)
  case (1 s)
  then show ?case by (subst runes.simps) (auto simp: DecodeRune_valid)
qed

lemma runes_dots: "runes ''...'' = [46, 46, 46]"
  by (simp add: runes_ascii byte_of_def)

text \<open>
  The text for the log: short text is logged as it is; longer text is cut after exactly \<open>maxRunes\<close> runes,
  each of them whole, and marked with three dots, so that what is logged never has more than three runes
  beyond the limit, whatever bytes the text holds.
\<close>

lemma truncateForLog_exact:
  assumes "0 < maxRunes"
  shows "(int (RuneCountInString val) \<le> maxRunes \<longrightarrow> truncateForLog val maxRunes = val)
    \<and> (maxRunes < int (RuneCountInString val) \<longrightarrow>
        runes (truncateForLog val maxRunes) = take (nat maxRunes) (runes val) @ [46, 46, 46])
    \<and> int (RuneCountInString (truncateForLog val maxRunes)) \<le> maxRunes + 3"
proof -
  have cut: "runes (truncateForLog val maxRunes) = take (nat maxRunes) (runes val) @ [46, 46, 46]"
    if "maxRunes < int (RuneCountInString val)"
  proof -
    have "list_all ValidRune (take (nat maxRunes) (runes val))"
      using runes_valid [of val] by (auto simp: list_all_iff dest: in_set_takeD)
    then show ?thesis
      using assms that by (simp add: truncateForLog_def runes_string_of_runes runes_dots)
  qed
  show ?thesis
  proof (cases "int (RuneCountInString val) \<le> maxRunes")
    case True
    then show ?thesis by (simp add: truncateForLog_def)
  next
    case False
    then show ?thesis using cut assms by (simp add: RuneCountInString_def)
  qed
qed

end
