(* ===== verification/Memory.thy ===== *)
theory Memory
  imports Main
begin

text \<open>
  Go memory, for code whose claim is about aliasing. A heap is the list of the arrays allocated so far;
  a variable is an array of one cell, a pointer an array and an index, a slice a window of an array. An
  assignable location, such as a variable or a field of one, is a pair of a reader and a writer. The
  second part is a library on copiers, functions that allocate a copy of what a value refers to.
\<close>

section \<open>Arrays, pointers, slices\<close>

type_synonym 'c heap = "'c list list"
type_synonym pointer = "nat \<times> nat"

text \<open>The capacity of a slice is left out: no code that is modelled here appends.\<close>

record slice =
  sl_array :: nat
  sl_off :: nat
  sl_len :: nat

definition load :: "'c heap \<Rightarrow> pointer \<Rightarrow> 'c" where
  "load h p = h ! fst p ! snd p"

definition store :: "pointer \<Rightarrow> 'c \<Rightarrow> 'c heap \<Rightarrow> 'c heap" where
  "store p c h = h[fst p := (h ! fst p)[snd p := c]]"

definition go_new :: "'c \<Rightarrow> 'c heap \<Rightarrow> pointer \<times> 'c heap" where
  "go_new zero h = ((length h, 0), h @ [[zero]])"

definition go_make :: "'c \<Rightarrow> nat \<Rightarrow> 'c heap \<Rightarrow> slice \<times> 'c heap" where
  "go_make zero n h = (\<lparr>sl_array = length h, sl_off = 0, sl_len = n\<rparr>, h @ [replicate n zero])"

definition window :: "'c heap \<Rightarrow> slice \<Rightarrow> 'c list" where
  "window h s = take (sl_len s) (drop (sl_off s) (h ! sl_array s))"

definition go_copy :: "slice \<Rightarrow> slice \<Rightarrow> 'c heap \<Rightarrow> 'c heap" where
  "go_copy dst src h =
     (let n = min (sl_len dst) (sl_len src); old = h ! sl_array dst
      in h[sl_array dst := take (sl_off dst) old @ take n (window h src) @ drop (sl_off dst + n) old])"

definition index :: "slice \<Rightarrow> nat \<Rightarrow> pointer" where
  "index s k = (sl_array s, sl_off s + k)"

section \<open>Assignable locations\<close>

record ('a, 'c) location =
  rd :: "'c heap \<Rightarrow> 'a"
  wr :: "'a \<Rightarrow> 'c heap \<Rightarrow> 'c heap"

text \<open>The variable behind a pointer, and a field of a struct.\<close>

definition deref :: "('c \<Rightarrow> 'a) \<Rightarrow> ('a \<Rightarrow> 'c) \<Rightarrow> pointer \<Rightarrow> ('a, 'c) location" where
  "deref des con p = \<lparr>rd = (\<lambda>h. des (load h p)), wr = (\<lambda>v. store p (con v))\<rparr>"

definition field :: "('a \<Rightarrow> 'b) \<Rightarrow> (('b \<Rightarrow> 'b) \<Rightarrow> 'a \<Rightarrow> 'a) \<Rightarrow> ('a, 'c) location \<Rightarrow> ('b, 'c) location" where
  "field get up l = \<lparr>rd = (\<lambda>h. get (rd l h)), wr = (\<lambda>v h. wr l (up (\<lambda>_. v) (rd l h)) h)\<rparr>"

text \<open>\<open>*out = *in\<close>\<close>

definition assign :: "('a, 'c) location \<Rightarrow> ('a, 'c) location \<Rightarrow> 'c heap \<Rightarrow> 'c heap" where
  "assign src dst h = wr dst (rd src h) h"

text \<open>
  The statements that the generated code has for a slice field and for a pointer field, with the
  fields of receiver and result as locations: the field of the result is replaced by a fresh slice or
  variable, and then the contents are copied.
\<close>

definition copy_slice :: "'c \<Rightarrow> (slice option, 'c) location \<Rightarrow> (slice option, 'c) location \<Rightarrow> 'c heap \<Rightarrow> 'c heap" where
  "copy_slice zero src dst h =
     (case rd src h of
        None \<Rightarrow> h
      | Some s \<Rightarrow>
          (case go_make zero (sl_len s) h of
             (t, h1) \<Rightarrow>
               (let h2 = wr dst (Some t) h1
                in go_copy (the (rd dst h2)) (the (rd src h2)) h2)))"

definition copy_pointer :: "'c \<Rightarrow> (pointer option, 'c) location \<Rightarrow> (pointer option, 'c) location \<Rightarrow> 'c heap \<Rightarrow> 'c heap" where
  "copy_pointer zero src dst h =
     (case rd src h of
        None \<Rightarrow> h
      | Some p \<Rightarrow>
          (case go_new zero h of
             (q, h1) \<Rightarrow>
               (let h2 = wr dst (Some q) h1
                in store (the (rd dst h2)) (load h2 (the (rd src h2))) h2)))"

text \<open>A slice whose elements are copied one by one, by \<open>into\<close> between two pointers.\<close>

definition copy_each ::
  "'c \<Rightarrow> (pointer \<Rightarrow> pointer \<Rightarrow> 'c heap \<Rightarrow> 'c heap) \<Rightarrow> (slice option, 'c) location \<Rightarrow> (slice option, 'c) location
     \<Rightarrow> 'c heap \<Rightarrow> 'c heap" where
  "copy_each zero into src dst h =
     (case rd src h of
        None \<Rightarrow> h
      | Some s \<Rightarrow>
          (case go_make zero (sl_len s) h of
             (t, h1) \<Rightarrow>
               fold (\<lambda>k h. into (index (the (rd src h)) k) (index (the (rd dst h)) k) h)
                 [0..<sl_len s] (wr dst (Some t) h1)))"

text \<open>\<open>DeepCopy\<close>: nil for nil, otherwise a new variable that \<open>DeepCopyInto\<close> fills.\<close>

definition new_copy ::
  "(pointer \<Rightarrow> ('a, 'c) location) \<Rightarrow> 'c \<Rightarrow> (('a, 'c) location \<Rightarrow> ('a, 'c) location \<Rightarrow> 'c heap \<Rightarrow> 'c heap)
     \<Rightarrow> pointer option \<Rightarrow> 'c heap \<Rightarrow> pointer option \<times> 'c heap" where
  "new_copy var zero into src h =
     (case src of
        None \<Rightarrow> (None, h)
      | Some p \<Rightarrow> (case go_new zero h of (q, h1) \<Rightarrow> (Some q, into (var p) (var q) h1)))"

section \<open>Laws of locations\<close>

text \<open>
  A location \<open>l\<close> inside the array \<open>a\<close>; \<open>ok\<close> holds of the heaps in which it exists.
\<close>

locale assignable =
  fixes l :: "('a, 'c) location" and a :: nat and ok :: "'c heap \<Rightarrow> bool"
  assumes ok_in: "ok h \<Longrightarrow> a < length h"
    and ok_local: "ok h \<Longrightarrow> length h \<le> length g \<Longrightarrow> g ! a = h ! a \<Longrightarrow> ok g"
    and ok_wr: "ok h \<Longrightarrow> ok (wr l v h)"
    and length_wr [simp]: "length (wr l v h) = length h"
    and wr_frame: "b \<noteq> a \<Longrightarrow> wr l v h ! b = h ! b"
    and rd_local: "g ! a = h ! a \<Longrightarrow> rd l g = rd l h"
    and rd_wr: "ok h \<Longrightarrow> rd l (wr l v h) = v"
    and wr_wr: "ok h \<Longrightarrow> wr l v (wr l u h) = wr l v h"
    and wr_append: "ok h \<Longrightarrow> wr l v (h @ xs) = wr l v h @ xs"
begin

lemma ok_append: "ok h \<Longrightarrow> ok (h @ xs)"
  using ok_in by (auto intro: ok_local simp: nth_append)

lemma rd_append: "ok h \<Longrightarrow> rd l (h @ xs) = rd l h"
  using ok_in by (intro rd_local) (simp add: nth_append)

end

definition holds :: "pointer \<Rightarrow> 'c heap \<Rightarrow> bool" where
  "holds p h \<longleftrightarrow> fst p < length h \<and> snd p < length (h ! fst p)"

lemma deref_assignable:
  assumes "\<And>v. des (con v) = v"
  shows "assignable (deref des con p) (fst p) (holds p)"
  by unfold_locales
    (auto simp: deref_def load_def store_def holds_def assms nth_append list_update_append)

text \<open>A field of a struct, as the record package makes it.\<close>

locale struct_field =
  fixes get :: "'a \<Rightarrow> 'b" and up :: "('b \<Rightarrow> 'b) \<Rightarrow> 'a \<Rightarrow> 'a"
  assumes get_up: "get (up (\<lambda>_. v) m) = v"
    and up_up: "up (\<lambda>_. v) (up (\<lambda>_. u) m) = up (\<lambda>_. v) m"
    and up_get: "up (\<lambda>_. get m) m = m"

lemma field_assignable:
  assumes "assignable l a ok" and "struct_field get up"
  shows "assignable (field get up l) a ok"
proof -
  note l = assignable.ok_in [OF assms(1)] assignable.ok_local [OF assms(1)] assignable.ok_wr [OF assms(1)]
    assignable.length_wr [OF assms(1)] assignable.wr_frame [OF assms(1)] assignable.rd_wr [OF assms(1)]
    assignable.wr_wr [OF assms(1)] assignable.wr_append [OF assms(1)] assignable.rd_append [OF assms(1)]
  show ?thesis
    by unfold_locales
      (auto simp: field_def l struct_field.get_up [OF assms(2)] struct_field.up_up [OF assms(2)]
        dest: assignable.rd_local [OF assms(1)] intro: l)
qed

section \<open>Copiers\<close>

definition agree :: "nat set \<Rightarrow> 'c heap \<Rightarrow> 'c heap \<Rightarrow> bool" where
  "agree A h g \<longleftrightarrow> (\<forall>a \<in> A. g ! a = h ! a)"

lemma agree_append: "A \<subseteq> {..<length h} \<Longrightarrow> agree A h (h @ xs)"
  by (auto simp: agree_def nth_append)

lemma agree_both_append:
  "A \<subseteq> {..<length h} \<Longrightarrow> length g = length h \<Longrightarrow> agree A (h @ xs) (g @ ys) \<longleftrightarrow> agree A h g"
  by (auto simp: agree_def nth_append subset_iff)

lemma agree_subset: "agree A h g \<Longrightarrow> B \<subseteq> A \<Longrightarrow> agree B h g"
  by (auto simp: agree_def)

lemma agree_Un [simp]: "agree (A \<union> B) h g \<longleftrightarrow> agree A h g \<and> agree B h g"
  by (auto simp: agree_def)

text \<open>
  A copier returns a value and a heap with new arrays; it and the value that is read depend on the
  footprint only, the copy reads as the original, and its footprint is new.
\<close>

locale copier =
  fixes dup :: "'a \<Rightarrow> 'c heap \<Rightarrow> 'a \<times> 'c heap" and fp :: "'c heap \<Rightarrow> 'a \<Rightarrow> nat set"
    and val :: "'c heap \<Rightarrow> 'a \<Rightarrow> 'v"
  assumes appends: "\<exists>m' xs. dup m h = (m', h @ xs)"
    and dup_local: "fp h m \<subseteq> {..<length h} \<Longrightarrow> dup m h = (m', h @ xs) \<Longrightarrow> agree (fp h m) h g \<Longrightarrow>
      length g = length h \<Longrightarrow> dup m g = (m', g @ xs)"
    and fp_local: "agree (fp h m) h g \<Longrightarrow> fp g m = fp h m"
    and val_local: "agree (fp h m) h g \<Longrightarrow> val g m = val h m"
    and dup_val: "fp h m \<subseteq> {..<length h} \<Longrightarrow> dup m h = (m', h') \<Longrightarrow> val h' m' = val h m"
    and dup_fresh: "fp h m \<subseteq> {..<length h} \<Longrightarrow> dup m h = (m', h') \<Longrightarrow> fp h' m' \<subseteq> {length h..<length h'}"
begin

lemma local_append:
  assumes "fp h m \<subseteq> {..<length h}"
  shows "fp (h @ xs) m = fp h m" and "val (h @ xs) m = val h m"
  using fp_local val_local agree_append [OF assms] by blast+

lemma dup_cases:
  assumes "fp h m \<subseteq> {..<length h}"
  obtains m' xs where "dup m h = (m', h @ xs)" and "val (h @ xs) m' = val h m"
    and "fp (h @ xs) m' \<subseteq> {length h..<length (h @ xs)}"
  using appends [of m h] dup_val [OF assms] dup_fresh [OF assms] by blast

end

definition pair_dup ::
  "('a \<Rightarrow> 'c heap \<Rightarrow> 'a \<times> 'c heap) \<Rightarrow> ('b \<Rightarrow> 'c heap \<Rightarrow> 'b \<times> 'c heap) \<Rightarrow> 'a \<times> 'b \<Rightarrow> 'c heap \<Rightarrow> ('a \<times> 'b) \<times> 'c heap" where
  "pair_dup d e p h = (case d (fst p) h of (x, h1) \<Rightarrow> (case e (snd p) h1 of (y, h2) \<Rightarrow> ((x, y), h2)))"

locale two_copiers = d: copier d fd vd + e: copier e fe ve
  for d :: "'a \<Rightarrow> 'c heap \<Rightarrow> 'a \<times> 'c heap" and fd and vd :: "'c heap \<Rightarrow> 'a \<Rightarrow> 'v"
    and e :: "'b \<Rightarrow> 'c heap \<Rightarrow> 'b \<times> 'c heap" and fe and ve :: "'c heap \<Rightarrow> 'b \<Rightarrow> 'w"
begin

lemma pair_run:
  assumes "fd h x \<subseteq> {..<length h}" and "fe h y \<subseteq> {..<length h}"
  obtains x' xs y' ys where "d x h = (x', h @ xs)" and "e y (h @ xs) = (y', h @ xs @ ys)"
    and "pair_dup d e (x, y) h = ((x', y'), h @ xs @ ys)"
    and "vd (h @ xs @ ys) x' = vd h x" and "ve (h @ xs @ ys) y' = ve h y"
    and "fd (h @ xs @ ys) x' \<union> fe (h @ xs @ ys) y' \<subseteq> {length h..<length (h @ xs @ ys)}"
proof -
  obtain x' xs where x: "d x h = (x', h @ xs)" "vd (h @ xs) x' = vd h x"
    "fd (h @ xs) x' \<subseteq> {length h..<length (h @ xs)}"
    using d.dup_cases [OF assms(1)] .
  note y0 = e.local_append [OF assms(2), of xs]
  have "fe (h @ xs) y \<subseteq> {..<length (h @ xs)}" using assms(2) y0 by auto
  then obtain y' ys where y: "e y (h @ xs) = (y', (h @ xs) @ ys)" "ve ((h @ xs) @ ys) y' = ve (h @ xs) y"
    "fe ((h @ xs) @ ys) y' \<subseteq> {length (h @ xs)..<length ((h @ xs) @ ys)}"
    by (rule e.dup_cases)
  have "fd (h @ xs) x' \<subseteq> {..<length (h @ xs)}" using x(3) by auto
  note x1 = d.local_append [OF this, of ys]
  show ?thesis
  proof (rule that)
    show "d x h = (x', h @ xs)" "e y (h @ xs) = (y', h @ xs @ ys)"
      "pair_dup d e (x, y) h = ((x', y'), h @ xs @ ys)"
      using x(1) y(1) by (simp_all add: pair_dup_def)
    show "vd (h @ xs @ ys) x' = vd h x" "ve (h @ xs @ ys) y' = ve h y"
      using x(2) y(2) x1(2) y0(2) by simp_all
    show "fd (h @ xs @ ys) x' \<union> fe (h @ xs @ ys) y' \<subseteq> {length h..<length (h @ xs @ ys)}"
      using x(3) y(3) x1(1) by fastforce
  qed
qed

end

sublocale two_copiers \<subseteq> pair: copier "pair_dup d e" "\<lambda>h p. fd h (fst p) \<union> fe h (snd p)"
  "\<lambda>h p. (vd h (fst p), ve h (snd p))"
proof unfold_locales
  fix m :: "'a \<times> 'b" and h g h' :: "'c heap" and m' :: "'a \<times> 'b" and xs
  obtain x' ys where x: "d (fst m) h = (x', h @ ys)" using d.appends by blast
  obtain y' zs where y: "e (snd m) (h @ ys) = (y', (h @ ys) @ zs)" using e.appends by blast
  show "\<exists>m' xs. pair_dup d e m h = (m', h @ xs)" using x y by (auto simp: pair_dup_def)
  {
    assume f: "fd h (fst m) \<union> fe h (snd m) \<subseteq> {..<length h}"
    then have fd: "fd h (fst m) \<subseteq> {..<length h}" and fe: "fe h (snd m) \<subseteq> {..<length h}" by auto
    note run = pair_run [OF fd fe]
    show "pair_dup d e m g = (m', g @ xs)"
      if r: "pair_dup d e m h = (m', h @ xs)" and ag: "agree (fd h (fst m) \<union> fe h (snd m)) h g"
        and len: "length g = length h"
    proof -
      have "d (fst m) g = (x', g @ ys)" using d.dup_local [OF fd x] ag len by simp
      moreover have "e (snd m) (g @ ys) = (y', (g @ ys) @ zs)"
      proof (rule e.dup_local [OF _ y])
        note local = e.local_append(1) [OF fe, of ys]
        show "fe (h @ ys) (snd m) \<subseteq> {..<length (h @ ys)}" using fe local by fastforce
        show "agree (fe (h @ ys) (snd m)) (h @ ys) (g @ ys)"
          using ag len fe by (simp add: local agree_both_append)
      qed (use len in simp)
      ultimately show ?thesis using r x y by (simp add: pair_dup_def)
    qed
    show "(vd h' (fst m'), ve h' (snd m')) = (vd h (fst m), ve h (snd m))" if "pair_dup d e m h = (m', h')"
      by (rule run) (use that in auto)
    show "fd h' (fst m') \<union> fe h' (snd m') \<subseteq> {length h..<length h'}" if "pair_dup d e m h = (m', h')"
      by (rule run) (use that in auto)
  }
  show "fd g (fst m) \<union> fe g (snd m) = fd h (fst m) \<union> fe h (snd m)" if "agree (fd h (fst m) \<union> fe h (snd m)) h g"
    using that d.fp_local [of h "fst m" g] e.fp_local [of h "snd m" g] by simp
  show "(vd g (fst m), ve g (snd m)) = (vd h (fst m), ve h (snd m))" if "agree (fd h (fst m) \<union> fe h (snd m)) h g"
    using that d.val_local [of h "fst m" g] e.val_local [of h "snd m" g] by simp
qed

context two_copiers
begin

lemma is_copier: "copier (pair_dup d e) (\<lambda>h p. fd h (fst p) \<union> fe h (snd p)) (\<lambda>h p. (vd h (fst p), ve h (snd p)))"
  by (rule pair.copier_axioms)

end

lemma pair_copier:
  "copier d fd vd \<Longrightarrow> copier e fe ve \<Longrightarrow>
   copier (pair_dup d e) (\<lambda>h p. fd h (fst p) \<union> fe h (snd p)) (\<lambda>h p. (vd h (fst p), ve h (snd p)))"
  by (intro two_copiers.is_copier two_copiers.intro)

text \<open>Slices and pointers to plain data.\<close>

definition slice_dup :: "slice option \<Rightarrow> 'c heap \<Rightarrow> slice option \<times> 'c heap" where
  "slice_dup s h =
     (case s of
        None \<Rightarrow> (None, h)
      | Some s \<Rightarrow> (Some \<lparr>sl_array = length h, sl_off = 0, sl_len = sl_len s\<rparr>, h @ [window h s]))"

definition pointer_dup :: "pointer option \<Rightarrow> 'c heap \<Rightarrow> pointer option \<times> 'c heap" where
  "pointer_dup p h = (case p of None \<Rightarrow> (None, h) | Some p \<Rightarrow> (Some (length h, 0), h @ [[load h p]]))"

definition slice_arrays :: "slice option \<Rightarrow> nat set" where
  "slice_arrays s = (case s of None \<Rightarrow> {} | Some s \<Rightarrow> {sl_array s})"

definition pointer_arrays :: "pointer option \<Rightarrow> nat set" where
  "pointer_arrays p = (case p of None \<Rightarrow> {} | Some p \<Rightarrow> {fst p})"

lemma window_append: "sl_array s < length h \<Longrightarrow> window (h @ xs) s = window h s"
  by (simp add: window_def nth_append)

interpretation plain_slice: copier slice_dup "\<lambda>h. slice_arrays" "\<lambda>h. map_option (window h)"
  by unfold_locales
    (auto simp: slice_dup_def slice_arrays_def agree_def window_def nth_append split: option.splits)

interpretation plain_pointer: copier pointer_dup "\<lambda>h. pointer_arrays" "\<lambda>h. map_option (load h)"
  by unfold_locales
    (auto simp: pointer_dup_def pointer_arrays_def agree_def load_def nth_append split: option.splits)

interpretation plain_fields: two_copiers slice_dup "\<lambda>h. slice_arrays" "\<lambda>h. map_option (window h)"
  pointer_dup "\<lambda>h. pointer_arrays" "\<lambda>h. map_option (load h)"
  by unfold_locales

text \<open>A struct with reference fields, as a view of them and the rest.\<close>

definition struct_dup ::
  "('a \<Rightarrow> 'r) \<Rightarrow> ('r \<Rightarrow> 'a \<Rightarrow> 'a) \<Rightarrow> ('r \<Rightarrow> 'c heap \<Rightarrow> 'r \<times> 'c heap) \<Rightarrow> 'a \<Rightarrow> 'c heap \<Rightarrow> 'a \<times> 'c heap" where
  "struct_dup refs put d m h = (case d (refs m) h of (r, h') \<Rightarrow> (put r m, h'))"

lemma struct_copier:
  fixes refs :: "'a \<Rightarrow> 'r"
  assumes "copier d fd vd" and "\<And>r m. refs (put r m) = r"
    and "\<And>r m h g. vd g r = vd h (refs m) \<Longrightarrow> val g (put r m) = val h m"
    and "\<And>m h g. vd g (refs m) = vd h (refs m) \<Longrightarrow> val g m = val h m"
  shows "copier (struct_dup refs put d) (\<lambda>h m. fd h (refs m)) val"
proof unfold_locales
  fix m m' :: 'a and h h' g xs
  obtain r xs' where r: "d (refs m) h = (r, h @ xs')" using copier.appends [OF assms(1)] by blast
  show "\<exists>m' xs. struct_dup refs put d m h = (m', h @ xs)" using r by (simp add: struct_dup_def)
  show "fd g (refs m) = fd h (refs m)" if "agree (fd h (refs m)) h g"
    using that by (rule copier.fp_local [OF assms(1)])
  show "val g m = val h m" if "agree (fd h (refs m)) h g"
    by (intro assms(4) copier.val_local [OF assms(1)] that)
  assume f: "fd h (refs m) \<subseteq> {..<length h}"
  show "struct_dup refs put d m g = (m', g @ xs)"
    if "struct_dup refs put d m h = (m', h @ xs)" "agree (fd h (refs m)) h g" "length g = length h"
    using copier.dup_local [OF assms(1) f r that(2,3)] that(1) r by (simp add: struct_dup_def)
  assume run: "struct_dup refs put d m h = (m', h')"
  then have m': "m' = put r m" "h' = h @ xs'" using r by (auto simp: struct_dup_def)
  show "val h' m' = val h m"
    using copier.dup_val [OF assms(1) f r] assms(3) by (simp add: m')
  show "fd h' (refs m') \<subseteq> {length h..<length h'}"
    using copier.dup_fresh [OF assms(1) f r] by (simp only: m' assms(2))
qed

text \<open>Several values in a row, and a slice of structs.\<close>

fun elems_dup :: "('a \<Rightarrow> 'c heap \<Rightarrow> 'a \<times> 'c heap) \<Rightarrow> 'a list \<Rightarrow> 'c heap \<Rightarrow> 'a list \<times> 'c heap" where
  "elems_dup d [] h = ([], h)"
| "elems_dup d (m # ms) h = (case d m h of (m', h1) \<Rightarrow> (case elems_dup d ms h1 of (ms', h2) \<Rightarrow> (m' # ms', h2)))"

context copier
begin

lemma elems_appends: "\<exists>ms' xs. elems_dup dup ms h = (ms', h @ xs)"
proof (induction ms arbitrary: h)
  case (Cons m ms)
  obtain m' xs where m: "dup m h = (m', h @ xs)" using appends by blast
  obtain ms' ys where "elems_dup dup ms (h @ xs) = (ms', (h @ xs) @ ys)" using Cons by blast
  with m show ?case by simp
qed simp

lemma elems_facts:
  assumes "\<forall>m \<in> set ms. fp h m \<subseteq> {..<length h}" and "elems_dup dup ms h = (ms', h @ xs)"
  shows "length ms' = length ms" and "map (val (h @ xs)) ms' = map (val h) ms"
    and "\<And>m. m \<in> set ms' \<Longrightarrow> fp (h @ xs) m \<subseteq> {length h..<length (h @ xs)}"
    and "\<And>g. length g = length h \<Longrightarrow> (\<And>m. m \<in> set ms \<Longrightarrow> agree (fp h m) h g) \<Longrightarrow>
      elems_dup dup ms g = (ms', g @ xs)"
proof -
  have "length ms' = length ms \<and> map (val (h @ xs)) ms' = map (val h) ms
    \<and> (\<forall>m \<in> set ms'. fp (h @ xs) m \<subseteq> {length h..<length (h @ xs)})
    \<and> (\<forall>g. length g = length h \<and> (\<forall>m \<in> set ms. agree (fp h m) h g) \<longrightarrow> elems_dup dup ms g = (ms', g @ xs))"
    using assms
  proof (induction ms arbitrary: h ms' xs)
    case (Cons m ms)
    have fm: "fp h m \<subseteq> {..<length h}" using Cons.prems(1) by simp
    then obtain m' ys where m: "dup m h = (m', h @ ys)" "val (h @ ys) m' = val h m"
      "fp (h @ ys) m' \<subseteq> {length h..<length (h @ ys)}"
      by (rule dup_cases)
    obtain ns zs where ns: "elems_dup dup ms (h @ ys) = (ns, (h @ ys) @ zs)" using elems_appends by blast
    have out: "ms' = m' # ns" "xs = ys @ zs" using Cons.prems(2) m(1) ns by auto
    have old: "fp (h @ ys) n = fp h n" "val (h @ ys) n = val h n" "fp h n \<subseteq> {..<length h}" if "n \<in> set ms" for n
      using Cons.prems(1) that local_append [of h n ys] by simp_all
    then have "\<forall>n \<in> set ms. fp (h @ ys) n \<subseteq> {..<length (h @ ys)}" by fastforce
    note IH = Cons.IH [OF this ns]
    have "fp (h @ ys) m' \<subseteq> {..<length (h @ ys)}" using m(3) by auto
    note new = local_append [OF this, of zs]
    show ?case
    proof (intro conjI ballI allI impI)
      show "length ms' = length (m # ms)" using IH by (simp add: out)
      show "map (val (h @ xs)) ms' = map (val h) (m # ms)" using IH old(2) m(2) new by (simp add: out)
      show "fp (h @ xs) n \<subseteq> {length h..<length (h @ xs)}" if "n \<in> set ms'" for n
        using that IH m(3) new by (fastforce simp: out)
      show "elems_dup dup (m # ms) g = (ms', g @ xs)"
        if g: "length g = length h \<and> (\<forall>m \<in> set (m # ms). agree (fp h m) h g)" for g
      proof -
        have "dup m g = (m', g @ ys)" using dup_local [OF fm m(1)] g by simp
        moreover have "\<forall>n \<in> set ms. agree (fp (h @ ys) n) (h @ ys) (g @ ys)"
          using g old by (simp add: agree_both_append)
        then have "elems_dup dup ms (g @ ys) = (ns, (g @ ys) @ zs)" using IH g by simp
        ultimately show ?thesis by (simp add: out)
      qed
    qed
  qed simp
  then show "length ms' = length ms" "map (val (h @ xs)) ms' = map (val h) ms"
    "\<And>m. m \<in> set ms' \<Longrightarrow> fp (h @ xs) m \<subseteq> {length h..<length (h @ xs)}"
    "\<And>g. length g = length h \<Longrightarrow> (\<And>m. m \<in> set ms \<Longrightarrow> agree (fp h m) h g) \<Longrightarrow> elems_dup dup ms g = (ms', g @ xs)"
    by blast+
qed

end

definition each_dup ::
  "('a \<Rightarrow> 'c heap \<Rightarrow> 'a \<times> 'c heap) \<Rightarrow> ('c \<Rightarrow> 'a) \<Rightarrow> ('a \<Rightarrow> 'c) \<Rightarrow> 'c \<Rightarrow> slice option \<Rightarrow> 'c heap \<Rightarrow> slice option \<times> 'c heap" where
  "each_dup d des con zero s h =
     (case s of
        None \<Rightarrow> (None, h)
      | Some s \<Rightarrow>
          (case elems_dup d (map des (window h s)) (h @ [replicate (sl_len s) zero]) of
             (ms, h') \<Rightarrow>
               (Some \<lparr>sl_array = length h, sl_off = 0, sl_len = sl_len s\<rparr>, h'[length h := map con ms])))"

definition each_arrays :: "('c heap \<Rightarrow> 'a \<Rightarrow> nat set) \<Rightarrow> ('c \<Rightarrow> 'a) \<Rightarrow> 'c heap \<Rightarrow> slice option \<Rightarrow> nat set" where
  "each_arrays fp des h s =
     (case s of None \<Rightarrow> {} | Some s \<Rightarrow> insert (sl_array s) (\<Union>m \<in> set (window h s). fp h (des m)))"

definition each_val :: "('c heap \<Rightarrow> 'a \<Rightarrow> 'v) \<Rightarrow> ('c \<Rightarrow> 'a) \<Rightarrow> 'c heap \<Rightarrow> slice option \<Rightarrow> 'v list option" where
  "each_val val des h s = map_option (\<lambda>s. map (\<lambda>m. val h (des m)) (window h s)) s"

locale struct_slice = copier dup fp val
  for dup :: "'a \<Rightarrow> 'c heap \<Rightarrow> 'a \<times> 'c heap" and fp and val :: "'c heap \<Rightarrow> 'a \<Rightarrow> 'v" +
  fixes des :: "'c \<Rightarrow> 'a" and con :: "'a \<Rightarrow> 'c" and zero :: 'c
  assumes des_con: "des (con m) = m"
begin

lemma each_run:
  assumes "each_arrays fp des h (Some s) \<subseteq> {..<length h}"
    and "elems_dup dup (map des (window h s)) (h @ [replicate (sl_len s) zero])
      = (ms, (h @ [replicate (sl_len s) zero]) @ xs)"
  shows "each_dup dup des con zero (Some s) h
      = (Some \<lparr>sl_array = length h, sl_off = 0, sl_len = sl_len s\<rparr>, h @ map con ms # xs)"
    and "length ms = length (window h s)"
    and "map (val (h @ map con ms # xs)) ms = map (\<lambda>m. val h (des m)) (window h s)"
    and "m \<in> set ms \<Longrightarrow> fp (h @ map con ms # xs) m \<subseteq> {Suc (length h)..<length (h @ map con ms # xs)}"
proof -
  let ?z = "replicate (sl_len s) zero" and ?h = "h @ map con ms # xs"
  have in_h: "fp h m \<subseteq> {..<length h}" if "m \<in> set (map des (window h s))" for m
    using assms(1) that by (auto simp: each_arrays_def)
  note old = local_append [OF in_h, of _ "[?z]"]
  have "\<forall>m \<in> set (map des (window h s)). fp (h @ [?z]) m \<subseteq> {..<length (h @ [?z])}"
    using in_h old(1) by fastforce
  note elems = elems_facts [OF this assms(2)]
  show "each_dup dup des con zero (Some s) h
      = (Some \<lparr>sl_array = length h, sl_off = 0, sl_len = sl_len s\<rparr>, ?h)"
    using assms(2) by (simp add: each_dup_def)
  show "length ms = length (window h s)" using elems(1) by simp
  have ag: "agree (fp (h @ [?z] @ xs) m) (h @ [?z] @ xs) ?h" if "m \<in> set ms" for m
    using elems(3) [OF that] by (fastforce simp: agree_def nth_append)
  have "map (val ?h) ms = map (val ((h @ [?z]) @ xs)) ms" using val_local [OF ag] by simp
  also have "\<dots> = map (val (h @ [?z])) (map des (window h s))" by (rule elems(2))
  also have "\<dots> = map (\<lambda>m. val h (des m)) (window h s)" using old(2) by simp
  finally show "map (val ?h) ms = map (\<lambda>m. val h (des m)) (window h s)" .
  show "fp ?h m \<subseteq> {Suc (length h)..<length ?h}" if "m \<in> set ms"
    using elems(3) [OF that] fp_local [OF ag [OF that]] by simp
qed

end

sublocale struct_slice \<subseteq> each: copier "each_dup dup des con zero" "each_arrays fp des" "each_val val des"
proof unfold_locales
  fix m m' :: "slice option" and h h' g :: "'c heap" and xs
  have run: "\<exists>ms xs. elems_dup dup (map des (window h s)) (h @ [replicate (sl_len s) zero])
      = (ms, (h @ [replicate (sl_len s) zero]) @ xs)" for s
    by (rule elems_appends)
  show "\<exists>m' xs. each_dup dup des con zero m h = (m', h @ xs)"
  proof (cases m)
    case (Some s)
    with run [of s] show ?thesis by (auto simp: each_dup_def)
  qed (simp add: each_dup_def)
  have win: "window g s = window h s" if "agree (each_arrays fp des h (Some s)) h g" for s
    using that by (simp add: agree_def each_arrays_def window_def)
  have elem: "agree (fp h (des c)) h g" if "agree (each_arrays fp des h (Some s)) h g" "c \<in> set (window h s)" for s c
    using that by (auto simp: agree_def each_arrays_def)
  show "each_arrays fp des g m = each_arrays fp des h m" if "agree (each_arrays fp des h m) h g"
  proof (cases m)
    case (Some s)
    with that have "fp g (des c) = fp h (des c)" if "c \<in> set (window h s)" for c
      using that elem fp_local by blast
    with win [of s] that Some show ?thesis by (simp add: each_arrays_def [of fp des g] each_arrays_def [of fp des h])
  qed (simp add: each_arrays_def)
  show "each_val val des g m = each_val val des h m" if "agree (each_arrays fp des h m) h g"
    using that win elem val_local by (cases m) (simp_all add: each_val_def)
  assume f: "each_arrays fp des h m \<subseteq> {..<length h}"
  show "each_dup dup des con zero m g = (m', g @ xs)"
    if r: "each_dup dup des con zero m h = (m', h @ xs)" and ag: "agree (each_arrays fp des h m) h g"
      and len: "length g = length h"
  proof (cases m)
    case (Some s)
    let ?z = "replicate (sl_len s) zero"
    obtain ms ys where e: "elems_dup dup (map des (window h s)) (h @ [?z]) = (ms, (h @ [?z]) @ ys)" using run by blast
    have in_h: "fp h (des c) \<subseteq> {..<length h}" if "c \<in> set (window h s)" for c
      using f that by (auto simp: Some each_arrays_def)
    note old = local_append(1) [OF in_h, of _ "[?z]"]
    have "\<forall>n \<in> set (map des (window h s)). fp (h @ [?z]) n \<subseteq> {..<length (h @ [?z])}"
      using in_h old by fastforce
    moreover have "agree (fp (h @ [?z]) n) (h @ [?z]) (g @ [?z])" if "n \<in> set (map des (window h s))" for n
      using that elem [OF ag [unfolded Some]] in_h old len by (auto simp: agree_both_append)
    ultimately have "elems_dup dup (map des (window h s)) (g @ [?z]) = (ms, (g @ [?z]) @ ys)"
      using elems_facts(4) [OF _ e, of "g @ [?z]"] len by simp
    then show ?thesis
      using r e win [OF ag [unfolded Some]] len by (auto simp: Some each_dup_def list_update_append)
  qed (use r in \<open>simp add: each_dup_def\<close>)
  assume r: "each_dup dup des con zero m h = (m', h')"
  show "each_val val des h' m' = each_val val des h m" "each_arrays fp des h' m' \<subseteq> {length h..<length h'}"
  proof -
    show "each_val val des h' m' = each_val val des h m"
    proof (cases m)
      case (Some s)
      obtain ms ys where "elems_dup dup (map des (window h s)) (h @ [replicate (sl_len s) zero])
        = (ms, (h @ [replicate (sl_len s) zero]) @ ys)" using run by blast
      note e = each_run [OF f [unfolded Some] this]
      have "length ms \<le> sl_len s" using e(2) by (simp add: window_def)
      with e r show ?thesis by (auto simp: Some each_val_def window_def des_con comp_def)
    qed (use r in \<open>simp add: each_dup_def each_val_def\<close>)
    show "each_arrays fp des h' m' \<subseteq> {length h..<length h'}"
    proof (cases m)
      case (Some s)
      obtain ms ys where "elems_dup dup (map des (window h s)) (h @ [replicate (sl_len s) zero])
        = (ms, (h @ [replicate (sl_len s) zero]) @ ys)" using run by blast
      note e = each_run [OF f [unfolded Some] this]
      have "set (window h' (the m')) \<subseteq> con ` set ms"
        using e(1) r by (auto simp: Some window_def dest: in_set_takeD)
      with e(1,4) r show ?thesis by (fastforce simp: Some each_arrays_def des_con)
    qed (use r in \<open>simp add: each_dup_def each_arrays_def\<close>)
  qed
qed

context struct_slice
begin

lemma is_each_copier: "copier (each_dup dup des con zero) (each_arrays fp des) (each_val val des)"
  by (rule each.copier_axioms)

end

section \<open>Statements and copiers\<close>

text \<open>
  The generated statements work on the heap in which the result is already assigned, \<open>wr dst m h\<close>; they
  do what the copiers do on \<open>h\<close>.
\<close>

definition slice_fits :: "'c heap \<Rightarrow> slice option \<Rightarrow> bool" where
  "slice_fits h s \<longleftrightarrow> (case s of None \<Rightarrow> True | Some s \<Rightarrow> sl_off s + sl_len s \<le> length (h ! sl_array s))"

lemma slice_fits_local: "agree (slice_arrays s) h g \<Longrightarrow> slice_fits g s \<longleftrightarrow> slice_fits h s"
  by (simp add: slice_fits_def slice_arrays_def agree_def split: option.splits)

lemma slice_fits_append: "slice_arrays s \<subseteq> {..<length h} \<Longrightarrow> slice_fits (h @ xs) s \<longleftrightarrow> slice_fits h s"
  by (intro slice_fits_local agree_append)

lemma window_length: "slice_fits h (Some s) \<Longrightarrow> length (window h s) = sl_len s"
  by (simp add: slice_fits_def window_def)

locale copying = src: assignable src a oks + dst: assignable dst b okd
  for src :: "('a, 'c) location" and a oks and dst :: "('a, 'c) location" and b okd +
  assumes distinct_arrays: "a \<noteq> b"
begin

lemma rd_src: "rd src (wr dst m h) = rd src h"
  by (rule src.rd_local) (simp add: dst.wr_frame distinct_arrays)

lemma extended:
  assumes "oks h" and "okd h"
  shows "oks (h @ xs)" and "okd (h @ xs)" and "rd src (h @ xs) = rd src h"
  using assms by (simp_all add: src.ok_append dst.ok_append src.rd_append)

lemma agree_wr: "agree (A - {b}) h (wr dst m h)"
  by (simp add: agree_def dst.wr_frame)

lemma field_reads:
  assumes "struct_field get up" and "okd h"
  shows "rd (field get up src) (wr dst m h) = get (rd src h)"
    and "wr (field get up dst) v (wr dst m h) = wr dst (up (\<lambda>_. v) m) h"
    and "rd (field get up dst) (wr dst m h) = get m"
  using assms by (simp_all add: field_def rd_src dst.rd_wr dst.wr_wr)

lemma copy_slice_dup:
  assumes f: "struct_field get up" and ok: "oks h" "okd h" and m: "get m = get (rd src h)"
    and s: "slice_fits h (get m)" "slice_arrays (get m) \<subseteq> {..<length h} - {b}"
  shows "copy_slice zero (field get up src) (field get up dst) (wr dst m h)
    = (case slice_dup (get m) h of (s, h') \<Rightarrow> wr dst (up (\<lambda>_. s) m) h')"
proof (cases "get m")
  case None
  with struct_field.up_get [OF f, of m] show ?thesis
    by (simp add: copy_slice_def slice_dup_def field_reads [OF f ok(2)] m [symmetric])
next
  case (Some s)
  let ?t = "\<lparr>sl_array = length h, sl_off = 0, sl_len = sl_len s\<rparr>" and ?z = "replicate (sl_len s) zero"
  let ?m = "up (\<lambda>_. Some ?t) m"
  have s1: "sl_array s < length h" "sl_array s \<noteq> b" using s(2) Some by (auto simp: slice_arrays_def)
  have made: "wr (field get up dst) (Some ?t) (wr dst m h @ [?z]) = wr dst ?m h @ [?z]"
    using field_reads(2) [OF f, of "h @ [?z]"] dst.ok_append [OF ok(2)] dst.wr_append [OF ok(2)] by simp
  have reads: "rd (field get up dst) (wr dst ?m h @ [?z]) = Some ?t" "rd (field get up src) (wr dst ?m h @ [?z]) = Some s"
    using field_reads(1,3) [OF f, of "h @ [?z]"] dst.ok_append [OF ok(2)] dst.wr_append [OF ok(2)]
      src.rd_append [OF ok(1)] Some m struct_field.get_up [OF f] by simp_all
  have "window (wr dst ?m h @ [?z]) s = window h s"
    using s1 by (simp add: window_append) (simp add: window_def dst.wr_frame)
  then have "go_copy ?t s (wr dst ?m h @ [?z]) = wr dst ?m h @ [window h s]"
    using window_length [OF s(1) [unfolded Some]] by (simp add: go_copy_def Let_def nth_append list_update_append)
  then show ?thesis
    using Some m made reads dst.wr_append [OF ok(2), of ?m "[window h s]"]
    by (simp add: copy_slice_def slice_dup_def go_make_def Let_def field_reads(1) [OF f ok(2)])
qed

lemma copy_pointer_dup:
  assumes f: "struct_field get up" and ok: "oks h" "okd h" and m: "get m = get (rd src h)"
    and p: "pointer_arrays (get m) \<subseteq> {..<length h} - {b}"
  shows "copy_pointer zero (field get up src) (field get up dst) (wr dst m h)
    = (case pointer_dup (get m) h of (p, h') \<Rightarrow> wr dst (up (\<lambda>_. p) m) h')"
proof (cases "get m")
  case None
  with struct_field.up_get [OF f, of m] show ?thesis
    by (simp add: copy_pointer_def pointer_dup_def field_reads [OF f ok(2)] m [symmetric])
next
  case (Some p)
  let ?q = "(length h, 0)"
  let ?m = "up (\<lambda>_. Some ?q) m"
  have p1: "fst p < length h" "fst p \<noteq> b" using assms(5) Some by (auto simp: pointer_arrays_def)
  have made: "wr (field get up dst) (Some ?q) (wr dst m h @ [[zero]]) = wr dst ?m h @ [[zero]]"
    using field_reads(2) [OF f, of "h @ [[zero]]"] dst.ok_append [OF ok(2)] dst.wr_append [OF ok(2)] by simp
  have reads: "rd (field get up dst) (wr dst ?m h @ [[zero]]) = Some ?q"
    "rd (field get up src) (wr dst ?m h @ [[zero]]) = Some p"
    using field_reads(1,3) [OF f, of "h @ [[zero]]"] dst.ok_append [OF ok(2)] dst.wr_append [OF ok(2)]
      src.rd_append [OF ok(1)] Some m struct_field.get_up [OF f] by simp_all
  have "load (wr dst ?m h @ [[zero]]) p = load h p"
    using p1 by (simp add: load_def nth_append dst.wr_frame)
  then have "store ?q (load (wr dst ?m h @ [[zero]]) p) (wr dst ?m h @ [[zero]]) = wr dst ?m h @ [[load h p]]"
    by (simp add: store_def nth_append list_update_append)
  then show ?thesis
    using Some m made reads dst.wr_append [OF ok(2), of ?m "[[load h p]]"]
    by (simp add: copy_pointer_def pointer_dup_def go_new_def Let_def field_reads(1) [OF f ok(2)])
qed

end

lemma elems_dup_snoc:
  "elems_dup d (ms @ [m]) h = (case elems_dup d ms h of (ns, h1) \<Rightarrow> (case d m h1 of (n, h2) \<Rightarrow> (ns @ [n], h2)))"
  by (induction ms arbitrary: h) (auto split: prod.splits)

text \<open>
  \<open>into\<close> copies a struct between two variables as the copier \<open>dup\<close> does, when the result is not part of
  what is copied.
\<close>

locale copies_into = struct_slice dup fp val des con zero
  for dup :: "'a \<Rightarrow> 'c heap \<Rightarrow> 'a \<times> 'c heap" and fp and val :: "'c heap \<Rightarrow> 'a \<Rightarrow> 'v"
    and des :: "'c \<Rightarrow> 'a" and con :: "'a \<Rightarrow> 'c" and zero :: 'c +
  fixes good :: "'c heap \<Rightarrow> 'a \<Rightarrow> bool" and into :: "pointer \<Rightarrow> pointer \<Rightarrow> 'c heap \<Rightarrow> 'c heap"
  assumes good_local: "agree (fp h m) h g \<Longrightarrow> good h m \<Longrightarrow> good g m"
    and into_dup: "holds p h \<Longrightarrow> holds q h \<Longrightarrow> fst p \<noteq> fst q \<Longrightarrow> m = des (load h p) \<Longrightarrow> good h m \<Longrightarrow>
      fp h m \<subseteq> {..<length h} - {fst q} \<Longrightarrow> into p q h = (case dup m h of (m', h') \<Rightarrow> store q (con m') h')"
begin

text \<open>One element: the array \<open>length h\<close> of the heap \<open>g\<close> receives it at the end of the filled part.\<close>

lemma into_element:
  assumes "length g = length h" and "agree ({..<length h} - {b}) h g"
    and "c = g ! fst p ! snd p" and "fst p < length h" and "snd p < length (g ! fst p)"
    and "fp h (des c) \<subseteq> {..<length h} - {b}" and "good h (des c)"
    and "dup (des c) (h @ z # xs) = (n, h @ z # xs @ ys)"
  shows "into p (length h, length cs) (g @ (cs @ zero # zs) # xs) = g @ (cs @ con n # zs) # xs @ ys"
proof -
  let ?g = "g @ (cs @ zero # zs) # xs" and ?q = "(length h, length cs)"
  have in_h: "fp h (des c) \<subseteq> {..<length h}" using assms(6) by auto
  have f: "fp (h @ z # xs) (des c) = fp h (des c)" by (rule local_append(1) [OF in_h])
  have hg: "agree (fp h (des c)) h g" by (rule agree_subset [OF assms(2,6)])
  have ag: "agree (fp (h @ z # xs) (des c)) (h @ z # xs) ?g"
    unfolding f using hg in_h assms(1) by (simp add: agree_both_append)
  have at: "dup (des c) ?g = (n, ?g @ ys)"
    using dup_local [OF _ _ ag, of n ys] in_h f assms(1,8) by fastforce
  have fg: "fp ?g (des c) = fp h (des c)" using fp_local [OF ag] f by simp
  have "good ?g (des c)" using good_local [OF hg assms(7)] good_local [of g "des c" ?g] fp_local [OF hg]
      agree_append [of "fp h (des c)" g] in_h assms(1) by simp
  then have "into p ?q ?g = (case dup (des c) ?g of (m', h') \<Rightarrow> store ?q (con m') h')"
    using assms(1,3-6) fg
    by (intro into_dup) (auto simp: holds_def load_def nth_append)
  then show ?thesis
    using assms(1) at by (simp add: store_def nth_append list_update_append)
qed

lemma into_elements:
  fixes h :: "'c heap" and s :: slice
  defines "z \<equiv> replicate (sl_len s) zero"
  assumes "length g = length h" and "agree ({..<length h} - {b}) h g"
    and "slice_fits h (Some s)" and "each_arrays fp des h (Some s) \<subseteq> {..<length h} - {b}"
    and "\<forall>c \<in> set (window h s). good h (des c)"
    and "\<forall>h'. agree {..<length h} g h' \<longrightarrow>
      source h' = s \<and> target h' = \<lparr>sl_array = length h, sl_off = 0, sl_len = sl_len s\<rparr>"
    and "k \<le> sl_len s"
  shows "\<exists>ns xs. elems_dup dup (map des (take k (window h s))) (h @ [z]) = (ns, h @ z # xs) \<and> length ns = k
    \<and> fold (\<lambda>k h. into (index (source h) k) (index (target h) k) h) [0..<k] (g @ [z])
      = g @ (map con ns @ replicate (sl_len s - k) zero) # xs"
  using assms(8)
proof (induction k)
  case 0
  show ?case by (simp add: z_def)
next
  case (Suc k)
  then obtain ns xs where IH: "elems_dup dup (map des (take k (window h s))) (h @ [z]) = (ns, h @ z # xs)" "length ns = k"
    "fold (\<lambda>k h. into (index (source h) k) (index (target h) k) h) [0..<k] (g @ [z])
      = g @ (map con ns @ replicate (sl_len s - k) zero) # xs" by auto
  let ?g = "g @ (map con ns @ replicate (sl_len s - k) zero) # xs" and ?c = "window h s ! k"
  have len: "k < length (window h s)" using Suc.prems window_length [OF assms(4)] by simp
  obtain n ys where n: "dup (des ?c) (h @ z # xs) = (n, (h @ z # xs) @ ys)" using appends by blast
  have "agree {..<length h} g ?g" using assms(2) by (auto simp: agree_def nth_append)
  then have at: "source ?g = s" "target ?g = \<lparr>sl_array = length h, sl_off = 0, sl_len = sl_len s\<rparr>"
    using assms(7) by blast+
  have s: "sl_array s < length h" "g ! sl_array s = h ! sl_array s"
    using assms(3,5) by (auto simp: each_arrays_def agree_def)
  have "into (index s k) (length h, length (map con ns)) (g @ (map con ns @ zero # replicate (sl_len s - Suc k) zero) # xs)
      = g @ (map con ns @ con n # replicate (sl_len s - Suc k) zero) # xs @ ys"
  proof (rule into_element [OF assms(2,3), where c = ?c])
    show "?c = g ! fst (index s k) ! snd (index s k)"
      using s len assms(4) by (simp add: index_def window_def slice_fits_def)
    show "fst (index s k) < length h" "snd (index s k) < length (g ! fst (index s k))"
      using s assms(4) Suc.prems by (auto simp: index_def slice_fits_def)
    show "fp h (des ?c) \<subseteq> {..<length h} - {b}"
      using assms(5) nth_mem [OF len] by (auto simp: each_arrays_def)
    show "good h (des ?c)" using assms(6) nth_mem [OF len] by blast
    show "dup (des ?c) (h @ z # xs) = (n, h @ z # xs @ ys)" using n by simp
  qed
  moreover have "replicate (sl_len s - k) zero = zero # replicate (sl_len s - Suc k) zero"
    using Suc.prems by (simp add: Suc_diff_Suc flip: replicate_Suc)
  ultimately have "fold (\<lambda>k h. into (index (source h) k) (index (target h) k) h) [0..<Suc k] (g @ [z])
      = g @ (map con (ns @ [n]) @ replicate (sl_len s - Suc k) zero) # xs @ ys"
    using IH(2,3) at by (simp add: index_def)
  moreover have "elems_dup dup (map des (take (Suc k) (window h s))) (h @ [z]) = (ns @ [n], h @ z # xs @ ys)"
    using IH(1) n len by (simp add: take_Suc_conv_app_nth elems_dup_snoc)
  ultimately show ?case using IH(2) by auto
qed

end

context copying
begin

lemma copy_each_dup:
  assumes e: "copies_into dup fp val des con good into" and f: "struct_field get up"
    and ok: "oks h" "okd h" and m: "get m = get (rd src h)"
    and s: "slice_fits h (get m)" "each_arrays fp des h (get m) \<subseteq> {..<length h} - {b}"
    and g: "\<And>s c. get m = Some s \<Longrightarrow> c \<in> set (window h s) \<Longrightarrow> good h (des c)"
  shows "copy_each zero into (field get up src) (field get up dst) (wr dst m h)
    = (case each_dup dup des con zero (get m) h of (s, h') \<Rightarrow> wr dst (up (\<lambda>_. s) m) h')"
proof (cases "get m")
  case None
  with struct_field.up_get [OF f, of m] show ?thesis
    by (simp add: copy_each_def each_dup_def field_reads [OF f ok(2)] m [symmetric])
next
  case (Some s')
  let ?t = "\<lparr>sl_array = length h, sl_off = 0, sl_len = sl_len s'\<rparr>" and ?z = "replicate (sl_len s') zero"
  let ?m = "up (\<lambda>_. Some ?t) m"
  have made: "wr (field get up dst) (Some ?t) (wr dst m h @ [?z]) = wr dst ?m h @ [?z]"
    using field_reads(2) [OF f, of "h @ [?z]"] dst.ok_append [OF ok(2)] dst.wr_append [OF ok(2)] by simp
  have ends: "\<forall>h'. agree {..<length h} (wr dst ?m h) h' \<longrightarrow>
      the (rd (field get up src) h') = s' \<and> the (rd (field get up dst) h') = ?t"
  proof (intro allI impI)
    fix h'
    assume that: "agree {..<length h} (wr dst ?m h) h'"
    have "rd src h' = rd src (wr dst ?m h)" "rd dst h' = rd dst (wr dst ?m h)"
      using that src.ok_in [OF ok(1)] dst.ok_in [OF ok(2)]
      by (auto simp: agree_def intro: src.rd_local dst.rd_local)
    then show "the (rd (field get up src) h') = s' \<and> the (rd (field get up dst) h') = ?t"
      using Some m struct_field.get_up [OF f] by (simp_all add: field_def rd_src dst.rd_wr [OF ok(2)])
  qed
  have elems: "\<forall>c \<in> set (window h s'). good h (des c)" using g Some by blast
  obtain ns xs where ns: "elems_dup dup (map des (take (sl_len s') (window h s'))) (h @ [?z]) = (ns, h @ ?z # xs)"
    and loop: "fold (\<lambda>k h. into (index (the (rd (field get up src) h)) k) (index (the (rd (field get up dst) h)) k) h)
      [0..<sl_len s'] (wr dst ?m h @ [?z]) = wr dst ?m h @ map con ns # xs"
    using copies_into.into_elements [OF e _ agree_wr [where m = ?m] s [unfolded Some] elems, where
        source = "\<lambda>h. the (rd (field get up src) h)" and target = "\<lambda>h. the (rd (field get up dst) h)"
        and k = "sl_len s'" and zero = zero] ends by auto
  have "window h s' = take (sl_len s') (window h s')" by (simp add: window_def)
  then show ?thesis
    using Some m made ns loop dst.wr_append [OF ok(2), of ?m "map con ns # xs"]
    by (simp add: copy_each_def each_dup_def go_make_def field_reads(1) [OF f ok(2)])
qed

text \<open>A copier does not look at the result that is being filled.\<close>

lemma copier_step:
  assumes "copier d fd vd" and "fd h r \<subseteq> {..<length h} - {b}" and "okd h"
  shows "d r (wr dst m h) = (case d r h of (r', h') \<Rightarrow> (r', wr dst m h'))"
proof -
  obtain r' xs where r: "d r h = (r', h @ xs)" using copier.appends [OF assms(1)] by blast
  have "agree (fd h r) h (wr dst m h)" by (rule agree_subset [OF agree_wr assms(2)])
  moreover have "fd h r \<subseteq> {..<length h}" using assms(2) by blast
  ultimately have "d r (wr dst m h) = (r', wr dst m h @ xs)"
    using copier.dup_local [OF assms(1) _ r] by simp
  with r show ?thesis by (simp add: dst.wr_append [OF assms(3)])
qed

lemma ok_wr: "oks h \<Longrightarrow> okd h \<Longrightarrow> oks (wr dst m h)" "oks h \<Longrightarrow> okd h \<Longrightarrow> okd (wr dst m h)"
  using src.ok_local [of h "wr dst m h"] dst.wr_frame [OF distinct_arrays] by (simp_all add: dst.ok_wr)

lemma assign_field:
  assumes "struct_field get up" and "okd h" and "get m = get (rd src h)"
  shows "assign (field get up src) (field get up dst) (wr dst m h) = wr dst m h"
  using field_reads [OF assms(1,2)] struct_field.up_get [OF assms(1), of m] assms(3) by (simp add: assign_def)

text \<open>A field that is a struct: its copy, run inside the struct.\<close>

lemma copy_field:
  assumes f: "struct_field get up" and d: "copier d fd vd" and ok: "okd h" and m: "get m = get (rd src h)"
    and fp: "fd h (get m) \<subseteq> {..<length h} - {b}"
    and run: "into (field get up src) (field get up dst) (wr dst m h)
      = (case d (rd (field get up src) (wr dst m h)) (wr dst m h) of (r, h') \<Rightarrow> wr (field get up dst) r h')"
  shows "into (field get up src) (field get up dst) (wr dst m h) = (case d (get m) h of (r, h') \<Rightarrow> wr dst (up (\<lambda>_. r) m) h')"
proof -
  obtain r xs where r: "d (get m) h = (r, h @ xs)" using copier.appends [OF d] by blast
  then have "d (get m) (wr dst m h) = (r, wr dst m (h @ xs))"
    using copier_step [OF d fp ok, of m] by simp
  then show ?thesis
    using run r m field_reads [OF f] ok dst.ok_append [OF ok] by simp
qed

end

lemma copying_fields:
  assumes "copying src a oks dst b okd" and "struct_field get up"
  shows "copying (field get up src) a oks (field get up dst) b okd"
  using assms by (auto simp: copying_def copying_axioms_def intro: field_assignable)

lemma copying_variables:
  assumes "\<And>v. des (con v) = v" and "fst p \<noteq> fst q"
  shows "copying (deref des con p) (fst p) (holds p) (deref des con q) (fst q) (holds q)"
  using assms by (simp add: copying_def copying_axioms_def deref_assignable)

section \<open>Isolation\<close>

text \<open>
  The copy at \<open>q\<close> in the heap \<open>h'\<close> of the variable at \<open>p\<close> in \<open>h\<close>: nothing of the old heap has changed,
  the copy reads as the original, and whatever is written to arrays that are new since \<open>h\<close> does not show
  in the original, nor does what is written to the old ones show in the copy.
\<close>

definition isolated_copy ::
  "('c \<Rightarrow> 'a) \<Rightarrow> ('c heap \<Rightarrow> 'a \<Rightarrow> 'v) \<Rightarrow> 'c heap \<Rightarrow> pointer \<Rightarrow> 'c heap \<Rightarrow> pointer \<Rightarrow> bool" where
  "isolated_copy des val h p h' q \<longleftrightarrow>
     take (length h) h' = h \<and> val h' (des (load h' q)) = val h (des (load h p))
     \<and> (\<forall>g. agree {..<length h} h' g \<longrightarrow> val g (des (load g p)) = val h (des (load h p)))
     \<and> (\<forall>g. agree {length h..<length h'} h' g \<longrightarrow> val g (des (load g q)) = val h (des (load h p)))"

text \<open>The variable at \<open>p\<close> and everything it refers to lie in the heap.\<close>

definition allocated ::
  "('c \<Rightarrow> 'a) \<Rightarrow> ('c heap \<Rightarrow> 'a \<Rightarrow> nat set) \<Rightarrow> ('c heap \<Rightarrow> 'a \<Rightarrow> bool) \<Rightarrow> 'c heap \<Rightarrow> pointer \<Rightarrow> bool" where
  "allocated des fp fits h p \<longleftrightarrow>
     holds p h \<and> fits h (des (load h p)) \<and> fp h (des (load h p)) \<subseteq> {..<length h}"

context copies_into
begin

lemma new_copy_isolated:
  assumes "allocated des fp good h p"
    and "\<And>q. cinto (deref des con p) (deref des con q) = into p q"
  shows "\<exists>q h'. new_copy (deref des con) zero cinto (Some p) h = (Some q, h') \<and> isolated_copy des val h p h' q"
proof -
  let ?m = "des (load h p)" and ?h = "h @ [[zero]]" and ?q = "(length h, 0)"
  have p: "holds p h" "good h ?m" "fp h ?m \<subseteq> {..<length h}" using assms(1) by (auto simp: allocated_def)
  have ld: "load (h @ us) p = load h p" for us using p(1) by (simp add: load_def holds_def nth_append)
  note loc = local_append [OF p(3), of "[[zero]]"]
  have "fp ?h ?m \<subseteq> {..<length ?h}" using p(3) loc(1) by fastforce
  then obtain m xs where m: "dup ?m ?h = (m, ?h @ xs)" "val (?h @ xs) m = val ?h ?m"
    "fp (?h @ xs) m \<subseteq> {length ?h..<length (?h @ xs)}" by (rule dup_cases)
  have "into p ?q ?h = (case dup ?m ?h of (m', h') \<Rightarrow> store ?q (con m') h')"
    using p loc(1) good_local [OF agree_append [OF p(3)]]
    by (intro into_dup) (auto simp: holds_def nth_append ld)
  then have run: "into p ?q ?h = h @ [con m] # xs"
    using m(1) by (simp add: store_def nth_append list_update_append)
  let ?h' = "h @ [con m] # xs"
  have ag: "agree (fp (?h @ xs) m) (?h @ xs) ?h'"
    using m(3) by (fastforce simp: agree_def nth_append nth_Cons')
  have new: "val ?h' m = val h ?m" "fp ?h' m \<subseteq> {length h..<length ?h'}"
    using val_local [OF ag] m(2) loc(2) fp_local [OF ag] m(3) by auto
  have old: "val g (des (load g p)) = val h ?m" if "agree {..<length h} ?h' g" for g
  proof -
    have hg: "agree {..<length h} h g" using that by (auto simp: agree_def nth_append)
    then have "load g p = load h p" using p(1) by (simp add: agree_def load_def holds_def)
    with val_local [OF agree_subset [OF hg p(3)]] show ?thesis by simp
  qed
  have copy: "val g (des (load g ?q)) = val h ?m" if "agree {length h..<length ?h'} ?h' g" for g
  proof -
    have "g ! length h = [con m]" using that by (simp add: agree_def nth_append)
    with val_local [OF agree_subset [OF that new(2)]] new(1) show ?thesis by (simp add: load_def des_con)
  qed
  have "isolated_copy des val h p ?h' ?q"
    unfolding isolated_copy_def using old copy new(1) by (simp add: load_def des_con nth_append)
  moreover have "new_copy (deref des con) zero cinto (Some p) h = (Some ?q, ?h')"
    using run assms(2) by (simp add: new_copy_def go_new_def)
  ultimately show ?thesis by blast
qed

end

end
