(* ===== verification/Deep_Copy.thy ===== *)
theory Deep_Copy
  imports Memory Api_Types
begin

text \<open>
  The deep copies of \<open>api/v1alpha1/zz_generated.deepcopy.go\<close> on Go memory. The rest of the development
  models resources as values and a copy as the same value; this theory justifies it: a copy reads as the
  original does, and no write through one of them is visible through the other.
\<close>

section \<open>The API types in memory\<close>

text \<open>A struct as it lies in memory: a slice field is a window of an array, a pointer field an address.\<close>

record spec_mem =
  sm_ManagementState :: string
  sm_WorkbenchNamespace :: string
  sm_GatewayDomain :: string
  sm_Ingresses :: "slice option"
  sm_IngressContract :: "pointer option"
  sm_Platform :: string
  sm_MLflowEnabled :: bool
  sm_ODHNotebookControllerProbe :: "pointer option"
  sm_WorkbenchesV2 :: "pointer option"

record status_mem =
  tm_Conditions :: "slice option"
  tm_Releases :: "slice option"
  tm_ObservedGeneration :: int
  tm_Distribution :: Distribution
  tm_Phase :: string
  tm_ApplicationsNamespace :: string
  tm_WorkbenchNamespace :: string
  tm_IngressContract :: IngressContractStatus

record TypeMeta =
  ty_Kind :: string
  ty_APIVersion :: string

text \<open>\<open>metav1.ObjectMeta\<close> and \<open>metav1.ListMeta\<close> are the types \<open>'m\<close> and \<open>'l\<close> of a library.\<close>

record 'm workbenches_mem =
  wm_TypeMeta :: TypeMeta
  wm_ObjectMeta :: 'm
  wm_Spec :: spec_mem
  wm_Status :: status_mem

record 'l list_mem =
  lm_TypeMeta :: TypeMeta
  lm_ListMeta :: 'l
  lm_Items :: "slice option"

text \<open>A cell of an array; \<open>CLibrary\<close> is data of the library.\<close>

datatype ('m, 'l, 'x) cell =
    CIngress (un_Ingress: Ingress)
  | CIngressContract (un_IngressContract: IngressContractSpec)
  | CIngressStatus (un_IngressStatus: IngressContractStatus)
  | CProbe (un_Probe: ODHNotebookControllerProbeSpec)
  | CWorkbenchesV2 (un_WorkbenchesV2: WorkbenchesV2Spec)
  | CRelease (un_Release: ComponentRelease)
  | CDistribution (un_Distribution: Distribution)
  | CCondition (un_Condition: condition)
  | CSpec (un_Spec: spec_mem)
  | CStatus (un_Status: status_mem)
  | CWorkbenches (un_Workbenches: "'m workbenches_mem")
  | CList (un_List: "'l list_mem")
  | CLibrary 'x

type_synonym ('m, 'l, 'x) memory = "('m, 'l, 'x) cell heap"

text \<open>The copies of the library, and the zero values of its types.\<close>

record ('m, 'l, 'x) meta_api =
  ObjectMeta_copy :: "'m \<Rightarrow> ('m, 'l, 'x) memory \<Rightarrow> 'm \<times> ('m, 'l, 'x) memory"
  ListMeta_copy :: "'l \<Rightarrow> ('m, 'l, 'x) memory \<Rightarrow> 'l \<times> ('m, 'l, 'x) memory"
  Condition_copy :: "condition \<Rightarrow> condition"
  zero_ObjectMeta :: 'm
  zero_ListMeta :: 'l

text \<open>Zero values.\<close>

definition zero_Ingress :: Ingress where
  "zero_Ingress = \<lparr>ing_Name = [], ing_GatewayName = [], ing_GatewayNamespace = [], ing_Hostname = [], ing_IsDefault = False\<rparr>"

definition zero_contract :: IngressContractSpec where
  "zero_contract = \<lparr>ics_Version = [], ics_SourceGeneration = 0\<rparr>"

definition zero_probe :: ODHNotebookControllerProbeSpec where
  "zero_probe = \<lparr>TimeoutSeconds = 0\<rparr>"

definition zero_v2 :: WorkbenchesV2Spec where
  "zero_v2 = \<lparr>v2_ManagementState = []\<rparr>"

definition zero_condition :: condition where
  "zero_condition =
     \<lparr>cond_Type = [], cond_Status = [], cond_Reason = [], cond_Message = [], cond_ObservedGeneration = 0\<rparr>"

definition zero_spec :: spec_mem where
  "zero_spec =
     \<lparr>sm_ManagementState = [], sm_WorkbenchNamespace = [], sm_GatewayDomain = [], sm_Ingresses = None,
      sm_IngressContract = None, sm_Platform = [], sm_MLflowEnabled = False, sm_ODHNotebookControllerProbe = None,
      sm_WorkbenchesV2 = None\<rparr>"

definition zero_status :: status_mem where
  "zero_status =
     \<lparr>tm_Conditions = None, tm_Releases = None, tm_ObservedGeneration = 0, tm_Distribution = zero_Distribution,
      tm_Phase = [], tm_ApplicationsNamespace = [], tm_WorkbenchNamespace = [],
      tm_IngressContract = zero_IngressContractStatus\<rparr>"

definition zero_TypeMeta :: TypeMeta where
  "zero_TypeMeta = \<lparr>ty_Kind = [], ty_APIVersion = []\<rparr>"

definition zero_workbenches :: "('m, 'l, 'x) meta_api \<Rightarrow> 'm workbenches_mem" where
  "zero_workbenches L =
     \<lparr>wm_TypeMeta = zero_TypeMeta, wm_ObjectMeta = zero_ObjectMeta L, wm_Spec = zero_spec, wm_Status = zero_status\<rparr>"

definition zero_list :: "('m, 'l, 'x) meta_api \<Rightarrow> 'l list_mem" where
  "zero_list L = \<lparr>lm_TypeMeta = zero_TypeMeta, lm_ListMeta = zero_ListMeta L, lm_Items = None\<rparr>"

section \<open>Plain structs\<close>

definition ComponentRelease_DeepCopyInto ::
  "(ComponentRelease, ('m, 'l, 'x) cell) location \<Rightarrow> (ComponentRelease, ('m, 'l, 'x) cell) location \<Rightarrow>
     ('m, 'l, 'x) memory \<Rightarrow> ('m, 'l, 'x) memory" where
  "ComponentRelease_DeepCopyInto src dst h = assign src dst h"

definition ComponentRelease_DeepCopy ::
  "pointer option \<Rightarrow> ('m, 'l, 'x) memory \<Rightarrow> pointer option \<times> ('m, 'l, 'x) memory" where
  "ComponentRelease_DeepCopy =
     new_copy (deref un_Release CRelease) (CRelease zero_ComponentRelease) ComponentRelease_DeepCopyInto"

definition Distribution_DeepCopyInto ::
  "(Distribution, ('m, 'l, 'x) cell) location \<Rightarrow> (Distribution, ('m, 'l, 'x) cell) location \<Rightarrow>
     ('m, 'l, 'x) memory \<Rightarrow> ('m, 'l, 'x) memory" where
  "Distribution_DeepCopyInto src dst h = assign src dst h"

definition Distribution_DeepCopy ::
  "pointer option \<Rightarrow> ('m, 'l, 'x) memory \<Rightarrow> pointer option \<times> ('m, 'l, 'x) memory" where
  "Distribution_DeepCopy =
     new_copy (deref un_Distribution CDistribution) (CDistribution zero_Distribution) Distribution_DeepCopyInto"

definition Ingress_DeepCopyInto ::
  "(Ingress, ('m, 'l, 'x) cell) location \<Rightarrow> (Ingress, ('m, 'l, 'x) cell) location \<Rightarrow>
     ('m, 'l, 'x) memory \<Rightarrow> ('m, 'l, 'x) memory" where
  "Ingress_DeepCopyInto src dst h = assign src dst h"

definition Ingress_DeepCopy ::
  "pointer option \<Rightarrow> ('m, 'l, 'x) memory \<Rightarrow> pointer option \<times> ('m, 'l, 'x) memory" where
  "Ingress_DeepCopy = new_copy (deref un_Ingress CIngress) (CIngress zero_Ingress) Ingress_DeepCopyInto"

definition IngressContractSpec_DeepCopyInto ::
  "(IngressContractSpec, ('m, 'l, 'x) cell) location \<Rightarrow> (IngressContractSpec, ('m, 'l, 'x) cell) location \<Rightarrow>
     ('m, 'l, 'x) memory \<Rightarrow> ('m, 'l, 'x) memory" where
  "IngressContractSpec_DeepCopyInto src dst h = assign src dst h"

definition IngressContractSpec_DeepCopy ::
  "pointer option \<Rightarrow> ('m, 'l, 'x) memory \<Rightarrow> pointer option \<times> ('m, 'l, 'x) memory" where
  "IngressContractSpec_DeepCopy =
     new_copy (deref un_IngressContract CIngressContract) (CIngressContract zero_contract) IngressContractSpec_DeepCopyInto"

definition IngressContractStatus_DeepCopyInto ::
  "(IngressContractStatus, ('m, 'l, 'x) cell) location \<Rightarrow> (IngressContractStatus, ('m, 'l, 'x) cell) location \<Rightarrow>
     ('m, 'l, 'x) memory \<Rightarrow> ('m, 'l, 'x) memory" where
  "IngressContractStatus_DeepCopyInto src dst h = assign src dst h"

definition IngressContractStatus_DeepCopy ::
  "pointer option \<Rightarrow> ('m, 'l, 'x) memory \<Rightarrow> pointer option \<times> ('m, 'l, 'x) memory" where
  "IngressContractStatus_DeepCopy =
     new_copy (deref un_IngressStatus CIngressStatus) (CIngressStatus zero_IngressContractStatus)
       IngressContractStatus_DeepCopyInto"

definition ODHNotebookControllerProbeSpec_DeepCopyInto ::
  "(ODHNotebookControllerProbeSpec, ('m, 'l, 'x) cell) location \<Rightarrow>
     (ODHNotebookControllerProbeSpec, ('m, 'l, 'x) cell) location \<Rightarrow>
     ('m, 'l, 'x) memory \<Rightarrow> ('m, 'l, 'x) memory" where
  "ODHNotebookControllerProbeSpec_DeepCopyInto src dst h = assign src dst h"

definition ODHNotebookControllerProbeSpec_DeepCopy ::
  "pointer option \<Rightarrow> ('m, 'l, 'x) memory \<Rightarrow> pointer option \<times> ('m, 'l, 'x) memory" where
  "ODHNotebookControllerProbeSpec_DeepCopy =
     new_copy (deref un_Probe CProbe) (CProbe zero_probe) ODHNotebookControllerProbeSpec_DeepCopyInto"

definition WorkbenchesV2Spec_DeepCopyInto ::
  "(WorkbenchesV2Spec, ('m, 'l, 'x) cell) location \<Rightarrow> (WorkbenchesV2Spec, ('m, 'l, 'x) cell) location \<Rightarrow>
     ('m, 'l, 'x) memory \<Rightarrow> ('m, 'l, 'x) memory" where
  "WorkbenchesV2Spec_DeepCopyInto src dst h = assign src dst h"

definition WorkbenchesV2Spec_DeepCopy ::
  "pointer option \<Rightarrow> ('m, 'l, 'x) memory \<Rightarrow> pointer option \<times> ('m, 'l, 'x) memory" where
  "WorkbenchesV2Spec_DeepCopy =
     new_copy (deref un_WorkbenchesV2 CWorkbenchesV2) (CWorkbenchesV2 zero_v2) WorkbenchesV2Spec_DeepCopyInto"

section \<open>Structs with references\<close>

definition WorkbenchesSpec_DeepCopyInto ::
  "(spec_mem, ('m, 'l, 'x) cell) location \<Rightarrow> (spec_mem, ('m, 'l, 'x) cell) location \<Rightarrow>
     ('m, 'l, 'x) memory \<Rightarrow> ('m, 'l, 'x) memory" where
  "WorkbenchesSpec_DeepCopyInto src dst h =
     (let h = assign src dst h;
          h = copy_slice (CIngress zero_Ingress) (field sm_Ingresses sm_Ingresses_update src)
                (field sm_Ingresses sm_Ingresses_update dst) h;
          h = copy_pointer (CIngressContract zero_contract) (field sm_IngressContract sm_IngressContract_update src)
                (field sm_IngressContract sm_IngressContract_update dst) h;
          h = copy_pointer (CProbe zero_probe)
                (field sm_ODHNotebookControllerProbe sm_ODHNotebookControllerProbe_update src)
                (field sm_ODHNotebookControllerProbe sm_ODHNotebookControllerProbe_update dst) h
      in copy_pointer (CWorkbenchesV2 zero_v2) (field sm_WorkbenchesV2 sm_WorkbenchesV2_update src)
           (field sm_WorkbenchesV2 sm_WorkbenchesV2_update dst) h)"

definition WorkbenchesSpec_DeepCopy ::
  "pointer option \<Rightarrow> ('m, 'l, 'x) memory \<Rightarrow> pointer option \<times> ('m, 'l, 'x) memory" where
  "WorkbenchesSpec_DeepCopy = new_copy (deref un_Spec CSpec) (CSpec zero_spec) WorkbenchesSpec_DeepCopyInto"

definition Condition_DeepCopyInto ::
  "('m, 'l, 'x) meta_api \<Rightarrow> pointer \<Rightarrow> pointer \<Rightarrow> ('m, 'l, 'x) memory \<Rightarrow> ('m, 'l, 'x) memory" where
  "Condition_DeepCopyInto L p q h = store q (CCondition (Condition_copy L (un_Condition (load h p)))) h"

definition WorkbenchesStatus_DeepCopyInto ::
  "('m, 'l, 'x) meta_api \<Rightarrow> (status_mem, ('m, 'l, 'x) cell) location \<Rightarrow> (status_mem, ('m, 'l, 'x) cell) location \<Rightarrow>
     ('m, 'l, 'x) memory \<Rightarrow> ('m, 'l, 'x) memory" where
  "WorkbenchesStatus_DeepCopyInto L src dst h =
     (let h = assign src dst h;
          h = copy_each (CCondition zero_condition) (Condition_DeepCopyInto L)
                (field tm_Conditions tm_Conditions_update src) (field tm_Conditions tm_Conditions_update dst) h;
          h = copy_slice (CRelease zero_ComponentRelease) (field tm_Releases tm_Releases_update src)
                (field tm_Releases tm_Releases_update dst) h;
          h = assign (field tm_Distribution tm_Distribution_update src)
                (field tm_Distribution tm_Distribution_update dst) h
      in assign (field tm_IngressContract tm_IngressContract_update src)
           (field tm_IngressContract tm_IngressContract_update dst) h)"

definition WorkbenchesStatus_DeepCopy ::
  "('m, 'l, 'x) meta_api \<Rightarrow> pointer option \<Rightarrow> ('m, 'l, 'x) memory \<Rightarrow> pointer option \<times> ('m, 'l, 'x) memory" where
  "WorkbenchesStatus_DeepCopy L =
     new_copy (deref un_Status CStatus) (CStatus zero_status) (WorkbenchesStatus_DeepCopyInto L)"

definition Workbenches_DeepCopyInto ::
  "('m, 'l, 'x) meta_api \<Rightarrow> ('m workbenches_mem, ('m, 'l, 'x) cell) location \<Rightarrow>
     ('m workbenches_mem, ('m, 'l, 'x) cell) location \<Rightarrow> ('m, 'l, 'x) memory \<Rightarrow> ('m, 'l, 'x) memory" where
  "Workbenches_DeepCopyInto L src dst h =
     (let h = assign src dst h;
          h = assign (field wm_TypeMeta wm_TypeMeta_update src) (field wm_TypeMeta wm_TypeMeta_update dst) h;
          h = (case ObjectMeta_copy L (rd (field wm_ObjectMeta wm_ObjectMeta_update src) h) h of
                 (m, h) \<Rightarrow> wr (field wm_ObjectMeta wm_ObjectMeta_update dst) m h);
          h = WorkbenchesSpec_DeepCopyInto (field wm_Spec wm_Spec_update src) (field wm_Spec wm_Spec_update dst) h
      in WorkbenchesStatus_DeepCopyInto L (field wm_Status wm_Status_update src)
           (field wm_Status wm_Status_update dst) h)"

definition Workbenches_DeepCopy ::
  "('m, 'l, 'x) meta_api \<Rightarrow> pointer option \<Rightarrow> ('m, 'l, 'x) memory \<Rightarrow> pointer option \<times> ('m, 'l, 'x) memory" where
  "Workbenches_DeepCopy L =
     new_copy (deref un_Workbenches CWorkbenches) (CWorkbenches (zero_workbenches L)) (Workbenches_DeepCopyInto L)"

definition WorkbenchesList_DeepCopyInto ::
  "('m, 'l, 'x) meta_api \<Rightarrow> ('l list_mem, ('m, 'l, 'x) cell) location \<Rightarrow>
     ('l list_mem, ('m, 'l, 'x) cell) location \<Rightarrow> ('m, 'l, 'x) memory \<Rightarrow> ('m, 'l, 'x) memory" where
  "WorkbenchesList_DeepCopyInto L src dst h =
     (let h = assign src dst h;
          h = assign (field lm_TypeMeta lm_TypeMeta_update src) (field lm_TypeMeta lm_TypeMeta_update dst) h;
          h = (case ListMeta_copy L (rd (field lm_ListMeta lm_ListMeta_update src) h) h of
                 (m, h) \<Rightarrow> wr (field lm_ListMeta lm_ListMeta_update dst) m h)
      in copy_each (CWorkbenches (zero_workbenches L))
           (\<lambda>p q. Workbenches_DeepCopyInto L (deref un_Workbenches CWorkbenches p) (deref un_Workbenches CWorkbenches q))
           (field lm_Items lm_Items_update src) (field lm_Items lm_Items_update dst) h)"

definition WorkbenchesList_DeepCopy ::
  "('m, 'l, 'x) meta_api \<Rightarrow> pointer option \<Rightarrow> ('m, 'l, 'x) memory \<Rightarrow> pointer option \<times> ('m, 'l, 'x) memory" where
  "WorkbenchesList_DeepCopy L =
     new_copy (deref un_List CList) (CList (zero_list L)) (WorkbenchesList_DeepCopyInto L)"

text \<open>A \<open>runtime.Object\<close> is nil or a pointer with its type.\<close>

datatype runtime_Object = Workbenches_pointer pointer | WorkbenchesList_pointer pointer

definition Workbenches_DeepCopyObject ::
  "('m, 'l, 'x) meta_api \<Rightarrow> pointer option \<Rightarrow> ('m, 'l, 'x) memory \<Rightarrow> runtime_Object option \<times> ('m, 'l, 'x) memory" where
  "Workbenches_DeepCopyObject L src h =
     (case Workbenches_DeepCopy L src h of
        (Some c, h') \<Rightarrow> (Some (Workbenches_pointer c), h')
      | (None, h') \<Rightarrow> (None, h'))"

definition WorkbenchesList_DeepCopyObject ::
  "('m, 'l, 'x) meta_api \<Rightarrow> pointer option \<Rightarrow> ('m, 'l, 'x) memory \<Rightarrow> runtime_Object option \<times> ('m, 'l, 'x) memory" where
  "WorkbenchesList_DeepCopyObject L src h =
     (case WorkbenchesList_DeepCopy L src h of
        (Some c, h') \<Rightarrow> (Some (WorkbenchesList_pointer c), h')
      | (None, h') \<Rightarrow> (None, h'))"

end
