(* ===== verification/Deep_Copy_Properties.thy ===== *)
theory Deep_Copy_Properties
  imports Deep_Copy
begin

text \<open>
  Every \<open>DeepCopyInto\<close> does what a copier of \<open>Memory\<close> does, so that the copy reads as the original and
  shares no array with it.
\<close>

section \<open>Values\<close>

text \<open>What a struct in memory reads as; a nil slice is told apart from an empty one.\<close>

definition elements :: "('c \<Rightarrow> 'a) \<Rightarrow> 'c list option \<Rightarrow> 'a list" where
  "elements des cs = (case cs of None \<Rightarrow> [] | Some cs \<Rightarrow> map des cs)"

definition spec_value :: "('m, 'l, 'x) memory \<Rightarrow> spec_mem \<Rightarrow> WorkbenchesSpec \<times> bool" where
  "spec_value h m =
     (\<lparr>ManagementState = sm_ManagementState m, spec_WorkbenchNamespace = sm_WorkbenchNamespace m,
       GatewayDomain = sm_GatewayDomain m,
       Ingresses = elements un_Ingress (map_option (window h) (sm_Ingresses m)),
       spec_IngressContract = map_option un_IngressContract (map_option (load h) (sm_IngressContract m)),
       spec_Platform = sm_Platform m, MLflowEnabled = sm_MLflowEnabled m,
       ODHNotebookControllerProbe = map_option un_Probe (map_option (load h) (sm_ODHNotebookControllerProbe m)),
       WorkbenchesV2 = map_option un_WorkbenchesV2 (map_option (load h) (sm_WorkbenchesV2 m))\<rparr>,
      map_option (window h) (sm_Ingresses m) = None)"

definition status_value :: "('m, 'l, 'x) memory \<Rightarrow> status_mem \<Rightarrow> WorkbenchesStatus \<times> bool \<times> bool" where
  "status_value h m =
     (let conds = each_val (\<lambda>h c. c) un_Condition h (tm_Conditions m)
      in (\<lparr>Conditions = (case conds of None \<Rightarrow> [] | Some cs \<Rightarrow> cs),
           Releases = elements un_Release (map_option (window h) (tm_Releases m)),
           ObservedGeneration = tm_ObservedGeneration m, st_Distribution = tm_Distribution m, Phase = tm_Phase m,
           ApplicationsNamespace = tm_ApplicationsNamespace m, st_WorkbenchNamespace = tm_WorkbenchNamespace m,
           st_IngressContract = tm_IngressContract m\<rparr>,
          conds = None, map_option (window h) (tm_Releases m) = None))"

definition workbenches_value ::
  "(('m, 'l, 'x) memory \<Rightarrow> 'm \<Rightarrow> 'v) \<Rightarrow> ('m, 'l, 'x) memory \<Rightarrow> 'm workbenches_mem
     \<Rightarrow> TypeMeta \<times> 'v \<times> (WorkbenchesSpec \<times> bool) \<times> WorkbenchesStatus \<times> bool \<times> bool" where
  "workbenches_value mv h m =
     (wm_TypeMeta m, mv h (wm_ObjectMeta m), spec_value h (wm_Spec m), status_value h (wm_Status m))"

section \<open>Copiers\<close>

definition spec_dup :: "spec_mem \<Rightarrow> ('m, 'l, 'x) memory \<Rightarrow> spec_mem \<times> ('m, 'l, 'x) memory" where
  "spec_dup = struct_dup
     (\<lambda>m. (sm_Ingresses m, sm_IngressContract m, sm_ODHNotebookControllerProbe m, sm_WorkbenchesV2 m))
     (\<lambda>(s, c, p, v) m. m\<lparr>sm_Ingresses := s, sm_IngressContract := c, sm_ODHNotebookControllerProbe := p,
        sm_WorkbenchesV2 := v\<rparr>)
     (pair_dup slice_dup (pair_dup pointer_dup (pair_dup pointer_dup pointer_dup)))"

definition spec_arrays :: "spec_mem \<Rightarrow> nat set" where
  "spec_arrays m = slice_arrays (sm_Ingresses m) \<union> (pointer_arrays (sm_IngressContract m)
     \<union> (pointer_arrays (sm_ODHNotebookControllerProbe m) \<union> pointer_arrays (sm_WorkbenchesV2 m)))"

interpretation spec: copier spec_dup "\<lambda>h. spec_arrays" spec_value
proof -
  let ?refs = "\<lambda>m. (sm_Ingresses m, sm_IngressContract m, sm_ODHNotebookControllerProbe m, sm_WorkbenchesV2 m)"
  note p = plain_pointer.copier_axioms
  note c = pair_copier [OF plain_slice.copier_axioms pair_copier [OF p pair_copier [OF p p]]]
  have "copier spec_dup (\<lambda>h m. slice_arrays (fst (?refs m)) \<union> (pointer_arrays (fst (snd (?refs m)))
     \<union> (pointer_arrays (fst (snd (snd (?refs m)))) \<union> pointer_arrays (snd (snd (snd (?refs m))))))) spec_value"
    unfolding spec_dup_def by (rule struct_copier [OF c]) (auto simp: spec_value_def)
  then show "copier spec_dup (\<lambda>h. spec_arrays) spec_value" by (simp add: spec_arrays_def [abs_def])
qed

definition status_dup :: "('m, 'l, 'x) meta_api \<Rightarrow> status_mem \<Rightarrow> ('m, 'l, 'x) memory \<Rightarrow> status_mem \<times> ('m, 'l, 'x) memory" where
  "status_dup L = struct_dup (\<lambda>m. (tm_Conditions m, tm_Releases m))
     (\<lambda>(c, r) m. m\<lparr>tm_Conditions := c, tm_Releases := r\<rparr>)
     (pair_dup (each_dup (\<lambda>c h. (Condition_copy L c, h)) un_Condition CCondition (CCondition zero_condition)) slice_dup)"

definition status_arrays :: "('m, 'l, 'x) memory \<Rightarrow> status_mem \<Rightarrow> nat set" where
  "status_arrays h m = each_arrays (\<lambda>h c. {}) un_Condition h (tm_Conditions m) \<union> slice_arrays (tm_Releases m)"

definition workbenches_dup ::
  "('m, 'l, 'x) meta_api \<Rightarrow> 'm workbenches_mem \<Rightarrow> ('m, 'l, 'x) memory \<Rightarrow> 'm workbenches_mem \<times> ('m, 'l, 'x) memory" where
  "workbenches_dup L = struct_dup (\<lambda>m. (wm_ObjectMeta m, wm_Spec m, wm_Status m))
     (\<lambda>(o1, sp, st) m. m\<lparr>wm_ObjectMeta := o1, wm_Spec := sp, wm_Status := st\<rparr>)
     (pair_dup (ObjectMeta_copy L) (pair_dup spec_dup (status_dup L)))"

definition workbenches_arrays ::
  "(('m, 'l, 'x) memory \<Rightarrow> 'm \<Rightarrow> nat set) \<Rightarrow> ('m, 'l, 'x) memory \<Rightarrow> 'm workbenches_mem \<Rightarrow> nat set" where
  "workbenches_arrays mf h m = mf h (wm_ObjectMeta m) \<union> (spec_arrays (wm_Spec m) \<union> status_arrays h (wm_Status m))"

text \<open>
  What the library promises of its copies: the copy of metadata reads as the original and is fresh, and
  a condition, which holds no reference, is copied as it is.
\<close>

locale metadata = om: copier "ObjectMeta_copy L" mf mv + lm: copier "ListMeta_copy L" lf lv
  for L :: "('m, 'l, 'x) meta_api" and mf and mv :: "('m, 'l, 'x) memory \<Rightarrow> 'm \<Rightarrow> 'v"
    and lf and lv :: "('m, 'l, 'x) memory \<Rightarrow> 'l \<Rightarrow> 'w" +
  assumes condition: "Condition_copy L c = c"
begin

lemma condition_copier: "struct_slice (\<lambda>c h. (Condition_copy L c, h)) (\<lambda>h c. {}) (\<lambda>h c. c) un_Condition CCondition"
  by unfold_locales (auto simp: condition)

lemma status_copier: "copier (status_dup L) status_arrays status_value"
proof -
  have each: "copier (each_dup (\<lambda>c h. (Condition_copy L c, h)) un_Condition CCondition (CCondition zero_condition))
      (each_arrays (\<lambda>h c. {}) un_Condition) (each_val (\<lambda>h c. c) un_Condition)"
    by (rule struct_slice.is_each_copier [OF condition_copier])
  have "copier (status_dup L) (\<lambda>h m. each_arrays (\<lambda>h c. {}) un_Condition h (fst (tm_Conditions m, tm_Releases m))
      \<union> slice_arrays (snd (tm_Conditions m, tm_Releases m))) status_value"
    unfolding status_dup_def
    by (rule struct_copier [OF pair_copier [OF each plain_slice.copier_axioms]]) (auto simp: status_value_def Let_def)
  then show ?thesis by (simp add: status_arrays_def [abs_def])
qed

lemma workbenches_copier: "copier (workbenches_dup L) (workbenches_arrays mf) (workbenches_value mv)"
proof -
  let ?refs = "\<lambda>m. (wm_ObjectMeta m, wm_Spec m, wm_Status m)"
  have "copier (workbenches_dup L) (\<lambda>h m. mf h (fst (?refs m)) \<union> (spec_arrays (fst (snd (?refs m)))
      \<union> status_arrays h (snd (snd (?refs m))))) (workbenches_value mv)"
    unfolding workbenches_dup_def
    by (rule struct_copier [OF pair_copier [OF om.copier_axioms pair_copier [OF spec.copier_axioms status_copier]]])
      (auto simp: workbenches_value_def)
  then show ?thesis by (simp add: workbenches_arrays_def [abs_def])
qed

end

section \<open>The generated code\<close>

interpretation f_Ingresses: struct_field sm_Ingresses sm_Ingresses_update by unfold_locales simp_all
interpretation f_Contract: struct_field sm_IngressContract sm_IngressContract_update by unfold_locales simp_all
interpretation f_Probe: struct_field sm_ODHNotebookControllerProbe sm_ODHNotebookControllerProbe_update
  by unfold_locales simp_all
interpretation f_V2: struct_field sm_WorkbenchesV2 sm_WorkbenchesV2_update by unfold_locales simp_all
interpretation f_Conditions: struct_field tm_Conditions tm_Conditions_update by unfold_locales simp_all
interpretation f_Releases: struct_field tm_Releases tm_Releases_update by unfold_locales simp_all
interpretation f_Distribution: struct_field tm_Distribution tm_Distribution_update by unfold_locales simp_all
interpretation f_ContractStatus: struct_field tm_IngressContract tm_IngressContract_update by unfold_locales simp_all
interpretation f_TypeMeta: struct_field wm_TypeMeta wm_TypeMeta_update by unfold_locales simp_all
interpretation f_ObjectMeta: struct_field wm_ObjectMeta wm_ObjectMeta_update by unfold_locales simp_all
interpretation f_Spec: struct_field wm_Spec wm_Spec_update by unfold_locales simp_all
interpretation f_Status: struct_field wm_Status wm_Status_update by unfold_locales simp_all
interpretation f_ListTypeMeta: struct_field lm_TypeMeta lm_TypeMeta_update by unfold_locales simp_all
interpretation f_ListMeta: struct_field lm_ListMeta lm_ListMeta_update by unfold_locales simp_all
interpretation f_Items: struct_field lm_Items lm_Items_update by unfold_locales simp_all

lemma spec_into:
  assumes C: "copying src a oks dst b okd" and ok: "oks h" "okd h"
    and fits: "slice_fits h (sm_Ingresses (rd src h))" and fp: "spec_arrays (rd src h) \<subseteq> {..<length h} - {b}"
  shows "WorkbenchesSpec_DeepCopyInto src dst h = (case spec_dup (rd src h) h of (m, h') \<Rightarrow> wr dst m h')"
proof -
  let ?m = "rd src h"
  note ext = copying.extended [OF C ok]
  obtain s ws where s: "slice_dup (sm_Ingresses ?m) h = (s, h @ ws)" using plain_slice.appends by blast
  obtain c xs where c: "pointer_dup (sm_IngressContract ?m) (h @ ws) = (c, (h @ ws) @ xs)"
    using plain_pointer.appends by blast
  obtain p ys where p: "pointer_dup (sm_ODHNotebookControllerProbe ?m) (h @ ws @ xs) = (p, (h @ ws @ xs) @ ys)"
    using plain_pointer.appends by blast
  obtain v zs where v: "pointer_dup (sm_WorkbenchesV2 ?m) (h @ ws @ xs @ ys) = (v, (h @ ws @ xs @ ys) @ zs)"
    using plain_pointer.appends by blast
  have arrays: "slice_arrays (sm_Ingresses ?m) \<subseteq> {..<n} - {b}"
    "pointer_arrays (sm_IngressContract ?m) \<subseteq> {..<n} - {b}"
    "pointer_arrays (sm_ODHNotebookControllerProbe ?m) \<subseteq> {..<n} - {b}"
    "pointer_arrays (sm_WorkbenchesV2 ?m) \<subseteq> {..<n} - {b}" if "length h \<le> n" for n
    using fp that by (fastforce simp: spec_arrays_def)+
  note copy1 = copying.copy_slice_dup [OF C f_Ingresses.struct_field_axioms ok]
  note copy = copying.copy_pointer_dup [OF C _ ext(1,2)]
  show ?thesis
    using s c p v fits arrays
    by (simp add: WorkbenchesSpec_DeepCopyInto_def assign_def spec_dup_def struct_dup_def pair_dup_def
        copy1 copy [OF f_Contract.struct_field_axioms] copy [OF f_Probe.struct_field_axioms]
        copy [OF f_V2.struct_field_axioms] ext(3))
qed

definition status_fits :: "('m, 'l, 'x) memory \<Rightarrow> status_mem \<Rightarrow> bool" where
  "status_fits h m \<longleftrightarrow> slice_fits h (tm_Conditions m) \<and> slice_fits h (tm_Releases m)"

context metadata
begin

lemma condition_into: "copies_into (\<lambda>c h. (Condition_copy L c, h)) (\<lambda>h c. {}) (\<lambda>h c. c) un_Condition CCondition
    (\<lambda>h c. True) (Condition_DeepCopyInto L)"
  by (intro copies_into.intro condition_copier copies_into_axioms.intro) (simp_all add: Condition_DeepCopyInto_def)

lemma status_into:
  assumes C: "copying src a oks dst b okd" and ok: "oks h" "okd h"
    and fits: "status_fits h (rd src h)" and fp: "status_arrays h (rd src h) \<subseteq> {..<length h} - {b}"
  shows "WorkbenchesStatus_DeepCopyInto L src dst h = (case status_dup L (rd src h) h of (m, h') \<Rightarrow> wr dst m h')"
proof -
  let ?m = "rd src h"
  let ?each = "each_dup (\<lambda>c h. (Condition_copy L c, h)) un_Condition CCondition (CCondition zero_condition)"
  note ext = copying.extended [OF C ok]
  obtain c xs where c: "?each (tm_Conditions ?m) h = (c, h @ xs)"
    using copier.appends [OF struct_slice.is_each_copier [OF condition_copier]] by blast
  obtain r ys where r: "slice_dup (tm_Releases ?m) (h @ xs) = (r, (h @ xs) @ ys)" using plain_slice.appends by blast
  have arrays: "each_arrays (\<lambda>h c. {}) un_Condition h (tm_Conditions ?m) \<subseteq> {..<length h} - {b}"
    "slice_arrays (tm_Releases ?m) \<subseteq> {..<length (h @ xs)} - {b}" "slice_arrays (tm_Releases ?m) \<subseteq> {..<length h}"
    using fp by (fastforce simp: status_arrays_def)+
  note conds = copying.copy_each_dup [OF C condition_into f_Conditions.struct_field_axioms ok]
  note rels = copying.copy_slice_dup [OF C f_Releases.struct_field_axioms ext(1,2)]
  have "copy_each (CCondition zero_condition) (Condition_DeepCopyInto L)
      (field tm_Conditions tm_Conditions_update src) (field tm_Conditions tm_Conditions_update dst) (wr dst ?m h)
    = wr dst (?m\<lparr>tm_Conditions := c\<rparr>) (h @ xs)"
    using conds [of ?m] fits arrays c by (simp add: status_fits_def)
  moreover have "copy_slice (CRelease zero_ComponentRelease) (field tm_Releases tm_Releases_update src)
      (field tm_Releases tm_Releases_update dst) (wr dst (?m\<lparr>tm_Conditions := c\<rparr>) (h @ xs))
    = wr dst (?m\<lparr>tm_Conditions := c, tm_Releases := r\<rparr>) (h @ xs @ ys)"
    using rels [of "?m\<lparr>tm_Conditions := c\<rparr>" xs] fits arrays r
    by (simp add: status_fits_def slice_fits_append ext(3))
  moreover note copying.assign_field [OF C f_Distribution.struct_field_axioms ext(2)]
    copying.assign_field [OF C f_ContractStatus.struct_field_axioms ext(2)]
  ultimately show ?thesis
    using c r by (simp add: WorkbenchesStatus_DeepCopyInto_def assign_def [of src] status_dup_def struct_dup_def
        pair_dup_def ext(3))
qed

end

definition workbenches_fits :: "('m, 'l, 'x) memory \<Rightarrow> 'm workbenches_mem \<Rightarrow> bool" where
  "workbenches_fits h m \<longleftrightarrow> slice_fits h (sm_Ingresses (wm_Spec m)) \<and> status_fits h (wm_Status m)"

lemma conditions_arrays: "each_arrays (\<lambda>h c. {}) un_Condition h s = slice_arrays s"
  by (simp add: each_arrays_def slice_arrays_def split: option.split)

lemma fits_local:
  "agree (spec_arrays m) h g \<Longrightarrow> slice_fits g (sm_Ingresses m) \<longleftrightarrow> slice_fits h (sm_Ingresses m)"
  "agree (status_arrays h t) h g \<Longrightarrow> status_fits g t \<longleftrightarrow> status_fits h t"
  using slice_fits_local by (fastforce simp: spec_arrays_def status_arrays_def status_fits_def conditions_arrays)+

lemma spec_field_into:
  assumes C: "copying src a oks dst b okd" and ok: "oks h" "okd h" and m: "wm_Spec m = wm_Spec (rd src h)"
    and fits: "slice_fits h (sm_Ingresses (wm_Spec m))" and fp: "spec_arrays (wm_Spec m) \<subseteq> {..<length h} - {b}"
  shows "WorkbenchesSpec_DeepCopyInto (field wm_Spec wm_Spec_update src) (field wm_Spec wm_Spec_update dst) (wr dst m h)
    = (case spec_dup (wm_Spec m) h of (r, h') \<Rightarrow> wr dst (m\<lparr>wm_Spec := r\<rparr>) h')"
proof (rule copying.copy_field [OF C f_Spec.struct_field_axioms spec.copier_axioms ok(2) m fp])
  have "rd (field wm_Spec wm_Spec_update src) (wr dst m h) = wm_Spec m"
    using copying.field_reads(1) [OF C f_Spec.struct_field_axioms ok(2)] m by simp
  moreover have "slice_fits (wr dst m h) (sm_Ingresses (wm_Spec m))"
    using fits fits_local(1) [OF agree_subset [OF copying.agree_wr [OF C] fp]] by simp
  ultimately show "WorkbenchesSpec_DeepCopyInto (field wm_Spec wm_Spec_update src) (field wm_Spec wm_Spec_update dst)
      (wr dst m h) = (case spec_dup (rd (field wm_Spec wm_Spec_update src) (wr dst m h)) (wr dst m h) of
        (r, h') \<Rightarrow> wr (field wm_Spec wm_Spec_update dst) r h')"
    using fp by (intro spec_into [OF copying_fields [OF C f_Spec.struct_field_axioms] copying.ok_wr [OF C ok]])
      (simp_all add: assignable.length_wr [OF copying.axioms(2) [OF C]])
qed

context metadata
begin

lemma status_field_into:
  assumes C: "copying src a oks dst b okd" and ok: "oks h" "okd h" and m: "wm_Status m = wm_Status (rd src h)"
    and fits: "status_fits h (wm_Status m)" and fp: "status_arrays h (wm_Status m) \<subseteq> {..<length h} - {b}"
  shows "WorkbenchesStatus_DeepCopyInto L (field wm_Status wm_Status_update src) (field wm_Status wm_Status_update dst)
      (wr dst m h) = (case status_dup L (wm_Status m) h of (r, h') \<Rightarrow> wr dst (m\<lparr>wm_Status := r\<rparr>) h')"
proof (rule copying.copy_field [OF C f_Status.struct_field_axioms status_copier ok(2) m fp])
  note agrees = agree_subset [OF copying.agree_wr [OF C] fp]
  have "rd (field wm_Status wm_Status_update src) (wr dst m h) = wm_Status m"
    using copying.field_reads(1) [OF C f_Status.struct_field_axioms ok(2)] m by simp
  moreover have "status_fits (wr dst m h) (wm_Status m)" using fits fits_local(2) [OF agrees] by simp
  moreover have "status_arrays (wr dst m h) (wm_Status m) = status_arrays h (wm_Status m)"
    by (rule copier.fp_local [OF status_copier agrees])
  ultimately show "WorkbenchesStatus_DeepCopyInto L (field wm_Status wm_Status_update src)
      (field wm_Status wm_Status_update dst) (wr dst m h) =
      (case status_dup L (rd (field wm_Status wm_Status_update src) (wr dst m h)) (wr dst m h) of
        (r, h') \<Rightarrow> wr (field wm_Status wm_Status_update dst) r h')"
    using fp by (intro status_into [OF copying_fields [OF C f_Status.struct_field_axioms] copying.ok_wr [OF C ok]])
      (simp_all add: assignable.length_wr [OF copying.axioms(2) [OF C]])
qed

lemma workbenches_into:
  assumes C: "copying src a oks dst b okd" and ok: "oks h" "okd h"
    and fits: "workbenches_fits h (rd src h)" and fp: "workbenches_arrays mf h (rd src h) \<subseteq> {..<length h} - {b}"
  shows "Workbenches_DeepCopyInto L src dst h = (case workbenches_dup L (rd src h) h of (m, h') \<Rightarrow> wr dst m h')"
proof -
  let ?m = "rd src h"
  note ext = copying.extended [OF C ok]
  obtain o1 xs where o1: "ObjectMeta_copy L (wm_ObjectMeta ?m) h = (o1, h @ xs)" using om.appends by blast
  obtain sp ys where sp: "spec_dup (wm_Spec ?m) (h @ xs) = (sp, (h @ xs) @ ys)" using spec.appends by blast
  have arrays: "mf h (wm_ObjectMeta ?m) \<subseteq> {..<length h} - {b}" "spec_arrays (wm_Spec ?m) \<subseteq> {..<length h} - {b}"
    "status_arrays h (wm_Status ?m) \<subseteq> {..<length h} - {b}"
    using fp by (auto simp: workbenches_arrays_def)
  have larger: "A \<subseteq> {..<length h} - {b} \<Longrightarrow> A \<subseteq> {..<length (h @ us)} - {b} \<and> agree A h (h @ us)" for A us
    by (auto simp: agree_def nth_append)
  have "ObjectMeta_copy L (wm_ObjectMeta ?m) (wr dst ?m h) = (o1, wr dst ?m (h @ xs))"
    using copying.copier_step [OF C om.copier_axioms arrays(1) ok(2)] o1 by simp
  moreover have "WorkbenchesSpec_DeepCopyInto (field wm_Spec wm_Spec_update src) (field wm_Spec wm_Spec_update dst)
      (wr dst (?m\<lparr>wm_ObjectMeta := o1\<rparr>) (h @ xs)) = wr dst (?m\<lparr>wm_ObjectMeta := o1, wm_Spec := sp\<rparr>) (h @ xs @ ys)"
    using spec_field_into [OF C ext(1,2), of "?m\<lparr>wm_ObjectMeta := o1\<rparr>" xs] sp fits larger [OF arrays(2)]
      fits_local(1) [of "wm_Spec ?m" h "h @ xs"] by (simp add: ext(3) workbenches_fits_def)
  moreover have "WorkbenchesStatus_DeepCopyInto L (field wm_Status wm_Status_update src)
      (field wm_Status wm_Status_update dst) (wr dst (?m\<lparr>wm_ObjectMeta := o1, wm_Spec := sp\<rparr>) (h @ xs @ ys)) =
      (case status_dup L (wm_Status ?m) (h @ xs @ ys) of
        (st, h') \<Rightarrow> wr dst (?m\<lparr>wm_ObjectMeta := o1, wm_Spec := sp, wm_Status := st\<rparr>) h')"
    using status_field_into [OF C ext(1,2), of "?m\<lparr>wm_ObjectMeta := o1, wm_Spec := sp\<rparr>" "xs @ ys"] fits
      larger [OF arrays(3), of "xs @ ys"] fits_local(2) [of h "wm_Status ?m"]
      copier.fp_local [OF status_copier, of h "wm_Status ?m" "h @ xs @ ys"]
    by (simp add: ext(3) workbenches_fits_def)
  moreover note copying.field_reads [OF C f_ObjectMeta.struct_field_axioms ext(2)]
    copying.field_reads(1) [OF C f_ObjectMeta.struct_field_axioms ok(2)]
    copying.assign_field [OF C f_TypeMeta.struct_field_axioms ok(2)]
  ultimately show ?thesis
    using o1 sp
    by (simp add: Workbenches_DeepCopyInto_def assign_def [of src] workbenches_dup_def struct_dup_def pair_dup_def
        split: prod.split)
qed

lemma workbenches_copies: "copies_into (workbenches_dup L) (workbenches_arrays mf) (workbenches_value mv)
    un_Workbenches CWorkbenches workbenches_fits
    (\<lambda>p q. Workbenches_DeepCopyInto L (deref un_Workbenches CWorkbenches p) (deref un_Workbenches CWorkbenches q))"
proof (intro copies_into.intro struct_slice.intro struct_slice_axioms.intro copies_into_axioms.intro workbenches_copier)
  fix h g :: "('m, 'l, 'x) memory" and m :: "'m workbenches_mem" and p q
  show "workbenches_fits g m" if "agree (workbenches_arrays mf h m) h g" "workbenches_fits h m"
    using that fits_local(1) [of "wm_Spec m" h g] fits_local(2) [of h "wm_Status m" g]
    by (simp add: workbenches_arrays_def workbenches_fits_def)
  assume "holds p h" "holds q h" "fst p \<noteq> fst q" "m = un_Workbenches (load h p)" "workbenches_fits h m"
    "workbenches_arrays mf h m \<subseteq> {..<length h} - {fst q}"
  then show "Workbenches_DeepCopyInto L (deref un_Workbenches CWorkbenches p) (deref un_Workbenches CWorkbenches q) h =
      (case workbenches_dup L m h of (m', h') \<Rightarrow> store q (CWorkbenches m') h')"
    using workbenches_into [OF copying_variables [of un_Workbenches CWorkbenches p q]] by (simp add: deref_def)
qed simp

end

section \<open>Lists of resources\<close>

definition list_value ::
  "(('m, 'l, 'x) memory \<Rightarrow> 'm \<Rightarrow> 'v) \<Rightarrow> (('m, 'l, 'x) memory \<Rightarrow> 'l \<Rightarrow> 'w) \<Rightarrow> ('m, 'l, 'x) memory \<Rightarrow> 'l list_mem
     \<Rightarrow> TypeMeta \<times> 'w \<times> (TypeMeta \<times> 'v \<times> (WorkbenchesSpec \<times> bool) \<times> WorkbenchesStatus \<times> bool \<times> bool) list option" where
  "list_value mv lv h m =
     (lm_TypeMeta m, lv h (lm_ListMeta m), each_val (workbenches_value mv) un_Workbenches h (lm_Items m))"

definition list_dup ::
  "('m, 'l, 'x) meta_api \<Rightarrow> 'l list_mem \<Rightarrow> ('m, 'l, 'x) memory \<Rightarrow> 'l list_mem \<times> ('m, 'l, 'x) memory" where
  "list_dup L = struct_dup (\<lambda>m. (lm_ListMeta m, lm_Items m)) (\<lambda>(l1, its) m. m\<lparr>lm_ListMeta := l1, lm_Items := its\<rparr>)
     (pair_dup (ListMeta_copy L)
       (each_dup (workbenches_dup L) un_Workbenches CWorkbenches (CWorkbenches (zero_workbenches L))))"

definition list_arrays ::
  "(('m, 'l, 'x) memory \<Rightarrow> 'm \<Rightarrow> nat set) \<Rightarrow> (('m, 'l, 'x) memory \<Rightarrow> 'l \<Rightarrow> nat set) \<Rightarrow> ('m, 'l, 'x) memory \<Rightarrow> 'l list_mem
     \<Rightarrow> nat set" where
  "list_arrays mf lf h m =
     lf h (lm_ListMeta m) \<union> each_arrays (workbenches_arrays mf) un_Workbenches h (lm_Items m)"

definition list_fits :: "('m, 'l, 'x) memory \<Rightarrow> 'l list_mem \<Rightarrow> bool" where
  "list_fits h m \<longleftrightarrow> slice_fits h (lm_Items m)
     \<and> (case lm_Items m of None \<Rightarrow> True | Some s \<Rightarrow> \<forall>c \<in> set (window h s). workbenches_fits h (un_Workbenches c))"

context metadata
begin

lemma items_copier:
  "copier (each_dup (workbenches_dup L) un_Workbenches CWorkbenches (CWorkbenches (zero_workbenches L)))
     (each_arrays (workbenches_arrays mf) un_Workbenches) (each_val (workbenches_value mv) un_Workbenches)"
  by (rule struct_slice.is_each_copier [OF copies_into.axioms(1) [OF workbenches_copies]])

lemma list_copier: "copier (list_dup L) (list_arrays mf lf) (list_value mv lv)"
proof -
  have "copier (list_dup L) (\<lambda>h m. lf h (fst (lm_ListMeta m, lm_Items m))
      \<union> each_arrays (workbenches_arrays mf) un_Workbenches h (snd (lm_ListMeta m, lm_Items m))) (list_value mv lv)"
    unfolding list_dup_def
    by (rule struct_copier [OF pair_copier [OF lm.copier_axioms items_copier]]) (auto simp: list_value_def)
  then show ?thesis by (simp add: list_arrays_def [abs_def])
qed

lemma list_fits_local:
  assumes "agree (list_arrays mf lf h m) h g" and "list_fits h m"
  shows "list_fits g m"
proof (cases "lm_Items m")
  case (Some s)
  with assms(1) have ag: "agree (each_arrays (workbenches_arrays mf) un_Workbenches h (Some s)) h g"
    by (simp add: list_arrays_def)
  then have "g ! sl_array s = h ! sl_array s" by (simp add: agree_def each_arrays_def)
  moreover have "workbenches_fits g (un_Workbenches c)" if "c \<in> set (window h s)" for c
  proof (rule copies_into.good_local [OF workbenches_copies])
    show "agree (workbenches_arrays mf h (un_Workbenches c)) h g"
      by (rule agree_subset [OF ag]) (use that in \<open>auto simp: each_arrays_def\<close>)
    show "workbenches_fits h (un_Workbenches c)" using assms(2) Some that by (simp add: list_fits_def)
  qed
  ultimately show ?thesis using assms(2) Some by (simp add: list_fits_def slice_fits_def window_def)
qed (simp add: list_fits_def slice_fits_def)

lemma list_into:
  assumes C: "copying src a oks dst b okd" and ok: "oks h" "okd h"
    and fits: "list_fits h (rd src h)" and fp: "list_arrays mf lf h (rd src h) \<subseteq> {..<length h} - {b}"
  shows "WorkbenchesList_DeepCopyInto L src dst h = (case list_dup L (rd src h) h of (m, h') \<Rightarrow> wr dst m h')"
proof -
  let ?m = "rd src h"
  note ext = copying.extended [OF C ok]
  obtain l1 xs where l1: "ListMeta_copy L (lm_ListMeta ?m) h = (l1, h @ xs)" using lm.appends by blast
  have arrays: "lf h (lm_ListMeta ?m) \<subseteq> {..<length h} - {b}"
    "each_arrays (workbenches_arrays mf) un_Workbenches h (lm_Items ?m) \<subseteq> {..<length h} - {b}"
    using fp by (auto simp: list_arrays_def)
  have all: "agree (list_arrays mf lf h ?m) h (h @ xs)" using fp by (intro agree_append) blast
  then have fits': "list_fits (h @ xs) ?m" by (rule list_fits_local [OF _ fits])
  have elems: "workbenches_fits (h @ xs) (un_Workbenches c)"
    if "lm_Items ?m = Some s" "c \<in> set (window (h @ xs) s)" for s c
    using fits' that by (simp add: list_fits_def)
  have "each_arrays (workbenches_arrays mf) un_Workbenches (h @ xs) (lm_Items ?m)
      = each_arrays (workbenches_arrays mf) un_Workbenches h (lm_Items ?m)"
    using copier.fp_local [OF items_copier] all by (simp add: list_arrays_def)
  then have "each_arrays (workbenches_arrays mf) un_Workbenches (h @ xs) (lm_Items ?m) \<subseteq> {..<length (h @ xs)} - {b}"
    using arrays(2) by fastforce
  then have items: "copy_each (CWorkbenches (zero_workbenches L))
       (\<lambda>p q. Workbenches_DeepCopyInto L (deref un_Workbenches CWorkbenches p) (deref un_Workbenches CWorkbenches q))
       (field lm_Items lm_Items_update src) (field lm_Items lm_Items_update dst) (wr dst (?m\<lparr>lm_ListMeta := l1\<rparr>) (h @ xs))
     = (case each_dup (workbenches_dup L) un_Workbenches CWorkbenches (CWorkbenches (zero_workbenches L))
         (lm_Items ?m) (h @ xs) of (its, h') \<Rightarrow> wr dst (?m\<lparr>lm_ListMeta := l1, lm_Items := its\<rparr>) h')"
    using copying.copy_each_dup [OF C workbenches_copies f_Items.struct_field_axioms ext(1,2),
        of "?m\<lparr>lm_ListMeta := l1\<rparr>" xs] fits' elems
    by (simp add: ext(3) list_fits_def)
  have "ListMeta_copy L (lm_ListMeta ?m) (wr dst ?m h) = (l1, wr dst ?m (h @ xs))"
    using copying.copier_step [OF C lm.copier_axioms arrays(1) ok(2)] l1 by simp
  moreover note copying.field_reads [OF C f_ListMeta.struct_field_axioms ext(2)]
    copying.field_reads(1) [OF C f_ListMeta.struct_field_axioms ok(2)]
    copying.assign_field [OF C f_ListTypeMeta.struct_field_axioms ok(2)]
  ultimately show ?thesis
    using l1 items
    by (simp add: WorkbenchesList_DeepCopyInto_def assign_def [of src] list_dup_def struct_dup_def pair_dup_def
        split: prod.split)
qed

lemma list_copies: "copies_into (list_dup L) (list_arrays mf lf) (list_value mv lv) un_List CList list_fits
    (\<lambda>p q. WorkbenchesList_DeepCopyInto L (deref un_List CList p) (deref un_List CList q))"
proof (intro copies_into.intro struct_slice.intro struct_slice_axioms.intro copies_into_axioms.intro list_copier)
  fix h g :: "('m, 'l, 'x) memory" and m :: "'l list_mem" and p q
  show "list_fits g m" if "agree (list_arrays mf lf h m) h g" "list_fits h m"
    using that by (rule list_fits_local)
  assume "holds p h" "holds q h" "fst p \<noteq> fst q" "m = un_List (load h p)" "list_fits h m"
    "list_arrays mf lf h m \<subseteq> {..<length h} - {fst q}"
  then show "WorkbenchesList_DeepCopyInto L (deref un_List CList p) (deref un_List CList q) h =
      (case list_dup L m h of (m', h') \<Rightarrow> store q (CList m') h')"
    using list_into [OF copying_variables [of un_List CList p q]] by (simp add: deref_def)
qed simp

lemma workbenches_object:
  assumes "allocated un_Workbenches (workbenches_arrays mf) workbenches_fits h p"
  shows "\<exists>q h'. Workbenches_DeepCopyObject L (Some p) h = (Some (Workbenches_pointer q), h')
    \<and> isolated_copy un_Workbenches (workbenches_value mv) h p h' q"
proof -
  obtain q h' where "Workbenches_DeepCopy L (Some p) h = (Some q, h')"
    "isolated_copy un_Workbenches (workbenches_value mv) h p h' q"
    using copies_into.new_copy_isolated [OF workbenches_copies assms, where cinto = "Workbenches_DeepCopyInto L"]
    unfolding Workbenches_DeepCopy_def by blast
  then show ?thesis by (auto simp: Workbenches_DeepCopyObject_def)
qed

lemma list_object:
  assumes "allocated un_List (list_arrays mf lf) list_fits h p"
  shows "\<exists>q h'. WorkbenchesList_DeepCopyObject L (Some p) h = (Some (WorkbenchesList_pointer q), h')
    \<and> isolated_copy un_List (list_value mv lv) h p h' q"
proof -
  obtain q h' where "WorkbenchesList_DeepCopy L (Some p) h = (Some q, h')"
    "isolated_copy un_List (list_value mv lv) h p h' q"
    using copies_into.new_copy_isolated [OF list_copies assms, where cinto = "WorkbenchesList_DeepCopyInto L"]
    unfolding WorkbenchesList_DeepCopy_def by blast
  then show ?thesis by (auto simp: WorkbenchesList_DeepCopyObject_def)
qed

end

section \<open>The other types\<close>

text \<open>A struct without references, the spec alone and the status alone.\<close>

lemma plain_copies:
  assumes "\<And>m. des (con m) = m"
  shows "copies_into (\<lambda>m h. (m, h)) (\<lambda>h m. {}) (\<lambda>h m. m) des con (\<lambda>h m. True)
    (\<lambda>p q. assign (deref des con p) (deref des con q))"
  by unfold_locales (auto simp: assms assign_def deref_def)

lemma plain_copy_isolated:
  assumes "\<And>m. des (con m) = m" and "holds p h" and "\<And>src dst h. into src dst h = assign src dst h"
  shows "\<exists>q h'. new_copy (deref des con) zero into (Some p) h = (Some q, h') \<and> isolated_copy des (\<lambda>h m. m) h p h' q"
  using copies_into.new_copy_isolated [OF plain_copies [of des con, OF assms(1)], of h p into] assms(2,3)
  by (auto simp: allocated_def fun_eq_iff)

lemma plain_types_isolated:
  assumes "holds p h"
  shows "\<exists>q h'. ComponentRelease_DeepCopy (Some p) h = (Some q, h') \<and> isolated_copy un_Release (\<lambda>h m. m) h p h' q"
    and "\<exists>q h'. Distribution_DeepCopy (Some p) h = (Some q, h') \<and> isolated_copy un_Distribution (\<lambda>h m. m) h p h' q"
    and "\<exists>q h'. Ingress_DeepCopy (Some p) h = (Some q, h') \<and> isolated_copy un_Ingress (\<lambda>h m. m) h p h' q"
    and "\<exists>q h'. IngressContractSpec_DeepCopy (Some p) h = (Some q, h')
      \<and> isolated_copy un_IngressContract (\<lambda>h m. m) h p h' q"
    and "\<exists>q h'. IngressContractStatus_DeepCopy (Some p) h = (Some q, h')
      \<and> isolated_copy un_IngressStatus (\<lambda>h m. m) h p h' q"
    and "\<exists>q h'. ODHNotebookControllerProbeSpec_DeepCopy (Some p) h = (Some q, h')
      \<and> isolated_copy un_Probe (\<lambda>h m. m) h p h' q"
    and "\<exists>q h'. WorkbenchesV2Spec_DeepCopy (Some p) h = (Some q, h')
      \<and> isolated_copy un_WorkbenchesV2 (\<lambda>h m. m) h p h' q"
  unfolding ComponentRelease_DeepCopy_def Distribution_DeepCopy_def Ingress_DeepCopy_def
    IngressContractSpec_DeepCopy_def IngressContractStatus_DeepCopy_def ODHNotebookControllerProbeSpec_DeepCopy_def
    WorkbenchesV2Spec_DeepCopy_def
  by (rule plain_copy_isolated [OF _ assms]; simp add: ComponentRelease_DeepCopyInto_def
      Distribution_DeepCopyInto_def Ingress_DeepCopyInto_def IngressContractSpec_DeepCopyInto_def
      IngressContractStatus_DeepCopyInto_def ODHNotebookControllerProbeSpec_DeepCopyInto_def
      WorkbenchesV2Spec_DeepCopyInto_def)+

lemma spec_copies: "copies_into spec_dup (\<lambda>h. spec_arrays) spec_value un_Spec CSpec (\<lambda>h m. slice_fits h (sm_Ingresses m))
    (\<lambda>p q. WorkbenchesSpec_DeepCopyInto (deref un_Spec CSpec p) (deref un_Spec CSpec q))"
proof (intro copies_into.intro struct_slice.intro struct_slice_axioms.intro copies_into_axioms.intro spec.copier_axioms)
  fix h g :: "('m, 'l, 'x) memory" and m :: spec_mem and p q
  show "slice_fits g (sm_Ingresses m)" if "agree (spec_arrays m) h g" "slice_fits h (sm_Ingresses m)"
    using that fits_local(1) by blast
  assume "holds p h" "holds q h" "fst p \<noteq> fst q" "m = un_Spec (load h p)" "slice_fits h (sm_Ingresses m)"
    "spec_arrays m \<subseteq> {..<length h} - {fst q}"
  then show "WorkbenchesSpec_DeepCopyInto (deref un_Spec CSpec p) (deref un_Spec CSpec q) h =
      (case spec_dup m h of (m', h') \<Rightarrow> store q (CSpec m') h')"
    using spec_into [OF copying_variables [of un_Spec CSpec p q]] by (simp add: deref_def)
qed simp

lemma spec_copy_isolated:
  assumes "allocated un_Spec (\<lambda>h. spec_arrays) (\<lambda>h m. slice_fits h (sm_Ingresses m)) h p"
  shows "\<exists>q h'. WorkbenchesSpec_DeepCopy (Some p) h = (Some q, h') \<and> isolated_copy un_Spec spec_value h p h' q"
  using copies_into.new_copy_isolated [OF spec_copies assms, where cinto = WorkbenchesSpec_DeepCopyInto]
  unfolding WorkbenchesSpec_DeepCopy_def by blast

context metadata
begin

lemma status_copies: "copies_into (status_dup L) status_arrays status_value un_Status CStatus status_fits
    (\<lambda>p q. WorkbenchesStatus_DeepCopyInto L (deref un_Status CStatus p) (deref un_Status CStatus q))"
proof (intro copies_into.intro struct_slice.intro struct_slice_axioms.intro copies_into_axioms.intro status_copier)
  fix h g :: "('m, 'l, 'x) memory" and m :: status_mem and p q
  show "status_fits g m" if "agree (status_arrays h m) h g" "status_fits h m"
    using that fits_local(2) by blast
  assume "holds p h" "holds q h" "fst p \<noteq> fst q" "m = un_Status (load h p)" "status_fits h m"
    "status_arrays h m \<subseteq> {..<length h} - {fst q}"
  then show "WorkbenchesStatus_DeepCopyInto L (deref un_Status CStatus p) (deref un_Status CStatus q) h =
      (case status_dup L m h of (m', h') \<Rightarrow> store q (CStatus m') h')"
    using status_into [OF copying_variables [of un_Status CStatus p q]] by (simp add: deref_def)
qed simp

lemma status_copy_isolated:
  assumes "allocated un_Status status_arrays status_fits h p"
  shows "\<exists>q h'. WorkbenchesStatus_DeepCopy L (Some p) h = (Some q, h') \<and> isolated_copy un_Status status_value h p h' q"
  using copies_into.new_copy_isolated [OF status_copies assms, where cinto = "WorkbenchesStatus_DeepCopyInto L"]
  unfolding WorkbenchesStatus_DeepCopy_def by blast

end

section \<open>A library\<close>

text \<open>
  Metadata with a name and a slice of finalizers, whose strings are cells of the library, and list
  metadata without references.
\<close>

record object_meta =
  om_Name :: string
  om_Finalizers :: "slice option"

definition example_meta :: "(object_meta, string, string) meta_api" where
  "example_meta =
     \<lparr>ObjectMeta_copy = struct_dup om_Finalizers (\<lambda>s m. m\<lparr>om_Finalizers := s\<rparr>) slice_dup,
      ListMeta_copy = (\<lambda>l h. (l, h)), Condition_copy = (\<lambda>c. c),
      zero_ObjectMeta = \<lparr>om_Name = [], om_Finalizers = None\<rparr>, zero_ListMeta = []\<rparr>"

definition meta_value :: "(object_meta, string, string) memory \<Rightarrow> object_meta
    \<Rightarrow> string \<times> (object_meta, string, string) cell list option" where
  "meta_value h m = (om_Name m, map_option (window h) (om_Finalizers m))"

interpretation example: metadata example_meta "\<lambda>h m. slice_arrays (om_Finalizers m)" meta_value "\<lambda>h l. {}" "\<lambda>h l. l"
proof (intro metadata.intro metadata_axioms.intro)
  show "copier (ObjectMeta_copy example_meta) (\<lambda>h m. slice_arrays (om_Finalizers m)) meta_value"
    unfolding example_meta_def meta_api.select_convs
    by (rule struct_copier [OF plain_slice.copier_axioms]) (auto simp: meta_value_def)
  show "copier (ListMeta_copy example_meta) (\<lambda>h l. {}) (\<lambda>h l. l)"
    by unfold_locales (auto simp: example_meta_def)
qed (simp add: example_meta_def)

interpretation resource_copies: copies_into "workbenches_dup example_meta"
  "workbenches_arrays (\<lambda>h m. slice_arrays (om_Finalizers m))" "workbenches_value meta_value"
  un_Workbenches CWorkbenches "CWorkbenches (zero_workbenches example_meta)" workbenches_fits
  "\<lambda>p q. Workbenches_DeepCopyInto example_meta (deref un_Workbenches CWorkbenches p) (deref un_Workbenches CWorkbenches q)"
  by (rule example.workbenches_copies)

interpretation resources: copying "deref un_Workbenches CWorkbenches (3, 0)" 3 "holds (3, 0)"
  "deref un_Workbenches CWorkbenches (4, 0)" 4 "holds (4, 0)"
  using copying_variables [of un_Workbenches CWorkbenches "(3, 0)" "(4, 0)"] by simp

section \<open>Property\<close>

text \<open>
  C39: Deep copies are isolated. Copying a resource, or a list of resources, that lies in the heap returns a
  pointer of the same type to a new variable; the old heap is as it was, the copy reads as the original
  down to the last field, with nil slices still nil, and no write to memory that the copy allocated is
  visible through the original, nor a write to older memory through the copy. A nil pointer is copied
  to nil.
\<close>

theorem deep_copies_isolated:
  assumes "metadata L mf mv lf lv"
  shows "(allocated un_Workbenches (workbenches_arrays mf) workbenches_fits h p \<longrightarrow>
      (\<exists>q h'. Workbenches_DeepCopyObject L (Some p) h = (Some (Workbenches_pointer q), h')
         \<and> isolated_copy un_Workbenches (workbenches_value mv) h p h' q))
    \<and> (allocated un_List (list_arrays mf lf) list_fits h p \<longrightarrow>
      (\<exists>q h'. WorkbenchesList_DeepCopyObject L (Some p) h = (Some (WorkbenchesList_pointer q), h')
         \<and> isolated_copy un_List (list_value mv lv) h p h' q))
    \<and> Workbenches_DeepCopyObject L None h = (None, h) \<and> WorkbenchesList_DeepCopyObject L None h = (None, h)"
  using metadata.workbenches_object [OF assms] metadata.list_object [OF assms]
  by (simp add: Workbenches_DeepCopyObject_def WorkbenchesList_DeepCopyObject_def Workbenches_DeepCopy_def
      WorkbenchesList_DeepCopy_def new_copy_def)

text \<open>A resource with one ingress, one condition and a finalizer.\<close>

definition example_heap :: "(object_meta, string, string) memory" where
  "example_heap =
     [[CIngress zero_Ingress], [CCondition zero_condition], [CLibrary ''finalizer''],
      [CWorkbenches \<lparr>wm_TypeMeta = zero_TypeMeta,
         wm_ObjectMeta = \<lparr>om_Name = ''default'', om_Finalizers = Some \<lparr>sl_array = 2, sl_off = 0, sl_len = 1\<rparr>\<rparr>,
         wm_Spec = zero_spec\<lparr>sm_Ingresses := Some \<lparr>sl_array = 0, sl_off = 0, sl_len = 1\<rparr>\<rparr>,
         wm_Status = zero_status\<lparr>tm_Conditions := Some \<lparr>sl_array = 1, sl_off = 0, sl_len = 1\<rparr>\<rparr>\<rparr>]]"

theorem deep_copies_isolated_witness:
  "\<exists>q h'. Workbenches_DeepCopyObject example_meta (Some (3, 0)) example_heap = (Some (Workbenches_pointer q), h')
     \<and> isolated_copy un_Workbenches (workbenches_value meta_value) example_heap (3, 0) h' q"
proof -
  have "allocated un_Workbenches (workbenches_arrays (\<lambda>h m. slice_arrays (om_Finalizers m))) workbenches_fits
      example_heap (3, 0)"
    by (simp add: allocated_def holds_def load_def example_heap_def workbenches_arrays_def workbenches_fits_def
        spec_arrays_def status_arrays_def status_fits_def slice_arrays_def pointer_arrays_def slice_fits_def
        conditions_arrays zero_spec_def zero_status_def)
  with deep_copies_isolated [OF example.metadata_axioms] show ?thesis by blast
qed

end
