(* ===== verification/Flags.thy ===== *)
theory Flags
  imports Startup
begin

text \<open>
  The command line of \<open>cmd/main.go\<close>: the flags that \<open>main\<close> declares with their defaults, and Go's
  package \<open>flag\<close>, which parses them and ends the process when it cannot. The flags that the libraries
  declare (the logger's, and \<open>kubeconfig\<close>) are a parameter.
\<close>

section \<open>The package flag\<close>

record 'v flag_def =
  fd_name :: string
  fd_bool :: bool
  fd_set :: "string \<Rightarrow> 'v \<Rightarrow> goerror + 'v"

datatype 'v parsed =
    Parsed 'v "string list"
  | ErrHelp
  | BadFlag goerror

definition ParseBool :: "string \<Rightarrow> bool option" where
  "ParseBool x =
     (if List.member [''1'', ''t'', ''T'', ''true'', ''TRUE'', ''True''] x then Some True
      else if List.member [''0'', ''f'', ''F'', ''false'', ''FALSE'', ''False''] x then Some False
      else None)"

text \<open>The name and the text after \<open>=\<close> of an argument that starts with a minus.\<close>

definition flag_name :: "string \<Rightarrow> string" where
  "flag_name s = (if s ! 1 = CHR ''-'' then drop 2 s else drop 1 s)"

definition split_value :: "string \<Rightarrow> string \<times> string option" where
  "split_value name =
     (case Cut name (CHR ''='') of None \<Rightarrow> (name, None) | Some (n, x) \<Rightarrow> (n, Some x))"

fun parse_flags :: "'v flag_def list \<Rightarrow> string list \<Rightarrow> 'v \<Rightarrow> 'v parsed" where
  "parse_flags defs [] v = Parsed v []"
| "parse_flags defs (s # args) v =
     (if length s < 2 \<or> s ! 0 \<noteq> CHR ''-'' then Parsed v (s # args)
      else if s = ''--'' then Parsed v args
      else if flag_name s = [] \<or> hd (flag_name s) = CHR ''-'' \<or> hd (flag_name s) = CHR ''=''
      then BadFlag (GoErr (''bad flag syntax: '' @ s))
      else (case split_value (flag_name s) of
          (name, val) \<Rightarrow>
            (case find (\<lambda>d. fd_name d = name) defs of
               None \<Rightarrow>
                 if name = ''help'' \<or> name = ''h'' then ErrHelp
                 else BadFlag (GoErr (''flag provided but not defined: -'' @ name))
             | Some d \<Rightarrow>
                 if fd_bool d
                 then (case fd_set d (case val of None \<Rightarrow> ''true'' | Some x \<Rightarrow> x) v of
                     Inl err \<Rightarrow>
                       BadFlag (WrapErr (case val of
                           None \<Rightarrow> ''invalid boolean flag '' @ name @ '': ''
                         | Some x \<Rightarrow> ''invalid boolean value '' @ Quote x @ '' for -'' @ name @ '': '') err)
                   | Inr v' \<Rightarrow> parse_flags defs args v')
                 else (case val of
                     Some x \<Rightarrow>
                       (case fd_set d x v of
                          Inl err \<Rightarrow> BadFlag (WrapErr (''invalid value '' @ Quote x @ '' for flag -'' @ name @ '': '') err)
                        | Inr v' \<Rightarrow> parse_flags defs args v')
                   | None \<Rightarrow>
                       (case args of
                          [] \<Rightarrow> BadFlag (GoErr (''flag needs an argument: -'' @ name))
                        | x # args' \<Rightarrow>
                            (case fd_set d x v of
                               Inl err \<Rightarrow> BadFlag (WrapErr (''invalid value '' @ Quote x @ '' for flag -'' @ name @ '': '') err)
                             | Inr v' \<Rightarrow> parse_flags defs args' v'))))))"

section \<open>The flags of main\<close>

text \<open>The state of parsing: the variables of \<open>main\<close> and those of the libraries.\<close>

type_synonym 'z variables = "flags \<times> 'z"

definition StringVar :: "(string \<Rightarrow> flags \<Rightarrow> flags) \<Rightarrow> string \<Rightarrow> 'z variables flag_def" where
  "StringVar upd name = \<lparr>fd_name = name, fd_bool = False, fd_set = (\<lambda>x v. Inr (upd x (fst v), snd v))\<rparr>"

definition BoolVar :: "(bool \<Rightarrow> flags \<Rightarrow> flags) \<Rightarrow> string \<Rightarrow> 'z variables flag_def" where
  "BoolVar upd name =
     \<lparr>fd_name = name, fd_bool = True,
      fd_set = (\<lambda>x v. case ParseBool x of None \<Rightarrow> Inl (GoErr ''parse error'') | Some b \<Rightarrow> Inr (upd b (fst v), snd v))\<rparr>"

definition main_flags :: "'z variables flag_def list" where
  "main_flags =
     [StringVar (\<lambda>x f. f\<lparr>metricsAddr := x\<rparr>) ''metrics-bind-address'',
      StringVar (\<lambda>x f. f\<lparr>probeAddr := x\<rparr>) ''health-probe-bind-address'',
      BoolVar (\<lambda>b f. f\<lparr>enableLeaderElection := b\<rparr>) ''leader-elect'',
      BoolVar (\<lambda>b f. f\<lparr>secureMetrics := b\<rparr>) ''metrics-secure'',
      BoolVar (\<lambda>b f. f\<lparr>enableHTTP2 := b\<rparr>) ''enable-http2'',
      BoolVar (\<lambda>b f. f\<lparr>enableWebhooks := b\<rparr>) ''enable-webhooks'',
      StringVar (\<lambda>x f. f\<lparr>manifestsBasePath := x\<rparr>) ''manifests-base-path'']"

definition default_flags :: flags where
  "default_flags =
     \<lparr>metricsAddr = ''0'', enableLeaderElection = False, probeAddr = '':8081'', secureMetrics = True,
      enableHTTP2 = False, enableWebhooks = True, manifestsBasePath = ''/opt/manifests''\<rparr>"

text \<open>
  \<open>main\<close> from its arguments. The package ends the process with 0 after a request for help and with 2 after
  an error; arguments that are left over are not read.
\<close>

definition run_main ::
  "'s startup \<Rightarrow> 'z variables flag_def list \<Rightarrow> 'z \<Rightarrow> string list \<Rightarrow> 's \<Rightarrow> (nat \<times> 's mgr_call list) \<times> 's" where
  "run_main p zap opts args s =
     (case parse_flags (main_flags @ zap) args (default_flags, opts) of
        ErrHelp \<Rightarrow> ((0, []), s)
      | BadFlag err \<Rightarrow> ((2, []), s)
      | Parsed v rest \<Rightarrow> main p (fst v) s)"

section \<open>Arguments\<close>

text \<open>The argument that sets a flag, and the command line of all flags.\<close>

definition flag_arg :: "string \<Rightarrow> string \<Rightarrow> string" where
  "flag_arg name x = ''--'' @ name @ ''='' @ x"

definition command_line :: "flags \<Rightarrow> string list" where
  "command_line f =
     [flag_arg ''metrics-bind-address'' (metricsAddr f), flag_arg ''health-probe-bind-address'' (probeAddr f),
      flag_arg ''leader-elect'' (FormatBool (enableLeaderElection f)),
      flag_arg ''metrics-secure'' (FormatBool (secureMetrics f)),
      flag_arg ''enable-http2'' (FormatBool (enableHTTP2 f)), flag_arg ''enable-webhooks'' (FormatBool (enableWebhooks f)),
      flag_arg ''manifests-base-path'' (manifestsBasePath f)]"

text \<open>An argument that names a flag, with or without a text.\<close>

definition sets_flag :: "string \<Rightarrow> string \<Rightarrow> bool" where
  "sets_flag name a \<longleftrightarrow>
     length a \<ge> 2 \<and> a ! 0 = CHR ''-'' \<and> a \<noteq> ''--'' \<and> fst (split_value (flag_name a)) = name"

lemma ParseBool_FormatBool [simp]: "ParseBool (FormatBool b) = Some b"
  by (cases b) (simp_all add: ParseBool_def FormatBool_def)

lemma split_value_arg:
  assumes "CHR ''='' \<notin> set name"
  shows "split_value (name @ CHR ''='' # x) = (name, Some x)" and "split_value name = (name, None)"
  using assms Cut_None_iff [of name "CHR ''=''"] by (simp_all add: split_value_def Cut_append)

declare parse_flags.simps(2) [simp del]

lemma parse_flag_arg:
  assumes "CHR ''='' \<notin> set name" and "name \<noteq> []" and "hd name \<noteq> CHR ''-''"
    and "find (\<lambda>d. fd_name d = name) defs = Some d" and "fd_set d x v = Inr v'"
  shows "parse_flags defs (flag_arg name x # args) v = parse_flags defs args v'"
proof -
  have "hd name \<noteq> CHR ''=''" using assms(1,2) by (cases name) auto
  moreover have "flag_name (flag_arg name x) = name @ CHR ''='' # x" "flag_arg name x \<noteq> ''--''"
    "length (flag_arg name x) \<ge> 2" "flag_arg name x ! 0 = CHR ''-''"
    by (simp_all add: flag_arg_def flag_name_def)
  ultimately show ?thesis
    using assms by (simp add: parse_flags.simps(2) split_value_arg hd_append)
qed

lemma parse_unknown:
  assumes "CHR ''='' \<notin> set name" and "name \<noteq> []" and "hd name \<noteq> CHR ''-''"
    and "find (\<lambda>d. fd_name d = name) defs = None"
  shows "parse_flags defs ((''--'' @ name) # args) v =
    (if name = ''help'' \<or> name = ''h'' then ErrHelp
     else BadFlag (GoErr (''flag provided but not defined: -'' @ name)))"
proof -
  have "hd name \<noteq> CHR ''=''" using assms(1,2) by (cases name) auto
  then show ?thesis using assms by (simp add: parse_flags.simps(2) flag_name_def split_value_arg)
qed

lemma parse_command_line:
  "parse_flags (main_flags @ zap) (command_line f @ args) (f0, opts) = parse_flags (main_flags @ zap) args (f, opts)"
  by (cases f; cases f0) (simp add: command_line_def parse_flag_arg main_flags_def StringVar_def BoolVar_def)

text \<open>A flag that no argument names keeps its default.\<close>

lemma parse_step:
  assumes "parse_flags defs (s # args) v = Parsed v' rest"
  obtains (stop) "v' = v"
  | (set) d x u n where "d \<in> set defs" "sets_flag (fd_name d) s" "fd_set d x v = Inr u"
      "parse_flags defs (drop n args) u = Parsed v' rest"
proof (cases "length s < 2 \<or> s ! 0 \<noteq> CHR ''-'' \<or> s = ''--''")
  case True
  with assms stop show ?thesis by (auto simp: parse_flags.simps(2) split: if_splits)
next
  case False
  obtain name val where nv: "split_value (flag_name s) = (name, val)" by (metis prod.exhaust)
  with assms False obtain d where d: "find (\<lambda>d. fd_name d = name) defs = Some d"
    by (auto simp: parse_flags.simps(2) split: if_splits option.splits)
  then have "d \<in> set defs" "fd_name d = name" by (auto simp: find_Some_iff)
  moreover have "sets_flag name s" using False nv by (auto simp: sets_flag_def)
  moreover have "\<exists>x u n. fd_set d x v = Inr u \<and> parse_flags defs (drop n args) u = Parsed v' rest"
  proof -
    consider "fd_bool d" | x where "\<not> fd_bool d" "val = Some x" | "\<not> fd_bool d" "val = None" by blast
    then show ?thesis
    proof cases
      case 1
      with assms False nv d obtain u where
        "fd_set d (case val of None \<Rightarrow> ''true'' | Some x \<Rightarrow> x) v = Inr u" "parse_flags defs (drop 0 args) u = Parsed v' rest"
        by (auto simp: parse_flags.simps(2) split: if_splits sum.splits)
      then show ?thesis by blast
    next
      case 2
      with assms False nv d obtain u where "fd_set d x v = Inr u" "parse_flags defs (drop 0 args) u = Parsed v' rest"
        by (auto simp: parse_flags.simps(2) split: if_splits sum.splits)
      then show ?thesis by blast
    next
      case 3
      with assms False nv d obtain x u where "fd_set d x v = Inr u" "parse_flags defs (drop 1 args) u = Parsed v' rest"
        by (auto simp: parse_flags.simps(2) split: if_splits sum.splits list.splits)
      then show ?thesis by blast
    qed
  qed
  ultimately show ?thesis using set by blast
qed

lemma parse_keeps:
  assumes "\<And>d x u u'. d \<in> set defs \<Longrightarrow> fd_name d \<noteq> name \<Longrightarrow> fd_set d x u = Inr u' \<Longrightarrow> get u' = get u"
  shows "parse_flags defs args v = Parsed v' rest \<Longrightarrow> \<forall>a \<in> set args. \<not> sets_flag name a \<Longrightarrow> get v' = get v"
proof (induction args arbitrary: v rule: length_induct)
  case (1 args)
  show ?case
  proof (cases args)
    case Nil
    with 1 show ?thesis by simp
  next
    case (Cons s args')
    with 1(2) have "parse_flags defs (s # args') v = Parsed v' rest" by simp
    then show ?thesis
    proof (cases rule: parse_step)
      case (set d x u n)
      have "\<forall>a \<in> set (drop n args'). \<not> sets_flag name a"
        using 1(3) Cons by (auto dest: in_set_dropD)
      moreover have "length (drop n args') < length args" by (simp add: Cons)
      ultimately have "get v' = get u" using 1(1) set(4) by blast
      moreover have "fd_name d \<noteq> name" using set(2) 1(3) Cons by auto
      ultimately show ?thesis using assms set(1,3) by metis
    qed simp
  qed
qed

lemma default_changed:
  assumes "\<And>d x u u'. d \<in> set defs \<Longrightarrow> fd_set d x u = Inr u' \<Longrightarrow> fd_name d \<noteq> name \<Longrightarrow>
      get (fst u') = get (fst u)"
    and "parse_flags defs args (f, opts) = Parsed (f', opts') rest" and "get f' \<noteq> get f"
  shows "\<exists>a \<in> set args. sets_flag name a"
proof (rule ccontr)
  assume "\<not> ?thesis"
  then have "get (fst (f', opts')) = get (fst (f, opts))"
    using assms(1) by (intro parse_keeps [OF _ assms(2), where get = "\<lambda>v. get (fst v)"]) blast+
  with assms(3) show False by simp
qed

section \<open>The command line\<close>

lemma zap_keeps:
  assumes "\<forall>d \<in> set zap. \<forall>x v v'. fd_set d x v = Inr v' \<longrightarrow> fst v' = fst v" and "d \<in> set (main_flags @ zap)"
    and "fd_set d x u = Inr u'"
  shows "fd_name d \<noteq> ''metrics-secure'' \<Longrightarrow> secureMetrics (fst u') = secureMetrics (fst u)"
    and "fd_name d \<noteq> ''enable-http2'' \<Longrightarrow> enableHTTP2 (fst u') = enableHTTP2 (fst u)"
    and "fd_name d \<noteq> ''enable-webhooks'' \<Longrightarrow> enableWebhooks (fst u') = enableWebhooks (fst u)"
proof -
  have *: "get (fst u') = get (fst u)"
    if "fd_name d \<noteq> name" and "\<And>d x u u'. d \<in> set (main_flags :: 'a variables flag_def list) \<Longrightarrow>
      fd_name d \<noteq> name \<Longrightarrow> fd_set d x u = Inr u' \<Longrightarrow> get (fst u') = get (fst u)"
    for name and get :: "flags \<Rightarrow> bool"
  proof (cases "d \<in> set main_flags")
    case True
    with that assms(3) show ?thesis by blast
  next
    case False
    with assms(2) have "d \<in> set zap" by simp
    with assms(1,3) have "fst u' = fst u" by blast
    then show ?thesis by simp
  qed
  show "secureMetrics (fst u') = secureMetrics (fst u)" if "fd_name d \<noteq> ''metrics-secure''"
    using that by (rule *) (auto simp: main_flags_def StringVar_def BoolVar_def split: option.splits)
  show "enableHTTP2 (fst u') = enableHTTP2 (fst u)" if "fd_name d \<noteq> ''enable-http2''"
    using that by (rule *) (auto simp: main_flags_def StringVar_def BoolVar_def split: option.splits)
  show "enableWebhooks (fst u') = enableWebhooks (fst u)" if "fd_name d \<noteq> ''enable-webhooks''"
    using that by (rule *) (auto simp: main_flags_def StringVar_def BoolVar_def split: option.splits)
qed

text \<open>
  C40: The command line round-trips and fails closed. The arguments that spell out all flags start the
  process with exactly these flags, whatever was set before; an argument with a name that neither \<open>main\<close>
  nor a library declares, anywhere after them, ends the process with code 2 (0 for a request for help)
  before any call is made. Metrics are served insecurely, HTTP/2 is enabled and webhooks are
  disabled only if an argument names the flag for it.
\<close>

theorem command_line_exact:
  assumes "\<forall>d \<in> set zap. \<forall>x v v'. fd_set d x v = Inr v' \<longrightarrow> fst v' = fst v"
  shows "run_main p zap opts (command_line f) s = main p f s
    \<and> (CHR ''='' \<notin> set name \<and> name \<noteq> [] \<and> hd name \<noteq> CHR ''-'' \<and> name \<notin> fd_name ` set (main_flags @ zap) \<longrightarrow>
        run_main p zap opts (command_line f @ (''--'' @ name) # rest) s =
          ((if name = ''help'' \<or> name = ''h'' then 0 else 2, []), s))
    \<and> (parse_flags (main_flags @ zap) args (default_flags, opts) = Parsed (f', opts') left \<longrightarrow>
        run_main p zap opts args s = main p f' s
        \<and> (\<not> secureMetrics f' \<longrightarrow> (\<exists>a \<in> set args. sets_flag ''metrics-secure'' a))
        \<and> (enableHTTP2 f' \<longrightarrow> (\<exists>a \<in> set args. sets_flag ''enable-http2'' a))
        \<and> (\<not> enableWebhooks f' \<longrightarrow> (\<exists>a \<in> set args. sets_flag ''enable-webhooks'' a)))"
proof (intro conjI impI)
  show "run_main p zap opts (command_line f) s = main p f s"
    using parse_command_line [of zap f "[]" default_flags opts] by (simp add: run_main_def)
next
  assume name: "CHR ''='' \<notin> set name \<and> name \<noteq> [] \<and> hd name \<noteq> CHR ''-'' \<and> name \<notin> fd_name ` set (main_flags @ zap)"
  then have "find (\<lambda>d. fd_name d = name) (main_flags @ zap) = None" by (auto simp: find_None_iff)
  with name show "run_main p zap opts (command_line f @ (''--'' @ name) # rest) s =
      ((if name = ''help'' \<or> name = ''h'' then 0 else 2, []), s)"
    using parse_unknown [of name "main_flags @ zap" rest "(f, opts)"] by (simp add: run_main_def parse_command_line)
next
  assume run: "parse_flags (main_flags @ zap) args (default_flags, opts) = Parsed (f', opts') left"
  then show "run_main p zap opts args s = main p f' s" by (simp add: run_main_def)
  note changed = default_changed [OF _ run] and kept = zap_keeps [OF assms]
  show "\<exists>a \<in> set args. sets_flag ''metrics-secure'' a" if "\<not> secureMetrics f'"
    by (rule changed [of _ secureMetrics, OF kept(1)]) (use that in \<open>simp_all add: default_flags_def\<close>)
  show "\<exists>a \<in> set args. sets_flag ''enable-http2'' a" if "enableHTTP2 f'"
    by (rule changed [of _ enableHTTP2, OF kept(2)]) (use that in \<open>simp_all add: default_flags_def\<close>)
  show "\<exists>a \<in> set args. sets_flag ''enable-webhooks'' a" if "\<not> enableWebhooks f'"
    by (rule changed [of _ enableWebhooks, OF kept(3)]) (use that in \<open>simp_all add: default_flags_def\<close>)
qed

text \<open>A logger with one flag.\<close>

definition example_zap :: "string variables flag_def list" where
  "example_zap = [\<lparr>fd_name = ''zap-log-level'', fd_bool = False, fd_set = (\<lambda>x v. Inr (fst v, x))\<rparr>]"

theorem command_line_exact_witness:
  "run_main example_process example_zap [] [''--metrics-secure=false'', ''-zap-log-level'', ''info''] example_tls_store
     = main example_process (default_flags\<lparr>secureMetrics := False\<rparr>) example_tls_store
   \<and> run_main example_process example_zap [] (command_line default_flags @ [''--verbose'']) example_tls_store
     = ((2, []), example_tls_store)"
proof -
  have "parse_flags (main_flags @ example_zap) [''--metrics-secure=false'', ''-zap-log-level'', ''info''] (default_flags, [])
      = Parsed (default_flags\<lparr>secureMetrics := False\<rparr>, ''info'') []"
    by code_simp
  moreover have "''verbose'' \<notin> fd_name ` set (main_flags @ example_zap)"
    by (simp add: main_flags_def example_zap_def StringVar_def BoolVar_def)
  ultimately show ?thesis
    using command_line_exact [where zap = example_zap and p = example_process and opts = "[]" and s = example_tls_store
        and f = default_flags and name = "''verbose''" and rest = "[]" and left = "[]"]
    by (simp add: example_zap_def)
qed

end
