(* ===== verification/Spec2Isabelle.thy ===== *)
theory Spec2Isabelle
  imports Operator_Machine Requeue Webhook_Chain Log_Text Deep_Copy_Properties Flags
begin

text \<open>
  Verification of \<^bold>\<open>workbenches-operator\<close>, a Kubernetes operator that installs the notebook controllers
  of Open Data Hub from manifests in its image, reports their state on a cluster-wide \<open>Workbenches\<close>
  resource, and serves two admission webhooks for Notebooks. This theory imports the whole development.

  \<^bold>\<open>The program and its parts.\<close> The reconciler (\<open>internal/controller\<close>) reads the resource, resolves
  namespaces and distribution from the platform's ConfigMap (\<open>internal/platform\<close>,
  \<open>internal/platformconfig\<close>), renders the manifests with kustomize, labels, merges and applies the
  objects, deletes what is no longer desired, and writes a status whose phase comes from
  \<open>internal/status\<close> and whose releases from \<open>internal/releases\<close>. The webhooks
  (\<open>internal/webhook/notebook\<close>, \<open>internal/webhook/hardwareprofile\<close>) mutate Notebooks on admission; their
  certificates are set up by \<open>internal/webhook/tls\<close>, the TLS settings of all servers by
  \<open>internal/tlsconfig\<close>, both from \<open>cmd/main.go\<close>.

  \<^bold>\<open>Conventions.\<close> A fallible Go function returns \<open>'a res\<close>, that is \<open>goerror + 'a\<close> (\<^typ>\<open>goerror\<close> keeps
  wrapping and the API reasons that \<open>errors.IsNotFound\<close> and its kin test). A Go map is an association
  list; strings are lists of bytes. Code that talks to the cluster or the file system takes a state and
  returns the next one, through a record of functions (\<open>client\<close>, \<open>reconciler\<close>, \<open>Injector\<close>, \<open>tls_client\<close>),
  so that other actors may change the world between two calls. Go code that mutates its argument returns
  it. Libraries are record fields; what a theorem needs of them is a locale, interpreted on a concrete
  implementation: \<open>unstructured\<close> (accessors of JSON objects), \<open>status_conditions\<close>, \<open>finalizers\<close>,
  \<open>controller_runtime\<close>, \<open>notebook_admission\<close>, \<open>tls_cluster\<close>, \<open>profile_options\<close>, \<open>metadata\<close>, the stores in \<open>Garbage\<close> and
  \<open>Convergence\<close>, and the API server of \<open>Operator_Machine\<close>.

  \<^bold>\<open>Theories.\<close>
  \<^item> \<open>Prelude\<close>, \<open>Runes\<close>, \<open>Filepath\<close>, \<open>Unstructured\<close>: errors, maps, the string functions of Go, UTF-8,
    paths, JSON objects and their nested fields. \<open>Client\<close>, \<open>Environment\<close>: the cluster and the process.
  \<^item> \<open>Api_Types\<close>, \<open>Phase\<close>, \<open>Conditions\<close>: the resource (\<open>api/v1alpha1\<close>), \<open>ComputePhase\<close>, conditions.
  \<^item> \<open>Platform\<close>, \<open>Platform_Config\<close>, \<open>Platform_Config_Watch\<close>: namespaces, the distribution and the version
    handshake, and the predicate on ConfigMap events. The operand namespace is never empty and always
    watched, a resolved distribution satisfies the CRD, the handshake round-trips, and the predicate
    passes every event in the operand namespace that changes what is read. \<open>Log_Text\<close>: user text is cut between runes before
    it is logged.
  \<^item> \<open>Params\<close>, \<open>Objects\<close>, \<open>Merge_Deployments\<close>, \<open>Manifests\<close>, \<open>Frames\<close>, \<open>Apply\<close>, \<open>Garbage\<close>, \<open>Convergence\<close>:
    \<open>manifests.go\<close>, \<open>imageparams.go\<close>, \<open>probes.go\<close>, \<open>merge_deployments.go\<close>. \<open>Frames\<close> says which steps leave a
    view of the world alone (locales \<open>rendering\<close> and \<open>operating\<close>). Parameters round-trip and cannot inject lines,
    copying stays inside its directory, labels keep selectors matching, live replicas and resources
    survive, collection deletes exactly the managed objects that are not desired, and a whole run
    converges.
  \<^item> \<open>Ingress_Contract\<close>, \<open>Deployments\<close>, \<open>Image_Streams\<close>, \<open>Releases\<close>: the evidence behind the status.
  \<^item> \<open>Reconciler\<close>, with \<open>Reconcile_Status\<close>, \<open>Reconcile_Properties\<close>, \<open>Lifecycle\<close>: \<open>workbenches_controller.go\<close>.
    The published status is truthful and well-typed, errors fail closed, a run that rests is ready, and the
    finalizer is released only after clean-up. \<open>Requeue\<close>: the requeue loop; in a settled cluster it ends
    after at most three runs, unless a required platform version is missing. \<open>Operator_Machine\<close>: reconciles,
    users and other actors as one step relation; no operand outlives its resource as long as the operand
    namespace stays the same and users leave the finalizer in place, and operands of a namespace that was left behind are not cleaned up.
  \<^item> \<open>Watches\<close>: \<open>SetupWithManager\<close> and the events that start a reconcile. Drift of every kind that is
    collected is noticed, WorkspaceKinds apart, of Deployments every change that the status depends on.
  \<^item> \<open>Admission\<close>, \<open>Notebook_Webhook\<close>, \<open>Notebook_Injection\<close>: connection secrets. Only secrets of the Notebook's
    namespace that the user may read are injected, the annotation is bounded and round-trips, and an
    update injects the difference.
  \<^item> \<open>HardwareProfile_Webhook\<close>, \<open>HardwareProfile_Frame\<close>, \<open>HardwareProfile_Settled\<close>, \<open>HardwareProfile_Steps\<close>,
    \<open>HardwareProfile_Injection\<close>: hardware profiles. Patches stay inside a frame, applying a profile again
    changes nothing, a profile can be withdrawn, claims are exact, and an unreadable profile cannot be
    chosen.
    \<open>Webhook_Chain\<close>: both webhooks in the order of their configuration do not interfere.
  \<^item> \<open>Webhook_TLS\<close>, \<open>Webhook_Certificates\<close>, \<open>TLS_Config\<close>: certificates meet the specification of their provider
    whenever the API server is up, outages in between or not, and TLS settings never widen. \<open>Startup\<close>: \<open>cmd/main.go\<close>, \<open>webhook.go\<close> and
    \<open>register.go\<close>; the process serves only in a known posture, with the watches of \<open>Watches\<close> and the handlers
    of the two webhooks, and webhooks are switched off only when no provider can exist. \<open>Flags\<close>: the command
    line of \<open>main\<close> with Go's package \<open>flag\<close>; it round-trips, and an insecure setting needs an argument that names it.
  \<^item> \<open>Memory\<close>, \<open>Deep_Copy\<close>, \<open>Deep_Copy_Properties\<close>: the generated deep copies (\<open>zz_generated.deepcopy.go\<close>) on an
    explicit Go memory of arrays, pointers and slices. \<open>Memory\<close> says once what a copy promises (locales \<open>copier\<close>,
    \<open>struct_field\<close>, \<open>struct_slice\<close>, \<open>copying\<close>) and builds the promise for structs from that of their fields; the
    copies of the resource and of its list share no memory with the original. This is why the other theories
    may model a resource as a value and \<open>DeepCopy\<close> as that value.

  \<^bold>\<open>Bounds and fuel.\<close> Every loop of the source runs over a finite list and is structural recursion or a
  fold; \<open>copyDir\<close> recurses over the finite tree that it reads. No definition uses fuel. The requeue loop, which
  nothing in the source bounds, is a partial function in the option monad, so that a run that never rests
  is \<open>None\<close>. The periodic
  ensurer runs until it is cancelled: it takes the list of ticks up to then, of any length, and returns what it logged. Integers that
  do not overflow are \<open>int\<close>; cipher suites and TLS versions are 16-bit words.

  \<^bold>\<open>Not modelled.\<close> The calls of the logger; the registration of schemes; \<open>defaultFetcher\<close>, which forwards to
  a library. Kustomize, the controller library and the flags it declares, the YAML and JSON codecs, quantity
  parsing, name validation and the deep copies of \<open>metav1\<close> types are parameters.
\<close>

end
